(* ===== verification/Lalo_Prelude.thy ===== *)
theory Lalo_Prelude
  imports Main "HOL-Library.Char_ord" "HOL-Library.List_Lexorder"
begin

text \<open>
  Shared vocabulary of the development: Go errors as values (sentinels, \<open>fmt.Errorf\<close> with
  and without \<open>%w\<close>), Go time stamps, the functions of \<open>strings\<close> and \<open>strconv\<close>
  that the sources call, and the generic lemmas on lists that several components use.
\<close>

section \<open>Collections of facts\<close>

named_theorems svc_simps \<open>laws of the external services, oriented for the simplifier\<close>
named_theorems key_simps \<open>injectivity and disjointness of the Redis keys\<close>
named_theorems op_defs \<open>definitions of the operations, to be unfolded together\<close>

section \<open>Go errors\<close>

text \<open>
  \<open>Sentinel var text\<close> is a package variable made by \<open>errors.New(text)\<close>; the variable's
  qualified name stands for the pointer's identity, so that \<open>signaling.ErrUserBusy\<close> and
  \<open>session.ErrUserBusy\<close> differ although their texts agree.  \<open>Wrap pre e\<close> is
  \<open>fmt.Errorf("pre: %w", e)\<close>, \<open>Noted e note\<close> is \<open>fmt.Errorf("%w: note", e)\<close> and \<open>Errorf text\<close> is an
  error made on the spot.
\<close>

datatype goerr = Sentinel string string | Wrap string goerr | Noted goerr string | Errorf string

fun Error_text :: "goerr \<Rightarrow> string" where
  "Error_text (Sentinel _ t) = t"
| "Error_text (Wrap pre e) = pre @ '': '' @ Error_text e"
| "Error_text (Noted e note) = Error_text e @ '': '' @ note"
| "Error_text (Errorf t) = t"

text \<open>\<open>errors.Is\<close> follows the \<open>%w\<close> chain; Go's \<open>==\<close> is equality here and does not.\<close>

fun errors_Is :: "goerr \<Rightarrow> goerr \<Rightarrow> bool" where
  "errors_Is (Wrap pre e) t \<longleftrightarrow> Wrap pre e = t \<or> errors_Is e t"
| "errors_Is (Noted e note) t \<longleftrightarrow> Noted e note = t \<or> errors_Is e t"
| "errors_Is e t \<longleftrightarrow> e = t"

lemma errors_Is_refl [simp]: "errors_Is e e"
  by (cases e) auto

lemma errors_Is_Wrap [simp]: "errors_Is e t \<Longrightarrow> errors_Is (Wrap pre e) t"
  by simp

lemma Wrap_neq_Sentinel [simp]: "Wrap pre e \<noteq> Sentinel v t" "Sentinel v t \<noteq> Wrap pre e"
  by auto

type_synonym 'a result = "goerr + 'a"

definition is_ok :: "'a result \<Rightarrow> bool" where
  "is_ok r = (case r of Inl _ \<Rightarrow> False | Inr _ \<Rightarrow> True)"

lemma is_ok_simps [simp]: "is_ok (Inr x)" "\<not> is_ok (Inl e)"
  by (simp_all add: is_ok_def)

section \<open>Time\<close>

text \<open>
  A \<open>time.Time\<close> is the number of nanoseconds since Go's zero time, and a
  \<open>time.Duration\<close> a signed number of nanoseconds.  \<open>Sub\<close> saturates at the bounds of
  an \<open>int64\<close>, as \<open>time.Time.Sub\<close> does.
\<close>

type_synonym time = int
type_synonym duration = int

definition zero_time :: time where
  "zero_time = 0"

definition IsZero :: "time \<Rightarrow> bool" where
  "IsZero t \<longleftrightarrow> t = zero_time"

definition Second :: duration where "Second = 1000000000"

definition max_int64 :: int where "max_int64 = 2 ^ 63 - 1"
definition min_int64 :: int where "min_int64 = - (2 ^ 63)"

definition time_Sub :: "time \<Rightarrow> time \<Rightarrow> duration" where
  "time_Sub t u = max min_int64 (min max_int64 (t - u))"

lemma IsZero_zero [simp]: "IsZero zero_time"
  by (simp add: IsZero_def)

lemma IsZero_pos [simp]: "0 < t \<Longrightarrow> \<not> IsZero t"
  by (simp add: IsZero_def zero_time_def)

text \<open>The value of an \<open>int64\<close> computation: wrapped to 64 bits.\<close>

definition wrap64 :: "int \<Rightarrow> int" where
  "wrap64 n = (n + 2 ^ 63) mod 2 ^ 64 - 2 ^ 63"

text \<open>Go's integer division and \<open>int(float)\<close> conversion truncate towards zero.\<close>

definition go_quot :: "int \<Rightarrow> int \<Rightarrow> int" where
  "go_quot a b = sgn a * sgn b * (\<bar>a\<bar> div \<bar>b\<bar>)"

lemma go_quot_nonneg: "0 \<le> a \<Longrightarrow> 0 < b \<Longrightarrow> go_quot a b = a div b"
  by (cases "a = 0") (simp_all add: go_quot_def)

section \<open>Strings\<close>

definition HasPrefix :: "string \<Rightarrow> string \<Rightarrow> bool" where
  "HasPrefix s p \<longleftrightarrow> take (length p) s = p"

definition TrimPrefix :: "string \<Rightarrow> string \<Rightarrow> string" where
  "TrimPrefix s p = (if HasPrefix s p then drop (length p) s else s)"

fun Contains :: "string \<Rightarrow> string \<Rightarrow> bool" where
  "Contains [] p \<longleftrightarrow> p = []"
| "Contains (c # s) p \<longleftrightarrow> HasPrefix (c # s) p \<or> Contains s p"

lemma HasPrefix_append [simp]: "HasPrefix (p @ s) p"
  by (simp add: HasPrefix_def)

lemma HasPrefix_iff: "HasPrefix s p \<longleftrightarrow> (\<exists>t. s = p @ t)"
  by (metis HasPrefix_def append_eq_conv_conj append_take_drop_id)

lemma Contains_append: "Contains (a @ p @ b) p"
proof (induction a)
  case Nil
  show ?case
  proof (cases "p @ b")
    case Nil
    then show ?thesis by simp
  next
    case (Cons c s)
    then have "HasPrefix (c # s) p" by (metis HasPrefix_append)
    with Cons show ?thesis by simp
  qed
next
  case (Cons c a)
  then show ?case by simp
qed

lemma Contains_split: "Contains s p \<Longrightarrow> \<exists>a b. s = a @ p @ b"
proof (induction s)
  case Nil
  then show ?case by simp
next
  case (Cons c s)
  then consider t where "c # s = p @ t" | "Contains s p"
    by (auto simp: HasPrefix_iff)
  then show ?case
  proof cases
    case 1
    then have "c # s = [] @ p @ t" by simp
    then show ?thesis by blast
  next
    case 2
    with Cons.IH obtain a b where "s = a @ p @ b" by blast
    then have "c # s = (c # a) @ p @ b" by simp
    then show ?thesis by blast
  qed
qed

lemma Contains_iff: "Contains s p \<longleftrightarrow> (\<exists>a b. s = a @ p @ b)"
  using Contains_append Contains_split by blast

text \<open>Decimal printing, \<open>%d\<close> of a non-negative number.\<close>

definition digit_char :: "nat \<Rightarrow> char" where
  "digit_char d = char_of (48 + d)"

fun itoa :: "nat \<Rightarrow> string" where
  "itoa n = (if n < 10 then [digit_char n] else itoa (n div 10) @ [digit_char (n mod 10)])"

declare itoa.simps [simp del]

lemma itoa_nonempty [simp]: "itoa n \<noteq> []"
  by (subst itoa.simps) simp

lemma itoa_no_colon: "CHR '':'' \<notin> set (itoa n)"
proof (induction n rule: itoa.induct)
  case (1 n)
  have digit: "CHR '':'' \<noteq> digit_char d" if "d < 10" for d
  proof
    assume "CHR '':'' = digit_char d"
    then have "(of_char (CHR '':'') :: nat) = of_char (digit_char d)" by simp
    also have "\<dots> = 48 + d" using that by (simp add: digit_char_def)
    finally show False using that by simp
  qed
  show ?case
    using 1 digit[of n] digit[of "n mod 10"]
    by (subst itoa.simps) auto
qed

section \<open>Lists\<close>

text \<open>The first element that satisfies a predicate, updated in place: the shape of every
  \<open>for i := range xs { if ... { xs[i].f = v; break } }\<close> of the sources.\<close>

fun upd_first :: "('a \<Rightarrow> bool) \<Rightarrow> ('a \<Rightarrow> 'a) \<Rightarrow> 'a list \<Rightarrow> 'a list" where
  "upd_first P f [] = []"
| "upd_first P f (x # xs) = (if P x then f x # xs else x # upd_first P f xs)"

lemma length_upd_first [simp]: "length (upd_first P f xs) = length xs"
  by (induction xs) auto

lemma upd_first_id: "\<forall>x\<in>set xs. \<not> P x \<Longrightarrow> upd_first P f xs = xs"
  by (induction xs) auto

lemma map_upd_first: "(\<And>x. P x \<Longrightarrow> g (f x) = g x) \<Longrightarrow> map g (upd_first P f xs) = map g xs"
  by (induction xs) auto

lemma find_upd_first:
  "(\<And>x. P (f x) = P x) \<Longrightarrow> find P (upd_first P f xs) = map_option f (find P xs)"
  by (induction xs) auto

lemma find_upd_first_other:
  "(\<And>x. P x \<Longrightarrow> \<not> Q x) \<Longrightarrow> (\<And>x. Q (f x) = Q x) \<Longrightarrow> find Q (upd_first P f xs) = find Q xs"
  by (induction xs) auto

lemma set_upd_first_subset: "set (upd_first P f xs) \<subseteq> set xs \<union> f ` {x \<in> set xs. P x}"
  by (induction xs) auto

lemma find_Some_set: "find P xs = Some x \<Longrightarrow> x \<in> set xs \<and> P x"
  by (induction xs) (auto split: if_splits)

lemma find_None_set: "find P xs = None \<longleftrightarrow> (\<forall>x\<in>set xs. \<not> P x)"
  by (induction xs) auto

section \<open>Reading decimal numbers\<close>

text \<open>\<open>fmt.Sscanf(s, "%d", &n)\<close> on an \<open>int\<close>: blanks are skipped, an optional sign and the longest run of
  digits are read; \<open>None\<close> when there is no digit or the number is beyond 64 bits, in which case the
  variable is not written.\<close>

definition is_digit :: "char \<Rightarrow> bool" where
  "is_digit c \<longleftrightarrow> 48 \<le> (of_char c :: nat) \<and> (of_char c :: nat) \<le> 57"

definition is_blank :: "char \<Rightarrow> bool" where
  "is_blank c \<longleftrightarrow> c = CHR '' '' \<or> c = CHR 0x09 \<or> c = CHR 0x0B \<or> c = CHR 0x0C \<or> c = CHR 0x0D"

definition digits_value :: "string \<Rightarrow> int" where
  "digits_value ds = foldl (\<lambda>n c. 10 * n + (of_char c - 48)) 0 ds"

definition Sscanf_int :: "string \<Rightarrow> int option" where
  "Sscanf_int s = (let t = dropWhile is_blank s;
       neg = (t \<noteq> [] \<and> hd t = CHR ''-'');
       u = (if t \<noteq> [] \<and> (hd t = CHR ''-'' \<or> hd t = CHR ''+'') then tl t else t);
       ds = takeWhile is_digit u;
       n = (if neg then - digits_value ds else digits_value ds)
     in if ds = [] \<or> n < min_int64 \<or> max_int64 < n then None else Some n)"

end
