(* ===== verification/Call_State.thy ===== *)
theory Call_State
  imports Lalo_Prelude
begin

text \<open>
  The call state machine of \<open>internal/signaling/state.go\<close>: the seven states, the table of
  valid transitions and the operations of \<open>StateMachine\<close>.  A \<open>CallState\<close> is a Go string
  type, so states outside the table exist (for example the empty string decoded from a document
  without the field) and are kept in the model.
\<close>

section \<open>States and transitions\<close>

type_synonym CallState = string

definition StateIdle :: CallState where "StateIdle = ''IDLE''"
definition StateRinging :: CallState where "StateRinging = ''RINGING''"
definition StateConnecting :: CallState where "StateConnecting = ''CONNECTING''"
definition StateActive :: CallState where "StateActive = ''ACTIVE''"
definition StateReconnecting :: CallState where "StateReconnecting = ''RECONNECTING''"
definition StateEnded :: CallState where "StateEnded = ''ENDED''"
definition StateCleanup :: CallState where "StateCleanup = ''CLEANUP''"

lemmas CallState_defs = StateIdle_def StateRinging_def StateConnecting_def StateActive_def
  StateReconnecting_def StateEnded_def StateCleanup_def

lemma CallState_distinct [simp]:
  "StateIdle \<noteq> StateRinging" "StateIdle \<noteq> StateConnecting" "StateIdle \<noteq> StateActive"
  "StateIdle \<noteq> StateReconnecting" "StateIdle \<noteq> StateEnded" "StateIdle \<noteq> StateCleanup"
  "StateRinging \<noteq> StateIdle" "StateRinging \<noteq> StateConnecting" "StateRinging \<noteq> StateActive"
  "StateRinging \<noteq> StateReconnecting" "StateRinging \<noteq> StateEnded" "StateRinging \<noteq> StateCleanup"
  "StateConnecting \<noteq> StateIdle" "StateConnecting \<noteq> StateRinging" "StateConnecting \<noteq> StateActive"
  "StateConnecting \<noteq> StateReconnecting" "StateConnecting \<noteq> StateEnded" "StateConnecting \<noteq> StateCleanup"
  "StateActive \<noteq> StateIdle" "StateActive \<noteq> StateRinging" "StateActive \<noteq> StateConnecting"
  "StateActive \<noteq> StateReconnecting" "StateActive \<noteq> StateEnded" "StateActive \<noteq> StateCleanup"
  "StateReconnecting \<noteq> StateIdle" "StateReconnecting \<noteq> StateRinging" "StateReconnecting \<noteq> StateConnecting"
  "StateReconnecting \<noteq> StateActive" "StateReconnecting \<noteq> StateEnded" "StateReconnecting \<noteq> StateCleanup"
  "StateEnded \<noteq> StateIdle" "StateEnded \<noteq> StateRinging" "StateEnded \<noteq> StateConnecting"
  "StateEnded \<noteq> StateActive" "StateEnded \<noteq> StateReconnecting" "StateEnded \<noteq> StateCleanup"
  "StateCleanup \<noteq> StateIdle" "StateCleanup \<noteq> StateRinging" "StateCleanup \<noteq> StateConnecting"
  "StateCleanup \<noteq> StateActive" "StateCleanup \<noteq> StateReconnecting" "StateCleanup \<noteq> StateEnded"
  by (simp_all add: CallState_defs)

definition validTransitions :: "CallState \<rightharpoonup> CallState list" where
  "validTransitions = map_of [
     (StateIdle, [StateRinging]),
     (StateRinging, [StateConnecting, StateEnded]),
     (StateConnecting, [StateActive, StateEnded]),
     (StateActive, [StateReconnecting, StateEnded]),
     (StateReconnecting, [StateActive, StateEnded]),
     (StateEnded, [StateCleanup]),
     (StateCleanup, [StateIdle])]"

record StateMachine =
  sm_state :: CallState

definition NewStateMachine :: StateMachine where
  "NewStateMachine = \<lparr>sm_state = StateIdle\<rparr>"

definition NewStateMachineFrom :: "CallState \<Rightarrow> StateMachine" where
  "NewStateMachineFrom s = \<lparr>sm_state = s\<rparr>"

definition State :: "StateMachine \<Rightarrow> CallState" where
  "State sm = sm_state sm"

fun any_eq :: "CallState list \<Rightarrow> CallState \<Rightarrow> bool" where
  "any_eq [] t = False"
| "any_eq (s # ss) t = (if s = t then True else any_eq ss t)"

text \<open>The arrow U+2192 of the error text, in UTF-8.\<close>

definition arrow :: string where
  "arrow = [CHR 0xE2, CHR 0x86, CHR 0x92]"

definition Transition :: "StateMachine \<Rightarrow> CallState \<Rightarrow> unit result \<times> StateMachine" where
  "Transition sm tgt = (case validTransitions (sm_state sm) of
      None \<Rightarrow> (Inl (Errorf (''no transitions from state '' @ sm_state sm)), sm)
    | Some allowed \<Rightarrow>
        if any_eq allowed tgt then (Inr (), sm\<lparr>sm_state := tgt\<rparr>)
        else (Inl (Errorf (''invalid transition: '' @ sm_state sm @ '' '' @ arrow @ '' '' @ tgt)), sm))"

definition CanTransition :: "StateMachine \<Rightarrow> CallState \<Rightarrow> bool" where
  "CanTransition sm tgt = (case validTransitions (sm_state sm) of
      None \<Rightarrow> False | Some allowed \<Rightarrow> any_eq allowed tgt)"

definition IsTerminal :: "StateMachine \<Rightarrow> bool" where
  "IsTerminal sm \<longleftrightarrow> sm_state sm = StateEnded \<or> sm_state sm = StateCleanup"

section \<open>The edges of the machine\<close>

text \<open>The specification: the documented life cycle of a call as an inductive step relation.\<close>

inductive edge :: "CallState \<Rightarrow> CallState \<Rightarrow> bool" where
  ring: "edge StateIdle StateRinging"
| accept: "edge StateRinging StateConnecting"
| unanswered: "edge StateRinging StateEnded"
| media: "edge StateConnecting StateActive"
| no_media: "edge StateConnecting StateEnded"
| drop: "edge StateActive StateReconnecting"
| hangup: "edge StateActive StateEnded"
| resume: "edge StateReconnecting StateActive"
| give_up: "edge StateReconnecting StateEnded"
| clean: "edge StateEnded StateCleanup"
| recycle: "edge StateCleanup StateIdle"

inductive_cases edge_to_ActiveE: "edge s StateActive"
inductive_cases edge_to_ConnectingE: "edge s StateConnecting"
inductive_cases edge_to_ReconnectingE: "edge s StateReconnecting"
inductive_cases edge_from_EndedE: "edge StateEnded t"
inductive_cases edge_from_IdleE: "edge StateIdle t"

lemma any_eq_set [simp]: "any_eq ss t \<longleftrightarrow> t \<in> set ss"
  by (induction ss) auto

lemma validTransitions_edge:
  "(\<exists>allowed. validTransitions s = Some allowed \<and> t \<in> set allowed) \<longleftrightarrow> edge s t"
  by (auto simp: validTransitions_def edge.simps split: if_splits)

lemma CanTransition_edge: "CanTransition (NewStateMachineFrom s) t \<longleftrightarrow> edge s t"
  unfolding validTransitions_edge [symmetric]
  by (auto simp: CanTransition_def NewStateMachineFrom_def split: option.splits)

lemma Transition_ok_iff: "fst (Transition sm t) = Inr () \<longleftrightarrow> edge (sm_state sm) t"
  unfolding validTransitions_edge [symmetric]
  by (auto simp: Transition_def split: option.splits)

lemma Transition_state:
  "sm_state (snd (Transition sm t)) = (if edge (sm_state sm) t then t else sm_state sm)"
  unfolding validTransitions_edge [symmetric]
  by (auto simp: Transition_def split: option.splits)

text \<open>\<open>Transition\<close> implements the life cycle exactly: it succeeds precisely on the edges
  of the specification and then moves to the target, it leaves the state alone on an error, and
  \<open>CanTransition\<close> predicts which of the two happens.\<close>

theorem Transition_refines_edge:
  "(is_ok (fst (Transition sm t)) \<longleftrightarrow> edge (State sm) t) \<and>
   (CanTransition sm t \<longleftrightarrow> edge (State sm) t) \<and>
   State (snd (Transition sm t)) = (if edge (State sm) t then t else State sm)"
proof -
  have "is_ok (fst (Transition sm t)) \<longleftrightarrow> fst (Transition sm t) = Inr ()"
    by (cases "fst (Transition sm t)") auto
  moreover have "CanTransition sm t \<longleftrightarrow> edge (sm_state sm) t"
    using CanTransition_edge [of "sm_state sm" t]
    by (simp add: CanTransition_def NewStateMachineFrom_def)
  ultimately show ?thesis
    by (simp add: State_def Transition_ok_iff Transition_state)
qed

section \<open>Runs\<close>

text \<open>A sequence of requested transitions that are all accepted, from a given machine.\<close>

fun accepted :: "StateMachine \<Rightarrow> CallState list \<Rightarrow> bool" where
  "accepted sm [] = True"
| "accepted sm (t # ts) = (is_ok (fst (Transition sm t)) \<and> accepted (snd (Transition sm t)) ts)"

lemma accepted_Cons [simp]:
  "accepted sm (t # ts) \<longleftrightarrow> edge (sm_state sm) t \<and> accepted (sm\<lparr>sm_state := t\<rparr>) ts"
proof -
  have "snd (Transition sm t) = sm\<lparr>sm_state := t\<rparr>" if "edge (sm_state sm) t"
    using Transition_state [of sm t] that by (cases "snd (Transition sm t)"; cases sm) simp
  moreover have "is_ok (fst (Transition sm t)) \<longleftrightarrow> edge (sm_state sm) t"
    using Transition_ok_iff [of sm t] by (cases "fst (Transition sm t)") auto
  ultimately show ?thesis by auto
qed

declare accepted.simps(2) [simp del]

lemma sm_state_New [simp]: "sm_state NewStateMachine = StateIdle"
  by (simp add: NewStateMachine_def)

lemma accepted_nth:
  "accepted sm ts \<Longrightarrow> i < length ts \<Longrightarrow>
     edge (case i of 0 \<Rightarrow> sm_state sm | Suc j \<Rightarrow> ts ! j) (ts ! i)"
proof (induction ts arbitrary: sm i)
  case Nil
  then show ?case by simp
next
  case (Cons t ts)
  show ?case
  proof (cases i)
    case 0
    with Cons.prems show ?thesis by simp
  next
    case (Suc j)
    with Cons.prems Cons.IH [of "sm\<lparr>sm_state := t\<rparr>" j] show ?thesis
      by (cases j) auto
  qed
qed

lemma accepted_pred:
  "accepted NewStateMachine ts \<Longrightarrow> i < length ts \<Longrightarrow> edge (case i of 0 \<Rightarrow> StateIdle | Suc j \<Rightarrow> ts ! j) (ts ! i)"
  using accepted_nth [of NewStateMachine ts i] unfolding sm_state_New .

text \<open>C6: a new call becomes ACTIVE for the first time only directly after CONNECTING, and
  that directly after RINGING: no accepted sequence of transitions skips the offer/answer phase.\<close>

theorem active_only_after_ring_and_connect:
  assumes acc: "accepted NewStateMachine ts" and i: "i < length ts"
    and act: "ts ! i = StateActive" and first: "StateActive \<notin> set (take i ts)"
  shows "2 \<le> i \<and> ts ! (i - 1) = StateConnecting \<and> ts ! (i - 2) = StateRinging"
proof -
  have no_act: "ts ! j \<noteq> StateActive" if "j < i" for j
    using first i that by (auto simp: in_set_conv_nth)
  from accepted_pred [OF acc i] act obtain j where j: "i = Suc j"
    and pj: "ts ! j = StateConnecting \<or> ts ! j = StateReconnecting"
    by (cases i) (auto elim: edge_to_ActiveE)
  from j i have jl: "j < length ts" by simp
  have conn: "ts ! j = StateConnecting"
  proof (rule ccontr)
    assume "ts ! j \<noteq> StateConnecting"
    with pj have "ts ! j = StateReconnecting" by simp
    with accepted_pred [OF acc jl] obtain k where "j = Suc k" "ts ! k = StateActive"
      by (cases j) (auto elim: edge_to_ReconnectingE)
    with no_act [of k] j show False by simp
  qed
  with accepted_pred [OF acc jl] obtain k where "j = Suc k" "ts ! k = StateRinging"
    by (cases j) (auto elim: edge_to_ConnectingE)
  with j conn show ?thesis by simp
qed

theorem active_only_after_ring_and_connect_witness:
  "accepted NewStateMachine [StateRinging, StateConnecting, StateActive, StateReconnecting] \<and>
   (2::nat) \<le> 2 \<and> [StateRinging, StateConnecting, StateActive, StateReconnecting] ! 1 = StateConnecting"
proof -
  let ?ts = "[StateRinging, StateConnecting, StateActive, StateReconnecting]"
  have a: "accepted NewStateMachine ?ts"
    by (simp add: NewStateMachine_def edge.simps)
  from active_only_after_ring_and_connect [OF a, of 2] a show ?thesis by simp
qed

end
