(* ===== verification/Json.thy ===== *)
theory Json
  imports Lalo_Prelude "HOL-Library.Word"
begin

text \<open>
  JSON documents as \<open>encoding/json\<close> writes and reads them.  A \<open>time.Time\<close> is kept as its
  own kind of scalar (its RFC 3339 text).  Decoding follows \<open>json.Unmarshal\<close> into a struct:
  a missing or \<open>null\<close> field leaves the zero value, a field of the wrong kind is an error, an
  unknown field is ignored.  Texts are not decoded to bytes.
\<close>

text \<open>\<open>float64\<close> values are bit patterns; the theory \<open>Float64\<close> computes with them.\<close>

type_synonym float64 = "64 word"

datatype json = JNull | JBool bool | JNum int | JFloat float64 | JStr string | JTime time
  | JArr "json list" | JObj "(string \<times> json) list"

definition rbind :: "'a result \<Rightarrow> ('a \<Rightarrow> 'b result) \<Rightarrow> 'b result" where
  "rbind r f = (case r of Inl e \<Rightarrow> Inl e | Inr x \<Rightarrow> f x)"

lemma rbind_simps [simp]: "rbind (Inr x) f = f x" "rbind (Inl e) f = Inl e"
  by (simp_all add: rbind_def)

definition json_err :: goerr where
  "json_err = Errorf ''json: cannot unmarshal''"

definition fld :: "(string \<times> json) list \<Rightarrow> string \<Rightarrow> json" where
  "fld ob k = (case map_of ob k of None \<Rightarrow> JNull | Some j \<Rightarrow> j)"

fun dec_str :: "json \<Rightarrow> string result" where
  "dec_str JNull = Inr []"
| "dec_str (JStr s) = Inr s"
| "dec_str _ = Inl json_err"

fun dec_bool :: "json \<Rightarrow> bool result" where
  "dec_bool JNull = Inr False"
| "dec_bool (JBool b) = Inr b"
| "dec_bool _ = Inl json_err"

fun dec_int :: "json \<Rightarrow> int result" where
  "dec_int JNull = Inr 0"
| "dec_int (JNum n) = (if min_int64 \<le> n \<and> n \<le> max_int64 then Inr n else Inl json_err)"
| "dec_int _ = Inl json_err"

text \<open>A number written as an integer may be read into a \<open>float64\<close>: the nearest one, ties to
  even, as its bit pattern (sign, exponent biased by 1023, 52 bits of fraction).\<close>

fun bit_count :: "nat \<Rightarrow> nat" where
  "bit_count n = (if n = 0 then 0 else Suc (bit_count (n div 2)))"

declare bit_count.simps [simp del]

definition round_quot :: "nat \<Rightarrow> nat \<Rightarrow> nat" where
  "round_quot m d = (let q = m div d; r = 2 * (m mod d) in
     if r < d \<or> r = d \<and> even q then q else q + 1)"

definition float_of_int :: "int \<Rightarrow> float64" where
  "float_of_int n = (if n = 0 then 0 else
     let m = nat \<bar>n\<bar>; e = bit_count m - 1;
         sig = (if e \<le> 52 then m * 2 ^ (52 - e) else round_quot m (2 ^ (e - 52)));
         bits = (e + 1022) * 2 ^ 52 + sig
     in of_nat (if n < 0 then 2 ^ 63 + bits else bits))"

fun dec_float :: "json \<Rightarrow> float64 result" where
  "dec_float JNull = Inr 0"
| "dec_float (JFloat x) = Inr x"
| "dec_float (JNum n) = (if bit_count (nat \<bar>n\<bar>) \<le> 1023 then Inr (float_of_int n) else Inl json_err)"
| "dec_float _ = Inl json_err"

fun dec_time :: "json \<Rightarrow> time result" where
  "dec_time JNull = Inr zero_time"
| "dec_time (JTime t) = Inr t"
| "dec_time _ = Inl json_err"

fun dec_seq :: "('a \<Rightarrow> 'b result) \<Rightarrow> 'a list \<Rightarrow> 'b list result" where
  "dec_seq f [] = Inr []"
| "dec_seq f (x # xs) = rbind (f x) (\<lambda>y. rbind (dec_seq f xs) (\<lambda>ys. Inr (y # ys)))"

fun dec_list :: "(json \<Rightarrow> 'b result) \<Rightarrow> json \<Rightarrow> 'b list result" where
  "dec_list f JNull = Inr []"
| "dec_list f (JArr js) = dec_seq f js"
| "dec_list f _ = Inl json_err"

fun dec_obj :: "((string \<times> json) list \<Rightarrow> 'b result) \<Rightarrow> json \<Rightarrow> 'b result" where
  "dec_obj f JNull = f []"
| "dec_obj f (JObj ob) = f ob"
| "dec_obj f _ = Inl json_err"

text \<open>\<open>omitempty\<close> on a string field.  (On a \<open>time.Time\<close> field the tag has no effect.)\<close>

definition omit_str :: "string \<Rightarrow> string \<Rightarrow> (string \<times> json) list" where
  "omit_str k s = (if s = [] then [] else [(k, JStr s)])"

lemma fld_Cons [simp]: "fld ((k, j) # ob) k' = (if k = k' then j else fld ob k')"
  by (auto simp: fld_def)

lemma fld_Nil [simp]: "fld [] k = JNull"
  by (simp add: fld_def)

lemma fld_omit_str: "fld (omit_str k s @ ob) k' =
    (if k = k' \<and> s \<noteq> [] then JStr s else fld ob k')"
  by (auto simp: omit_str_def)

lemma dec_str_fld_omit [simp]:
  "fld ob k = JNull \<Longrightarrow> dec_str (fld (omit_str k s @ ob) k) = Inr s"
  by (auto simp: omit_str_def)

lemma fld_omit_other [simp]: "k \<noteq> k' \<Longrightarrow> fld (omit_str k s @ ob) k' = fld ob k'"
  by (auto simp: omit_str_def)

lemma fld_omit_str_last [simp]: "k \<noteq> k' \<Longrightarrow> fld (omit_str k s) k' = JNull"
  by (auto simp: omit_str_def)

lemma dec_str_fld_omit_last [simp]: "dec_str (fld (omit_str k s) k) = Inr s"
  by (auto simp: omit_str_def)

lemma dec_seq_map:
  "(\<And>x. x \<in> set xs \<Longrightarrow> f (g x) = Inr x) \<Longrightarrow> dec_seq f (map g xs) = Inr xs"
  by (induction xs) auto

end
