(* ===== verification/Services.thy ===== *)
theory Services
  imports Json
begin

text \<open>
  The services the program calls but does not implement: Redis, the NATS stream, Postgres,
  the UUID and token libraries, the clock, and Go's unspecified map iteration order.  Each is a
  field of the record \<open>env\<close>, an argument of every definition that uses it; a call takes the
  state \<open>'w\<close> of the outside world and returns its answer and the next world.  What the
  program relies on is stated in the locale \<open>services\<close>: the documented effect of every
  Redis command on the keyspace \<open>view w\<close>, for a connection whose behaviour at each call is
  \<open>fate w\<close>; a \<open>calm\<close> world is one in which no call fails any more.  \<open>mem_env\<close> is an in-memory instance that satisfies the laws; every fate may
  be scheduled in it.
\<close>

section \<open>Redis\<close>

text \<open>A Redis string holds the bytes the program stored: a JSON document, a plain text or a
  counter.\<close>

datatype payload = PJson json | PText string | PInt int

datatype rval = RStr payload | RSet "string set"

text \<open>A keyspace entry is a value with its remaining time to live, in seconds, if it has one.\<close>

type_synonym entry = "rval \<times> int option"
type_synonym keyspace = "string \<rightharpoonup> entry"

datatype rcmd = CSet string payload int | CDel string
  | CSAdd string string | CSRem string string | CExpire string int

definition redis_Nil :: goerr where
  "redis_Nil = Sentinel ''redis.Nil'' ''redis: nil''"
definition TxFailedErr :: goerr where
  "TxFailedErr = Sentinel ''redis.TxFailedErr'' ''redis: transaction failed''"
definition WrongType :: goerr where
  "WrongType = Errorf ''WRONGTYPE Operation against a key holding the wrong kind of value''"

lemma redis_errs_distinct [simp]:
  "redis_Nil \<noteq> TxFailedErr" "TxFailedErr \<noteq> redis_Nil"
  "redis_Nil \<noteq> WrongType" "WrongType \<noteq> redis_Nil"
  "TxFailedErr \<noteq> WrongType" "WrongType \<noteq> TxFailedErr"
  "redis_Nil \<noteq> Errorf m" "Errorf m \<noteq> redis_Nil"
  "TxFailedErr \<noteq> Errorf m" "Errorf m \<noteq> TxFailedErr"
  by (simp_all add: redis_Nil_def TxFailedErr_def WrongType_def)

fun apply_cmd :: "rcmd \<Rightarrow> keyspace \<Rightarrow> keyspace" where
  "apply_cmd (CSet k p ttl) db = db(k \<mapsto> (RStr p, Some ttl))"
| "apply_cmd (CDel k) db = db(k := None)"
| "apply_cmd (CSAdd k m) db = (case db k of
      None \<Rightarrow> db(k \<mapsto> (RSet {m}, None))
    | Some (RSet s, t) \<Rightarrow> db(k \<mapsto> (RSet (insert m s), t))
    | Some (RStr _, _) \<Rightarrow> db)"
| "apply_cmd (CSRem k m) db = (case db k of
      Some (RSet s, t) \<Rightarrow> (if s \<subseteq> {m} then db(k := None) else db(k \<mapsto> (RSet (s - {m}), t)))
    | _ \<Rightarrow> db)"
| "apply_cmd (CExpire k ttl) db = (case db k of
      None \<Rightarrow> db | Some (v, _) \<Rightarrow> db(k \<mapsto> (v, Some ttl)))"

fun cmd_key :: "rcmd \<Rightarrow> string" where
  "cmd_key (CSet k _ _) = k"
| "cmd_key (CDel k) = k"
| "cmd_key (CSAdd k _) = k"
| "cmd_key (CSRem k _) = k"
| "cmd_key (CExpire k _) = k"

fun cmd_fails :: "rcmd \<Rightarrow> keyspace \<Rightarrow> bool" where
  "cmd_fails (CSAdd k m) db = (case db k of Some (RStr _, _) \<Rightarrow> True | _ \<Rightarrow> False)"
| "cmd_fails (CSRem k m) db = (case db k of Some (RStr _, _) \<Rightarrow> True | _ \<Rightarrow> False)"
| "cmd_fails _ db = False"

text \<open>\<open>MULTI \<dots> EXEC\<close>: all commands run, in order; the client reports the first that
  failed.\<close>

fun exec_db :: "rcmd list \<Rightarrow> keyspace \<Rightarrow> keyspace" where
  "exec_db [] db = db"
| "exec_db (c # cs) db = exec_db cs (apply_cmd c db)"

fun exec_res :: "rcmd list \<Rightarrow> keyspace \<Rightarrow> unit result" where
  "exec_res [] db = Inr ()"
| "exec_res (c # cs) db =
     (if cmd_fails c db then Inl WrongType else exec_res cs (apply_cmd c db))"

fun get_res :: "entry option \<Rightarrow> payload result" where
  "get_res None = Inl redis_Nil"
| "get_res (Some (RStr p, _)) = Inr p"
| "get_res (Some (RSet _, _)) = Inl WrongType"

text \<open>The bytes of a Redis string read as JSON.\<close>

fun payload_json :: "payload \<Rightarrow> json result" where
  "payload_json (PJson j) = Inr j"
| "payload_json _ = Inl json_err"

text \<open>\<open>INCR\<close>: a missing key counts as 0 and keeps no expiry; a value that is not a number
  is an error.\<close>

fun incr_res :: "entry option \<Rightarrow> int result" where
  "incr_res None = Inr 1"
| "incr_res (Some (RStr (PInt n), _)) = Inr (n + 1)"
| "incr_res (Some _) = Inl WrongType"

fun incr_db :: "string \<Rightarrow> keyspace \<Rightarrow> keyspace" where
  "incr_db k db = (case incr_res (db k) of
      Inl _ \<Rightarrow> db
    | Inr n \<Rightarrow> db(k \<mapsto> (RStr (PInt n), (case db k of None \<Rightarrow> None | Some (_, t) \<Rightarrow> t))))"

lemma apply_cmd_other [simp]: "k \<noteq> cmd_key c \<Longrightarrow> apply_cmd c db k = db k"
  by (cases c) (auto split: option.splits rval.splits prod.splits)

lemma exec_db_other: "k \<notin> cmd_key ` set cs \<Longrightarrow> exec_db cs db k = db k"
  by (induction cs arbitrary: db) auto

lemma exec_db_append [simp]: "exec_db (cs @ ds) db = exec_db ds (exec_db cs db)"
  by (induction cs arbitrary: db) auto

lemma exec_res_no_fail:
  "(\<And>db c. c \<in> set cs \<Longrightarrow> \<not> cmd_fails c db) \<Longrightarrow> exec_res cs db = Inr ()"
  by (induction cs arbitrary: db) auto

section \<open>The record of services\<close>

record Envelope =
  env_ID :: string
  env_Type :: string
  env_Timestamp :: time
  env_Source :: string
  env_Payload :: json

record 'w env =
  r_exists :: "string \<Rightarrow> 'w \<Rightarrow> nat result \<times> 'w"
  r_get :: "string \<Rightarrow> 'w \<Rightarrow> payload result \<times> 'w"
  r_exec :: "rcmd list \<Rightarrow> 'w \<Rightarrow> unit result \<times> 'w"
  r_watch_exec :: "string \<Rightarrow> rcmd list \<Rightarrow> 'w \<Rightarrow> unit result \<times> 'w"
  r_setnx :: "string \<Rightarrow> payload \<Rightarrow> int \<Rightarrow> 'w \<Rightarrow> bool result \<times> 'w"
  r_incr :: "string \<Rightarrow> 'w \<Rightarrow> int result \<times> 'w"
  r_scan :: "nat \<Rightarrow> string \<Rightarrow> 'w \<Rightarrow> (string list \<times> nat) result \<times> 'w"
  js_publish :: "string \<Rightarrow> Envelope \<Rightarrow> 'w \<Rightarrow> unit result \<times> 'w"
  sql_exec :: "string \<Rightarrow> json list \<Rightarrow> 'w \<Rightarrow> nat result \<times> 'w"
  sql_row :: "string \<Rightarrow> json list \<Rightarrow> 'w \<Rightarrow> json list option result \<times> 'w"
  uuid_new :: "'w \<Rightarrow> string \<times> 'w"
  time_now :: "'w \<Rightarrow> time \<times> 'w"
  map_order :: "string list \<Rightarrow> 'w \<Rightarrow> string list \<times> 'w"
  lk_jwt :: "string \<Rightarrow> json \<Rightarrow> duration \<Rightarrow> 'w \<Rightarrow> string result \<times> 'w"
  hmac_sha1_b64 :: "string \<Rightarrow> string \<Rightarrow> string"
  uuid_ok :: "string \<Rightarrow> bool"

section \<open>What the program relies on\<close>

text \<open>
  The behaviour of the connection at one call: the server answers; the request never reaches it;
  the command runs but the reply is lost; or a watched key was written by another client.
\<close>

datatype fate = Fine | Refused string | Lost string | Conflict

fun answer :: "fate \<Rightarrow> 'a result \<Rightarrow> 'a result" where
  "answer Fine r = r"
| "answer Conflict r = r"
| "answer (Refused m) r = Inl (Errorf m)"
| "answer (Lost m) r = Inl (Errorf m)"

fun happens :: "fate \<Rightarrow> bool" where
  "happens (Refused m) = False"
| "happens _ = True"

fun watch_answer :: "fate \<Rightarrow> unit result \<Rightarrow> unit result" where
  "watch_answer Conflict r = Inl TxFailedErr"
| "watch_answer f r = answer f r"

fun watch_happens :: "fate \<Rightarrow> bool" where
  "watch_happens Conflict = False"
| "watch_happens f = happens f"

lemma answer_Inr [simp]: "answer f r = Inr x \<longleftrightarrow> r = Inr x \<and> (f = Fine \<or> f = Conflict)"
  by (cases f) auto

lemma watch_answer_Inr [simp]: "watch_answer f r = Inr x \<longleftrightarrow> r = Inr x \<and> f = Fine"
  by (cases f) auto

locale services =
  fixes E :: "('w, 'z) env_scheme"
    and view :: "'w \<Rightarrow> keyspace"
    and fate :: "'w \<Rightarrow> fate"
    and published :: "'w \<Rightarrow> (string \<times> Envelope) list"
    and calm :: "'w \<Rightarrow> bool"
  assumes exists_res: "fst (r_exists E k w) = answer (fate w) (Inr (if view w k = None then 0 else 1))"
    and exists_view: "view (snd (r_exists E k w)) = view w"
    and get_result: "fst (r_get E k w) = answer (fate w) (get_res (view w k))"
    and get_view: "view (snd (r_get E k w)) = view w"
    and exec_result: "fst (r_exec E cs w) = answer (fate w) (exec_res cs (view w))"
    and exec_view: "view (snd (r_exec E cs w)) =
          (if happens (fate w) then exec_db cs (view w) else view w)"
    and watch_result: "fst (r_watch_exec E k cs w) = watch_answer (fate w) (exec_res cs (view w))"
    and watch_view: "view (snd (r_watch_exec E k cs w)) =
          (if watch_happens (fate w) then exec_db cs (view w) else view w)"
    and setnx_res: "fst (r_setnx E k p ttl w) = answer (fate w) (Inr (view w k = None))"
    and setnx_view: "view (snd (r_setnx E k p ttl w)) =
          (if happens (fate w) \<and> view w k = None then (view w)(k \<mapsto> (RStr p, Some ttl)) else view w)"
    and incr_result: "fst (r_incr E k w) = answer (fate w) (incr_res (view w k))"
    and incr_view: "view (snd (r_incr E k w)) = (if happens (fate w) then incr_db k (view w) else view w)"
    and scan_view: "view (snd (r_scan E c pat w)) = view w"
    and publish_view: "view (snd (js_publish E subj ev w)) = view w"
    and sql_exec_view: "view (snd (sql_exec E q args w)) = view w"
    and sql_row_view: "view (snd (sql_row E q args w)) = view w"
    and uuid_view: "view (snd (uuid_new E w)) = view w"
    and now_view: "view (snd (time_now E w)) = view w"
    and order_view: "view (snd (map_order E xs w)) = view w"
    and lk_view: "view (snd (lk_jwt E key claims d w)) = view w"
    and publish_log: "published (snd (js_publish E subj ev w)) =
          (if is_ok (fst (js_publish E subj ev w)) then published w @ [(subj, ev)] else published w)"
    and exists_log: "published (snd (r_exists E k w)) = published w"
    and get_log: "published (snd (r_get E k w)) = published w"
    and exec_log: "published (snd (r_exec E cs w)) = published w"
    and watch_log: "published (snd (r_watch_exec E k cs w)) = published w"
    and setnx_log: "published (snd (r_setnx E k p ttl w)) = published w"
    and incr_log: "published (snd (r_incr E k w)) = published w"
    and scan_log: "published (snd (r_scan E c pat w)) = published w"
    and sql_exec_log: "published (snd (sql_exec E q args w)) = published w"
    and sql_row_log: "published (snd (sql_row E q args w)) = published w"
    and uuid_log: "published (snd (uuid_new E w)) = published w"
    and now_log: "published (snd (time_now E w)) = published w"
    and order_log: "published (snd (map_order E xs w)) = published w"
    and lk_log: "published (snd (lk_jwt E key claims d w)) = published w"
    and calm_fine: "calm w \<Longrightarrow> fate w = Fine"
    and calm_publish: "calm w \<Longrightarrow> fst (js_publish E subj ev w) = Inr ()"
    and calm_sql: "calm w \<Longrightarrow> is_ok (fst (sql_exec E q args w))"
    and calm_lk: "calm w \<Longrightarrow> is_ok (fst (lk_jwt E key claims d w))"
    and exists_calm: "calm w \<Longrightarrow> calm (snd (r_exists E k w))"
    and get_calm: "calm w \<Longrightarrow> calm (snd (r_get E k w))"
    and exec_calm: "calm w \<Longrightarrow> calm (snd (r_exec E cs w))"
    and watch_calm: "calm w \<Longrightarrow> calm (snd (r_watch_exec E k cs w))"
    and setnx_calm: "calm w \<Longrightarrow> calm (snd (r_setnx E k p ttl w))"
    and incr_calm: "calm w \<Longrightarrow> calm (snd (r_incr E k w))"
    and scan_calm: "calm w \<Longrightarrow> calm (snd (r_scan E c pat w))"
    and publish_calm: "calm w \<Longrightarrow> calm (snd (js_publish E subj ev w))"
    and sql_exec_calm: "calm w \<Longrightarrow> calm (snd (sql_exec E q args w))"
    and sql_row_calm: "calm w \<Longrightarrow> calm (snd (sql_row E q args w))"
    and uuid_calm: "calm w \<Longrightarrow> calm (snd (uuid_new E w))"
    and now_calm: "calm w \<Longrightarrow> calm (snd (time_now E w))"
    and order_calm: "calm w \<Longrightarrow> calm (snd (map_order E xs w))"
    and lk_calm: "calm w \<Longrightarrow> calm (snd (lk_jwt E key claims d w))"
    and now_pos: "0 < fst (time_now E w)"
    and order_set: "set (fst (map_order E xs w)) = set xs"
    and uuid_plain: "CHR '':'' \<notin> set (fst (uuid_new E w))"
    and order_distinct: "distinct xs \<Longrightarrow> distinct (fst (map_order E xs w))"
begin

lemmas result_laws [svc_simps] = exists_res get_result exec_result watch_result setnx_res incr_result
lemmas view_laws [svc_simps] = exists_view get_view exec_view watch_view setnx_view incr_view
  scan_view publish_view sql_exec_view sql_row_view uuid_view now_view order_view lk_view
lemmas log_laws [svc_simps] = publish_log exists_log get_log exec_log watch_log setnx_log incr_log
  scan_log sql_exec_log sql_row_log uuid_log now_log order_log lk_log
lemmas clock_laws [svc_simps] = now_pos order_set
lemmas calm_laws [svc_simps] = calm_fine calm_publish
  exists_calm get_calm exec_calm watch_calm setnx_calm incr_calm scan_calm
  publish_calm sql_exec_calm sql_row_calm uuid_calm now_calm order_calm lk_calm

end

section \<open>An in-memory instance\<close>

text \<open>
  Every call consumes the next scheduled fate (none left: the call succeeds).  The clock advances
  with each reading, identifiers are numbered, \<open>SCAN\<close> returns the listed keys in one batch and
  Postgres answers queries from a table of rows.  The world may be extended by further fields.
\<close>

record world =
  w_db :: keyspace
  w_fates :: "fate list"
  w_pub :: "(string \<times> Envelope) list"
  w_clock :: nat
  w_ids :: nat
  w_keys :: "string list"
  w_rows :: "((string \<times> json list) \<times> json list) list"
  w_sql :: "(string \<times> json list) list"

definition mem_fate :: "'a world_scheme \<Rightarrow> fate" where
  "mem_fate w = (case w_fates w of [] \<Rightarrow> Fine | f # _ \<Rightarrow> f)"

text \<open>A calm world has no fault scheduled.\<close>

definition mem_calm :: "'a world_scheme \<Rightarrow> bool" where
  "mem_calm w \<longleftrightarrow> w_fates w = []"

definition spend :: "'a world_scheme \<Rightarrow> 'a world_scheme" where
  "spend w = w\<lparr>w_fates := tl (w_fates w)\<rparr>"

definition mem_env :: "'a world_scheme env" where
  "mem_env = \<lparr>
     r_exists = (\<lambda>k w. (answer (mem_fate w) (Inr (if w_db w k = None then 0 else 1)), spend w)),
     r_get = (\<lambda>k w. (answer (mem_fate w) (get_res (w_db w k)), spend w)),
     r_exec = (\<lambda>cs w. (answer (mem_fate w) (exec_res cs (w_db w)),
        (spend w)\<lparr>w_db := (if happens (mem_fate w) then exec_db cs (w_db w) else w_db w)\<rparr>)),
     r_watch_exec = (\<lambda>k cs w. (watch_answer (mem_fate w) (exec_res cs (w_db w)),
        (spend w)\<lparr>w_db := (if watch_happens (mem_fate w) then exec_db cs (w_db w) else w_db w)\<rparr>)),
     r_setnx = (\<lambda>k p ttl w. (answer (mem_fate w) (Inr (w_db w k = None)),
        (spend w)\<lparr>w_db := (if happens (mem_fate w) \<and> w_db w k = None
                            then (w_db w)(k \<mapsto> (RStr p, Some ttl)) else w_db w)\<rparr>)),
     r_incr = (\<lambda>k w. (answer (mem_fate w) (incr_res (w_db w k)),
        (spend w)\<lparr>w_db := (if happens (mem_fate w) then incr_db k (w_db w) else w_db w)\<rparr>)),
     r_scan = (\<lambda>c pat w. (answer (mem_fate w) (Inr (filter (\<lambda>k. HasPrefix k pat) (w_keys w), 0)), spend w)),
     js_publish = (\<lambda>subj ev w. (case mem_fate w of
         Refused m \<Rightarrow> (Inl (Errorf m), spend w)
       | _ \<Rightarrow> (Inr (), (spend w)\<lparr>w_pub := w_pub w @ [(subj, ev)]\<rparr>))),
     sql_exec = (\<lambda>q args w. (answer (mem_fate w) (Inr 1), (spend w)\<lparr>w_sql := w_sql w @ [(q, args)]\<rparr>)),
     sql_row = (\<lambda>q args w. (answer (mem_fate w) (Inr (map_of (w_rows w) (q, args))), spend w)),
     uuid_new = (\<lambda>w. (''id'' @ itoa (w_ids w), w\<lparr>w_ids := Suc (w_ids w)\<rparr>)),
     time_now = (\<lambda>w. (int (Suc (w_clock w)), w\<lparr>w_clock := Suc (w_clock w)\<rparr>)),
     map_order = (\<lambda>xs w. (xs, w)),
     lk_jwt = (\<lambda>key claims d w. (answer (mem_fate w) (Inr ''lk-token''), spend w)),
     hmac_sha1_b64 = (\<lambda>key msg. key @ ''#'' @ msg),
     uuid_ok = (\<lambda>s. HasPrefix s ''id'') \<rparr>"

definition world0 :: world where
  "world0 = \<lparr>w_db = Map.empty, w_fates = [], w_pub = [], w_clock = 0, w_ids = 0, w_keys = [],
     w_rows = [], w_sql = []\<rparr>"

lemma spend_simps [simp]: "w_db (spend w) = w_db w" "w_pub (spend w) = w_pub w"
  "w_clock (spend w) = w_clock w" "w_ids (spend w) = w_ids w" "w_keys (spend w) = w_keys w"
  "w_fates (spend w) = tl (w_fates w)"
  by (simp_all add: spend_def)

interpretation mem: services mem_env w_db mem_fate w_pub mem_calm
  by unfold_locales (auto simp: mem_env_def itoa_no_colon mem_calm_def mem_fate_def split: fate.splits)

end
