(* ===== verification/Events.thy ===== *)
theory Events
  imports Services
begin

text \<open>
  The event bus of \<open>internal/events\<close>: the subjects of the CALLS stream, the payloads of the
  events with their JSON form, and \<open>Bus.Publish\<close>, which wraps a payload in an envelope and
  hands it to the stream (the field \<open>js_publish\<close> of the services).
\<close>

section \<open>Subjects\<close>

definition SubjectCallInitiated :: string where "SubjectCallInitiated = ''call.initiated''"
definition SubjectCallAccepted :: string where "SubjectCallAccepted = ''call.accepted''"
definition SubjectCallRejected :: string where "SubjectCallRejected = ''call.rejected''"
definition SubjectCallEnded :: string where "SubjectCallEnded = ''call.ended''"
definition SubjectCallStateChanged :: string where "SubjectCallStateChanged = ''call.state_changed''"
definition SubjectQualityTierChanged :: string where "SubjectQualityTierChanged = ''quality.tier_changed''"
definition SubjectQualityMetrics :: string where "SubjectQualityMetrics = ''quality.metrics''"
definition SubjectPresenceUpdated :: string where "SubjectPresenceUpdated = ''presence.updated''"
definition SubjectSFUParticipantJoined :: string where "SubjectSFUParticipantJoined = ''sfu.participant_joined''"
definition SubjectSFUParticipantLeft :: string where "SubjectSFUParticipantLeft = ''sfu.participant_left''"
definition SubjectSFURoomFinished :: string where "SubjectSFURoomFinished = ''sfu.room_finished''"
definition SubjectSFUTrackPublished :: string where "SubjectSFUTrackPublished = ''sfu.track_published''"
definition SubjectPushDelivery :: string where "SubjectPushDelivery = ''push.delivery''"
definition SubjectRoomCreated :: string where "SubjectRoomCreated = ''room.created''"
definition SubjectRoomClosed :: string where "SubjectRoomClosed = ''room.closed''"
definition SubjectRoomParticipantJoined :: string where "SubjectRoomParticipantJoined = ''room.participant_joined''"
definition SubjectRoomParticipantLeft :: string where "SubjectRoomParticipantLeft = ''room.participant_left''"

lemmas subject_defs = SubjectCallInitiated_def SubjectCallAccepted_def SubjectCallRejected_def
  SubjectCallEnded_def SubjectCallStateChanged_def SubjectQualityTierChanged_def
  SubjectQualityMetrics_def SubjectPresenceUpdated_def SubjectSFUParticipantJoined_def
  SubjectSFUParticipantLeft_def SubjectSFURoomFinished_def SubjectSFUTrackPublished_def
  SubjectPushDelivery_def SubjectRoomCreated_def SubjectRoomClosed_def
  SubjectRoomParticipantJoined_def SubjectRoomParticipantLeft_def

definition AllSubjects :: "string list" where
  "AllSubjects = [SubjectCallInitiated, SubjectCallAccepted, SubjectCallRejected, SubjectCallEnded,
     SubjectCallStateChanged, SubjectQualityTierChanged, SubjectQualityMetrics,
     SubjectPresenceUpdated, SubjectSFUParticipantJoined, SubjectSFUParticipantLeft,
     SubjectSFURoomFinished, SubjectSFUTrackPublished, SubjectPushDelivery, SubjectRoomCreated,
     SubjectRoomClosed, SubjectRoomParticipantJoined, SubjectRoomParticipantLeft]"

lemma AllSubjects_distinct: "distinct AllSubjects"
  by (simp add: AllSubjects_def subject_defs)

section \<open>Payloads\<close>

record QualityMetricsSample =
  qs_ParticipantID :: string
  qs_Timestamp :: int
  qs_Direction :: string
  qs_RTTMs :: int
  qs_LossPct :: float64
  qs_JitterMs :: float64
  qs_BitrateKbps :: int
  qs_Framerate :: int
  qs_Resolution :: string
  qs_NetworkTier :: string

datatype event =
    CallInitiated (ci_CallID: string) (ci_CallerID: string) (ci_CalleeID: string)
      (ci_CallType: string) (ci_HasVideo: bool) (ci_Region: string)
  | CallAccepted (ca_CallID: string) (ca_UserID: string) (ca_Topology: string)
  | CallRejected (cr_CallID: string) (cr_UserID: string) (cr_Reason: string)
  | CallEnded (ce_CallID: string) (ce_EndReason: string) (ce_Duration: int)
  | CallStateChanged (sc_CallID: string) (sc_FromState: string) (sc_ToState: string)
      (sc_Trigger: string)
  | QualityMetrics (qm_CallID: string) (qm_Region: string) (qm_Samples: "QualityMetricsSample list")
  | RoomCreated (rc_RoomID: string) (rc_InitiatorID: string) (rc_CallType: string)
      (rc_Participants: "string list")
  | RoomClosed (rx_RoomID: string) (rx_Reason: string) (rx_Duration: int)
  | RoomParticipantJoined (rj_RoomID: string) (rj_UserID: string) (rj_Role: string)
  | RoomParticipantLeft (rl_RoomID: string) (rl_UserID: string)

definition sample_json :: "QualityMetricsSample \<Rightarrow> json" where
  "sample_json s = JObj [
     (''participant_id'', JStr (qs_ParticipantID s)), (''ts'', JNum (qs_Timestamp s)),
     (''direction'', JStr (qs_Direction s)), (''rtt_ms'', JNum (qs_RTTMs s)),
     (''loss_pct'', JFloat (qs_LossPct s)), (''jitter_ms'', JFloat (qs_JitterMs s)),
     (''bitrate_kbps'', JNum (qs_BitrateKbps s)), (''framerate'', JNum (qs_Framerate s)),
     (''resolution'', JStr (qs_Resolution s)), (''network_tier'', JStr (qs_NetworkTier s))]"

fun event_json :: "event \<Rightarrow> json" where
  "event_json (CallInitiated c u v t b r) = JObj [(''call_id'', JStr c), (''caller_id'', JStr u),
     (''callee_id'', JStr v), (''call_type'', JStr t), (''has_video'', JBool b), (''region'', JStr r)]"
| "event_json (CallAccepted c u t) = JObj [(''call_id'', JStr c), (''user_id'', JStr u),
     (''topology'', JStr t)]"
| "event_json (CallRejected c u r) = JObj [(''call_id'', JStr c), (''user_id'', JStr u),
     (''reason'', JStr r)]"
| "event_json (CallEnded c r d) = JObj [(''call_id'', JStr c), (''end_reason'', JStr r),
     (''duration'', JNum d)]"
| "event_json (CallStateChanged c f t g) = JObj [(''call_id'', JStr c), (''from_state'', JStr f),
     (''to_state'', JStr t), (''trigger'', JStr g)]"
| "event_json (QualityMetrics c r ss) = JObj ((''call_id'', JStr c) # omit_str ''region'' r @
     [(''samples'', JArr (map sample_json ss))])"
| "event_json (RoomCreated r i t ps) = JObj [(''room_id'', JStr r), (''initiator_id'', JStr i),
     (''call_type'', JStr t), (''participants'', JArr (map JStr ps))]"
| "event_json (RoomClosed r x d) = JObj [(''room_id'', JStr r), (''reason'', JStr x),
     (''duration'', JNum d)]"
| "event_json (RoomParticipantJoined r u x) = JObj [(''room_id'', JStr r), (''user_id'', JStr u),
     (''role'', JStr x)]"
| "event_json (RoomParticipantLeft r u) = JObj [(''room_id'', JStr r), (''user_id'', JStr u)]"

section \<open>Publishing\<close>

text \<open>\<open>Publish\<close> takes any value; \<open>Bus_PublishJson\<close> takes its JSON form.\<close>

definition Bus_PublishJson :: "('w, 'z) env_scheme \<Rightarrow> string \<Rightarrow> string \<Rightarrow> json \<Rightarrow> 'w \<Rightarrow> unit result \<times> 'w" where
  "Bus_PublishJson E source subject payload w =
    (let (i, w1) = uuid_new E w;
         (t, w2) = time_now E w1;
         env = \<lparr>env_ID = i, env_Type = subject, env_Timestamp = t, env_Source = source,
                env_Payload = payload\<rparr>;
         (r, w3) = js_publish E subject env w2
     in case r of Inl e \<Rightarrow> (Inl (Wrap (''publish '' @ subject) e), w3) | Inr _ \<Rightarrow> (Inr (), w3))"

definition Bus_Publish :: "('w, 'z) env_scheme \<Rightarrow> string \<Rightarrow> string \<Rightarrow> event \<Rightarrow> 'w \<Rightarrow> unit result \<times> 'w" where
  "Bus_Publish E source subject payload w = Bus_PublishJson E source subject (event_json payload) w"

section \<open>Consuming\<close>

text \<open>The callback that \<open>Bus.Subscribe\<close> gives to the consumer: a message that is not an envelope is
  terminated, one whose handler fails is put back, every other one is acknowledged.  The bytes of a
  message are its JSON document, \<open>None\<close> when they are not one.\<close>

datatype msg_outcome = Term | Nak | Ack

definition dec_Envelope :: "json \<Rightarrow> Envelope result" where
  "dec_Envelope = dec_obj (\<lambda>ob. rbind (dec_str (fld ob ''id'')) (\<lambda>i. rbind (dec_str (fld ob ''type'')) (\<lambda>t.
     rbind (dec_time (fld ob ''timestamp'')) (\<lambda>ts. rbind (dec_str (fld ob ''source'')) (\<lambda>s.
     Inr \<lparr>env_ID = i, env_Type = t, env_Timestamp = ts, env_Source = s, env_Payload = fld ob ''payload''\<rparr>)))))"

definition envelope_json :: "Envelope \<Rightarrow> json" where
  "envelope_json e = JObj [(''id'', JStr (env_ID e)), (''type'', JStr (env_Type e)), (''timestamp'', JTime (env_Timestamp e)),
     (''source'', JStr (env_Source e)), (''payload'', env_Payload e)]"

definition Subscribe_callback ::
  "(Envelope \<Rightarrow> json \<Rightarrow> 's \<Rightarrow> unit result \<times> 's) \<Rightarrow> json option \<Rightarrow> 's \<Rightarrow> msg_outcome \<times> 's" where
  "Subscribe_callback handler data st =
    (case data of None \<Rightarrow> (Term, st)
     | Some raw \<Rightarrow> (case dec_Envelope raw of
         Inl _ \<Rightarrow> (Term, st)
       | Inr env \<Rightarrow> (let (r, st1) = handler env raw st in case r of Inl _ \<Rightarrow> (Nak, st1) | Inr _ \<Rightarrow> (Ack, st1))))"

lemma dec_Envelope_roundtrip [simp]: "dec_Envelope (envelope_json e) = Inr e"
  by (simp add: dec_Envelope_def envelope_json_def)

text \<open>What a subscriber sees of a published entry: its subject and its payload.\<close>

definition seen :: "(string \<times> Envelope) list \<Rightarrow> (string \<times> json) list" where
  "seen l = map (\<lambda>(s, e). (s, env_Payload e)) l"

lemma seen_simps [simp]: "seen [] = []" "seen (xs @ ys) = seen xs @ seen ys"
  "seen [(s, e)] = [(s, env_Payload e)]"
  by (simp_all add: seen_def)

context services
begin

lemma Bus_PublishJson_view [svc_simps]: "view (snd (Bus_PublishJson E src subj p w)) = view w"
  by (simp add: Bus_PublishJson_def svc_simps split_beta Let_def split: sum.splits)

lemma Bus_PublishJson_log [svc_simps]:
  "seen (published (snd (Bus_PublishJson E src subj p w))) =
     seen (published w) @ (if is_ok (fst (Bus_PublishJson E src subj p w)) then [(subj, p)] else [])"
  by (auto simp: Bus_PublishJson_def svc_simps split_beta Let_def split: sum.splits)

lemma Bus_PublishJson_calm:
  "calm w \<Longrightarrow> fst (Bus_PublishJson E src subj p w) = Inr () \<and> calm (snd (Bus_PublishJson E src subj p w))"
  by (simp add: Bus_PublishJson_def svc_simps split_beta Let_def)

lemma Bus_Publish_view [svc_simps]: "view (snd (Bus_Publish E src subj ev w)) = view w"
  by (simp add: Bus_Publish_def svc_simps)

lemma Bus_Publish_log [svc_simps]:
  "seen (published (snd (Bus_Publish E src subj ev w))) =
     seen (published w) @ (if is_ok (fst (Bus_Publish E src subj ev w)) then [(subj, event_json ev)] else [])"
  by (simp add: Bus_Publish_def svc_simps)

end

end
