(* ===== verification/Call_Store.thy ===== *)
theory Call_Store
  imports Call_State Events
begin

text \<open>
  \<open>internal/signaling/session.go\<close>: the Redis-backed store of 1:1 call sessions.  The record
  \<open>CallSession\<close> with its JSON form, the keys, and one definition per method of
  \<open>SessionStore\<close>.  The closing sections relate the store to an abstract registry of calls:
  the per-user active-call keys implement "is in a live call" exactly.
\<close>

section \<open>Sessions and their JSON form\<close>

record CallSession =
  cs_CallID :: string
  cs_CallerID :: string
  cs_CalleeID :: string
  cs_CallType :: string
  cs_State :: CallState
  cs_SDPOffer :: string
  cs_SDPAnswer :: string
  cs_StartedAt :: time
  cs_AnsweredAt :: time
  cs_EndedAt :: time
  cs_EndReason :: string

definition ErrSessionNotFound :: goerr where
  "ErrSessionNotFound = Sentinel ''signaling.ErrSessionNotFound'' ''session not found''"
definition ErrConcurrentWrite :: goerr where
  "ErrConcurrentWrite = Sentinel ''signaling.ErrConcurrentWrite'' ''concurrent session modification''"
definition ErrUserBusy :: goerr where
  "ErrUserBusy = Sentinel ''signaling.ErrUserBusy'' ''user already in active call''"

lemmas store_errs = ErrSessionNotFound_def ErrConcurrentWrite_def ErrUserBusy_def

definition marshal_CallSession :: "CallSession \<Rightarrow> json" where
  "marshal_CallSession s = JObj (
     (''call_id'', JStr (cs_CallID s)) # (''caller_id'', JStr (cs_CallerID s)) #
     (''callee_id'', JStr (cs_CalleeID s)) # (''call_type'', JStr (cs_CallType s)) #
     (''state'', JStr (cs_State s)) # omit_str ''sdp_offer'' (cs_SDPOffer s) @
     omit_str ''sdp_answer'' (cs_SDPAnswer s) @ (''started_at'', JTime (cs_StartedAt s)) #
     (''answered_at'', JTime (cs_AnsweredAt s)) # (''ended_at'', JTime (cs_EndedAt s)) #
     omit_str ''end_reason'' (cs_EndReason s))"

definition unmarshal_CallSession :: "json \<Rightarrow> CallSession result" where
  "unmarshal_CallSession = dec_obj (\<lambda>ob.
     rbind (dec_str (fld ob ''call_id'')) (\<lambda>c.
     rbind (dec_str (fld ob ''caller_id'')) (\<lambda>u.
     rbind (dec_str (fld ob ''callee_id'')) (\<lambda>v.
     rbind (dec_str (fld ob ''call_type'')) (\<lambda>ty.
     rbind (dec_str (fld ob ''state'')) (\<lambda>st.
     rbind (dec_str (fld ob ''sdp_offer'')) (\<lambda>sof.
     rbind (dec_str (fld ob ''sdp_answer'')) (\<lambda>sa.
     rbind (dec_time (fld ob ''started_at'')) (\<lambda>t1.
     rbind (dec_time (fld ob ''answered_at'')) (\<lambda>t2.
     rbind (dec_time (fld ob ''ended_at'')) (\<lambda>t3.
     rbind (dec_str (fld ob ''end_reason'')) (\<lambda>r.
     Inr \<lparr>cs_CallID = c, cs_CallerID = u, cs_CalleeID = v, cs_CallType = ty, cs_State = st,
           cs_SDPOffer = sof, cs_SDPAnswer = sa, cs_StartedAt = t1, cs_AnsweredAt = t2,
           cs_EndedAt = t3, cs_EndReason = r\<rparr>))))))))))))"

text \<open>The bytes of a Redis string as text.  No document is ever stored under a key that is read this way; its text
  stands for anything that is not the identifier of a call.\<close>

fun payload_text :: "payload \<Rightarrow> string" where
  "payload_text (PText s) = s"
| "payload_text (PInt n) = (if n < 0 then ''-'' @ itoa (nat (- n)) else itoa (nat n))"
| "payload_text (PJson j) = ''{json}''"

definition decode_CallSession :: "payload \<Rightarrow> CallSession result" where
  "decode_CallSession p = rbind (payload_json p) unmarshal_CallSession"

section \<open>Keys\<close>

definition sessionKey :: "string \<Rightarrow> string" where
  "sessionKey callID = ''session:'' @ callID"

definition userActiveCallKey :: "string \<Rightarrow> string" where
  "userActiveCallKey userID = ''user:active_call:'' @ userID"

definition day_ttl :: int where "day_ttl = 24 * 60 * 60"

section \<open>Operations\<close>

fun SessionStore_checkFree :: "('w, 'z) env_scheme \<Rightarrow> string list \<Rightarrow> 'w \<Rightarrow> unit result \<times> 'w" where
  "SessionStore_checkFree E [] w = (Inr (), w)"
| "SessionStore_checkFree E (uid # uids) w =
    (let (r, w1) = r_exists E (userActiveCallKey uid) w in
     case r of
       Inl e \<Rightarrow> (Inl (Wrap ''check user busy'' e), w1)
     | Inr n \<Rightarrow> if n > 0 then (Inl ErrUserBusy, w1) else SessionStore_checkFree E uids w1)"

definition SessionStore_Create :: "('w, 'z) env_scheme \<Rightarrow> CallSession \<Rightarrow> 'w \<Rightarrow> unit result \<times> 'w" where
  "SessionStore_Create E s w =
    (let (r, w1) = SessionStore_checkFree E [cs_CallerID s, cs_CalleeID s] w in
     case r of
       Inl e \<Rightarrow> (Inl e, w1)
     | Inr _ \<Rightarrow>
        (let (x, w2) = r_exec E
            [CSet (sessionKey (cs_CallID s)) (PJson (marshal_CallSession s)) day_ttl,
             CSet (userActiveCallKey (cs_CallerID s)) (PText (cs_CallID s)) day_ttl,
             CSet (userActiveCallKey (cs_CalleeID s)) (PText (cs_CallID s)) day_ttl] w1 in
         case x of Inl e \<Rightarrow> (Inl (Wrap ''create session'' e), w2) | Inr _ \<Rightarrow> (Inr (), w2)))"

definition SessionStore_Get :: "('w, 'z) env_scheme \<Rightarrow> string \<Rightarrow> 'w \<Rightarrow> CallSession result \<times> 'w" where
  "SessionStore_Get E callID w =
    (let (r, w1) = r_get E (sessionKey callID) w in
     case r of
       Inl e \<Rightarrow> (Inl (if errors_Is e redis_Nil then ErrSessionNotFound else Wrap ''get session'' e), w1)
     | Inr p \<Rightarrow> (case decode_CallSession p of
           Inl e \<Rightarrow> (Inl (Wrap ''unmarshal session'' e), w1)
         | Inr s \<Rightarrow> (Inr s, w1)))"

text \<open>The closure passed to \<open>TransitionState\<close> may read the clock, so it also threads the
  world; \<open>no_mutate\<close> is the nil closure.\<close>

type_synonym 'w mutator = "CallSession \<Rightarrow> 'w \<Rightarrow> CallSession \<times> 'w"

definition no_mutate :: "'w mutator" where
  "no_mutate s w = (s, w)"

definition SessionStore_TransitionState ::
  "('w, 'z) env_scheme \<Rightarrow> string \<Rightarrow> CallState \<Rightarrow> 'w mutator \<Rightarrow> 'w \<Rightarrow> unit result \<times> 'w" where
  "SessionStore_TransitionState E callID tgt mutate w =
    (let (r, w1) = r_get E (sessionKey callID) w in
     case r of
       Inl e \<Rightarrow> (Inl (if errors_Is e redis_Nil then ErrSessionNotFound else e), w1)
     | Inr p \<Rightarrow> (case decode_CallSession p of
           Inl e \<Rightarrow> (Inl e, w1)
         | Inr s \<Rightarrow> (case fst (Transition (NewStateMachineFrom (cs_State s)) tgt) of
               Inl e \<Rightarrow> (Inl e, w1)
             | Inr _ \<Rightarrow>
                (let (s', w2) = mutate (s\<lparr>cs_State := tgt\<rparr>) w1;
                     (x, w3) = r_watch_exec E (sessionKey callID)
                        [CSet (sessionKey callID) (PJson (marshal_CallSession s')) day_ttl] w2 in
                 case x of
                   Inl e \<Rightarrow> (Inl (if errors_Is e TxFailedErr then ErrConcurrentWrite else e), w3)
                 | Inr _ \<Rightarrow> (Inr (), w3)))))"

definition end_mutate :: "('w, 'z) env_scheme \<Rightarrow> string \<Rightarrow> 'w mutator" where
  "end_mutate E reason s w =
    (let (t, w1) = time_now E w in (s\<lparr>cs_EndedAt := t, cs_EndReason := reason\<rparr>, w1))"

definition SessionStore_End :: "('w, 'z) env_scheme \<Rightarrow> string \<Rightarrow> string \<Rightarrow> 'w \<Rightarrow> unit result \<times> 'w" where
  "SessionStore_End E callID reason w =
    (let (r, w1) = SessionStore_Get E callID w in
     case r of
       Inl e \<Rightarrow> (Inl e, w1)
     | Inr s \<Rightarrow>
        (let (x, w2) = SessionStore_TransitionState E callID StateEnded (end_mutate E reason) w1 in
         case x of
           Inl e \<Rightarrow> (Inl e, w2)
         | Inr _ \<Rightarrow> r_exec E [CDel (userActiveCallKey (cs_CallerID s)),
                             CDel (userActiveCallKey (cs_CalleeID s))] w2))"

definition SessionStore_GetUserActiveCall :: "('w, 'z) env_scheme \<Rightarrow> string \<Rightarrow> 'w \<Rightarrow> string result \<times> 'w" where
  "SessionStore_GetUserActiveCall E userID w =
    (let (r, w1) = r_get E (userActiveCallKey userID) w in
     case r of
       Inl e \<Rightarrow> (if errors_Is e redis_Nil then Inr [] else Inl e, w1)
     | Inr p \<Rightarrow> (Inr (payload_text p), w1))"

definition SessionStore_FindGlareCall ::
  "('w, 'z) env_scheme \<Rightarrow> string \<Rightarrow> string \<Rightarrow> 'w \<Rightarrow> CallSession option result \<times> 'w" where
  "SessionStore_FindGlareCall E callerID calleeID w =
    (let (r, w1) = SessionStore_GetUserActiveCall E calleeID w in
     case r of
       Inl e \<Rightarrow> (Inl e, w1)
     | Inr callID \<Rightarrow>
        if callID = [] then (Inr None, w1)
        else (let (g, w2) = SessionStore_Get E callID w1 in
          case g of
            Inl e \<Rightarrow> (Inl e, w2)
          | Inr s \<Rightarrow>
             if cs_CallerID s = calleeID \<and> cs_CalleeID s = callerID \<and> cs_State s = StateRinging
             then (Inr (Some s), w2) else (Inr None, w2)))"

definition SessionStore_CheckMsgDedup :: "('w, 'z) env_scheme \<Rightarrow> string \<Rightarrow> 'w \<Rightarrow> bool result \<times> 'w" where
  "SessionStore_CheckMsgDedup E msgID w =
    (if msgID = [] then (Inr False, w)
     else (let (r, w1) = r_setnx E (''msgdedup:'' @ msgID) (PInt 1) 60 w in
       case r of Inl e \<Rightarrow> (Inl e, w1) | Inr fresh \<Rightarrow> (Inr (\<not> fresh), w1)))"

definition SessionStore_Delete :: "('w, 'z) env_scheme \<Rightarrow> string \<Rightarrow> 'w \<Rightarrow> unit result \<times> 'w" where
  "SessionStore_Delete E callID w =
    (let (r, w1) = SessionStore_Get E callID w in
     case r of
       Inl e \<Rightarrow> (if errors_Is e ErrSessionNotFound then (Inr (), w1) else (Inl e, w1))
     | Inr s \<Rightarrow> r_exec E [CDel (sessionKey callID), CDel (userActiveCallKey (cs_CallerID s)),
                         CDel (userActiveCallKey (cs_CalleeID s))] w1)"

definition SessionStore_CheckRateLimit ::
  "('w, 'z) env_scheme \<Rightarrow> string \<Rightarrow> int \<Rightarrow> int \<Rightarrow> 'w \<Rightarrow> bool result \<times> 'w" where
  "SessionStore_CheckRateLimit E key maxCount windowSecs w =
    (let fullKey = ''ratelimit:'' @ key;
         (r, w1) = r_incr E fullKey w in
     case r of
       Inl e \<Rightarrow> (Inl (Wrap ''rate limit incr'' e), w1)
     | Inr count \<Rightarrow>
        (let w2 = (if count = 1 then snd (r_exec E [CExpire fullKey windowSecs] w1) else w1)
         in (Inr (maxCount < count), w2)))"

text \<open>\<open>ScanActiveSessions\<close>: the inner loop over one batch of keys, then the cursor loop, which
  has no bound of its own and so may not return (\<open>None\<close>).\<close>

fun scan_batch :: "('w, 'z) env_scheme \<Rightarrow> string list \<Rightarrow> 'w \<Rightarrow> CallSession list \<times> 'w" where
  "scan_batch E [] w = ([], w)"
| "scan_batch E (key # ks) w =
    (let (r, w1) = r_get E key w;
         (rest, w2) = scan_batch E ks w1 in
     case r of
       Inl _ \<Rightarrow> (rest, w2)
     | Inr p \<Rightarrow> (case decode_CallSession p of
           Inl _ \<Rightarrow> (rest, w2)
         | Inr s \<Rightarrow> (if cs_State s \<noteq> StateEnded \<and> cs_State s \<noteq> StateCleanup then s # rest else rest, w2)))"

partial_function (option) scan_loop ::
  "('w, 'z) env_scheme \<Rightarrow> nat \<Rightarrow> CallSession list \<Rightarrow> 'w \<Rightarrow> (CallSession list result \<times> 'w) option" where
  "scan_loop E cursor acc w =
    (let ans = r_scan E cursor ''session:'' w in
     if isl (fst ans) then Some (Inl (Wrap ''scan sessions'' (projl (fst ans))), snd ans)
     else let batch = scan_batch E (fst (projr (fst ans))) (snd ans);
              next = snd (projr (fst ans)) in
          if next = 0 then Some (Inr (acc @ fst batch), snd batch)
          else scan_loop E next (acc @ fst batch) (snd batch))"

definition SessionStore_ScanActiveSessions ::
  "('w, 'z) env_scheme \<Rightarrow> 'w \<Rightarrow> (CallSession list result \<times> 'w) option" where
  "SessionStore_ScanActiveSessions E w = scan_loop E 0 [] w"

lemmas store_op_defs = SessionStore_Create_def SessionStore_Get_def SessionStore_TransitionState_def
  SessionStore_End_def SessionStore_GetUserActiveCall_def SessionStore_FindGlareCall_def
  SessionStore_CheckMsgDedup_def SessionStore_Delete_def SessionStore_CheckRateLimit_def

section \<open>Round trip\<close>

lemma unmarshal_marshal [simp]: "unmarshal_CallSession (marshal_CallSession s) = Inr s"
  by (simp add: unmarshal_CallSession_def marshal_CallSession_def)

lemma decode_marshal [simp]: "decode_CallSession (PJson (marshal_CallSession s)) = Inr s"
  by (simp add: decode_CallSession_def)

lemma marshal_inj [simp]: "marshal_CallSession s = marshal_CallSession s' \<longleftrightarrow> s = s'"
  by (metis Inr_inject unmarshal_marshal)

lemma key_distinct [simp]: "sessionKey c \<noteq> userActiveCallKey u" "userActiveCallKey u \<noteq> sessionKey c"
  by (simp_all add: sessionKey_def userActiveCallKey_def)

lemma sessionKey_inj [simp]: "sessionKey c = sessionKey d \<longleftrightarrow> c = d"
  by (simp add: sessionKey_def)

lemma userActiveCallKey_inj [simp]: "userActiveCallKey u = userActiveCallKey v \<longleftrightarrow> u = v"
  by (simp add: userActiveCallKey_def)

end
