(* ===== verification/Call_Registry.thy ===== *)
theory Call_Registry
  imports Call_Store
begin

text \<open>
  What the signaling store promises.  \<open>call_at db\<close> is the registry of calls a keyspace holds;
  \<open>call_owned\<close> says that the active-call key of each party of a live call names that call, and
  \<open>store_inv\<close> adds that nothing else sets such a key.  \<open>call_owned\<close> survives every fault of
  the connection and gives "one live call per user"; \<open>store_inv\<close> holds in calm runs and makes
  the store a refinement of an abstract registry in which being busy is being in a live call.
\<close>

section \<open>The registry held in a keyspace\<close>

definition call_at :: "keyspace \<Rightarrow> string \<Rightarrow> CallSession option" where
  "call_at db c = (case db (sessionKey c) of
      Some (RStr (PJson j), _) \<Rightarrow> (case unmarshal_CallSession j of
          Inr s \<Rightarrow> if marshal_CallSession s = j then Some s else None
        | Inl _ \<Rightarrow> None)
    | _ \<Rightarrow> None)"

definition marker :: "keyspace \<Rightarrow> string \<Rightarrow> string option" where
  "marker db u = (case db (userActiveCallKey u) of
      Some (RStr (PText c), _) \<Rightarrow> Some c | _ \<Rightarrow> None)"

definition live :: "CallSession \<Rightarrow> bool" where
  "live s \<longleftrightarrow> cs_State s \<noteq> StateEnded \<and> cs_State s \<noteq> StateCleanup"

definition party :: "CallSession \<Rightarrow> string \<Rightarrow> bool" where
  "party s u \<longleftrightarrow> u = cs_CallerID s \<or> u = cs_CalleeID s"

lemma call_at_SomeD:
  "call_at db c = Some s \<Longrightarrow> \<exists>t. db (sessionKey c) = Some (RStr (PJson (marshal_CallSession s)), t)"
  by (auto simp: call_at_def split: option.splits prod.splits rval.splits payload.splits
        sum.splits if_splits)

lemma call_at_session [simp]:
  "call_at (db(sessionKey c \<mapsto> (RStr (PJson (marshal_CallSession s)), t))) = (call_at db)(c \<mapsto> s)"
  by (rule ext) (auto simp: call_at_def)

lemma call_at_user [simp]: "call_at (db(userActiveCallKey u := e)) = call_at db"
  by (rule ext) (auto simp: call_at_def)

lemma call_at_del [simp]: "call_at (db(sessionKey c := None)) = (call_at db)(c := None)"
  by (rule ext) (auto simp: call_at_def)

lemma marker_session [simp]: "marker (db(sessionKey c := e)) = marker db"
  by (rule ext) (auto simp: marker_def)

lemma marker_user [simp]:
  "marker (db(userActiveCallKey u \<mapsto> (RStr (PText c), t))) = (marker db)(u \<mapsto> c)"
  by (rule ext) (auto simp: marker_def)

lemma marker_user_del [simp]: "marker (db(userActiveCallKey u := None)) = (marker db)(u := None)"
  by (rule ext) (auto simp: marker_def)

lemma marker_present: "marker db u = Some c \<Longrightarrow> db (userActiveCallKey u) \<noteq> None"
  by (auto simp: marker_def split: option.splits)

definition call_owned :: "keyspace \<Rightarrow> bool" where
  "call_owned db \<longleftrightarrow> (\<forall>c s u. call_at db c = Some s \<longrightarrow> live s \<longrightarrow> party s u \<longrightarrow> marker db u = Some c)"

definition busy :: "(string \<Rightarrow> CallSession option) \<Rightarrow> string \<Rightarrow> bool" where
  "busy reg u \<longleftrightarrow> (\<exists>c s. reg c = Some s \<and> live s \<and> party s u)"

definition store_inv :: "keyspace \<Rightarrow> bool" where
  "store_inv db \<longleftrightarrow> call_owned db \<and>
     (\<forall>u. db (userActiveCallKey u) \<noteq> None \<longrightarrow> busy (call_at db) u)"

lemma call_ownedD:
  "call_owned db \<Longrightarrow> call_at db c = Some s \<Longrightarrow> live s \<Longrightarrow> party s u \<Longrightarrow> marker db u = Some c"
  by (auto simp: call_owned_def)

lemma call_owned_unique:
  "call_owned db \<Longrightarrow> call_at db c = Some s \<Longrightarrow> live s \<Longrightarrow> party s u \<Longrightarrow>
   call_at db d = Some s' \<Longrightarrow> live s' \<Longrightarrow> party s' u \<Longrightarrow> c = d"
  by (metis call_ownedD option.inject)

lemma store_inv_busy_iff:
  assumes "store_inv db" shows "db (userActiveCallKey u) \<noteq> None \<longleftrightarrow> busy (call_at db) u"
proof
  assume "busy (call_at db) u"
  then obtain c s where "call_at db c = Some s" "live s" "party s u"
    by (auto simp: busy_def)
  with assms have "marker db u = Some c"
    by (auto simp: store_inv_def dest: call_ownedD)
  then show "db (userActiveCallKey u) \<noteq> None"
    by (rule marker_present)
qed (use assms in \<open>auto simp: store_inv_def\<close>)

lemma call_owned_no_calls: "call_at db = Map.empty \<Longrightarrow> call_owned db"
  by (simp add: call_owned_def)

lemma store_inv_empty [simp]: "store_inv Map.empty"
  by (simp add: store_inv_def call_owned_def call_at_def)

subsection \<open>Effect of the store's writes on ownership\<close>

definition created :: "CallSession \<Rightarrow> keyspace \<Rightarrow> keyspace" where
  "created s db = (db(sessionKey (cs_CallID s) \<mapsto> (RStr (PJson (marshal_CallSession s)), Some day_ttl)))
     (userActiveCallKey (cs_CallerID s) \<mapsto> (RStr (PText (cs_CallID s)), Some day_ttl),
      userActiveCallKey (cs_CalleeID s) \<mapsto> (RStr (PText (cs_CallID s)), Some day_ttl))"

definition stored :: "string \<Rightarrow> CallSession \<Rightarrow> keyspace \<Rightarrow> keyspace" where
  "stored c s db = db(sessionKey c \<mapsto> (RStr (PJson (marshal_CallSession s)), Some day_ttl))"

definition released :: "CallSession \<Rightarrow> keyspace \<Rightarrow> keyspace" where
  "released s db = db(userActiveCallKey (cs_CallerID s) := None, userActiveCallKey (cs_CalleeID s) := None)"

definition ended :: "time \<Rightarrow> string \<Rightarrow> CallSession \<Rightarrow> CallSession" where
  "ended t reason s = s\<lparr>cs_State := StateEnded, cs_EndedAt := t, cs_EndReason := reason\<rparr>"

lemma call_at_created [simp]: "call_at (created s db) = (call_at db)(cs_CallID s \<mapsto> s)"
  by (simp add: created_def)

lemma call_at_stored [simp]: "call_at (stored c s db) = (call_at db)(c \<mapsto> s)"
  by (simp add: stored_def)

lemma call_at_released [simp]: "call_at (released s db) = call_at db"
  by (simp add: released_def)

lemma marker_created [simp]:
  "marker (created s db) = (marker db)(cs_CallerID s \<mapsto> cs_CallID s, cs_CalleeID s \<mapsto> cs_CallID s)"
  by (simp add: created_def)

lemma marker_stored [simp]: "marker (stored c s db) = marker db"
  by (simp add: stored_def)

lemma marker_released [simp]:
  "marker (released s db) = (marker db)(cs_CallerID s := None, cs_CalleeID s := None)"
  by (simp add: released_def)

lemma user_key_created: "created s db (userActiveCallKey u) \<noteq> None \<longleftrightarrow> party s u \<or> db (userActiveCallKey u) \<noteq> None"
  by (auto simp: created_def party_def)

lemma user_key_stored [simp]: "stored c s db (userActiveCallKey u) = db (userActiveCallKey u)"
  by (simp add: stored_def)

lemma user_key_released: "released s db (userActiveCallKey u) = (if party s u then None else db (userActiveCallKey u))"
  by (auto simp: released_def party_def)

lemma call_owned_created:
  assumes "call_owned db"
    and "\<forall>u. party s u \<longrightarrow> db (userActiveCallKey u) = None"
  shows "call_owned (created s db)"
proof -
  have free: "marker db (cs_CallerID s) = None" "marker db (cs_CalleeID s) = None"
    using assms(2) by (auto simp: marker_def party_def)
  show ?thesis
    unfolding call_owned_def
  proof (intro allI impI)
    fix c s' u
    assume h: "call_at (created s db) c = Some s'" "live s'" "party s' u"
    show "marker (created s db) u = Some c"
    proof (cases "c = cs_CallID s")
      case True
      with h show ?thesis by (auto simp: party_def)
    next
      case False
      with h assms(1) have "marker db u = Some c"
        by (auto dest: call_ownedD)
      with free show ?thesis by auto
    qed
  qed
qed

lemma call_owned_stored:
  assumes "call_owned db" "call_at db c = Some s" "live s"
    and "\<And>u. party s' u \<Longrightarrow> party s u"
  shows "call_owned (stored c s' db)"
  using assms unfolding call_owned_def by auto

lemma call_owned_released:
  assumes own: "call_owned db" and c: "call_at db c = Some s" "\<not> live s"
    and m: "\<And>u. party s u \<Longrightarrow> marker db u = Some c"
  shows "call_owned (released s db)"
  unfolding call_owned_def
proof (intro allI impI)
  fix d s' u
  assume h: "call_at (released s db) d = Some s'" "live s'" "party s' u"
  then have md: "marker db u = Some d" using own by (auto dest: call_ownedD)
  moreover have "d \<noteq> c" using h c by auto
  ultimately have "\<not> party s u" using m by auto
  with md show "marker (released s db) u = Some d" by (auto simp: party_def)
qed

section \<open>Effect of each operation, whatever the connection does\<close>

definition keeps_parties :: "'w mutator \<Rightarrow> bool" where
  "keeps_parties f \<longleftrightarrow> (\<forall>s w. cs_CallID (fst (f s w)) = cs_CallID s \<and> cs_CallerID (fst (f s w)) = cs_CallerID s \<and>
     cs_CalleeID (fst (f s w)) = cs_CalleeID s \<and> cs_State (fst (f s w)) = cs_State s)"

lemma keeps_parties_no_mutate [simp]: "keeps_parties no_mutate"
  by (simp add: keeps_parties_def no_mutate_def)

lemma keeps_parties_end [simp]: "keeps_parties (end_mutate E reason)"
  by (simp add: keeps_parties_def end_mutate_def split_beta Let_def)

lemma exec_create [simp]: "exec_db [CSet (sessionKey (cs_CallID s)) (PJson (marshal_CallSession s)) day_ttl,
     CSet (userActiveCallKey (cs_CallerID s)) (PText (cs_CallID s)) day_ttl,
     CSet (userActiveCallKey (cs_CalleeID s)) (PText (cs_CallID s)) day_ttl] db = created s db"
  by (simp add: created_def)

lemma decode_at: "call_at db c = Some s \<Longrightarrow> get_res (db (sessionKey c)) = Inr (PJson (marshal_CallSession s))"
  by (drule call_at_SomeD) auto

context services
begin

lemma checkFree_view [svc_simps]: "view (snd (SessionStore_checkFree E uids w)) = view w"
  by (induction uids arbitrary: w)
     (auto simp: svc_simps Let_def split_beta split: sum.splits)

lemma checkFree_ok:
  "fst (SessionStore_checkFree E uids w) = Inr () \<Longrightarrow> u \<in> set uids \<Longrightarrow> view w (userActiveCallKey u) = None"
proof (induction uids arbitrary: w)
  case (Cons a uids)
  from Cons.prems Cons.IH [of "snd (r_exists E (userActiveCallKey a) w)"] show ?case
    by (auto simp: svc_simps Let_def split_beta split: sum.splits if_splits)
qed simp

lemma checkFree_busy:
  "fst (SessionStore_checkFree E uids w) = Inl ErrUserBusy \<Longrightarrow> \<exists>u\<in>set uids. view w (userActiveCallKey u) \<noteq> None"
proof (induction uids arbitrary: w)
  case (Cons a uids)
  from Cons.prems Cons.IH [of "snd (r_exists E (userActiveCallKey a) w)"] show ?case
    by (auto simp: svc_simps Let_def split_beta store_errs split: sum.splits if_splits)
qed simp

lemma checkFree_calm:
  "calm w \<Longrightarrow> fst (SessionStore_checkFree E uids w) =
     (if \<exists>u\<in>set uids. view w (userActiveCallKey u) \<noteq> None then Inl ErrUserBusy else Inr ())
   \<and> calm (snd (SessionStore_checkFree E uids w))"
proof (induction uids arbitrary: w)
  case (Cons a uids)
  from Cons.prems Cons.IH [of "snd (r_exists E (userActiveCallKey a) w)"] show ?case
    by (auto simp: svc_simps Let_def split_beta split: sum.splits if_splits)
qed simp

lemma Create_cases:
  "view (snd (SessionStore_Create E s w)) = view w \<and> fst (SessionStore_Create E s w) \<noteq> Inr () \<or>
   view (snd (SessionStore_Create E s w)) = created s (view w) \<and>
     (\<forall>u. party s u \<longrightarrow> view w (userActiveCallKey u) = None)"
  using checkFree_ok [of "[cs_CallerID s, cs_CalleeID s]" w]
  by (auto simp: SessionStore_Create_def svc_simps Let_def split_beta party_def
        simp del: SessionStore_checkFree.simps exec_db.simps split: sum.splits)

lemma Get_view [svc_simps]: "view (snd (SessionStore_Get E c w)) = view w"
  by (simp add: SessionStore_Get_def svc_simps Let_def split_beta split: sum.splits)

lemma Get_ok:
  assumes "call_at (view w) c = Some s"
  shows "fst (SessionStore_Get E c w) = Inr s \<or> (\<exists>m. fst (SessionStore_Get E c w) = Inl (Wrap ''get session'' (Errorf m)))"
  using decode_at [OF assms]
  by (cases "fate w") (auto simp: SessionStore_Get_def svc_simps Let_def split_beta)

lemma TransitionState_cases:
  assumes c: "call_at (view w) c = Some s"
    and mv: "\<And>x v. view (snd (f x v)) = view v"
  shows "view (snd (SessionStore_TransitionState E c tgt f w)) = view w \<and>
           fst (SessionStore_TransitionState E c tgt f w) \<noteq> Inr () \<or>
         (\<exists>v. edge (cs_State s) tgt \<and>
           view (snd (SessionStore_TransitionState E c tgt f w)) =
             stored c (fst (f (s\<lparr>cs_State := tgt\<rparr>) v)) (view w))"
proof (cases "fst (r_get E (sessionKey c) w)")
  case (Inl e)
  then show ?thesis
    by (simp add: SessionStore_TransitionState_def svc_simps Let_def split_beta)
next
  case (Inr p)
  then have p: "p = PJson (marshal_CallSession s)"
    using decode_at [OF c] by (simp add: svc_simps)
  have ed: "fst (Transition (NewStateMachineFrom (cs_State s)) tgt) = Inr () \<longleftrightarrow> edge (cs_State s) tgt"
    by (simp add: Transition_ok_iff NewStateMachineFrom_def)
  show ?thesis
  proof (cases "edge (cs_State s) tgt")
    case True
    then show ?thesis
      using Inr p ed
      by (auto simp: SessionStore_TransitionState_def svc_simps Let_def split_beta mv stored_def
            split: sum.splits if_splits)
  next
    case False
    with ed obtain e where "fst (Transition (NewStateMachineFrom (cs_State s)) tgt) = Inl e"
      by (cases "fst (Transition (NewStateMachineFrom (cs_State s)) tgt)") auto
    then show ?thesis
      using Inr p by (simp add: SessionStore_TransitionState_def view_laws Let_def split_beta)
  qed
qed

lemma end_mutate_ended: "\<exists>t>0. fst (end_mutate E reason (s\<lparr>cs_State := StateEnded\<rparr>) v) = ended t reason s"
  using now_pos by (auto simp: end_mutate_def ended_def split_beta Let_def)

lemma end_mutate_view [svc_simps]: "view (snd (end_mutate E reason s v)) = view v"
  by (simp add: end_mutate_def split_beta Let_def svc_simps)

lemma End_cases:
  assumes c: "call_at (view w) c = Some s"
  shows "view (snd (SessionStore_End E c reason w)) = view w \<and> fst (SessionStore_End E c reason w) \<noteq> Inr () \<or>
    (\<exists>t>0. edge (cs_State s) StateEnded \<and>
       (view (snd (SessionStore_End E c reason w)) = stored c (ended t reason s) (view w) \<and>
          fst (SessionStore_End E c reason w) \<noteq> Inr () \<or>
        view (snd (SessionStore_End E c reason w)) = released s (stored c (ended t reason s) (view w))))"
proof (cases "fst (SessionStore_Get E c w)")
  case (Inl e)
  then show ?thesis by (simp add: SessionStore_End_def svc_simps Let_def split_beta)
next
  case (Inr s')
  with Get_ok [OF c] have s': "s' = s" by auto
  let ?w1 = "snd (SessionStore_Get E c w)"
  let ?T = "SessionStore_TransitionState E c StateEnded (end_mutate E reason) ?w1"
  have v1: "view ?w1 = view w" by (simp add: svc_simps)
  with c have c1: "call_at (view ?w1) c = Some s" by simp
  have mv: "view (snd (end_mutate E reason x v)) = view v" for x v by (rule end_mutate_view)
  note T = TransitionState_cases [OF c1, where f = "end_mutate E reason" and tgt = StateEnded, OF mv]
  show ?thesis
  proof (cases "fst ?T")
    case (Inl e)
    then have eq: "SessionStore_End E c reason w = (Inl e, snd ?T)"
      using Inr s' by (simp add: SessionStore_End_def Let_def split_beta)
    from T consider "view (snd ?T) = view w"
      | v where "edge (cs_State s) StateEnded"
          "view (snd ?T) = stored c (fst (end_mutate E reason (s\<lparr>cs_State := StateEnded\<rparr>) v)) (view w)"
      using v1 by auto
    then show ?thesis
      by cases (use eq end_mutate_ended [of reason s] in \<open>(simp; fail) | metis fst_conv snd_conv Inl_Inr_False\<close>)+
  next
    case (Inr u)
    with T v1 obtain v where ed: "edge (cs_State s) StateEnded"
      and vT: "view (snd ?T) = stored c (fst (end_mutate E reason (s\<lparr>cs_State := StateEnded\<rparr>) v)) (view w)"
      by auto
    from end_mutate_ended obtain t where t: "0 < t"
      "fst (end_mutate E reason (s\<lparr>cs_State := StateEnded\<rparr>) v) = ended t reason s" by blast
    have "SessionStore_End E c reason w = r_exec E [CDel (userActiveCallKey (cs_CallerID s)),
            CDel (userActiveCallKey (cs_CalleeID s))] (snd ?T)"
      using \<open>fst (SessionStore_Get E c w) = Inr s'\<close> s' Inr
      by (simp add: SessionStore_End_def Let_def split_beta)
    with ed vT t show ?thesis
      by (cases "fate (snd ?T)") (auto simp: svc_simps released_def)
  qed
qed

lemma Delete_cases:
  assumes c: "call_at (view w) c = Some s"
  shows "view (snd (SessionStore_Delete E c w)) = view w \<or>
         view (snd (SessionStore_Delete E c w)) = released s ((view w)(sessionKey c := None))"
  using Get_ok [OF c]
  by (auto simp: SessionStore_Delete_def Let_def split_beta svc_simps released_def)

lemma End_absent:
  "view w (sessionKey c) = None \<Longrightarrow> view (snd (SessionStore_End E c reason w)) = view w"
  by (cases "fate w") (simp_all add: SessionStore_End_def SessionStore_Get_def Let_def split_beta svc_simps)

lemma TransitionState_absent:
  "view w (sessionKey c) = None \<Longrightarrow> view (snd (SessionStore_TransitionState E c tgt f w)) = view w"
  by (cases "fate w") (simp_all add: SessionStore_TransitionState_def Let_def split_beta svc_simps)

end

section \<open>Runs of the store\<close>

text \<open>
  The steps other components take on the store: creating a call under a new identifier, the
  transitions the hub requests, ending a call, and deleting a live one (orphan recovery).  Any of
  them may fail half way through.
\<close>

inductive store_step :: "('w, 'z) env_scheme \<Rightarrow> ('w \<Rightarrow> keyspace) \<Rightarrow> 'w \<Rightarrow> 'w \<Rightarrow> bool"
  for E :: "('w, 'z) env_scheme" and view :: "'w \<Rightarrow> keyspace" where
  create: "view w (sessionKey (cs_CallID s)) = None \<Longrightarrow>
     store_step E view w (snd (SessionStore_Create E s w))"
| transition: "tgt \<in> {StateConnecting, StateActive, StateReconnecting} \<Longrightarrow> keeps_parties f \<Longrightarrow>
     (\<And>x v. view (snd (f x v)) = view v) \<Longrightarrow>
     store_step E view w (snd (SessionStore_TransitionState E c tgt f w))"
| finish: "store_step E view w (snd (SessionStore_End E c reason w))"
| delete: "call_at (view w) c = Some s \<Longrightarrow> live s \<Longrightarrow>
     store_step E view w (snd (SessionStore_Delete E c w))"
| read: "store_step E view w (snd (SessionStore_Get E c w))"

inductive store_run :: "('w, 'z) env_scheme \<Rightarrow> ('w \<Rightarrow> keyspace) \<Rightarrow> 'w \<Rightarrow> 'w \<Rightarrow> bool"
  for E :: "('w, 'z) env_scheme" and view :: "'w \<Rightarrow> keyspace" where
  start: "store_run E view w w"
| more: "store_run E view w v \<Longrightarrow> store_step E view v v' \<Longrightarrow> store_run E view w v'"

definition only_calls :: "keyspace \<Rightarrow> bool" where
  "only_calls db \<longleftrightarrow> (\<forall>c. db (sessionKey c) \<noteq> None \<longrightarrow> call_at db c \<noteq> None)"

definition run_inv :: "keyspace \<Rightarrow> bool" where
  "run_inv db \<longleftrightarrow> only_calls db \<and> call_owned db"

lemma only_calls_updates [simp]:
  "only_calls db \<Longrightarrow> only_calls (created s db)"
  "only_calls db \<Longrightarrow> only_calls (stored c s db)"
  "only_calls db \<Longrightarrow> only_calls (released s db)"
  "only_calls db \<Longrightarrow> only_calls (db(sessionKey c := None))"
  by (auto simp: only_calls_def created_def stored_def released_def split: if_splits)

lemma only_callsD: "only_calls db \<Longrightarrow> call_at db c = None \<Longrightarrow> db (sessionKey c) = None"
  unfolding only_calls_def by blast

lemma edge_source_live:
  "edge st tgt \<Longrightarrow> tgt \<in> {StateConnecting, StateActive, StateReconnecting, StateEnded} \<Longrightarrow>
   st \<noteq> StateEnded \<and> st \<noteq> StateCleanup"
  by (auto simp: edge.simps)

lemma party_mutated:
  "keeps_parties f \<Longrightarrow> party (fst (f (s\<lparr>cs_State := tgt\<rparr>) v)) u \<longleftrightarrow> party s u"
  by (simp add: keeps_parties_def party_def)

lemma party_ended [simp]: "party (ended t r s) = party s"
  by (rule ext) (simp add: party_def ended_def)

lemma live_ended [simp]: "\<not> live (ended t r s)"
  by (simp add: live_def ended_def)

lemma run_inv_ended:
  assumes inv: "run_inv db" and c: "call_at db c = Some s" and ed: "edge (cs_State s) StateEnded"
  shows "run_inv (stored c (ended t r s) db)" and "run_inv (released s (stored c (ended t r s) db))"
proof -
  have l: "live s" using edge_source_live [OF ed] by (simp add: live_def)
  from inv c l have own: "call_owned (stored c (ended t r s) db)"
    by (auto simp: run_inv_def intro: call_owned_stored)
  with inv show "run_inv (stored c (ended t r s) db)" by (simp add: run_inv_def)
  have "released s = released (ended t r s)"
    by (rule ext) (simp add: released_def ended_def)
  moreover have "call_owned (released (ended t r s) (stored c (ended t r s) db))"
    by (rule call_owned_released [OF own, of c])
       (use inv c l in \<open>auto simp: run_inv_def dest: call_ownedD\<close>)
  ultimately show "run_inv (released s (stored c (ended t r s) db))"
    using inv by (simp add: run_inv_def)
qed

lemma run_inv_deleted:
  assumes inv: "run_inv db" and c: "call_at db c = Some s" and l: "live s"
  shows "run_inv (released s (db(sessionKey c := None)))"
proof -
  have m: "marker db u = Some c" if "party s u" for u
    using inv c l that by (auto simp: run_inv_def dest: call_ownedD)
  have "call_owned (released s (db(sessionKey c := None)))"
    unfolding call_owned_def
  proof (intro allI impI)
    fix d s' u
    assume "call_at (released s (db(sessionKey c := None))) d = Some s'" "live s'" "party s' u"
    then have "d \<noteq> c" and "marker db u = Some d"
      using inv by (auto simp: run_inv_def split: if_splits dest: call_ownedD)
    with m show "marker (released s (db(sessionKey c := None))) u = Some d"
      by (auto simp: party_def)
  qed
  with inv show ?thesis by (simp add: run_inv_def)
qed

context services
begin

lemma store_step_inv:
  assumes "store_step E view w w'" and inv: "run_inv (view w)"
  shows "run_inv (view w')"
  using assms(1)
proof cases
  case (create s)
  with Create_cases [of s w] inv show ?thesis
    by (auto simp: run_inv_def intro: call_owned_created)
next
  case (transition tgt f c)
  show ?thesis
  proof (cases "call_at (view w) c")
    case None
    with inv have "view w (sessionKey c) = None" by (auto simp: run_inv_def dest: only_callsD)
    with transition(1) inv show ?thesis by (simp add: TransitionState_absent)
  next
    case (Some s)
    from TransitionState_cases [OF Some, where f = f and tgt = tgt, OF transition(4)] transition(1)
    consider "view w' = view w" | v where "edge (cs_State s) tgt"
      "view w' = stored c (fst (f (s\<lparr>cs_State := tgt\<rparr>) v)) (view w)" by auto
    then show ?thesis
    proof cases
      case 2
      then have "live s" using edge_source_live [OF 2(1)] transition(2) by (auto simp: live_def)
      with 2 Some inv transition(3) show ?thesis
        by (auto simp: run_inv_def party_mutated intro: call_owned_stored)
    qed (use inv in simp)
  qed
next
  case (finish c reason)
  show ?thesis
  proof (cases "call_at (view w) c")
    case None
    with inv have "view w (sessionKey c) = None" by (auto simp: run_inv_def dest: only_callsD)
    with finish inv show ?thesis by (simp add: End_absent)
  next
    case (Some s)
    from End_cases [OF Some, of reason] finish inv run_inv_ended [OF inv Some] show ?thesis
      by auto
  qed
next
  case (delete c s)
  with Delete_cases [OF delete(2)] inv run_inv_deleted [OF inv delete(2,3)] show ?thesis by auto
next
  case (read c)
  with inv show ?thesis by (simp add: svc_simps)
qed

lemma store_run_inv: "store_run E view w w' \<Longrightarrow> run_inv (view w) \<Longrightarrow> run_inv (view w')"
  by (induction rule: store_run.induct) (auto dest: store_step_inv)

end


text \<open>A run with one call created and then ended while the reply to the key deletion is lost.\<close>

definition sample_call :: CallSession where
  "sample_call = \<lparr>cs_CallID = ''c1'', cs_CallerID = ''alice'', cs_CalleeID = ''bob'', cs_CallType = ''audio'',
     cs_State = StateRinging, cs_SDPOffer = ''v=0 o=- 0 0'', cs_SDPAnswer = [], cs_StartedAt = 5,
     cs_AnsweredAt = zero_time, cs_EndedAt = zero_time, cs_EndReason = []\<rparr>"

lemma store_run_sample:
  "store_run mem_env w_db world0 (snd (SessionStore_Create mem_env sample_call world0))"
  by (rule store_run.more [OF store_run.start store_step.create]) (simp add: world0_def)

lemma Create_sample: "w_db (snd (SessionStore_Create mem_env sample_call world0)) = created sample_call Map.empty"
  using mem.checkFree_calm [of world0 "[cs_CallerID sample_call, cs_CalleeID sample_call]"]
  by (simp add: SessionStore_Create_def svc_simps Let_def split_beta mem_calm_def world0_def
        mem_fate_def mem_env_def created_def)


section \<open>Refinement of the abstract registry\<close>

text \<open>The contract in terms of calls only: a call can be created when neither party is in a live
  call, and ending a call frees both.\<close>

definition reg_create ::
  "(string \<Rightarrow> CallSession option) \<Rightarrow> CallSession \<Rightarrow> unit result \<times> (string \<Rightarrow> CallSession option)" where
  "reg_create reg s = (if busy reg (cs_CallerID s) \<or> busy reg (cs_CalleeID s) then (Inl ErrUserBusy, reg)
     else (Inr (), reg(cs_CallID s \<mapsto> s)))"

lemma store_inv_created:
  assumes inv: "store_inv db" and fresh: "call_at db (cs_CallID s) = None" and l: "live s"
    and free: "\<forall>u. party s u \<longrightarrow> db (userActiveCallKey u) = None"
  shows "store_inv (created s db)"
proof -
  have "busy (call_at (created s db)) u" if "created s db (userActiveCallKey u) \<noteq> None" for u
  proof (cases "party s u")
    case True
    with l show ?thesis by (auto simp: busy_def)
  next
    case False
    with that have "db (userActiveCallKey u) \<noteq> None" by (simp only: user_key_created simp_thms)
    then have "busy (call_at db) u" using store_inv_busy_iff [OF inv] by blast
    then obtain c s' where "call_at db c = Some s'" "live s'" "party s' u" by (auto simp: busy_def)
    moreover from this fresh have "c \<noteq> cs_CallID s" by auto
    ultimately show ?thesis by (auto simp: busy_def)
  qed
  with inv free show ?thesis by (simp add: store_inv_def call_owned_created)
qed

lemma store_inv_ended:
  assumes inv: "store_inv db" and c: "call_at db c = Some s" and ed: "edge (cs_State s) StateEnded"
  shows "store_inv (released s (stored c (ended t r s) db))"
proof -
  have l: "live s" using edge_source_live [OF ed] by (simp add: live_def)
  let ?db = "released s (stored c (ended t r s) db)"
  have "busy (call_at ?db) u" if "?db (userActiveCallKey u) \<noteq> None" for u
  proof -
    from that inv have np: "\<not> party s u" and "busy (call_at db) u"
      by (auto simp: user_key_released store_inv_def split: if_splits)
    then obtain d s' where "call_at db d = Some s'" "live s'" "party s' u" by (auto simp: busy_def)
    moreover from this np c have "d \<noteq> c" by auto
    ultimately show ?thesis by (auto simp: busy_def)
  qed
  moreover have "call_owned ?db"
  proof -
    have own: "call_owned (stored c (ended t r s) db)"
      using inv c l by (auto simp: store_inv_def intro: call_owned_stored)
    have "call_owned (released (ended t r s) (stored c (ended t r s) db))"
      by (rule call_owned_released [OF own, of c])
         (use inv c l in \<open>auto simp: store_inv_def dest: call_ownedD\<close>)
    then show ?thesis by (simp add: released_def ended_def)
  qed
  ultimately show ?thesis by (simp add: store_inv_def)
qed

context services
begin

lemma Create_calm:
  assumes "calm w" and inv: "store_inv (view w)"
  shows "fst (SessionStore_Create E s w) = fst (reg_create (call_at (view w)) s)"
    and "view (snd (SessionStore_Create E s w)) =
           (if busy (call_at (view w)) (cs_CallerID s) \<or> busy (call_at (view w)) (cs_CalleeID s)
            then view w else created s (view w))"
proof -
  have b: "view w (userActiveCallKey u) \<noteq> None \<longleftrightarrow> busy (call_at (view w)) u" for u
    by (rule store_inv_busy_iff [OF inv])
  let ?cf = "SessionStore_checkFree E [cs_CallerID s, cs_CalleeID s] w"
  have cf: "fst ?cf = (if busy (call_at (view w)) (cs_CallerID s) \<or> busy (call_at (view w)) (cs_CalleeID s)
      then Inl ErrUserBusy else Inr ())" and cm: "calm (snd ?cf)"
    using checkFree_calm [OF assms(1), of "[cs_CallerID s, cs_CalleeID s]"] b
    by (auto simp del: SessionStore_checkFree.simps)
  show "fst (SessionStore_Create E s w) = fst (reg_create (call_at (view w)) s)"
    using cf cm by (simp add: SessionStore_Create_def reg_create_def Let_def split_beta svc_simps
        del: SessionStore_checkFree.simps)
  show "view (snd (SessionStore_Create E s w)) =
           (if busy (call_at (view w)) (cs_CallerID s) \<or> busy (call_at (view w)) (cs_CalleeID s)
            then view w else created s (view w))"
    using cf cm by (simp add: SessionStore_Create_def Let_def split_beta svc_simps
        del: SessionStore_checkFree.simps exec_db.simps)
qed

lemma Get_calm: "calm w \<Longrightarrow> call_at (view w) c = Some s \<Longrightarrow> fst (SessionStore_Get E c w) = Inr s"
  using decode_at [of "view w" c s] by (simp add: SessionStore_Get_def Let_def split_beta svc_simps)

lemma Get_calm_calm [svc_simps]: "calm w \<Longrightarrow> calm (snd (SessionStore_Get E c w))"
  by (simp add: SessionStore_Get_def Let_def split_beta svc_simps split: sum.splits)

lemma end_mutate_calm [svc_simps]: "calm w \<Longrightarrow> calm (snd (end_mutate E r s w))"
  by (simp add: end_mutate_def Let_def split_beta svc_simps)

lemma TransitionState_calm:
  assumes "calm w" and c: "call_at (view w) c = Some s"
    and f: "\<And>x v. view (snd (f x v)) = view v" "\<And>x v. calm v \<Longrightarrow> calm (snd (f x v))"
  shows "calm (snd (SessionStore_TransitionState E c tgt f w))"
    and "edge (cs_State s) tgt \<Longrightarrow> fst (SessionStore_TransitionState E c tgt f w) = Inr ()"
    and "\<not> edge (cs_State s) tgt \<Longrightarrow> fst (SessionStore_TransitionState E c tgt f w) \<noteq> Inr () \<and>
           view (snd (SessionStore_TransitionState E c tgt f w)) = view w"
proof -
  have ed: "fst (Transition (NewStateMachineFrom (cs_State s)) tgt) = Inr () \<longleftrightarrow> edge (cs_State s) tgt"
    by (simp add: Transition_ok_iff NewStateMachineFrom_def)
  note d = SessionStore_TransitionState_def Let_def split_beta svc_simps decode_at [OF c] f assms(1)
  show "calm (snd (SessionStore_TransitionState E c tgt f w))"
    by (simp add: d split: sum.splits)
  show "fst (SessionStore_TransitionState E c tgt f w) = Inr ()" if "edge (cs_State s) tgt"
    using ed that by (simp add: d)
  show "fst (SessionStore_TransitionState E c tgt f w) \<noteq> Inr () \<and>
      view (snd (SessionStore_TransitionState E c tgt f w)) = view w" if "\<not> edge (cs_State s) tgt"
    using ed that by (simp add: d split: sum.splits)
qed

lemma Create_keeps_calm: "calm w \<Longrightarrow> calm (snd (SessionStore_Create E s w))"
  by (simp add: SessionStore_Create_def Let_def split_beta svc_simps split: sum.splits)

lemma End_keeps_calm: "calm w \<Longrightarrow> calm (snd (SessionStore_End E c reason w))"
  by (simp add: SessionStore_End_def SessionStore_TransitionState_def SessionStore_Get_def Let_def
      split_beta svc_simps split: sum.splits)

lemma End_calm:
  assumes "calm w" and c: "call_at (view w) c = Some s"
  shows "edge (cs_State s) StateEnded \<Longrightarrow> fst (SessionStore_End E c reason w) = Inr () \<and>
           (\<exists>t>0. view (snd (SessionStore_End E c reason w)) = released s (stored c (ended t reason s) (view w)))"
    and "\<not> edge (cs_State s) StateEnded \<Longrightarrow> fst (SessionStore_End E c reason w) \<noteq> Inr () \<and>
           view (snd (SessionStore_End E c reason w)) = view w"
proof -
  let ?w1 = "snd (SessionStore_Get E c w)"
  have g: "fst (SessionStore_Get E c w) = Inr s" by (rule Get_calm [OF assms])
  have c1: "calm ?w1" "call_at (view ?w1) c = Some s" using assms by (simp_all add: svc_simps)
  note T = TransitionState_calm [OF c1, where f = "end_mutate E reason" and tgt = StateEnded,
      OF end_mutate_view end_mutate_calm, simplified]
  have ok: "fst (SessionStore_End E c reason w) = Inr ()" if "edge (cs_State s) StateEnded"
    using g T(1) T(2) [OF that] by (simp add: SessionStore_End_def Let_def split_beta svc_simps)
  then show "fst (SessionStore_End E c reason w) = Inr () \<and>
      (\<exists>t>0. view (snd (SessionStore_End E c reason w)) = released s (stored c (ended t reason s) (view w)))"
    if "edge (cs_State s) StateEnded"
    using that End_cases [OF c, of reason] by auto
  show "fst (SessionStore_End E c reason w) \<noteq> Inr () \<and> view (snd (SessionStore_End E c reason w)) = view w"
    if "\<not> edge (cs_State s) StateEnded"
    using that End_cases [OF c, of reason] by auto
qed

end

text \<open>C2: in a calm run \<open>Create\<close> refines the abstract registry: it answers
  \<open>ErrUserBusy\<close> exactly when one of the parties is in a live call, otherwise the registry gains
  exactly this call; the keyspace invariant, by which the active-call keys mean "busy", is kept.\<close>

theorem Create_refines_registry:
  assumes svc: "services E view fate published calm" and calm: "calm w"
    and inv: "store_inv (view w)" and fresh: "call_at (view w) (cs_CallID s) = None" and l: "live s"
  shows "(fst (SessionStore_Create E s w), call_at (view (snd (SessionStore_Create E s w)))) =
           reg_create (call_at (view w)) s \<and> store_inv (view (snd (SessionStore_Create E s w)))"
proof -
  note C = services.Create_calm [OF svc calm inv]
  show ?thesis
  proof (cases "busy (call_at (view w)) (cs_CallerID s) \<or> busy (call_at (view w)) (cs_CalleeID s)")
    case True
    with C(1) [of s] C(2) [of s] inv show ?thesis by (simp add: reg_create_def)
  next
    case False
    then have "view w (userActiveCallKey u) = None" if "party s u" for u
      using that store_inv_busy_iff [OF inv, of u] unfolding party_def by blast
    then have "store_inv (created s (view w))"
      using store_inv_created [OF inv fresh l] by blast
    with False C(1) [of s] C(2) [of s] show ?thesis by (simp add: reg_create_def)
  qed
qed

theorem Create_refines_registry_witness:
  "mem_calm world0 \<and> store_inv (w_db (snd (SessionStore_Create mem_env sample_call world0))) \<and>
   fst (SessionStore_Create mem_env sample_call world0) = Inr ()"
proof -
  have a: "mem_calm world0" "store_inv (w_db world0)" "call_at (w_db world0) (cs_CallID sample_call) = None"
    "live sample_call"
    by (simp_all add: mem_calm_def world0_def call_at_def live_def sample_call_def)
  have "\<not> busy (call_at (w_db world0)) u" for u
    by (simp add: busy_def call_at_def world0_def)
  with Create_refines_registry [OF mem.services_axioms a] a(1) show ?thesis
    by (simp add: reg_create_def)
qed

text \<open>C3: in a calm run \<open>End\<close> succeeds on exactly the calls that may end; the call is then
  recorded as ENDED with its reason and a time stamp, no other call changes, and both parties are
  free: a new call between any of them is no longer refused.\<close>

theorem End_frees_parties:
  assumes svc: "services E view fate published calm" and calm: "calm w"
    and inv: "store_inv (view w)" and c: "call_at (view w) c = Some s"
    and ed: "edge (cs_State s) StateEnded"
  shows "fst (SessionStore_End E c reason w) = Inr () \<and>
     (\<exists>t>0. call_at (view (snd (SessionStore_End E c reason w))) =
        (call_at (view w))(c \<mapsto> s\<lparr>cs_State := StateEnded, cs_EndedAt := t, cs_EndReason := reason\<rparr>)) \<and>
     store_inv (view (snd (SessionStore_End E c reason w))) \<and>
     \<not> busy (call_at (view (snd (SessionStore_End E c reason w)))) (cs_CallerID s) \<and>
     \<not> busy (call_at (view (snd (SessionStore_End E c reason w)))) (cs_CalleeID s)"
proof -
  from services.End_calm(1) [OF svc calm c ed] obtain t where ok: "fst (SessionStore_End E c reason w) = Inr ()"
    and t: "0 < t" and v: "view (snd (SessionStore_End E c reason w)) = released s (stored c (ended t reason s) (view w))"
    by blast
  have inv': "store_inv (view (snd (SessionStore_End E c reason w)))"
    unfolding v by (rule store_inv_ended [OF inv c ed])
  have "view (snd (SessionStore_End E c reason w)) (userActiveCallKey u) = None" if "party s u" for u
    using that by (simp add: v user_key_released)
  then have "\<not> busy (call_at (view (snd (SessionStore_End E c reason w)))) u" if "party s u" for u
    using that store_inv_busy_iff [OF inv', of u] by metis
  moreover have "party s (cs_CallerID s)" "party s (cs_CalleeID s)" by (simp_all add: party_def)
  ultimately show ?thesis using ok t inv' v by (auto simp: ended_def)
qed

theorem End_frees_parties_witness:
  "\<exists>w :: world. fst (SessionStore_End mem_env ''c1'' ''normal'' w) = Inr () \<and>
     \<not> busy (call_at (w_db (snd (SessionStore_End mem_env ''c1'' ''normal'' w)))) ''alice''"
proof -
  let ?w = "world0\<lparr>w_db := created sample_call Map.empty\<rparr>"
  have a: "mem_calm ?w" by (simp add: mem_calm_def world0_def)
  have i: "store_inv (w_db ?w)"
    using store_inv_created [OF store_inv_empty, of sample_call]
    by (simp add: call_at_def sample_call_def live_def)
  have c: "call_at (w_db ?w) ''c1'' = Some sample_call"
    by simp (simp add: sample_call_def)
  have e: "edge (cs_State sample_call) StateEnded"
    by (simp add: sample_call_def edge.simps)
  have "cs_CallerID sample_call = ''alice''" by (simp add: sample_call_def)
  with End_frees_parties [OF mem.services_axioms a i c e, of "''normal''"] show ?thesis by auto
qed

end
