(* ===== verification/Messages.thy ===== *)
theory Messages
  imports Call_State Events
begin

text \<open>
  \<open>internal/signaling/message.go\<close>: the wire messages of the signaling protocol.  Incoming
  payloads are records decoded from JSON; outgoing payloads are one datatype, a constructor per
  struct, with its JSON form.
\<close>

section \<open>Message types and error codes\<close>

definition MsgCallInitiate :: string where "MsgCallInitiate = ''call_initiate''"
definition MsgCallAccept :: string where "MsgCallAccept = ''call_accept''"
definition MsgCallReject :: string where "MsgCallReject = ''call_reject''"
definition MsgCallEnd :: string where "MsgCallEnd = ''call_end''"
definition MsgCallCancel :: string where "MsgCallCancel = ''call_cancel''"
definition MsgICECandidate :: string where "MsgICECandidate = ''ice_candidate''"
definition MsgQualityMetrics :: string where "MsgQualityMetrics = ''quality_metrics''"
definition MsgPing :: string where "MsgPing = ''ping''"
definition MsgReconnect :: string where "MsgReconnect = ''reconnect''"
definition MsgRoomCreate :: string where "MsgRoomCreate = ''room_create''"
definition MsgRoomInvite :: string where "MsgRoomInvite = ''room_invite''"
definition MsgRoomJoin :: string where "MsgRoomJoin = ''room_join''"
definition MsgRoomLeave :: string where "MsgRoomLeave = ''room_leave''"
definition MsgRoomEndAll :: string where "MsgRoomEndAll = ''room_end_all''"
definition MsgMediaChange :: string where "MsgMediaChange = ''media_change''"
definition MsgIncomingCall :: string where "MsgIncomingCall = ''incoming_call''"
definition MsgCallAccepted :: string where "MsgCallAccepted = ''call_accepted''"
definition MsgCallRejected :: string where "MsgCallRejected = ''call_rejected''"
definition MsgCallEnded :: string where "MsgCallEnded = ''call_ended''"
definition MsgCallCancelled :: string where "MsgCallCancelled = ''call_cancelled''"
definition MsgError :: string where "MsgError = ''error''"
definition MsgPong :: string where "MsgPong = ''pong''"
definition MsgSessionResumed :: string where "MsgSessionResumed = ''session_resumed''"
definition MsgPeerReconnecting :: string where "MsgPeerReconnecting = ''peer_reconnecting''"
definition MsgPeerReconnected :: string where "MsgPeerReconnected = ''peer_reconnected''"
definition MsgCallGlare :: string where "MsgCallGlare = ''call_glare''"
definition MsgCallAcceptedElsewhere :: string where "MsgCallAcceptedElsewhere = ''call_accepted_elsewhere''"
definition MsgStateSync :: string where "MsgStateSync = ''state_sync''"
definition MsgRoomCreated :: string where "MsgRoomCreated = ''room_created''"
definition MsgRoomInvitation :: string where "MsgRoomInvitation = ''room_invitation''"
definition MsgRoomClosed :: string where "MsgRoomClosed = ''room_closed''"
definition MsgParticipantJoined :: string where "MsgParticipantJoined = ''participant_joined''"
definition MsgParticipantLeft :: string where "MsgParticipantLeft = ''participant_left''"
definition MsgParticipantMediaChanged :: string where "MsgParticipantMediaChanged = ''participant_media_changed''"
definition ErrCodeInvalidMessage :: string where "ErrCodeInvalidMessage = ''invalid_message''"
definition ErrCodeUnauthorized :: string where "ErrCodeUnauthorized = ''unauthorized''"
definition ErrCodeNotFound :: string where "ErrCodeNotFound = ''not_found''"
definition ErrCodeBusy :: string where "ErrCodeBusy = ''busy''"
definition ErrCodeTimeout :: string where "ErrCodeTimeout = ''timeout''"
definition ErrCodeRateLimit :: string where "ErrCodeRateLimit = ''rate_limited''"
definition ErrCodeInternal :: string where "ErrCodeInternal = ''internal_error''"
definition ErrCodeInvalidState :: string where "ErrCodeInvalidState = ''invalid_state''"
definition ErrCodeRoomFull :: string where "ErrCodeRoomFull = ''room_full''"
definition ErrCodeReconnectFailed :: string where "ErrCodeReconnectFailed = ''reconnect_failed''"
definition ErrCodeGlare :: string where "ErrCodeGlare = ''glare''"
definition ErrCodeCallCancelled :: string where "ErrCodeCallCancelled = ''call_cancelled''"
definition ErrCodeDuplicate :: string where "ErrCodeDuplicate = ''duplicate''"
definition ErrCodeInvalidSDP :: string where "ErrCodeInvalidSDP = ''invalid_sdp''"

lemmas msg_defs = MsgCallInitiate_def MsgCallAccept_def MsgCallReject_def MsgCallEnd_def
  MsgCallCancel_def MsgICECandidate_def MsgQualityMetrics_def MsgPing_def MsgReconnect_def
  MsgRoomCreate_def MsgRoomInvite_def MsgRoomJoin_def MsgRoomLeave_def MsgRoomEndAll_def
  MsgMediaChange_def MsgIncomingCall_def MsgCallAccepted_def MsgCallRejected_def
  MsgCallEnded_def MsgCallCancelled_def MsgError_def MsgPong_def MsgSessionResumed_def
  MsgPeerReconnecting_def MsgPeerReconnected_def MsgCallGlare_def MsgCallAcceptedElsewhere_def
  MsgStateSync_def MsgRoomCreated_def MsgRoomInvitation_def MsgRoomClosed_def
  MsgParticipantJoined_def MsgParticipantLeft_def MsgParticipantMediaChanged_def

lemmas err_code_defs = ErrCodeInvalidMessage_def ErrCodeUnauthorized_def ErrCodeNotFound_def
  ErrCodeBusy_def ErrCodeTimeout_def ErrCodeRateLimit_def ErrCodeInternal_def
  ErrCodeInvalidState_def ErrCodeRoomFull_def ErrCodeReconnectFailed_def ErrCodeGlare_def
  ErrCodeCallCancelled_def ErrCodeDuplicate_def ErrCodeInvalidSDP_def

section \<open>Client to server\<close>

text \<open>The envelope of an incoming message.  \<open>Data\<close> is a raw message: absent, or any JSON value
  (also \<open>null\<close>).\<close>

record SigEnvelope =
  e_Type :: string
  e_Data :: "json option"
  e_Seq :: int
  e_MsgID :: string

definition unmarshal_SigEnvelope :: "json \<Rightarrow> SigEnvelope result" where
  "unmarshal_SigEnvelope = dec_obj (\<lambda>ob.
     rbind (dec_str (fld ob ''type'')) (\<lambda>ty.
     rbind (dec_int (fld ob ''seq'')) (\<lambda>sq.
     rbind (dec_str (fld ob ''msg_id'')) (\<lambda>mid.
     Inr \<lparr>e_Type = ty, e_Data = map_of ob ''data'', e_Seq = sq, e_MsgID = mid\<rparr>))))"

text \<open>\<open>json.Unmarshal(data, &msg)\<close> of a raw message: absent data is an error.\<close>

definition unmarshal_raw :: "((string \<times> json) list \<Rightarrow> 'a result) \<Rightarrow> json option \<Rightarrow> 'a result" where
  "unmarshal_raw f raw = (case raw of
      None \<Rightarrow> Inl (Errorf ''unexpected end of JSON input'') | Some j \<Rightarrow> dec_obj f j)"

record CallInitiateMsg =
  ini_CalleeID :: string
  ini_SDPOffer :: string
  ini_CallType :: string

definition dec_CallInitiateMsg :: "(string \<times> json) list \<Rightarrow> CallInitiateMsg result" where
  "dec_CallInitiateMsg ob =
     rbind (dec_str (fld ob ''callee_id'')) (\<lambda>x0.
     rbind (dec_str (fld ob ''sdp_offer'')) (\<lambda>x1.
     rbind (dec_str (fld ob ''call_type'')) (\<lambda>x2.
     Inr \<lparr>ini_CalleeID = x0, ini_SDPOffer = x1, ini_CallType = x2\<rparr>)))"

record CallAcceptMsg =
  acc_CallID :: string
  acc_SDPAnswer :: string

definition dec_CallAcceptMsg :: "(string \<times> json) list \<Rightarrow> CallAcceptMsg result" where
  "dec_CallAcceptMsg ob =
     rbind (dec_str (fld ob ''call_id'')) (\<lambda>x0.
     rbind (dec_str (fld ob ''sdp_answer'')) (\<lambda>x1.
     Inr \<lparr>acc_CallID = x0, acc_SDPAnswer = x1\<rparr>))"

record CallRejectMsg =
  rej_CallID :: string
  rej_Reason :: string

definition dec_CallRejectMsg :: "(string \<times> json) list \<Rightarrow> CallRejectMsg result" where
  "dec_CallRejectMsg ob =
     rbind (dec_str (fld ob ''call_id'')) (\<lambda>x0.
     rbind (dec_str (fld ob ''reason'')) (\<lambda>x1.
     Inr \<lparr>rej_CallID = x0, rej_Reason = x1\<rparr>))"

record ICECandidateMsg =
  ice_CallID :: string
  ice_Candidate :: string

definition dec_ICECandidateMsg :: "(string \<times> json) list \<Rightarrow> ICECandidateMsg result" where
  "dec_ICECandidateMsg ob =
     rbind (dec_str (fld ob ''call_id'')) (\<lambda>x0.
     rbind (dec_str (fld ob ''candidate'')) (\<lambda>x1.
     Inr \<lparr>ice_CallID = x0, ice_Candidate = x1\<rparr>))"

record RoomCreateMsg =
  rcm_Participants :: "string list"
  rcm_CallType :: string

definition dec_RoomCreateMsg :: "(string \<times> json) list \<Rightarrow> RoomCreateMsg result" where
  "dec_RoomCreateMsg ob =
     rbind (dec_list dec_str (fld ob ''participants'')) (\<lambda>x0.
     rbind (dec_str (fld ob ''call_type'')) (\<lambda>x1.
     Inr \<lparr>rcm_Participants = x0, rcm_CallType = x1\<rparr>))"

record RoomInviteMsg =
  rim_RoomID :: string
  rim_Invitees :: "string list"

definition dec_RoomInviteMsg :: "(string \<times> json) list \<Rightarrow> RoomInviteMsg result" where
  "dec_RoomInviteMsg ob =
     rbind (dec_str (fld ob ''room_id'')) (\<lambda>x0.
     rbind (dec_list dec_str (fld ob ''invitees'')) (\<lambda>x1.
     Inr \<lparr>rim_RoomID = x0, rim_Invitees = x1\<rparr>))"

record MediaChangeMsg =
  mcm_RoomID :: string
  mcm_Audio :: bool
  mcm_Video :: bool

definition dec_MediaChangeMsg :: "(string \<times> json) list \<Rightarrow> MediaChangeMsg result" where
  "dec_MediaChangeMsg ob =
     rbind (dec_str (fld ob ''room_id'')) (\<lambda>x0.
     rbind (dec_bool (fld ob ''audio'')) (\<lambda>x1.
     rbind (dec_bool (fld ob ''video'')) (\<lambda>x2.
     Inr \<lparr>mcm_RoomID = x0, mcm_Audio = x1, mcm_Video = x2\<rparr>)))"

text \<open>The messages that carry one identifier only: \<open>CallEndMsg\<close>, \<open>CallCancelMsg\<close>,
  \<open>ReconnectMsg\<close> (a call) and \<open>RoomJoinMsg\<close>, \<open>RoomLeaveMsg\<close>,
  \<open>RoomEndAllMsg\<close> (a room).\<close>

definition dec_call_id :: "(string \<times> json) list \<Rightarrow> string result" where
  "dec_call_id ob = dec_str (fld ob ''call_id'')"

definition dec_room_id :: "(string \<times> json) list \<Rightarrow> string result" where
  "dec_room_id ob = dec_str (fld ob ''room_id'')"

record QualityMetricSample =
  qm_Timestamp :: int
  qm_Direction :: string
  qm_RTTMs :: int
  qm_LossPct :: float64
  qm_JitterMs :: float64
  qm_BitrateKbps :: int
  qm_Framerate :: int
  qm_Resolution :: string
  qm_NetworkTier :: string

definition dec_QualityMetricSample :: "(string \<times> json) list \<Rightarrow> QualityMetricSample result" where
  "dec_QualityMetricSample ob =
     rbind (dec_int (fld ob ''ts'')) (\<lambda>x0.
     rbind (dec_str (fld ob ''direction'')) (\<lambda>x1.
     rbind (dec_int (fld ob ''rtt_ms'')) (\<lambda>x2.
     rbind (dec_float (fld ob ''loss_pct'')) (\<lambda>x3.
     rbind (dec_float (fld ob ''jitter_ms'')) (\<lambda>x4.
     rbind (dec_int (fld ob ''bitrate_kbps'')) (\<lambda>x5.
     rbind (dec_int (fld ob ''framerate'')) (\<lambda>x6.
     rbind (dec_str (fld ob ''resolution'')) (\<lambda>x7.
     rbind (dec_str (fld ob ''network_tier'')) (\<lambda>x8.
     Inr \<lparr>qm_Timestamp = x0, qm_Direction = x1, qm_RTTMs = x2, qm_LossPct = x3, qm_JitterMs = x4, qm_BitrateKbps = x5, qm_Framerate = x6, qm_Resolution = x7, qm_NetworkTier = x8\<rparr>)))))))))"

record QualityMetricsMsg =
  qmm_CallID :: string
  qmm_Samples :: "QualityMetricSample list"

definition dec_QualityMetricsMsg :: "(string \<times> json) list \<Rightarrow> QualityMetricsMsg result" where
  "dec_QualityMetricsMsg ob =
     rbind (dec_str (fld ob ''call_id'')) (\<lambda>c.
     rbind (dec_list (dec_obj dec_QualityMetricSample) (fld ob ''samples'')) (\<lambda>ss.
     Inr \<lparr>qmm_CallID = c, qmm_Samples = ss\<rparr>))"

section \<open>Server to client\<close>

record StateSyncCall =
  ss_CallID :: string
  ss_PeerID :: string
  ss_CallType :: string
  ss_State :: CallState
  ss_Role :: string

datatype out =
    NoData
  | IncomingCallMsg (im_CallID: string) (im_CallerID: string) (im_CallerName: string)
      (im_SDPOffer: string) (im_CallType: string)
  | CallAcceptedMsg string string
  | CallRejectedMsg string string
  | CallEndedMsg string string
  | CallCancelledMsg string
  | ErrorMsg (er_Code: string) (er_Message: string) (er_CallID: string)
  | IceOut ICECandidateMsg
  | RoomCreatedMsg string string string
  | RoomInvitationMsg string string string "string list"
  | RoomClosedMsg string string
  | ParticipantJoinedMsg string string string
  | ParticipantLeftMsg string string
  | ParticipantMediaChangedMsg string string bool bool
  | SessionResumedMsg string CallState string string
  | PeerReconnectingMsg string string
  | PeerReconnectedMsg string string
  | CallGlareMsg (gl_CancelledCallID: string) (gl_WinningCallID: string) (gl_PeerID: string)
  | CallAcceptedElsewhereMsg string string
  | StateSyncMsg "StateSyncCall list"

definition sync_json :: "StateSyncCall \<Rightarrow> json" where
  "sync_json s = JObj [(''call_id'', JStr (ss_CallID s)), (''peer_id'', JStr (ss_PeerID s)),
     (''call_type'', JStr (ss_CallType s)), (''state'', JStr (ss_State s)), (''role'', JStr (ss_Role s))]"

fun out_json :: "out \<Rightarrow> json" where
  "out_json NoData = JNull"
| "out_json (IncomingCallMsg c u n s t) = JObj ((''call_id'', JStr c) # (''caller_id'', JStr u) #
     omit_str ''caller_name'' n @ [(''sdp_offer'', JStr s), (''call_type'', JStr t)])"
| "out_json (CallAcceptedMsg c s) = JObj [(''call_id'', JStr c), (''sdp_answer'', JStr s)]"
| "out_json (CallRejectedMsg c r) = JObj ((''call_id'', JStr c) # omit_str ''reason'' r)"
| "out_json (CallEndedMsg c r) = JObj ((''call_id'', JStr c) # omit_str ''reason'' r)"
| "out_json (CallCancelledMsg c) = JObj [(''call_id'', JStr c)]"
| "out_json (ErrorMsg code m c) = JObj ((''code'', JStr code) # (''message'', JStr m) # omit_str ''call_id'' c)"
| "out_json (IceOut m) = JObj [(''call_id'', JStr (ice_CallID m)), (''candidate'', JStr (ice_Candidate m))]"
| "out_json (RoomCreatedMsg r t u) = JObj [(''room_id'', JStr r), (''livekit_token'', JStr t), (''livekit_url'', JStr u)]"
| "out_json (RoomInvitationMsg r i t ps) = JObj [(''room_id'', JStr r), (''inviter_id'', JStr i),
     (''call_type'', JStr t), (''participants'', JArr (map JStr ps))]"
| "out_json (RoomClosedMsg r x) = JObj ((''room_id'', JStr r) # omit_str ''reason'' x)"
| "out_json (ParticipantJoinedMsg r u x) = JObj [(''room_id'', JStr r), (''user_id'', JStr u), (''role'', JStr x)]"
| "out_json (ParticipantLeftMsg r u) = JObj [(''room_id'', JStr r), (''user_id'', JStr u)]"
| "out_json (ParticipantMediaChangedMsg r u a v) = JObj [(''room_id'', JStr r), (''user_id'', JStr u),
     (''audio'', JBool a), (''video'', JBool v)]"
| "out_json (SessionResumedMsg c s p o') = JObj ((''call_id'', JStr c) # (''state'', JStr s) #
     (''peer_id'', JStr p) # omit_str ''sdp_offer'' o')"
| "out_json (PeerReconnectingMsg c p) = JObj [(''call_id'', JStr c), (''peer_id'', JStr p)]"
| "out_json (PeerReconnectedMsg c p) = JObj [(''call_id'', JStr c), (''peer_id'', JStr p)]"
| "out_json (CallGlareMsg x y p) = JObj [(''cancelled_call_id'', JStr x), (''winning_call_id'', JStr y),
     (''peer_id'', JStr p)]"
| "out_json (CallAcceptedElsewhereMsg c d) = JObj [(''call_id'', JStr c), (''device_id'', JStr d)]"
| "out_json (StateSyncMsg cs) = JObj [(''active_calls'', JArr (map sync_json cs))]"

text \<open>What is put on a connection: the marshalled envelope.  A sequence number of 0 is omitted.\<close>

record packet =
  pk_Type :: string
  pk_Data :: out
  pk_Seq :: int

definition marshal_packet :: "packet \<Rightarrow> json" where
  "marshal_packet p = JObj ((''type'', JStr (pk_Type p)) # (''data'', out_json (pk_Data p)) #
     (if pk_Seq p = 0 then [] else [(''seq'', JNum (pk_Seq p))]))"

text \<open>An ICE candidate is forwarded in the form in which it was received.\<close>

lemma ice_roundtrip: "dec_obj dec_ICECandidateMsg (out_json (IceOut m)) = Inr m"
  by (simp add: dec_ICECandidateMsg_def)

end
