(* ===== verification/Session_Types.thy ===== *)
theory Session_Types
  imports Events
begin

text \<open>
  The orchestrator's data model (\<open>internal/session/types.go\<close>) with its JSON form, the topology
  rules (\<open>topology.go\<close>) and the permission matrix (\<open>permissions.go\<close>).
\<close>

section \<open>Data\<close>

type_synonym Topology = string

definition TopologyP2P :: Topology where "TopologyP2P = ''p2p''"
definition TopologyTURN :: Topology where "TopologyTURN = ''turn''"
definition TopologySFU :: Topology where "TopologySFU = ''sfu''"

lemma Topology_distinct [simp]: "TopologyP2P \<noteq> TopologyTURN" "TopologyTURN \<noteq> TopologyP2P"
  "TopologyP2P \<noteq> TopologySFU" "TopologySFU \<noteq> TopologyP2P"
  "TopologyTURN \<noteq> TopologySFU" "TopologySFU \<noteq> TopologyTURN"
  by (simp_all add: TopologyP2P_def TopologyTURN_def TopologySFU_def)

type_synonym Role = string

definition RoleCaller :: Role where "RoleCaller = ''caller''"
definition RoleCallee :: Role where "RoleCallee = ''callee''"
definition RoleParticipant :: Role where "RoleParticipant = ''participant''"

lemma Role_distinct [simp]: "RoleCaller \<noteq> RoleCallee" "RoleCallee \<noteq> RoleCaller"
  "RoleCaller \<noteq> RoleParticipant" "RoleParticipant \<noteq> RoleCaller"
  "RoleCallee \<noteq> RoleParticipant" "RoleParticipant \<noteq> RoleCallee"
  by (simp_all add: RoleCaller_def RoleCallee_def RoleParticipant_def)

record MediaState =
  m_AudioEnabled :: bool
  m_VideoEnabled :: bool
  m_ScreenSharing :: bool

record Participant =
  p_UserID :: string
  p_Role :: Role
  p_MediaState :: MediaState
  p_JoinedAt :: time
  p_LeftAt :: time

record Session =
  s_CallID :: string
  s_CallType :: string
  s_Topology :: Topology
  s_InitiatorID :: string
  s_Region :: string
  s_HasVideo :: bool
  s_Participants :: "Participant list"
  s_CreatedAt :: time
  s_EndedAt :: time
  s_EndReason :: string

definition here :: "Participant \<Rightarrow> bool" where
  "here p = IsZero (p_LeftAt p)"

definition ActiveParticipants :: "Session \<Rightarrow> Participant list" where
  "ActiveParticipants s = filter (\<lambda>p. IsZero (p_LeftAt p)) (s_Participants s)"

definition FindParticipant :: "Session \<Rightarrow> string \<Rightarrow> Participant option" where
  "FindParticipant s userID = find (\<lambda>p. p_UserID p = userID) (s_Participants s)"

text \<open>Writing through the pointer \<open>FindParticipant\<close> returns.\<close>

definition UpdateFound :: "string \<Rightarrow> (Participant \<Rightarrow> Participant) \<Rightarrow> Session \<Rightarrow> Session" where
  "UpdateFound userID f s =
     s\<lparr>s_Participants := upd_first (\<lambda>p. p_UserID p = userID) f (s_Participants s)\<rparr>"

record CDR =
  cdr_CallID :: string
  cdr_CallType :: string
  cdr_InitiatorID :: string
  cdr_Topology :: string
  cdr_Region :: string
  cdr_StartedAt :: time
  cdr_EndedAt :: time
  cdr_DurationSeconds :: int
  cdr_EndReason :: string
  cdr_ParticipantCount :: int
  cdr_HasVideo :: bool

section \<open>JSON\<close>

definition marshal_MediaState :: "MediaState \<Rightarrow> json" where
  "marshal_MediaState m = JObj [(''audio_enabled'', JBool (m_AudioEnabled m)),
     (''video_enabled'', JBool (m_VideoEnabled m)), (''screen_sharing'', JBool (m_ScreenSharing m))]"

definition marshal_Participant :: "Participant \<Rightarrow> json" where
  "marshal_Participant p = JObj [(''user_id'', JStr (p_UserID p)), (''role'', JStr (p_Role p)),
     (''media_state'', marshal_MediaState (p_MediaState p)), (''joined_at'', JTime (p_JoinedAt p)),
     (''left_at'', JTime (p_LeftAt p))]"

definition marshal_Session :: "Session \<Rightarrow> json" where
  "marshal_Session s = JObj (
     (''call_id'', JStr (s_CallID s)) # (''call_type'', JStr (s_CallType s)) #
     (''topology'', JStr (s_Topology s)) # (''initiator_id'', JStr (s_InitiatorID s)) #
     (''region'', JStr (s_Region s)) # (''has_video'', JBool (s_HasVideo s)) #
     (''participants'', JArr (map marshal_Participant (s_Participants s))) #
     (''created_at'', JTime (s_CreatedAt s)) # (''ended_at'', JTime (s_EndedAt s)) #
     omit_str ''end_reason'' (s_EndReason s))"

definition unmarshal_MediaState :: "json \<Rightarrow> MediaState result" where
  "unmarshal_MediaState = dec_obj (\<lambda>ob.
     rbind (dec_bool (fld ob ''audio_enabled'')) (\<lambda>a.
     rbind (dec_bool (fld ob ''video_enabled'')) (\<lambda>v.
     rbind (dec_bool (fld ob ''screen_sharing'')) (\<lambda>s.
     Inr \<lparr>m_AudioEnabled = a, m_VideoEnabled = v, m_ScreenSharing = s\<rparr>))))"

definition unmarshal_Participant :: "json \<Rightarrow> Participant result" where
  "unmarshal_Participant = dec_obj (\<lambda>ob.
     rbind (dec_str (fld ob ''user_id'')) (\<lambda>u.
     rbind (dec_str (fld ob ''role'')) (\<lambda>r.
     rbind (unmarshal_MediaState (fld ob ''media_state'')) (\<lambda>m.
     rbind (dec_time (fld ob ''joined_at'')) (\<lambda>j.
     rbind (dec_time (fld ob ''left_at'')) (\<lambda>l.
     Inr \<lparr>p_UserID = u, p_Role = r, p_MediaState = m, p_JoinedAt = j, p_LeftAt = l\<rparr>))))))"

definition unmarshal_Session :: "json \<Rightarrow> Session result" where
  "unmarshal_Session = dec_obj (\<lambda>ob.
     rbind (dec_str (fld ob ''call_id'')) (\<lambda>c.
     rbind (dec_str (fld ob ''call_type'')) (\<lambda>ty.
     rbind (dec_str (fld ob ''topology'')) (\<lambda>tp.
     rbind (dec_str (fld ob ''initiator_id'')) (\<lambda>i.
     rbind (dec_str (fld ob ''region'')) (\<lambda>r.
     rbind (dec_bool (fld ob ''has_video'')) (\<lambda>v.
     rbind (dec_list unmarshal_Participant (fld ob ''participants'')) (\<lambda>ps.
     rbind (dec_time (fld ob ''created_at'')) (\<lambda>t1.
     rbind (dec_time (fld ob ''ended_at'')) (\<lambda>t2.
     rbind (dec_str (fld ob ''end_reason'')) (\<lambda>er.
     Inr \<lparr>s_CallID = c, s_CallType = ty, s_Topology = tp, s_InitiatorID = i, s_Region = r,
           s_HasVideo = v, s_Participants = ps, s_CreatedAt = t1, s_EndedAt = t2,
           s_EndReason = er\<rparr>)))))))))))"

lemma unmarshal_marshal_MediaState [simp]: "unmarshal_MediaState (marshal_MediaState m) = Inr m"
  by (simp add: unmarshal_MediaState_def marshal_MediaState_def)

lemma unmarshal_marshal_Participant [simp]: "unmarshal_Participant (marshal_Participant p) = Inr p"
  by (simp add: unmarshal_Participant_def marshal_Participant_def)

lemma unmarshal_marshal_Session [simp]: "unmarshal_Session (marshal_Session s) = Inr s"
  by (simp add: unmarshal_Session_def marshal_Session_def dec_seq_map)

section \<open>Topology\<close>

definition DecideTopology :: "int \<Rightarrow> Topology" where
  "DecideTopology participantCount = (if participantCount \<le> 2 then TopologyP2P else TopologySFU)"

definition ShouldEscalateToSFU :: "Topology \<Rightarrow> int \<Rightarrow> bool" where
  "ShouldEscalateToSFU currentTopology newParticipantCount =
     (if currentTopology = TopologySFU then False else newParticipantCount > 2)"

definition ShouldFallbackToTURN :: "Topology \<Rightarrow> bool \<Rightarrow> bool" where
  "ShouldFallbackToTURN currentTopology iceFailed \<longleftrightarrow> currentTopology = TopologyP2P \<and> iceFailed"

section \<open>Permissions\<close>

datatype Permission = PermInitiateCall | PermAcceptCall | PermRejectCall | PermEndCall
  | PermMuteSelf | PermUnmuteSelf | PermToggleVideo | PermShareScreen | PermInvite
  | PermRemoveOther | PermMuteOther | PermUnknown string

definition ErrPermissionDenied :: goerr where
  "ErrPermissionDenied = Sentinel ''session.ErrPermissionDenied'' ''permission denied''"

definition rolePermissions :: "Role \<rightharpoonup> (Permission \<rightharpoonup> bool)" where
  "rolePermissions = map_of [
     (RoleCaller, map_of [(PermInitiateCall, True), (PermAcceptCall, False), (PermRejectCall, False),
        (PermEndCall, True), (PermMuteSelf, True), (PermUnmuteSelf, True), (PermToggleVideo, True),
        (PermShareScreen, True), (PermInvite, True), (PermRemoveOther, True), (PermMuteOther, True)]),
     (RoleCallee, map_of [(PermInitiateCall, False), (PermAcceptCall, True), (PermRejectCall, True),
        (PermEndCall, True), (PermMuteSelf, True), (PermUnmuteSelf, True), (PermToggleVideo, True),
        (PermShareScreen, True), (PermInvite, False), (PermRemoveOther, False), (PermMuteOther, False)]),
     (RoleParticipant, map_of [(PermInitiateCall, False), (PermAcceptCall, True), (PermRejectCall, True),
        (PermEndCall, True), (PermMuteSelf, True), (PermUnmuteSelf, True), (PermToggleVideo, True),
        (PermShareScreen, True), (PermInvite, False), (PermRemoveOther, False), (PermMuteOther, False)])]"

definition HasPermission :: "Role \<Rightarrow> Permission \<Rightarrow> bool" where
  "HasPermission role perm = (case rolePermissions role of
      None \<Rightarrow> False
    | Some perms \<Rightarrow> (case perms perm of None \<Rightarrow> False | Some b \<Rightarrow> b))"

definition CheckPermission :: "Role \<Rightarrow> Permission \<Rightarrow> unit result" where
  "CheckPermission role perm = (if \<not> HasPermission role perm then Inl ErrPermissionDenied else Inr ())"

definition GroupPermissions :: "Role \<Rightarrow> Permission \<Rightarrow> bool" where
  "GroupPermissions role perm = (if perm = PermInvite then True else HasPermission role perm)"

text \<open>The matrix of the design document, as a specification: who may do what in a 1:1 call.\<close>

fun permitted :: "Role \<Rightarrow> Permission \<Rightarrow> bool" where
  "permitted r (PermUnknown _) = False"
| "permitted r PermInitiateCall = (r = RoleCaller)"
| "permitted r PermAcceptCall = (r = RoleCallee \<or> r = RoleParticipant)"
| "permitted r PermRejectCall = (r = RoleCallee \<or> r = RoleParticipant)"
| "permitted r PermInvite = (r = RoleCaller)"
| "permitted r PermRemoveOther = (r = RoleCaller)"
| "permitted r PermMuteOther = (r = RoleCaller)"
| "permitted r _ = (r = RoleCaller \<or> r = RoleCallee \<or> r = RoleParticipant)"

lemma HasPermission_permitted: "HasPermission r p = permitted r p"
  by (cases p) (auto simp: HasPermission_def rolePermissions_def)

text \<open>the permission table grants exactly what the matrix of the design document grants; only
  the caller may initiate, invite, remove or mute others, the caller may not answer its own call,
  an unknown role or permission grants nothing, and a group call only adds the right to invite.\<close>

theorem permission_matrix:
  "HasPermission r p = permitted r p \<and>
   (CheckPermission r p = Inr () \<longleftrightarrow> permitted r p) \<and>
   (GroupPermissions r p \<longleftrightarrow> permitted r p \<or> p = PermInvite)"
  by (auto simp: HasPermission_permitted CheckPermission_def GroupPermissions_def)

section \<open>Facts on participants\<close>

lemma ActiveParticipants_append [simp]:
  "ActiveParticipants (s\<lparr>s_Participants := s_Participants s @ ps\<rparr>) =
     ActiveParticipants s @ filter (\<lambda>p. IsZero (p_LeftAt p)) ps"
  by (simp add: ActiveParticipants_def)

lemma FindParticipant_None: "FindParticipant s u = None \<longleftrightarrow> u \<notin> p_UserID ` set (s_Participants s)"
  by (auto simp: FindParticipant_def find_None_set)

lemma FindParticipant_Some: "FindParticipant s u = Some p \<Longrightarrow> p \<in> set (s_Participants s) \<and> p_UserID p = u"
  by (auto simp: FindParticipant_def dest: find_Some_set)

lemma UpdateFound_None: "FindParticipant s u = None \<Longrightarrow> UpdateFound u f s = s"
  by (simp add: UpdateFound_def FindParticipant_def find_None_set upd_first_id)

lemma UpdateFound_simps [simp]:
  "s_CallID (UpdateFound u f s) = s_CallID s" "s_CallType (UpdateFound u f s) = s_CallType s"
  "s_Topology (UpdateFound u f s) = s_Topology s" "s_InitiatorID (UpdateFound u f s) = s_InitiatorID s"
  "s_EndedAt (UpdateFound u f s) = s_EndedAt s" "s_CreatedAt (UpdateFound u f s) = s_CreatedAt s"
  by (simp_all add: UpdateFound_def)

lemma UpdateFound_UserIDs:
  "(\<And>p. p_UserID (f p) = p_UserID p) \<Longrightarrow>
   map p_UserID (s_Participants (UpdateFound u f s)) = map p_UserID (s_Participants s)"
  by (simp add: UpdateFound_def map_upd_first)

end
