(* ===== verification/Session_Store.thy ===== *)
theory Session_Store
  imports Session_Types
begin

text \<open>
  \<open>internal/session/store.go\<close> and the key conventions of \<open>internal/models/redis_keys.go\<close>:
  the orchestrator's Redis store.  One definition per method; the optimistic retry loops run at
  most three times; the iterator of \<open>ScanGroupSessions\<close> may not return.
\<close>

section \<open>Keys and errors\<close>

definition SessionKey :: "string \<Rightarrow> string" where
  "SessionKey callID = ''session:'' @ callID"

definition SessionParticipantsKey :: "string \<Rightarrow> string" where
  "SessionParticipantsKey callID = ''session:'' @ callID @ '':participants''"

definition UserActiveCallKey :: "string \<Rightarrow> string" where
  "UserActiveCallKey userID = ''user:'' @ userID @ '':active_call''"

definition SessionTTL :: int where "SessionTTL = 24 * 60 * 60"

definition ErrSessionNotFound :: goerr where
  "ErrSessionNotFound = Sentinel ''session.ErrSessionNotFound'' ''session not found''"
definition ErrUserBusy :: goerr where
  "ErrUserBusy = Sentinel ''session.ErrUserBusy'' ''user already in active call''"
definition ErrAlreadyInCall :: goerr where
  "ErrAlreadyInCall = Sentinel ''session.ErrAlreadyInCall'' ''user already in this call''"
definition ErrMaxParticipants :: goerr where
  "ErrMaxParticipants = Sentinel ''session.ErrMaxParticipants'' ''maximum participants reached''"

lemmas session_errs = ErrSessionNotFound_def ErrUserBusy_def ErrAlreadyInCall_def ErrMaxParticipants_def

definition decode_Session :: "payload \<Rightarrow> Session result" where
  "decode_Session p = rbind (payload_json p) unmarshal_Session"

lemma decode_marshal_Session [simp]: "decode_Session (PJson (marshal_Session s)) = Inr s"
  by (simp add: decode_Session_def)

section \<open>Operations\<close>

definition Store_Create :: "('w, 'z) env_scheme \<Rightarrow> Session \<Rightarrow> 'w \<Rightarrow> unit result \<times> 'w" where
  "Store_Create E sess w =
    (let (r, w1) = r_exists E (UserActiveCallKey (s_InitiatorID sess)) w in
     case r of
       Inl e \<Rightarrow> (Inl (Wrap ''check user busy'' e), w1)
     | Inr n \<Rightarrow>
        if n > 0 then (Inl ErrUserBusy, w1)
        else (let (x, w2) = r_exec E
            ([CSet (SessionKey (s_CallID sess)) (PJson (marshal_Session sess)) SessionTTL] @
             map (\<lambda>p. CSet (UserActiveCallKey (p_UserID p)) (PText (s_CallID sess)) SessionTTL) (s_Participants sess) @
             map (\<lambda>p. CSAdd (SessionParticipantsKey (s_CallID sess)) (p_UserID p)) (s_Participants sess) @
             [CExpire (SessionParticipantsKey (s_CallID sess)) SessionTTL]) w1 in
          case x of Inl e \<Rightarrow> (Inl (Wrap ''create session'' e), w2) | Inr _ \<Rightarrow> (Inr (), w2)))"

definition Store_Get :: "('w, 'z) env_scheme \<Rightarrow> string \<Rightarrow> 'w \<Rightarrow> Session result \<times> 'w" where
  "Store_Get E callID w =
    (let (r, w1) = r_get E (SessionKey callID) w in
     case r of
       Inl e \<Rightarrow> (Inl (if errors_Is e redis_Nil then ErrSessionNotFound else Wrap ''get session'' e), w1)
     | Inr p \<Rightarrow> (case decode_Session p of
           Inl e \<Rightarrow> (Inl (Wrap ''unmarshal session'' e), w1)
         | Inr s \<Rightarrow> (Inr s, w1)))"

definition Store_Update :: "('w, 'z) env_scheme \<Rightarrow> Session \<Rightarrow> 'w \<Rightarrow> unit result \<times> 'w" where
  "Store_Update E sess w =
     r_exec E [CSet (SessionKey (s_CallID sess)) (PJson (marshal_Session sess)) SessionTTL] w"

definition Store_AddParticipant ::
  "('w, 'z) env_scheme \<Rightarrow> string \<Rightarrow> Participant \<Rightarrow> int \<Rightarrow> 'w \<Rightarrow> unit result \<times> 'w" where
  "Store_AddParticipant E callID p maxParticipants w =
    (let (g, w1) = Store_Get E callID w in
     case g of
       Inl e \<Rightarrow> (Inl e, w1)
     | Inr sess \<Rightarrow>
        if FindParticipant sess (p_UserID p) \<noteq> None then (Inl ErrAlreadyInCall, w1)
        else if maxParticipants \<le> int (length (ActiveParticipants sess)) then (Inl ErrMaxParticipants, w1)
        else (let (r, w2) = r_exists E (UserActiveCallKey (p_UserID p)) w1 in
          case r of
            Inl e \<Rightarrow> (Inl (Wrap ''check user busy'' e), w2)
          | Inr n \<Rightarrow>
             if n > 0 then (Inl ErrUserBusy, w2)
             else (let sess' = sess\<lparr>s_Participants := s_Participants sess @ [p]\<rparr> in
               r_exec E [CSet (SessionKey callID) (PJson (marshal_Session sess')) SessionTTL,
                         CSet (UserActiveCallKey (p_UserID p)) (PText callID) SessionTTL,
                         CSAdd (SessionParticipantsKey callID) (p_UserID p)] w2)))"

definition Store_RemoveParticipant ::
  "('w, 'z) env_scheme \<Rightarrow> string \<Rightarrow> string \<Rightarrow> 'w \<Rightarrow> Session result \<times> 'w" where
  "Store_RemoveParticipant E callID userID w =
    (let (g, w1) = Store_Get E callID w in
     case g of
       Inl e \<Rightarrow> (Inl e, w1)
     | Inr sess \<Rightarrow>
        if FindParticipant sess userID = None then (Inr sess, w1)
        else (let (t, w2) = time_now E w1;
                  sess' = UpdateFound userID (\<lambda>p. p\<lparr>p_LeftAt := t\<rparr>) sess;
                  (x, w3) = r_exec E [CSet (SessionKey callID) (PJson (marshal_Session sess')) SessionTTL,
                         CDel (UserActiveCallKey userID),
                         CSRem (SessionParticipantsKey callID) userID] w2 in
          case x of Inl e \<Rightarrow> (Inl (Wrap ''remove participant'' e), w3) | Inr _ \<Rightarrow> (Inr sess', w3)))"

definition mark_left :: "time \<Rightarrow> Participant \<Rightarrow> Participant" where
  "mark_left t p = (if IsZero (p_LeftAt p) then p\<lparr>p_LeftAt := t\<rparr> else p)"

definition Store_EndSession ::
  "('w, 'z) env_scheme \<Rightarrow> string \<Rightarrow> string \<Rightarrow> 'w \<Rightarrow> Session result \<times> 'w" where
  "Store_EndSession E callID reason w =
    (let (g, w1) = Store_Get E callID w in
     case g of
       Inl e \<Rightarrow> (Inl e, w1)
     | Inr sess \<Rightarrow>
        (let (t, w2) = time_now E w1;
             sess' = sess\<lparr>s_EndedAt := t, s_EndReason := reason,
                          s_Participants := map (mark_left t) (s_Participants sess)\<rparr>;
             (x, w3) = r_exec E
               ([CSet (SessionKey callID) (PJson (marshal_Session sess')) (60 * 60)] @
                map (\<lambda>p. CDel (UserActiveCallKey (p_UserID p))) (s_Participants sess') @
                [CDel (SessionParticipantsKey callID)]) w2 in
         case x of Inl e \<Rightarrow> (Inl (Wrap ''end session'' e), w3) | Inr _ \<Rightarrow> (Inr sess', w3)))"

definition Store_Delete :: "('w, 'z) env_scheme \<Rightarrow> string \<Rightarrow> 'w \<Rightarrow> unit result \<times> 'w" where
  "Store_Delete E callID w =
    (let (g, w1) = Store_Get E callID w in
     case g of
       Inl e \<Rightarrow> (if errors_Is e ErrSessionNotFound then (Inr (), w1) else (Inl e, w1))
     | Inr sess \<Rightarrow> r_exec E ([CDel (SessionKey callID), CDel (SessionParticipantsKey callID)] @
                    map (\<lambda>p. CDel (UserActiveCallKey (p_UserID p))) (s_Participants sess)) w1)"

text \<open>One attempt of a \<open>WATCH\<close> transaction that rewrites the session, and the loop of three
  attempts around it.\<close>

definition watch_update ::
  "('w, 'z) env_scheme \<Rightarrow> string \<Rightarrow> (Session \<Rightarrow> Session result) \<Rightarrow> 'w \<Rightarrow> unit result \<times> 'w" where
  "watch_update E key change w =
    (let (r, w1) = r_get E key w in
     case r of
       Inl e \<Rightarrow> (Inl (if e = redis_Nil then ErrSessionNotFound else e), w1)
     | Inr p \<Rightarrow> (case decode_Session p of
           Inl e \<Rightarrow> (Inl (Wrap ''unmarshal session'' e), w1)
         | Inr sess \<Rightarrow> (case change sess of
               Inl e \<Rightarrow> (Inl e, w1)
             | Inr sess' \<Rightarrow> r_watch_exec E key [CSet key (PJson (marshal_Session sess')) (24 * 60 * 60)] w1)))"

fun retry :: "nat \<Rightarrow> goerr \<Rightarrow> ('w \<Rightarrow> unit result \<times> 'w) \<Rightarrow> 'w \<Rightarrow> unit result \<times> 'w" where
  "retry 0 giveUp attempt w = (Inl giveUp, w)"
| "retry (Suc n) giveUp attempt w =
    (let (r, w1) = attempt w in
     if r = Inl TxFailedErr then retry n giveUp attempt w1 else (r, w1))"

definition set_role :: "string \<Rightarrow> string \<Rightarrow> Role \<Rightarrow> Session \<Rightarrow> Session result" where
  "set_role callID userID newRole sess =
    (if FindParticipant sess userID = None
     then Inl (Errorf (''participant '' @ userID @ '' not found in session '' @ callID))
     else Inr (UpdateFound userID (\<lambda>p. p\<lparr>p_Role := newRole\<rparr>) sess))"

definition Store_UpdateParticipantRole ::
  "('w, 'z) env_scheme \<Rightarrow> string \<Rightarrow> string \<Rightarrow> Role \<Rightarrow> 'w \<Rightarrow> unit result \<times> 'w" where
  "Store_UpdateParticipantRole E callID userID newRole w =
     retry 3 (Errorf ''UpdateParticipantRole: optimistic lock failed after 3 retries'')
       (watch_update E (SessionKey callID) (set_role callID userID newRole)) w"

definition Store_UpdateInitiator ::
  "('w, 'z) env_scheme \<Rightarrow> string \<Rightarrow> string \<Rightarrow> 'w \<Rightarrow> unit result \<times> 'w" where
  "Store_UpdateInitiator E callID newInitiatorID w =
     retry 3 (Errorf ''UpdateInitiator: optimistic lock failed after 3 retries'')
       (watch_update E (SessionKey callID) (\<lambda>sess. Inr (sess\<lparr>s_InitiatorID := newInitiatorID\<rparr>))) w"

fun group_batch :: "('w, 'z) env_scheme \<Rightarrow> string list \<Rightarrow> 'w \<Rightarrow> Session list \<times> 'w" where
  "group_batch E [] w = ([], w)"
| "group_batch E (key # ks) w =
    (let (r, w1) = r_get E key w;
         (rest, w2) = group_batch E ks w1 in
     case r of
       Inl _ \<Rightarrow> (rest, w2)
     | Inr p \<Rightarrow> (case decode_Session p of
           Inl _ \<Rightarrow> (rest, w2)
         | Inr s \<Rightarrow> (if s_CallType s = ''group'' \<and> IsZero (s_EndedAt s) then s # rest else rest, w2)))"

text \<open>The iterator: both the sessions found so far and the iterator's error are returned.\<close>

partial_function (option) group_loop ::
  "('w, 'z) env_scheme \<Rightarrow> nat \<Rightarrow> Session list \<Rightarrow> 'w \<Rightarrow> ((Session list \<times> goerr option) \<times> 'w) option" where
  "group_loop E cursor acc w =
    (let ans = r_scan E cursor (SessionKey []) w in
     if isl (fst ans) then Some ((acc, Some (projl (fst ans))), snd ans)
     else let batch = group_batch E (fst (projr (fst ans))) (snd ans);
              next = snd (projr (fst ans)) in
          if next = 0 then Some ((acc @ fst batch, None), snd batch)
          else group_loop E next (acc @ fst batch) (snd batch))"

definition Store_ScanGroupSessions ::
  "('w, 'z) env_scheme \<Rightarrow> 'w \<Rightarrow> ((Session list \<times> goerr option) \<times> 'w) option" where
  "Store_ScanGroupSessions E w = group_loop E 0 [] w"

end
