(* ===== verification/Cdr.thy ===== *)
theory Cdr
  imports Session_Types
begin

text \<open>
  \<open>internal/session/cdr.go\<close>: call detail records.  A duration is converted through
  \<open>float64\<close> seconds and truncated; the conversion is exact for calls shorter than \<open>2 ^ 23\<close>
  seconds (97 days; a session lives 24 hours), and is modelled as the truncated quotient.
\<close>

definition GenerateCDR :: "Session \<Rightarrow> CDR" where
  "GenerateCDR sess =
    (let duration = (if \<not> IsZero (s_EndedAt sess) \<and> \<not> IsZero (s_CreatedAt sess)
                     then go_quot (time_Sub (s_EndedAt sess) (s_CreatedAt sess)) Second else 0)
     in \<lparr>cdr_CallID = s_CallID sess, cdr_CallType = s_CallType sess,
         cdr_InitiatorID = s_InitiatorID sess, cdr_Topology = s_Topology sess,
         cdr_Region = s_Region sess, cdr_StartedAt = s_CreatedAt sess, cdr_EndedAt = s_EndedAt sess,
         cdr_DurationSeconds = duration, cdr_EndReason = s_EndReason sess,
         cdr_ParticipantCount = int (length (s_Participants sess)), cdr_HasVideo = s_HasVideo sess\<rparr>)"

text \<open>The SQL texts, up to white space.\<close>

definition call_history_sql :: string where
  "call_history_sql = ''INSERT INTO call_history (call_id, call_type, initiator_id, topology, region, started_at, ended_at, duration_seconds, end_reason) VALUES ($1, $2, $3, $4, $5, $6, $7, $8, $9) ON CONFLICT (call_id) DO UPDATE SET ended_at = EXCLUDED.ended_at, duration_seconds = EXCLUDED.duration_seconds, end_reason = EXCLUDED.end_reason''"

definition call_participants_sql :: string where
  "call_participants_sql = ''INSERT INTO call_participants (call_id, user_id, role, joined_at, left_at) VALUES ($1, $2, $3, $4, $5) ON CONFLICT (call_id, user_id) DO UPDATE SET left_at = EXCLUDED.left_at''"

definition WriteCallHistory :: "('w, 'z) env_scheme \<Rightarrow> CDR \<Rightarrow> 'w \<Rightarrow> unit result \<times> 'w" where
  "WriteCallHistory E cdr w =
    (let (r, w1) = sql_exec E call_history_sql
        [JStr (cdr_CallID cdr), JStr (cdr_CallType cdr), JStr (cdr_InitiatorID cdr),
         JStr (cdr_Topology cdr), JStr (cdr_Region cdr), JTime (cdr_StartedAt cdr),
         JTime (cdr_EndedAt cdr), JNum (cdr_DurationSeconds cdr), JStr (cdr_EndReason cdr)] w in
     case r of Inl e \<Rightarrow> (Inl (Wrap ''write call history'' e), w1) | Inr _ \<Rightarrow> (Inr (), w1))"

fun WriteCallParticipants ::
  "('w, 'z) env_scheme \<Rightarrow> string \<Rightarrow> Participant list \<Rightarrow> 'w \<Rightarrow> unit result \<times> 'w" where
  "WriteCallParticipants E callID [] w = (Inr (), w)"
| "WriteCallParticipants E callID (p # ps) w =
    (let leftAt = (if \<not> IsZero (p_LeftAt p) then JTime (p_LeftAt p) else JNull);
         (r, w1) = sql_exec E call_participants_sql
           [JStr callID, JStr (p_UserID p), JStr (p_Role p), JTime (p_JoinedAt p), leftAt] w in
     case r of
       Inl e \<Rightarrow> (Inl (Wrap (''write participant '' @ p_UserID p) e), w1)
     | Inr _ \<Rightarrow> WriteCallParticipants E callID ps w1)"

definition PublishCDR :: "('w, 'z) env_scheme \<Rightarrow> string \<Rightarrow> CDR \<Rightarrow> 'w \<Rightarrow> unit result \<times> 'w" where
  "PublishCDR E source cdr w = Bus_Publish E source SubjectCallEnded
     (CallEnded (cdr_CallID cdr) (cdr_EndReason cdr) (cdr_DurationSeconds cdr)) w"

text \<open>The three writes are independent: each failure is only logged.\<close>

definition WriteFull :: "('w, 'z) env_scheme \<Rightarrow> string \<Rightarrow> Session \<Rightarrow> 'w \<Rightarrow> 'w" where
  "WriteFull E source sess w =
    (let cdr = GenerateCDR sess;
         w1 = snd (WriteCallHistory E cdr w);
         w2 = snd (WriteCallParticipants E (s_CallID sess) (s_Participants sess) w1)
     in snd (PublishCDR E source cdr w2))"

section \<open>Facts\<close>

definition call_ended :: "Session \<Rightarrow> string \<times> json" where
  "call_ended sess = (SubjectCallEnded, event_json (CallEnded (s_CallID sess) (s_EndReason sess)
     (cdr_DurationSeconds (GenerateCDR sess))))"

lemma GenerateCDR_simps [simp]:
  "cdr_CallID (GenerateCDR s) = s_CallID s" "cdr_EndReason (GenerateCDR s) = s_EndReason s"
  by (simp_all add: GenerateCDR_def Let_def)

text \<open>A call detail record is true to the session it is made from, and its duration is the
  whole number of seconds between creation and end: never negative for a session that ended after
  it was created, never more than the elapsed time, and less than a second short of it; a session
  that has not ended has duration 0.\<close>

theorem GenerateCDR_duration:
  assumes "0 < s_CreatedAt sess" "s_CreatedAt sess \<le> s_EndedAt sess"
    and "s_EndedAt sess - s_CreatedAt sess \<le> max_int64"
  shows "let d = cdr_DurationSeconds (GenerateCDR sess); elapsed = s_EndedAt sess - s_CreatedAt sess
    in 0 \<le> d \<and> d * Second \<le> elapsed \<and> elapsed < (d + 1) * Second \<and>
       cdr_DurationSeconds (GenerateCDR (sess\<lparr>s_EndedAt := zero_time\<rparr>)) = 0"
proof -
  let ?d = "s_EndedAt sess - s_CreatedAt sess"
  have "time_Sub (s_EndedAt sess) (s_CreatedAt sess) = ?d"
    using assms by (simp add: time_Sub_def min_int64_def max_int64_def)
  then have *: "cdr_DurationSeconds (GenerateCDR sess) = ?d div Second"
    using assms by (simp add: GenerateCDR_def Let_def go_quot_nonneg Second_def)
  have "0 \<le> ?d div Second" "?d div Second * Second \<le> ?d" "?d < (?d div Second + 1) * Second"
    using assms by (simp_all add: Second_def pos_imp_zdiv_nonneg_iff) presburger?
  moreover have "cdr_DurationSeconds (GenerateCDR (sess\<lparr>s_EndedAt := zero_time\<rparr>)) = 0"
    by (simp add: GenerateCDR_def Let_def)
  ultimately show ?thesis by (simp add: * Let_def)
qed

theorem GenerateCDR_duration_witness:
  "cdr_DurationSeconds (GenerateCDR \<lparr>s_CallID = ''c'', s_CallType = ''1:1'', s_Topology = TopologyP2P,
     s_InitiatorID = ''u'', s_Region = [], s_HasVideo = False, s_Participants = [],
     s_CreatedAt = 5, s_EndedAt = 5 + 61 * Second, s_EndReason = []\<rparr>) * Second \<le> 61 * Second"
proof -
  let ?s = "\<lparr>s_CallID = ''c'', s_CallType = ''1:1'', s_Topology = TopologyP2P,
     s_InitiatorID = ''u'', s_Region = [], s_HasVideo = False, s_Participants = [],
     s_CreatedAt = 5, s_EndedAt = 5 + 61 * Second, s_EndReason = []\<rparr>"
  have "0 < s_CreatedAt ?s" "s_CreatedAt ?s \<le> s_EndedAt ?s" "s_EndedAt ?s - s_CreatedAt ?s \<le> max_int64"
    by (simp_all add: Second_def max_int64_def)
  from GenerateCDR_duration[OF this] show ?thesis by (simp add: Let_def)
qed

context services
begin

lemma WriteCallHistory_laws [svc_simps]: "view (snd (WriteCallHistory E c w)) = view w"
  "published (snd (WriteCallHistory E c w)) = published w"
  "calm w \<Longrightarrow> calm (snd (WriteCallHistory E c w))"
  by (simp_all add: WriteCallHistory_def svc_simps Let_def split_beta split: sum.splits)

lemma WriteCallParticipants_laws [svc_simps]:
  "view (snd (WriteCallParticipants E c ps w)) = view w"
  "published (snd (WriteCallParticipants E c ps w)) = published w"
  "calm w \<Longrightarrow> calm (snd (WriteCallParticipants E c ps w))"
  by (induction ps arbitrary: w)
    (simp_all add: svc_simps Let_def split_beta split: sum.splits)

lemma Bus_Publish_calm [svc_simps]:
  "calm w \<Longrightarrow> calm (snd (Bus_Publish E src subj ev w))"
  "calm w \<Longrightarrow> is_ok (fst (Bus_Publish E src subj ev w))"
  by (simp_all add: Bus_Publish_def Bus_PublishJson_calm)

lemma WriteFull_laws [svc_simps]: "view (WriteFull E src s w) = view w"
  "calm w \<Longrightarrow> calm (WriteFull E src s w)"
  "calm w \<Longrightarrow> seen (published (WriteFull E src s w)) = seen (published w) @ [call_ended s]"
  by (simp_all add: WriteFull_def PublishCDR_def Let_def svc_simps call_ended_def)

end

end
