(* ===== verification/Identity.thy ===== *)
theory Identity
  imports Events
begin

text \<open>
  \<open>internal/session/identity_resolver.go\<close>: phone numbers, external identifiers and UUIDs to
  user identifiers.  \<open>uuid.Parse\<close> and the users table are parameters (\<open>uuid_ok\<close>,
  \<open>sql_row\<close>).
\<close>

section \<open>Library functions of the source\<close>

text \<open>The UTF-8 encodings of the characters \<open>unicode.IsSpace\<close> accepts.\<close>

definition space_runes :: "string list" where
  "space_runes = [[CHR 0x20], [CHR 0x09], [CHR 0x0A], [CHR 0x0B], [CHR 0x0C], [CHR 0x0D],
     [CHR 0xC2, CHR 0x85], [CHR 0xC2, CHR 0xA0], [CHR 0xE1, CHR 0x9A, CHR 0x80]] @
     map (\<lambda>n. [CHR 0xE2, CHR 0x80, char_of n]) ([128..<139] @ [168, 169, 175]) @
     [[CHR 0xE2, CHR 0x81, CHR 0x9F], [CHR 0xE3, CHR 0x80, CHR 0x80]]"

lemma space_runes_nonempty: "r \<in> set space_runes \<Longrightarrow> r \<noteq> []"
  by (auto simp: space_runes_def)

text \<open>Drop pieces listed in \<open>rs\<close> from the front while there are any; the fuel is the length of
  the text, one unit per piece.\<close>

fun strip :: "nat \<Rightarrow> string list \<Rightarrow> string \<Rightarrow> string" where
  "strip 0 rs s = s"
| "strip (Suc n) rs s = (case find (HasPrefix s) rs of
      None \<Rightarrow> s | Some r \<Rightarrow> strip n rs (drop (length r) s))"

definition TrimSpace :: "string \<Rightarrow> string" where
  "TrimSpace s = (let l = strip (length s) space_runes s
     in rev (strip (length l) (map rev space_runes) (rev l)))"

lemma strip_done:
  assumes "length s \<le> n" "\<And>r. r \<in> set rs \<Longrightarrow> r \<noteq> []"
  shows "find (HasPrefix (strip n rs s)) rs = None"
  using assms
proof (induction n rs s rule: strip.induct)
  case (1 rs s)
  then have "s = []" by simp
  then show ?case using 1(2) by (auto simp: find_None_set HasPrefix_def)
next
  case (2 n rs s)
  show ?case
  proof (cases "find (HasPrefix s) rs")
    case None
    then show ?thesis by simp
  next
    case (Some r)
    then have "r \<in> set rs" "HasPrefix s r" by (auto dest: find_Some_set)
    then have "r \<noteq> []" "length r \<le> length s"
      using "2.prems"(2) by (auto simp: HasPrefix_iff)
    then have "length (drop (length r) s) \<le> n" using "2.prems"(1) by (cases r) auto
    then show ?thesis using 2 Some by simp
  qed
qed

lemma strip_suffix: "\<exists>p. s = p @ strip n rs s"
proof (induction n rs s rule: strip.induct)
  case (2 n rs s)
  show ?case
  proof (cases "find (HasPrefix s) rs")
    case (Some r)
    obtain p where "drop (length r) s = p @ strip n rs (drop (length r) s)"
      using 2 Some by blast
    then have "s = (take (length r) s @ p) @ strip n rs (drop (length r) s)"
      by (metis append_assoc append_take_drop_id)
    then show ?thesis using Some by (metis option.simps(5) strip.simps(2))
  qed simp
qed simp

text \<open>\<open>^\+[1-9]\d{6,14}$\<close>\<close>

fun phoneRe_match :: "string \<Rightarrow> bool" where
  "phoneRe_match (p # d # ds) \<longleftrightarrow> p = CHR ''+'' \<and> is_digit d \<and> d \<noteq> CHR ''0'' \<and>
     list_all is_digit ds \<and> 6 \<le> length ds \<and> length ds \<le> 14"
| "phoneRe_match _ \<longleftrightarrow> False"

section \<open>The resolver\<close>

definition ErrIdentityNotFound :: goerr where
  "ErrIdentityNotFound = Sentinel ''session.ErrIdentityNotFound'' ''identity: user not found''"
definition ErrInvalidIdentity :: goerr where
  "ErrInvalidIdentity = Sentinel ''session.ErrInvalidIdentity'' ''identity: invalid identifier format''"

definition scan_uid :: "json list option result \<times> 'w \<Rightarrow> string result \<times> 'w" where
  "scan_uid a = (case a of
      (Inl e, w1) \<Rightarrow> (Inl e, w1)
    | (Inr None, w1) \<Rightarrow> (Inl ErrIdentityNotFound, w1)
    | (Inr (Some row), w1) \<Rightarrow> (case row of
          [JStr uid] \<Rightarrow> (Inr uid, w1)
        | _ \<Rightarrow> (Inl (Errorf ''sql: Scan error''), w1)))"

definition lookupByPhone :: "('w, 'z) env_scheme \<Rightarrow> string \<Rightarrow> 'w \<Rightarrow> string result \<times> 'w" where
  "lookupByPhone E phone w =
     scan_uid (sql_row E ''SELECT id FROM users WHERE phone_number = $1'' [JStr phone] w)"

definition lookupByExternalID :: "('w, 'z) env_scheme \<Rightarrow> string \<Rightarrow> 'w \<Rightarrow> string result \<times> 'w" where
  "lookupByExternalID E extID w =
     scan_uid (sql_row E ''SELECT id FROM users WHERE external_id = $1'' [JStr extID] w)"

definition Resolve :: "('w, 'z) env_scheme \<Rightarrow> string \<Rightarrow> 'w \<Rightarrow> string result \<times> 'w" where
  "Resolve E i w =
    (let i = TrimSpace i in
     if i = [] then (Inl ErrInvalidIdentity, w)
     else if uuid_ok E i then (Inr i, w)
     else if phoneRe_match i then lookupByPhone E i w
     else if HasPrefix i ''ext:'' then
       (let extID = TrimPrefix i ''ext:'' in
        if extID = [] then (Inl ErrInvalidIdentity, w) else lookupByExternalID E extID w)
     else (Inl ErrInvalidIdentity, w))"

fun ResolveAll :: "('w, 'z) env_scheme \<Rightarrow> string list \<Rightarrow> 'w \<Rightarrow> string list result \<times> 'w" where
  "ResolveAll E [] w = (Inr [], w)"
| "ResolveAll E (i # is) w =
    (let (r, w1) = Resolve E i w in
     case r of
       Inl e \<Rightarrow> (Inl e, w1)
     | Inr uid \<Rightarrow> (let (rs, w2) = ResolveAll E is w1 in
         case rs of Inl e \<Rightarrow> (Inl e, w2) | Inr uids \<Rightarrow> (Inr (uid # uids), w2)))"

section \<open>What it promises\<close>

lemma phone_not_ext: "phoneRe_match i \<Longrightarrow> \<not> HasPrefix i ''ext:''"
  by (cases i rule: phoneRe_match.cases) (auto simp: HasPrefix_def)

text \<open>The four formats, as a specification.\<close>

datatype id_kind = Uuid string | Phone string | External string | Invalid

definition classify :: "('w, 'z) env_scheme \<Rightarrow> string \<Rightarrow> id_kind" where
  "classify E i = (let i = TrimSpace i in
     if i \<noteq> [] \<and> uuid_ok E i then Uuid i
     else if phoneRe_match i then Phone i
     else if HasPrefix i ''ext:'' \<and> i \<noteq> ''ext:'' then External (drop 4 i)
     else Invalid)"

lemma TrimPrefix_ext: "HasPrefix i ''ext:'' \<Longrightarrow> TrimPrefix i ''ext:'' = drop 4 i"
  by (simp add: TrimPrefix_def eval_nat_numeral)

lemma ext_empty: "HasPrefix i ''ext:'' \<Longrightarrow> drop 4 i = [] \<longleftrightarrow> i = ''ext:''"
  by (auto simp: HasPrefix_iff)

lemma Resolve_classify:
  "Resolve E i w = (case classify E i of
      Uuid u \<Rightarrow> (Inr u, w)
    | Phone p \<Rightarrow> lookupByPhone E p w
    | External x \<Rightarrow> lookupByExternalID E x w
    | Invalid \<Rightarrow> (Inl ErrInvalidIdentity, w))"
proof (cases "TrimSpace i = []")
  case True
  then show ?thesis by (simp add: Resolve_def classify_def HasPrefix_def)
next
  case False
  then show ?thesis
    using ext_empty[of "TrimSpace i"]
    by (auto simp: Resolve_def classify_def Let_def TrimPrefix_ext)
qed

context services
begin

lemma scan_uid_snd [simp]: "snd (scan_uid a) = snd a"
  by (auto simp: scan_uid_def split: prod.splits sum.splits option.splits list.splits json.splits)

lemma Resolve_laws [svc_simps]: "view (snd (Resolve E i w)) = view w"
  "published (snd (Resolve E i w)) = published w"
  "calm w \<Longrightarrow> calm (snd (Resolve E i w))"
  by (auto simp: Resolve_def lookupByPhone_def lookupByExternalID_def svc_simps Let_def)

lemma ResolveAll_laws [svc_simps]: "view (snd (ResolveAll E is w)) = view w"
  "published (snd (ResolveAll E is w)) = published w"
  "calm w \<Longrightarrow> calm (snd (ResolveAll E is w))"
proof (induction "is" arbitrary: w)
  case (Cons i js)
  { case 1 show ?case
      using Cons.IH(1)[of "snd (Resolve E i w)"]
      by (simp add: svc_simps Let_def split_beta split: sum.splits)
  next
    case 2 show ?case
      using Cons.IH(2)[of "snd (Resolve E i w)"]
      by (simp add: svc_simps Let_def split_beta split: sum.splits)
  next
    case 3 then show ?case
      using Cons.IH(3)[of "snd (Resolve E i w)"]
      by (simp add: svc_simps Let_def split_beta split: sum.splits)
  }
qed simp_all

end

lemma ResolveAll_length:
  "fst (ResolveAll E is w) = Inr us \<Longrightarrow> length us = length is"
proof (induction "is" arbitrary: w us)
  case (Cons i js)
  then show ?case
    by (fastforce simp: Let_def split_beta split: sum.splits)
qed simp

lemma ResolveAll_uuids:
  assumes "\<forall>i\<in>set is. TrimSpace i = i \<and> i \<noteq> [] \<and> uuid_ok E i"
  shows "ResolveAll E is w = (Inr is, w)"
  using assms by (induction "is") (simp_all add: Resolve_def)

end
