(* ===== verification/Credentials.thy ===== *)
theory Credentials
  imports Events
begin

text \<open>
  The two credential services of \<open>internal/auth\<close>: time-limited TURN credentials
  (\<open>turn.go\<close>) and LiveKit room tokens (\<open>livekit.go\<close>).  HMAC-SHA1 with base64 and the
  LiveKit token library are parameters.
\<close>

section \<open>TURN\<close>

text \<open>\<open>time.Time.Unix\<close>: seconds since 1970, from nanoseconds since Go's zero time.\<close>

definition Unix :: "time \<Rightarrow> int" where
  "Unix t = t div Second - 62135596800"

definition show_int :: "int \<Rightarrow> string" where
  "show_int n = (if n < 0 then ''-'' @ itoa (nat (- n)) else itoa (nat n))"

record TurnCredentials =
  tc_Username :: string
  tc_Password :: string
  tc_TTL :: int
  tc_URIs :: "string list"

record TurnService =
  ts_secret :: string
  ts_ttl :: int
  ts_uris :: "string list"

definition NewTurnService :: "string \<Rightarrow> int \<Rightarrow> string list \<Rightarrow> TurnService" where
  "NewTurnService secret ttl uris =
     \<lparr>ts_secret = secret, ts_ttl = (if ttl \<le> 0 then 86400 else ttl), ts_uris = uris\<rparr>"

definition TurnService_GenerateCredentials ::
  "('w, 'z) env_scheme \<Rightarrow> TurnService \<Rightarrow> string \<Rightarrow> 'w \<Rightarrow> TurnCredentials \<times> 'w" where
  "TurnService_GenerateCredentials E s userID w =
    (let (t, w1) = time_now E w;
         expiry = Unix t + ts_ttl s;
         username = show_int expiry @ '':'' @ userID
     in (\<lparr>tc_Username = username, tc_Password = hmac_sha1_b64 E (ts_secret s) username,
          tc_TTL = ts_ttl s, tc_URIs = ts_uris s\<rparr>, w1))"

definition TurnService_ValidateCredentials ::
  "('w, 'z) env_scheme \<Rightarrow> TurnService \<Rightarrow> TurnCredentials \<Rightarrow> bool" where
  "TurnService_ValidateCredentials E s creds \<longleftrightarrow>
     tc_Password creds = hmac_sha1_b64 E (ts_secret s) (tc_Username creds)"


context services
begin

lemma GenerateCredentials_view [svc_simps]:
  "view (snd (TurnService_GenerateCredentials E s u w)) = view w"
  by (simp add: TurnService_GenerateCredentials_def svc_simps Let_def split_beta)

lemma GenerateCredentials_log [svc_simps]:
  "published (snd (TurnService_GenerateCredentials E s u w)) = published w"
  by (simp add: TurnService_GenerateCredentials_def svc_simps Let_def split_beta)

lemma GenerateCredentials_calm [svc_simps]:
  "calm w \<Longrightarrow> calm (snd (TurnService_GenerateCredentials E s u w))"
  by (simp add: TurnService_GenerateCredentials_def svc_simps Let_def split_beta)

end

section \<open>LiveKit\<close>

record LiveKitTokenService =
  lk_apiKey :: string
  lk_apiSecret :: string

record RoomPermissions =
  rp_RoomName :: string
  rp_Identity :: string
  rp_CanPublish :: bool
  rp_CanSubscribe :: bool
  rp_CanPublishData :: bool

definition Minute :: duration where "Minute = 60 * Second"
definition Hour :: duration where "Hour = 60 * Minute"

definition GenerateRoomToken ::
  "('w, 'z) env_scheme \<Rightarrow> LiveKitTokenService \<Rightarrow> RoomPermissions \<Rightarrow> duration \<Rightarrow> 'w \<Rightarrow> string result \<times> 'w" where
  "GenerateRoomToken E s perms d w =
    (let grant = JObj [(''identity'', JStr (rp_Identity perms)), (''roomJoin'', JBool True),
           (''room'', JStr (rp_RoomName perms)), (''canPublish'', JBool (rp_CanPublish perms)),
           (''canSubscribe'', JBool (rp_CanSubscribe perms)),
           (''canPublishData'', JBool (rp_CanPublishData perms)), (''iss'', JStr (lk_apiKey s))];
         ttl = d + 5 * Minute
     in lk_jwt E (lk_apiSecret s) grant ttl w)"

text \<open>The grant every orchestrator path asks for: full rights in one room, for two hours.\<close>

definition full_grant :: "string \<Rightarrow> string \<Rightarrow> RoomPermissions" where
  "full_grant room identity = \<lparr>rp_RoomName = room, rp_Identity = identity, rp_CanPublish = True,
     rp_CanSubscribe = True, rp_CanPublishData = True\<rparr>"

context services
begin

lemma GenerateRoomToken_laws [svc_simps]:
  "view (snd (GenerateRoomToken E s p d w)) = view w"
  "published (snd (GenerateRoomToken E s p d w)) = published w"
  "calm w \<Longrightarrow> calm (snd (GenerateRoomToken E s p d w))"
  by (simp_all add: GenerateRoomToken_def svc_simps)

lemma GenerateRoomToken_ok: "calm w \<Longrightarrow> is_ok (fst (GenerateRoomToken E s p d w))"
  by (simp add: GenerateRoomToken_def calm_lk)

end

end
