(* ===== verification/Orchestrator.thy ===== *)
theory Orchestrator
  imports Session_Store Cdr Identity Credentials
begin

text \<open>
  \<open>internal/session/orchestrator.go\<close> and \<open>internal/session/group.go\<close>: the life of 1:1 and
  group sessions over the store, the CDR writer, the credential services and the event bus.  Log
  lines are not modelled; a failed publish is only logged and so has no other effect.
\<close>

section \<open>State and requests\<close>

record Orchestrator =
  o_source :: string
  o_turnSvc :: TurnService
  o_lkSvc :: LiveKitTokenService
  o_MaxParticipants :: int
  o_LiveKitHost :: string
  o_resolver :: bool

record CreateSessionRequest =
  cq_CallerID :: string
  cq_CalleeID :: string
  cq_CallType :: string
  cq_HasVideo :: bool
  cq_Region :: string

record CreateSessionResponse =
  cp_CallID :: string
  cp_Topology :: Topology
  cp_TurnCredentials :: "TurnCredentials option"
  cp_LiveKitToken :: string
  cp_LiveKitURL :: string

record JoinSessionRequest =
  jq_CallID :: string
  jq_UserID :: string
  jq_Role :: Role
  jq_HasVideo :: bool

record JoinSessionResponse =
  jp_Topology :: Topology
  jp_TurnCredentials :: "TurnCredentials option"
  jp_LiveKitToken :: string
  jp_LiveKitURL :: string
  jp_Escalated :: bool

record CreateGroupRequest =
  gq_InitiatorID :: string
  gq_Participants :: "string list"
  gq_CallType :: string
  gq_Region :: string

record CreateGroupResponse =
  gp_RoomID :: string
  gp_Topology :: Topology
  gp_LiveKitToken :: string
  gp_LiveKitURL :: string
  gp_Participants :: "string list"
  gp_TurnCredentials :: "TurnCredentials option"

record InviteToRoomResponse =
  ir_Invited :: "string list"
  ir_Skipped :: "string list"

text \<open>A participant that joins now: audio on, nothing shared, not left.\<close>

definition joining :: "string \<Rightarrow> Role \<Rightarrow> bool \<Rightarrow> time \<Rightarrow> Participant" where
  "joining userID role video now = \<lparr>p_UserID = userID, p_Role = role,
     p_MediaState = \<lparr>m_AudioEnabled = True, m_VideoEnabled = video, m_ScreenSharing = False\<rparr>,
     p_JoinedAt = now, p_LeftAt = zero_time\<rparr>"

definition maxP :: "Orchestrator \<Rightarrow> int" where
  "maxP orc = (if o_MaxParticipants orc = 0 then 8 else o_MaxParticipants orc)"

text \<open>Credentials by topology, shared by creation and joining: TURN for P2P and TURN, a room token
  for SFU; a token that cannot be made is only logged.\<close>

definition turn_creds :: "('w, 'z) env_scheme \<Rightarrow> Orchestrator \<Rightarrow> Topology \<Rightarrow> string \<Rightarrow> 'w \<Rightarrow> TurnCredentials option \<times> 'w" where
  "turn_creds E orc topo userID w =
    (if topo = TopologyP2P \<or> topo = TopologyTURN
     then (let (c, w1) = TurnService_GenerateCredentials E (o_turnSvc orc) userID w in (Some c, w1))
     else (None, w))"

definition room_token :: "('w, 'z) env_scheme \<Rightarrow> Orchestrator \<Rightarrow> string \<Rightarrow> string \<Rightarrow> 'w \<Rightarrow> (string \<times> string) \<times> 'w" where
  "room_token E orc room userID w =
    (let (r, w1) = GenerateRoomToken E (o_lkSvc orc) (full_grant room userID) (2 * Hour) w in
     case r of Inl _ \<Rightarrow> (([], []), w1) | Inr token \<Rightarrow> ((token, o_LiveKitHost orc), w1))"

definition sfu_token :: "('w, 'z) env_scheme \<Rightarrow> Orchestrator \<Rightarrow> Topology \<Rightarrow> string \<Rightarrow> string \<Rightarrow> 'w \<Rightarrow> (string \<times> string) \<times> 'w" where
  "sfu_token E orc topo room userID w =
    (if topo = TopologySFU then room_token E orc room userID w else (([], []), w))"

definition publish :: "('w, 'z) env_scheme \<Rightarrow> Orchestrator \<Rightarrow> string \<Rightarrow> event \<Rightarrow> 'w \<Rightarrow> 'w" where
  "publish E orc subject ev w = snd (Bus_Publish E (o_source orc) subject ev w)"

definition resolve_one :: "('w, 'z) env_scheme \<Rightarrow> Orchestrator \<Rightarrow> string \<Rightarrow> 'w \<Rightarrow> string result \<times> 'w" where
  "resolve_one E orc i w = (if o_resolver orc then Resolve E i w else (Inr i, w))"

definition resolve_list :: "('w, 'z) env_scheme \<Rightarrow> Orchestrator \<Rightarrow> string list \<Rightarrow> 'w \<Rightarrow> string list result \<times> 'w" where
  "resolve_list E orc ids w = (if o_resolver orc then ResolveAll E ids w else (Inr ids, w))"

section \<open>1:1 sessions\<close>

definition Orchestrator_CreateSession ::
  "('w, 'z) env_scheme \<Rightarrow> Orchestrator \<Rightarrow> CreateSessionRequest \<Rightarrow> 'w \<Rightarrow> CreateSessionResponse result \<times> 'w" where
  "Orchestrator_CreateSession E orc req w =
    (let (r, w1) = resolve_one E orc (cq_CalleeID req) w in
     case r of
       Inl e \<Rightarrow> (Inl (Wrap ''resolve callee'' e), w1)
     | Inr callee \<Rightarrow>
       (let (callID, w2) = uuid_new E w1;
            (now, w3) = time_now E w2;
            topology = DecideTopology 2;
            sess = \<lparr>s_CallID = callID, s_CallType = cq_CallType req, s_Topology = topology,
                    s_InitiatorID = cq_CallerID req, s_Region = cq_Region req, s_HasVideo = cq_HasVideo req,
                    s_Participants = [joining (cq_CallerID req) RoleCaller (cq_HasVideo req) now,
                                      joining callee RoleCallee (cq_HasVideo req) now],
                    s_CreatedAt = now, s_EndedAt = zero_time, s_EndReason = []\<rparr>;
            (c, w4) = Store_Create E sess w3 in
        case c of
          Inl e \<Rightarrow> (Inl (Wrap ''create session'' e), w4)
        | Inr _ \<Rightarrow>
          (let (tc, w5) = turn_creds E orc topology (cq_CallerID req) w4;
               ((tok, url), w6) = sfu_token E orc topology callID (cq_CallerID req) w5;
               w7 = publish E orc SubjectCallInitiated (CallInitiated callID (cq_CallerID req) callee
                      (cq_CallType req) (cq_HasVideo req) (cq_Region req)) w6
           in (Inr \<lparr>cp_CallID = callID, cp_Topology = topology, cp_TurnCredentials = tc,
                    cp_LiveKitToken = tok, cp_LiveKitURL = url\<rparr>, w7))))"

definition Orchestrator_JoinSession ::
  "('w, 'z) env_scheme \<Rightarrow> Orchestrator \<Rightarrow> JoinSessionRequest \<Rightarrow> 'w \<Rightarrow> JoinSessionResponse result \<times> 'w" where
  "Orchestrator_JoinSession E orc req w =
    (case CheckPermission (jq_Role req) PermAcceptCall of
       Inl e \<Rightarrow> (Inl e, w)
     | Inr _ \<Rightarrow>
      (let (now, w1) = time_now E w;
           (a, w2) = Store_AddParticipant E (jq_CallID req)
              (joining (jq_UserID req) (jq_Role req) (jq_HasVideo req) now) (maxP orc) w1 in
       case a of
         Inl e \<Rightarrow> (Inl (Wrap ''join session'' e), w2)
       | Inr _ \<Rightarrow>
        (let (g, w3) = Store_Get E (jq_CallID req) w2 in
         case g of
           Inl e \<Rightarrow> (Inl e, w3)
         | Inr sess \<Rightarrow>
          (let escalate = ShouldEscalateToSFU (s_Topology sess) (int (length (ActiveParticipants sess)));
               (u, w4) = (if escalate then Store_Update E (sess\<lparr>s_Topology := TopologySFU\<rparr>) w3
                          else (Inr (), w3)) in
           case u of
             Inl e \<Rightarrow> (Inl (Wrap ''update topology'' e), w4)
           | Inr _ \<Rightarrow>
            (let topo = (if escalate then TopologySFU else s_Topology sess);
                 (tc, w5) = turn_creds E orc topo (jq_UserID req) w4;
                 ((tok, url), w6) = sfu_token E orc topo (jq_CallID req) (jq_UserID req) w5;
                 w7 = publish E orc SubjectCallAccepted
                        (CallAccepted (jq_CallID req) (jq_UserID req) topo) w6
             in (Inr \<lparr>jp_Topology = topo, jp_TurnCredentials = tc, jp_LiveKitToken = tok,
                      jp_LiveKitURL = url, jp_Escalated = escalate\<rparr>, w7))))))"

definition Orchestrator_EndSession ::
  "('w, 'z) env_scheme \<Rightarrow> Orchestrator \<Rightarrow> string \<Rightarrow> string \<Rightarrow> 'w \<Rightarrow> unit result \<times> 'w" where
  "Orchestrator_EndSession E orc callID reason w =
    (let (r, w1) = Store_EndSession E callID reason w in
     case r of
       Inl e \<Rightarrow> (Inl (Wrap ''end session'' e), w1)
     | Inr sess \<Rightarrow>
       (let w2 = WriteFull E (o_source orc) sess w1;
            w3 = publish E orc SubjectCallEnded
                   (CallEnded callID reason (cdr_DurationSeconds (GenerateCDR sess))) w2
        in (Inr (), w3)))"

definition Orchestrator_LeaveSession ::
  "('w, 'z) env_scheme \<Rightarrow> Orchestrator \<Rightarrow> string \<Rightarrow> string \<Rightarrow> 'w \<Rightarrow> unit result \<times> 'w" where
  "Orchestrator_LeaveSession E orc callID userID w =
    (let (r, w1) = Store_RemoveParticipant E callID userID w in
     case r of
       Inl e \<Rightarrow> (Inl (Wrap ''leave session'' e), w1)
     | Inr sess \<Rightarrow>
       (let active = length (ActiveParticipants sess);
            shouldEnd = (active = 0 \<or> s_CallType sess = ''1:1'' \<and> active \<le> 1) in
        if shouldEnd then Orchestrator_EndSession E orc callID ''normal'' w1 else (Inr (), w1)))"

definition Orchestrator_GetSession :: "('w, 'z) env_scheme \<Rightarrow> string \<Rightarrow> 'w \<Rightarrow> Session result \<times> 'w" where
  "Orchestrator_GetSession E callID w = Store_Get E callID w"

definition Orchestrator_UpdateMediaState ::
  "('w, 'z) env_scheme \<Rightarrow> string \<Rightarrow> string \<Rightarrow> MediaState \<Rightarrow> 'w \<Rightarrow> unit result \<times> 'w" where
  "Orchestrator_UpdateMediaState E callID userID state w =
    (let (g, w1) = Store_Get E callID w in
     case g of
       Inl e \<Rightarrow> (Inl e, w1)
     | Inr sess \<Rightarrow>
        if FindParticipant sess userID = None
        then (Inl (Errorf (''participant '' @ userID @ '' not found in call '' @ callID)), w1)
        else Store_Update E (UpdateFound userID (\<lambda>p. p\<lparr>p_MediaState := state\<rparr>) sess) w1)"

definition Orchestrator_FallbackToTURN ::
  "('w, 'z) env_scheme \<Rightarrow> Orchestrator \<Rightarrow> string \<Rightarrow> 'w \<Rightarrow> TurnCredentials result \<times> 'w" where
  "Orchestrator_FallbackToTURN E orc callID w =
    (let (g, w1) = Store_Get E callID w in
     case g of
       Inl e \<Rightarrow> (Inl e, w1)
     | Inr sess \<Rightarrow>
        if \<not> ShouldFallbackToTURN (s_Topology sess) True
        then (Inl (Errorf (''cannot fallback to TURN from topology '' @ s_Topology sess)), w1)
        else (let (u, w2) = Store_Update E (sess\<lparr>s_Topology := TopologyTURN\<rparr>) w1 in
          case u of
            Inl e \<Rightarrow> (Inl (Wrap ''update topology'' e), w2)
          | Inr _ \<Rightarrow>
            (let w3 = publish E orc SubjectCallStateChanged
                        (CallStateChanged callID TopologyP2P TopologyTURN ''ice_failed'') w2;
                 (c, w4) = TurnService_GenerateCredentials E (o_turnSvc orc) (s_InitiatorID sess) w3
             in (Inr c, w4))))"

definition Orchestrator_GetTurnCredentials ::
  "('w, 'z) env_scheme \<Rightarrow> Orchestrator \<Rightarrow> string \<Rightarrow> 'w \<Rightarrow> TurnCredentials \<times> 'w" where
  "Orchestrator_GetTurnCredentials E orc userID w =
     TurnService_GenerateCredentials E (o_turnSvc orc) userID w"

definition Orchestrator_RecoverGroupSessions ::
  "('w, 'z) env_scheme \<Rightarrow> 'w \<Rightarrow> ((Session list \<times> goerr option) \<times> 'w) option" where
  "Orchestrator_RecoverGroupSessions E w = Store_ScanGroupSessions E w"

section \<open>Group rooms\<close>

definition Orchestrator_CreateGroupSession ::
  "('w, 'z) env_scheme \<Rightarrow> Orchestrator \<Rightarrow> CreateGroupRequest \<Rightarrow> 'w \<Rightarrow> CreateGroupResponse result \<times> 'w" where
  "Orchestrator_CreateGroupSession E orc req w =
    (let (r, w1) = resolve_list E orc (gq_Participants req) w in
     case r of
       Inl e \<Rightarrow> (Inl (Wrap ''resolve participants'' e), w1)
     | Inr invitees \<Rightarrow>
       (let totalCount = 1 + int (length invitees) in
        if totalCount > maxP orc
        then (Inl (Errorf (''too many participants: '' @ show_int totalCount @ '' (max '' @ show_int (maxP orc) @ '')'')), w1)
        else if invitees = [] then (Inl (Errorf ''at least one participant required''), w1)
        else
         (let (roomID, w2) = uuid_new E w1;
              (now, w3) = time_now E w2;
              hasVideo = (gq_CallType req = ''video'');
              sess = \<lparr>s_CallID = roomID, s_CallType = ''group'', s_Topology = TopologySFU,
                      s_InitiatorID = gq_InitiatorID req, s_Region = gq_Region req, s_HasVideo = hasVideo,
                      s_Participants = [joining (gq_InitiatorID req) RoleCaller hasVideo now],
                      s_CreatedAt = now, s_EndedAt = zero_time, s_EndReason = []\<rparr>;
              (c, w4) = Store_Create E sess w3 in
          case c of
            Inl e \<Rightarrow> (Inl (Wrap ''create group session'' e), w4)
          | Inr _ \<Rightarrow>
            (let ((tok, url), w5) = room_token E orc roomID (gq_InitiatorID req) w4;
                 w6 = publish E orc SubjectRoomCreated
                        (RoomCreated roomID (gq_InitiatorID req) (gq_CallType req) invitees) w5
             in (Inr \<lparr>gp_RoomID = roomID, gp_Topology = TopologySFU, gp_LiveKitToken = tok,
                      gp_LiveKitURL = url, gp_Participants = invitees, gp_TurnCredentials = None\<rparr>, w6)))))"

definition not_group :: "string \<Rightarrow> goerr" where
  "not_group roomID = Errorf (''session '' @ roomID @ '' is not a group call'')"

text \<open>\<open>p := sess.FindParticipant(u); p != nil && p.LeftAt.IsZero()\<close>\<close>

definition active_in :: "Session \<Rightarrow> string \<Rightarrow> bool" where
  "active_in sess userID = (case FindParticipant sess userID of
      None \<Rightarrow> False | Some p \<Rightarrow> IsZero (p_LeftAt p))"

definition Orchestrator_JoinGroupSession ::
  "('w, 'z) env_scheme \<Rightarrow> Orchestrator \<Rightarrow> string \<Rightarrow> string \<Rightarrow> 'w \<Rightarrow> JoinSessionResponse result \<times> 'w" where
  "Orchestrator_JoinGroupSession E orc roomID userID w =
    (let (g, w1) = Store_Get E roomID w in
     case g of
       Inl e \<Rightarrow> (Inl (Wrap ''room not found'' e), w1)
     | Inr sess \<Rightarrow>
        if s_CallType sess \<noteq> ''group'' then (Inl (not_group roomID), w1)
        else if active_in sess userID
        then (Inl (Errorf (''user '' @ userID @ '' already in room '' @ roomID)), w1)
        else
         (let (now, w2) = time_now E w1;
              (a, w3) = Store_AddParticipant E roomID
                 (joining userID RoleParticipant (s_HasVideo sess) now) (maxP orc) w2 in
          case a of
            Inl e \<Rightarrow> (Inl (Wrap ''join group session'' e), w3)
          | Inr _ \<Rightarrow>
            (let ((tok, url), w4) = room_token E orc roomID userID w3;
                 w5 = publish E orc SubjectRoomParticipantJoined
                        (RoomParticipantJoined roomID userID RoleParticipant) w4
             in (Inr \<lparr>jp_Topology = TopologySFU, jp_TurnCredentials = None, jp_LiveKitToken = tok,
                      jp_LiveKitURL = url, jp_Escalated = False\<rparr>, w5))))"

definition Orchestrator_CloseRoom ::
  "('w, 'z) env_scheme \<Rightarrow> Orchestrator \<Rightarrow> string \<Rightarrow> string \<Rightarrow> 'w \<Rightarrow> unit result \<times> 'w" where
  "Orchestrator_CloseRoom E orc roomID reason w =
    (let (r, w1) = Store_EndSession E roomID reason w in
     case r of
       Inl e \<Rightarrow> (Inl (Wrap ''close room'' e), w1)
     | Inr sess \<Rightarrow>
       (let w2 = WriteFull E (o_source orc) sess w1;
            d = cdr_DurationSeconds (GenerateCDR sess);
            w3 = publish E orc SubjectRoomClosed (RoomClosed roomID reason d) w2;
            w4 = publish E orc SubjectCallEnded (CallEnded roomID reason d) w3
        in (Inr (), w4)))"

definition Orchestrator_LeaveGroupSession ::
  "('w, 'z) env_scheme \<Rightarrow> Orchestrator \<Rightarrow> string \<Rightarrow> string \<Rightarrow> 'w \<Rightarrow> unit result \<times> 'w" where
  "Orchestrator_LeaveGroupSession E orc roomID userID w =
    (let (g, w1) = Store_Get E roomID w in
     case g of
       Inl e \<Rightarrow> (Inl (Wrap ''room not found'' e), w1)
     | Inr sess0 \<Rightarrow>
        if s_CallType sess0 \<noteq> ''group'' then (Inl (not_group roomID), w1)
        else
         (let (r, w2) = Store_RemoveParticipant E roomID userID w1 in
          case r of
            Inl e \<Rightarrow> (Inl (Wrap ''leave group session'' e), w2)
          | Inr sess \<Rightarrow>
            (let w3 = publish E orc SubjectRoomParticipantLeft (RoomParticipantLeft roomID userID) w2 in
             if ActiveParticipants sess = [] then Orchestrator_CloseRoom E orc roomID ''all_left'' w3
             else (Inr (), w3))))"

text \<open>The loop over the invitees: \<open>currentCount\<close> and the two growing slices.\<close>

fun invite_loop :: "int \<Rightarrow> Session \<Rightarrow> int \<Rightarrow> InviteToRoomResponse \<Rightarrow> string list \<Rightarrow> InviteToRoomResponse" where
  "invite_loop cap sess count resp [] = resp"
| "invite_loop cap sess count resp (i # is) =
    (if count \<ge> cap then invite_loop cap sess count (resp\<lparr>ir_Skipped := ir_Skipped resp @ [i]\<rparr>) is
     else if active_in sess i
     then invite_loop cap sess count (resp\<lparr>ir_Skipped := ir_Skipped resp @ [i]\<rparr>) is
     else invite_loop cap sess (count + 1) (resp\<lparr>ir_Invited := ir_Invited resp @ [i]\<rparr>) is)"

definition Orchestrator_InviteToRoom ::
  "('w, 'z) env_scheme \<Rightarrow> Orchestrator \<Rightarrow> string \<Rightarrow> string \<Rightarrow> string list \<Rightarrow> 'w \<Rightarrow> InviteToRoomResponse result \<times> 'w" where
  "Orchestrator_InviteToRoom E orc roomID inviterID inviteeIDs w =
    (let (r, w1) = resolve_list E orc inviteeIDs w in
     case r of
       Inl e \<Rightarrow> (Inl (Wrap ''resolve invitees'' e), w1)
     | Inr ids \<Rightarrow>
       (let (g, w2) = Store_Get E roomID w1 in
        case g of
          Inl e \<Rightarrow> (Inl (Wrap ''room not found'' e), w2)
        | Inr sess \<Rightarrow>
           if s_CallType sess \<noteq> ''group'' then (Inl (not_group roomID), w2)
           else (case FindParticipant sess inviterID of
              None \<Rightarrow> (Inl (Errorf (''inviter '' @ inviterID @ '' is not an active participant'')), w2)
            | Some inviter \<Rightarrow>
               if \<not> IsZero (p_LeftAt inviter)
               then (Inl (Errorf (''inviter '' @ inviterID @ '' is not an active participant'')), w2)
               else if p_Role inviter \<noteq> RoleCaller
               then (Inl (Errorf ''only the host can invite participants''), w2)
               else (Inr (invite_loop (maxP orc) sess (int (length (ActiveParticipants sess)))
                       \<lparr>ir_Invited = [], ir_Skipped = []\<rparr> ids), w2))))"

definition Orchestrator_GetRoomParticipants ::
  "('w, 'z) env_scheme \<Rightarrow> string \<Rightarrow> 'w \<Rightarrow> Participant list result \<times> 'w" where
  "Orchestrator_GetRoomParticipants E roomID w =
    (let (g, w1) = Store_Get E roomID w in
     case g of Inl e \<Rightarrow> (Inl e, w1) | Inr sess \<Rightarrow> (Inr (ActiveParticipants sess), w1))"

definition Orchestrator_TransferHost ::
  "('w, 'z) env_scheme \<Rightarrow> string \<Rightarrow> string \<Rightarrow> 'w \<Rightarrow> unit result \<times> 'w" where
  "Orchestrator_TransferHost E roomID newHostID w =
    (let (g, w1) = Store_Get E roomID w in
     case g of
       Inl e \<Rightarrow> (Inl (Wrap ''room not found'' e), w1)
     | Inr sess \<Rightarrow>
        if s_CallType sess \<noteq> ''group'' then (Inl (not_group roomID), w1)
        else if \<not> active_in sess newHostID
        then (Inl (Errorf (''user '' @ newHostID @ '' is not an active participant'')), w1)
        else
         (let (u, w2) = Store_UpdateParticipantRole E roomID newHostID RoleCaller w1 in
          case u of
            Inl e \<Rightarrow> (Inl (Wrap ''transfer host'' e), w2)
          | Inr _ \<Rightarrow> (Inr (), snd (Store_UpdateInitiator E roomID newHostID w2))))"

definition Orchestrator_EndRoomForAll ::
  "('w, 'z) env_scheme \<Rightarrow> Orchestrator \<Rightarrow> string \<Rightarrow> string \<Rightarrow> 'w \<Rightarrow> unit result \<times> 'w" where
  "Orchestrator_EndRoomForAll E orc roomID hostID w =
    (let (g, w1) = Store_Get E roomID w in
     case g of
       Inl e \<Rightarrow> (Inl (Wrap ''room not found'' e), w1)
     | Inr sess \<Rightarrow>
        if s_CallType sess \<noteq> ''group'' then (Inl (not_group roomID), w1)
        else (case FindParticipant sess hostID of
            None \<Rightarrow> (Inl (Errorf ''only the host can end the room for all''), w1)
          | Some host \<Rightarrow>
             if p_Role host \<noteq> RoleCaller
             then (Inl (Errorf ''only the host can end the room for all''), w1)
             else Orchestrator_CloseRoom E orc roomID ''host_ended'' w1))"

end
