(* ===== verification/Hub.thy ===== *)
theory Hub
  imports Messages Call_Store Orchestrator
begin

text \<open>
  \<open>internal/signaling/client.go\<close> and the state of \<open>internal/signaling/hub.go\<close>: the
  connected clients, delivery with sequence numbers, room membership, grace timers and the buffer
  of ICE candidates.

  A connection is a number; its mutable part (closed flag and send buffer) is in \<open>h_conns\<close>.
  Go maps are association lists without repeated keys; where a loop over a map can show the
  iteration order, the order is asked of \<open>map_order\<close>.  A goroutine that waits for a timeout is
  an entry of \<open>h_timers\<close>; cancelling its context removes it, and firing it (in \<open>Hub_Loop\<close>)
  runs the timeout branch.  Handlers and timer bodies are modelled as atomic.  The package
  variable \<open>roomHosts\<close> is the field \<open>h_roomHosts\<close> (a process has one hub).
\<close>

section \<open>Association lists as Go maps\<close>

fun aput :: "'k \<Rightarrow> 'v \<Rightarrow> ('k \<times> 'v) list \<Rightarrow> ('k \<times> 'v) list" where
  "aput k v [] = [(k, v)]"
| "aput k v ((k', v') # xs) = (if k = k' then (k, v) # xs else (k', v') # aput k v xs)"

definition adel :: "'k \<Rightarrow> ('k \<times> 'v) list \<Rightarrow> ('k \<times> 'v) list" where
  "adel k xs = filter (\<lambda>(k', _). k' \<noteq> k) xs"

lemma map_of_aput [simp]: "map_of (aput k v xs) = (map_of xs)(k \<mapsto> v)"
  by (induction xs) (auto simp: fun_eq_iff)

lemma map_of_adel [simp]: "map_of (adel k xs) = (map_of xs)(k := None)"
  by (induction xs) (auto simp: adel_def fun_eq_iff)

lemma aput_keys: "fst ` set (aput k v xs) = insert k (fst ` set xs)"
  by (induction k v xs rule: aput.induct) (simp_all add: insert_commute)

lemma aput_set: "(a, b) \<in> set (aput k v xs) \<Longrightarrow> (a, b) = (k, v) \<or> (a, b) \<in> set xs"
  by (induction xs) (auto split: if_splits)

lemma aput_distinct: "distinct (map fst xs) \<Longrightarrow> distinct (map fst (aput k v xs))"
proof (induction xs)
  case (Cons x xs)
  then show ?case using aput_keys[of k v xs] by (cases x) (auto simp flip: set_map)
qed simp

lemma adel_set: "set (adel k xs) = {x \<in> set xs. fst x \<noteq> k}"
  by (auto simp: adel_def)

lemma adel_distinct: "distinct (map fst xs) \<Longrightarrow> distinct (map fst (adel k xs))"
  by (induction xs) (auto simp: adel_def)

lemma adel_Nil [simp]: "adel k [] = []"
  by (simp add: adel_def)

section \<open>State\<close>

record Client =
  c_id :: nat
  c_userID :: string
  c_deviceID :: string

record Conn =
  cn_closed :: bool
  cn_send :: "packet list"

datatype timer = RingTimeout string | IceTimeout string
  | GraceTimeout (gt_user: string) (gt_call: string) (gt_peer: string)
  | RoomGraceTimeout (rg_user: string) (rg_rooms: "string list")

record Hub =
  h_clients :: "(string \<times> (string \<times> Client) list) list"
  h_conns :: "nat \<Rightarrow> Conn option"
  h_seqCounters :: "string \<Rightarrow> nat"
  h_rooms :: "(string \<times> string list) list"
  h_roomHosts :: "string \<Rightarrow> string option"
  h_timers :: "timer list"
  h_iceBuf :: "string \<Rightarrow> ICECandidateMsg list option"
  h_orchestrator :: "Orchestrator option"
  h_bus :: "string option"
  h_ringSeconds :: int
  h_iceSeconds :: int
  h_done :: bool

type_synonym 'w hub_op = "Hub \<Rightarrow> 'w \<Rightarrow> Hub \<times> 'w"

definition NewHub :: "string option \<Rightarrow> int \<Rightarrow> int \<Rightarrow> Orchestrator option \<Rightarrow> Hub" where
  "NewHub bus ring ice orc = \<lparr>h_clients = [], h_conns = Map.empty, h_seqCounters = (\<lambda>_. 0),
     h_rooms = [], h_roomHosts = Map.empty, h_timers = [], h_iceBuf = Map.empty,
     h_orchestrator = orc, h_bus = bus, h_ringSeconds = ring, h_iceSeconds = ice, h_done = False\<rparr>"

section \<open>Client\<close>

definition sendBufSize :: nat where "sendBufSize = 64"

definition NewClient :: "nat \<Rightarrow> string \<Rightarrow> string \<Rightarrow> Hub \<Rightarrow> Client \<times> Hub" where
  "NewClient i userID deviceID h =
    (\<lparr>c_id = i, c_userID = userID, c_deviceID = deviceID\<rparr>,
     h\<lparr>h_conns := (h_conns h)(i \<mapsto> \<lparr>cn_closed = False, cn_send = []\<rparr>)\<rparr>)"

definition SendJSONWithSeq :: "Client \<Rightarrow> string \<Rightarrow> out \<Rightarrow> int \<Rightarrow> Hub \<Rightarrow> Hub" where
  "SendJSONWithSeq c msgType data seq h = (case h_conns h (c_id c) of
      None \<Rightarrow> h
    | Some cn \<Rightarrow>
       if cn_closed cn then h
       else if length (cn_send cn) < sendBufSize
       then h\<lparr>h_conns := (h_conns h)(c_id c \<mapsto> cn\<lparr>cn_send := cn_send cn @
              [\<lparr>pk_Type = msgType, pk_Data = data, pk_Seq = seq\<rparr>]\<rparr>)\<rparr>
       else h)"

definition SendJSON :: "Client \<Rightarrow> string \<Rightarrow> out \<Rightarrow> Hub \<Rightarrow> Hub" where
  "SendJSON c msgType data h = SendJSONWithSeq c msgType data 0 h"

definition SendError :: "Client \<Rightarrow> string \<Rightarrow> string \<Rightarrow> string \<Rightarrow> Hub \<Rightarrow> Hub" where
  "SendError c code message callID h = SendJSON c MsgError (ErrorMsg code message callID) h"

definition Client_Close :: "Client \<Rightarrow> Hub \<Rightarrow> Hub" where
  "Client_Close c h = (case h_conns h (c_id c) of
      None \<Rightarrow> h
    | Some cn \<Rightarrow> if cn_closed cn then h
        else h\<lparr>h_conns := (h_conns h)(c_id c \<mapsto> cn\<lparr>cn_closed := True\<rparr>)\<rparr>)"

text \<open>One round of \<open>WritePump\<close> that takes a message from the buffer.\<close>

definition WritePump_take :: "Client \<Rightarrow> Hub \<Rightarrow> packet option \<times> Hub" where
  "WritePump_take c h = (case h_conns h (c_id c) of
      Some cn \<Rightarrow> (case cn_send cn of
          p # ps \<Rightarrow> (if cn_closed cn then None else Some p,
             h\<lparr>h_conns := (h_conns h)(c_id c \<mapsto> cn\<lparr>cn_send := ps\<rparr>)\<rparr>)
        | [] \<Rightarrow> (None, h))
    | None \<Rightarrow> (None, h))"

section \<open>Connected devices and delivery\<close>

definition devices :: "Hub \<Rightarrow> string \<Rightarrow> (string \<times> Client) list" where
  "devices h userID = (case map_of (h_clients h) userID of None \<Rightarrow> [] | Some ds \<Rightarrow> ds)"

definition isUserOnline :: "string \<Rightarrow> Hub \<Rightarrow> bool" where
  "isUserOnline userID h \<longleftrightarrow> devices h userID \<noteq> []"

definition getClientDevice :: "string \<Rightarrow> string \<Rightarrow> Hub \<Rightarrow> Client option" where
  "getClientDevice userID deviceID h = map_of (devices h userID) deviceID"

text \<open>The first device in iteration order.\<close>

definition getClient :: "('w, 'z) env_scheme \<Rightarrow> string \<Rightarrow> Hub \<Rightarrow> 'w \<Rightarrow> Client option \<times> 'w" where
  "getClient E userID h w =
    (let (ks, w1) = map_order E (map fst (devices h userID)) w in
     (case ks of [] \<Rightarrow> (None, w1) | d # _ \<Rightarrow> (map_of (devices h userID) d, w1)))"

text \<open>A counter is the number of \<open>Add(1)\<close> calls made on it; the \<open>atomic.Int64\<close> then
  holds that number wrapped to 64 bits (a counter that does not exist yet counts 0).\<close>

definition nextSeq :: "string \<Rightarrow> Hub \<Rightarrow> int \<times> Hub" where
  "nextSeq userID h =
    (let n = Suc (h_seqCounters h userID)
     in (wrap64 (int n), h\<lparr>h_seqCounters := (h_seqCounters h)(userID := n)\<rparr>))"

fun send_all :: "Client list \<Rightarrow> string \<Rightarrow> out \<Rightarrow> int \<Rightarrow> Hub \<Rightarrow> Hub" where
  "send_all [] msgType data seq h = h"
| "send_all (c # cs) msgType data seq h = send_all cs msgType data seq (SendJSONWithSeq c msgType data seq h)"

text \<open>Each device gets the message once, so the order in which a map of devices is walked does not
  show.\<close>

definition sendToUser :: "string \<Rightarrow> string \<Rightarrow> out \<Rightarrow> Hub \<Rightarrow> bool \<times> Hub" where
  "sendToUser userID msgType payload h =
    (let clients = map snd (devices h userID) in
     if clients = [] then (False, h)
     else let (seq, h1) = nextSeq userID h in (True, send_all clients msgType payload seq h1))"

definition sendToUserExcept :: "string \<Rightarrow> string \<Rightarrow> string \<Rightarrow> out \<Rightarrow> Hub \<Rightarrow> Hub" where
  "sendToUserExcept userID excludeDeviceID msgType payload h =
    (let clients = map snd (filter (\<lambda>(did, _). did \<noteq> excludeDeviceID) (devices h userID)) in
     if clients = [] then h
     else let (seq, h1) = nextSeq userID h in send_all clients msgType payload seq h1)"

definition toUser :: "string \<Rightarrow> string \<Rightarrow> out \<Rightarrow> Hub \<Rightarrow> Hub" where
  "toUser userID msgType payload h = snd (sendToUser userID msgType payload h)"

text \<open>Publishing, when there is a bus; errors are ignored.\<close>

definition hub_publish :: "('w, 'z) env_scheme \<Rightarrow> Hub \<Rightarrow> string \<Rightarrow> event \<Rightarrow> 'w \<Rightarrow> 'w" where
  "hub_publish E h subject ev w = (case h_bus h of
      None \<Rightarrow> w | Some src \<Rightarrow> snd (Bus_Publish E src subject ev w))"

definition go :: "timer \<Rightarrow> Hub \<Rightarrow> Hub" where
  "go t h = h\<lparr>h_timers := h_timers h @ [t]\<rparr>"

section \<open>ICE buffer\<close>

definition bufferICECandidate :: "string \<Rightarrow> ICECandidateMsg \<Rightarrow> Hub \<Rightarrow> Hub" where
  "bufferICECandidate callID msg h =
    (let buf = (case h_iceBuf h callID of None \<Rightarrow> [] | Some b \<Rightarrow> b) @ [msg];
         buf' = (if length buf > 50 then drop (length buf - 50) buf else buf)
     in h\<lparr>h_iceBuf := (h_iceBuf h)(callID \<mapsto> buf')\<rparr>)"

fun send_candidates :: "Client \<Rightarrow> ICECandidateMsg list \<Rightarrow> Hub \<Rightarrow> Hub" where
  "send_candidates c [] h = h"
| "send_candidates c (m # ms) h = send_candidates c ms (SendJSON c MsgICECandidate (IceOut m) h)"

definition flushICEBuffer :: "string \<Rightarrow> Client \<Rightarrow> Hub \<Rightarrow> Hub" where
  "flushICEBuffer callID client h =
    (let candidates = (case h_iceBuf h callID of None \<Rightarrow> [] | Some b \<Rightarrow> b)
     in send_candidates client candidates (h\<lparr>h_iceBuf := (h_iceBuf h)(callID := None)\<rparr>))"

definition clearICEBuffer :: "string \<Rightarrow> Hub \<Rightarrow> Hub" where
  "clearICEBuffer callID h = h\<lparr>h_iceBuf := (h_iceBuf h)(callID := None)\<rparr>"

section \<open>Rooms\<close>

definition members :: "Hub \<Rightarrow> string \<Rightarrow> string list" where
  "members h roomID = (case map_of (h_rooms h) roomID of None \<Rightarrow> [] | Some ms \<Rightarrow> ms)"

definition addToRoom :: "string \<Rightarrow> string \<Rightarrow> Hub \<Rightarrow> Hub" where
  "addToRoom roomID userID h = h\<lparr>h_rooms := aput roomID (List.insert userID (members h roomID)) (h_rooms h)\<rparr>"

definition setRoomHost :: "string \<Rightarrow> string \<Rightarrow> Hub \<Rightarrow> Hub" where
  "setRoomHost roomID userID h = h\<lparr>h_roomHosts := (h_roomHosts h)(roomID \<mapsto> userID)\<rparr>"

definition getRoomHost :: "string \<Rightarrow> Hub \<Rightarrow> string" where
  "getRoomHost roomID h = (case h_roomHosts h roomID of None \<Rightarrow> [] | Some u \<Rightarrow> u)"

definition isRoomHost :: "string \<Rightarrow> string \<Rightarrow> Hub \<Rightarrow> bool" where
  "isRoomHost roomID userID h \<longleftrightarrow> getRoomHost roomID h = userID"

definition clearRoomHost :: "string \<Rightarrow> Hub \<Rightarrow> Hub" where
  "clearRoomHost roomID h = h\<lparr>h_roomHosts := (h_roomHosts h)(roomID := None)\<rparr>"

definition removeFromRoom :: "string \<Rightarrow> string \<Rightarrow> Hub \<Rightarrow> Hub" where
  "removeFromRoom roomID userID h = (case map_of (h_rooms h) roomID of
      None \<Rightarrow> h
    | Some ms \<Rightarrow> h\<lparr>h_rooms := aput roomID (filter (\<lambda>u. u \<noteq> userID) ms) (h_rooms h)\<rparr>)"

definition deleteRoom :: "string \<Rightarrow> Hub \<Rightarrow> Hub" where
  "deleteRoom roomID h = h\<lparr>h_rooms := adel roomID (h_rooms h)\<rparr>"

definition isInRoom :: "string \<Rightarrow> string \<Rightarrow> Hub \<Rightarrow> bool" where
  "isInRoom roomID userID h \<longleftrightarrow> userID \<in> set (members h roomID)"

definition getRoomMembers :: "('w, 'z) env_scheme \<Rightarrow> string \<Rightarrow> Hub \<Rightarrow> 'w \<Rightarrow> string list \<times> 'w" where
  "getRoomMembers E roomID h w = map_order E (members h roomID) w"

definition getUserRooms :: "('w, 'z) env_scheme \<Rightarrow> string \<Rightarrow> Hub \<Rightarrow> 'w \<Rightarrow> string list \<times> 'w" where
  "getUserRooms E userID h w =
    (let (rs, w1) = map_order E (map fst (h_rooms h)) w
     in (filter (\<lambda>r. isInRoom r userID h) rs, w1))"

fun send_users :: "string list \<Rightarrow> string \<Rightarrow> out \<Rightarrow> Hub \<Rightarrow> Hub" where
  "send_users [] msgType payload h = h"
| "send_users (u # us) msgType payload h = send_users us msgType payload (toUser u msgType payload h)"

definition broadcastToRoom ::
  "('w, 'z) env_scheme \<Rightarrow> string \<Rightarrow> string \<Rightarrow> string \<Rightarrow> out \<Rightarrow> 'w hub_op" where
  "broadcastToRoom E roomID excludeUserID msgType payload h w =
    (let (ms, w1) = getRoomMembers E roomID h w
     in (send_users (filter (\<lambda>u. u \<noteq> excludeUserID) ms) msgType payload h, w1))"

text \<open>\<open>removeFromAllRooms\<close>: first the local bookkeeping for every room the user is in (in
  iteration order), then the orchestrator and the broadcast for each of them.\<close>

fun drop_user :: "string list \<Rightarrow> string \<Rightarrow> Hub \<Rightarrow> string list \<times> Hub" where
  "drop_user [] userID h = ([], h)"
| "drop_user (r # rs) userID h =
    (if isInRoom r userID h
     then (let h1 = removeFromRoom r userID h;
               h2 = (if members h1 r = [] then clearRoomHost r (deleteRoom r h1) else h1);
               (left, h3) = drop_user rs userID h2
           in (r # left, h3))
     else drop_user rs userID h)"

fun leave_rooms :: "('w, 'z) env_scheme \<Rightarrow> string list \<Rightarrow> string \<Rightarrow> 'w hub_op" where
  "leave_rooms E [] userID h w = (h, w)"
| "leave_rooms E (r # rs) userID h w =
    (let w1 = (case h_orchestrator h of
           None \<Rightarrow> w | Some orc \<Rightarrow> snd (Orchestrator_LeaveGroupSession E orc r userID w));
         (h2, w2) = broadcastToRoom E r [] MsgParticipantLeft (ParticipantLeftMsg r userID) h w1
     in leave_rooms E rs userID h2 w2)"

definition removeFromAllRooms :: "('w, 'z) env_scheme \<Rightarrow> string \<Rightarrow> 'w hub_op" where
  "removeFromAllRooms E userID h w =
    (let (rs, w1) = map_order E (map fst (h_rooms h)) w;
         (left, h1) = drop_user rs userID h
     in leave_rooms E left userID h1 w1)"

section \<open>Grace timers\<close>

fun is_grace :: "string \<Rightarrow> timer \<Rightarrow> bool" where
  "is_grace u (GraceTimeout v _ _) = (u = v)"
| "is_grace u _ = False"

fun is_room_grace :: "string \<Rightarrow> timer \<Rightarrow> bool" where
  "is_room_grace u (RoomGraceTimeout v _) = (u = v)"
| "is_room_grace u _ = False"

definition cancelGracePeriod :: "string \<Rightarrow> Hub \<Rightarrow> bool \<times> Hub" where
  "cancelGracePeriod userID h =
    (list_ex (is_grace userID) (h_timers h),
     h\<lparr>h_timers := filter (\<lambda>t. \<not> is_grace userID t) (h_timers h)\<rparr>)"

definition cancelRoomGracePeriod :: "string \<Rightarrow> Hub \<Rightarrow> bool \<times> Hub" where
  "cancelRoomGracePeriod userID h =
    (list_ex (is_room_grace userID) (h_timers h),
     h\<lparr>h_timers := filter (\<lambda>t. \<not> is_room_grace userID t) (h_timers h)\<rparr>)"

definition startRoomGracePeriod :: "('w, 'z) env_scheme \<Rightarrow> string \<Rightarrow> Hub \<Rightarrow> 'w \<Rightarrow> bool \<times> Hub \<times> 'w" where
  "startRoomGracePeriod E userID h w =
    (let (rooms, w1) = getUserRooms E userID h w in
     if rooms = [] then (False, h, w1)
     else (True, go (RoomGraceTimeout userID rooms) (snd (cancelRoomGracePeriod userID h)), w1))"

end
