(* ===== verification/Hub_Calls.thy ===== *)
theory Hub_Calls
  imports Hub
begin

text \<open>
  The 1:1 call handlers of \<open>internal/signaling/hub.go\<close>: initiate, accept, reject, end, cancel,
  ICE candidates, quality metrics, reconnection, glare, state sync and the timeout bodies.  Each
  handler takes the client that sent the message and the raw payload, and returns the hub and the
  world it leaves.
\<close>

section \<open>Validation\<close>

definition isValidSDP :: "string \<Rightarrow> bool" where
  "isValidSDP sdp \<longleftrightarrow> \<not> (length sdp < 10 \<or> 65536 < length sdp) \<and>
     Contains sdp ''v=0'' \<and> Contains sdp ''o=''"

text \<open>A new ringing session.\<close>

definition ringing :: "string \<Rightarrow> string \<Rightarrow> CallInitiateMsg \<Rightarrow> time \<Rightarrow> CallSession" where
  "ringing callID callerID msg now = \<lparr>cs_CallID = callID, cs_CallerID = callerID,
     cs_CalleeID = ini_CalleeID msg, cs_CallType = ini_CallType msg, cs_State = StateRinging,
     cs_SDPOffer = ini_SDPOffer msg, cs_SDPAnswer = [], cs_StartedAt = now,
     cs_AnsweredAt = zero_time, cs_EndedAt = zero_time, cs_EndReason = []\<rparr>"

text \<open>\<open>strings.Compare(a, b) > 0\<close>: bytewise.\<close>

definition str_gt :: "string \<Rightarrow> string \<Rightarrow> bool" where
  "str_gt a b \<longleftrightarrow> b < a"

definition peer_of :: "CallSession \<Rightarrow> string \<Rightarrow> string" where
  "peer_of sess userID = (if userID = cs_CallerID sess then cs_CalleeID sess else cs_CallerID sess)"

section \<open>Initiating\<close>

definition resolveGlare ::
  "('w, 'z) env_scheme \<Rightarrow> Client \<Rightarrow> CallSession \<Rightarrow> CallInitiateMsg \<Rightarrow> 'w hub_op" where
  "resolveGlare E losingCaller glareSess msg h w =
    (let callerID = c_userID losingCaller; calleeID = ini_CalleeID msg in
     if str_gt callerID calleeID
     then (toUser callerID MsgCallGlare (CallGlareMsg [] (cs_CallID glareSess) calleeID) h, w)
     else
      (let (_, w1) = SessionStore_End E (cs_CallID glareSess) ''glare'' w;
           (newCallID, w2) = uuid_new E w1;
           (now, w3) = time_now E w2;
           (r, w4) = SessionStore_Create E (ringing newCallID callerID msg now) w3 in
       case r of
         Inl _ \<Rightarrow> (SendError losingCaller ErrCodeInternal ''glare resolution failed'' [] h, w4)
       | Inr _ \<Rightarrow>
         (let h1 = toUser calleeID MsgIncomingCall
                (IncomingCallMsg newCallID callerID [] (ini_SDPOffer msg) (ini_CallType msg)) h;
              h2 = go (RingTimeout newCallID) h1;
              (loser, cancelled) = (if callerID = calleeID then (calleeID, []) else (calleeID, cs_CallID glareSess))
          in (toUser loser MsgCallGlare (CallGlareMsg cancelled newCallID callerID) h2, w4))))"

definition handleCallInitiate :: "('w, 'z) env_scheme \<Rightarrow> Client \<Rightarrow> json option \<Rightarrow> 'w hub_op" where
  "handleCallInitiate E caller data h w =
    (case unmarshal_raw dec_CallInitiateMsg data of
       Inl _ \<Rightarrow> (SendError caller ErrCodeInvalidMessage ''invalid call_initiate payload'' [] h, w)
     | Inr msg \<Rightarrow>
        if ini_CalleeID msg = [] \<or> ini_SDPOffer msg = [] \<or> ini_CallType msg = []
        then (SendError caller ErrCodeInvalidMessage ''missing required fields'' [] h, w)
        else if ini_CallType msg \<noteq> ''audio'' \<and> ini_CallType msg \<noteq> ''video''
        then (SendError caller ErrCodeInvalidMessage ''call_type must be audio or video'' [] h, w)
        else if \<not> isValidSDP (ini_SDPOffer msg)
        then (SendError caller ErrCodeInvalidSDP ''invalid SDP format'' [] h, w)
        else
         (let (callID, w1) = uuid_new E w;
              (now, w2) = time_now E w1;
              (r, w3) = SessionStore_Create E (ringing callID (c_userID caller) msg now) w2 in
          case r of
            Inl e \<Rightarrow>
             (if e = Call_Store.ErrUserBusy
              then (let (g, w4) = SessionStore_FindGlareCall E (c_userID caller) (ini_CalleeID msg) w3 in
                 case g of
                   Inr (Some glareSess) \<Rightarrow> resolveGlare E caller glareSess msg h w4
                 | _ \<Rightarrow> (SendError caller ErrCodeBusy ''user is busy'' [] h, w4))
              else (SendError caller ErrCodeInternal ''failed to create call'' [] h, w3))
          | Inr _ \<Rightarrow>
             (let w4 = hub_publish E h SubjectCallInitiated (CallInitiated callID (c_userID caller)
                         (ini_CalleeID msg) (ini_CallType msg) False []) w3;
                  h1 = toUser (ini_CalleeID msg) MsgIncomingCall (IncomingCallMsg callID
                         (c_userID caller) [] (ini_SDPOffer msg) (ini_CallType msg)) h
              in (go (RingTimeout callID) h1, w4))))"

section \<open>Answering\<close>

definition accept_mutate :: "('w, 'z) env_scheme \<Rightarrow> string \<Rightarrow> 'w mutator" where
  "accept_mutate E sdp s w =
    (let (t, w1) = time_now E w in (s\<lparr>cs_SDPAnswer := sdp, cs_AnsweredAt := t\<rparr>, w1))"

definition is_over :: "CallSession \<Rightarrow> bool" where
  "is_over s \<longleftrightarrow> cs_State s = StateEnded \<or> cs_State s = StateCleanup"

definition handleCallAccept :: "('w, 'z) env_scheme \<Rightarrow> Client \<Rightarrow> json option \<Rightarrow> 'w hub_op" where
  "handleCallAccept E callee data h w =
    (case unmarshal_raw dec_CallAcceptMsg data of
       Inl _ \<Rightarrow> (SendError callee ErrCodeInvalidMessage ''invalid call_accept payload'' [] h, w)
     | Inr msg \<Rightarrow>
      (let callID = acc_CallID msg; (g, w1) = SessionStore_Get E callID w in
       case g of
         Inl _ \<Rightarrow> (SendError callee ErrCodeNotFound ''call not found'' callID h, w1)
       | Inr sess \<Rightarrow>
          if cs_CalleeID sess \<noteq> c_userID callee
          then (SendError callee ErrCodeUnauthorized ''not the callee'' callID h, w1)
          else if is_over sess
          then (SendError callee ErrCodeCallCancelled ''call was cancelled'' callID h, w1)
          else if acc_SDPAnswer msg \<noteq> [] \<and> \<not> isValidSDP (acc_SDPAnswer msg)
          then (SendError callee ErrCodeInvalidSDP ''invalid SDP answer format'' callID h, w1)
          else
           (let (r, w2) = SessionStore_TransitionState E callID StateConnecting
                            (accept_mutate E (acc_SDPAnswer msg)) w1 in
            case r of
              Inl e \<Rightarrow>
               (let (g2, w3) = SessionStore_Get E callID w2 in
                if (case g2 of Inl _ \<Rightarrow> False | Inr cur \<Rightarrow> is_over cur)
                then (SendError callee ErrCodeCallCancelled ''call was cancelled'' callID h, w3)
                else (SendError callee ErrCodeInvalidState (Error_text e) callID h, w3))
            | Inr _ \<Rightarrow>
               (let w3 = hub_publish E h SubjectCallAccepted (CallAccepted callID (c_userID callee) []) w2;
                    h1 = toUser (cs_CallerID sess) MsgCallAccepted (CallAcceptedMsg callID (acc_SDPAnswer msg)) h;
                    h2 = sendToUserExcept (c_userID callee) (c_deviceID callee) MsgCallAcceptedElsewhere
                           (CallAcceptedElsewhereMsg callID (c_deviceID callee)) h1
                in (go (IceTimeout callID) h2, w3)))))"

definition handleCallReject :: "('w, 'z) env_scheme \<Rightarrow> Client \<Rightarrow> json option \<Rightarrow> 'w hub_op" where
  "handleCallReject E callee data h w =
    (case unmarshal_raw dec_CallRejectMsg data of
       Inl _ \<Rightarrow> (SendError callee ErrCodeInvalidMessage ''invalid call_reject payload'' [] h, w)
     | Inr msg \<Rightarrow>
      (let callID = rej_CallID msg; (g, w1) = SessionStore_Get E callID w in
       case g of
         Inl _ \<Rightarrow> (SendError callee ErrCodeNotFound ''call not found'' callID h, w1)
       | Inr sess \<Rightarrow>
          if cs_CalleeID sess \<noteq> c_userID callee
          then (SendError callee ErrCodeUnauthorized ''not the callee'' callID h, w1)
          else
           (let reason = (if rej_Reason msg = [] then ''declined'' else rej_Reason msg);
                (r, w2) = SessionStore_End E callID reason w1 in
            case r of
              Inl _ \<Rightarrow> (h, w2)
            | Inr _ \<Rightarrow>
               (let w3 = hub_publish E h SubjectCallRejected (CallRejected callID [] reason) w2
                in (toUser (cs_CallerID sess) MsgCallRejected (CallRejectedMsg callID reason) h, w3)))))"

definition handleCallEnd :: "('w, 'z) env_scheme \<Rightarrow> Client \<Rightarrow> json option \<Rightarrow> 'w hub_op" where
  "handleCallEnd E client data h w =
    (case unmarshal_raw dec_call_id data of
       Inl _ \<Rightarrow> (SendError client ErrCodeInvalidMessage ''invalid call_end payload'' [] h, w)
     | Inr callID \<Rightarrow>
      (let (g, w1) = SessionStore_Get E callID w in
       case g of
         Inl _ \<Rightarrow> (SendError client ErrCodeNotFound ''call not found'' callID h, w1)
       | Inr sess \<Rightarrow>
          if cs_CallerID sess \<noteq> c_userID client \<and> cs_CalleeID sess \<noteq> c_userID client
          then (SendError client ErrCodeUnauthorized ''not a participant'' callID h, w1)
          else
           (let (r, w2) = SessionStore_End E callID ''normal'' w1 in
            case r of
              Inl _ \<Rightarrow> (h, w2)
            | Inr _ \<Rightarrow>
               (let w3 = hub_publish E h SubjectCallEnded (CallEnded callID ''normal'' 0) w2
                in (toUser (peer_of sess (c_userID client)) MsgCallEnded (CallEndedMsg callID ''normal'') h, w3)))))"

definition handleCallCancel :: "('w, 'z) env_scheme \<Rightarrow> Client \<Rightarrow> json option \<Rightarrow> 'w hub_op" where
  "handleCallCancel E caller data h w =
    (case unmarshal_raw dec_call_id data of
       Inl _ \<Rightarrow> (SendError caller ErrCodeInvalidMessage ''invalid call_cancel payload'' [] h, w)
     | Inr callID \<Rightarrow>
      (let (g, w1) = SessionStore_Get E callID w in
       case g of
         Inl _ \<Rightarrow> (SendError caller ErrCodeNotFound ''call not found'' callID h, w1)
       | Inr sess \<Rightarrow>
          if cs_CallerID sess \<noteq> c_userID caller
          then (SendError caller ErrCodeUnauthorized ''not the caller'' callID h, w1)
          else
           (let (r, w2) = SessionStore_End E callID ''cancelled'' w1 in
            case r of
              Inl _ \<Rightarrow> (h, w2)
            | Inr _ \<Rightarrow> (toUser (cs_CalleeID sess) MsgCallCancelled (CallCancelledMsg callID) h, w2))))"

definition handleICECandidate :: "('w, 'z) env_scheme \<Rightarrow> Client \<Rightarrow> json option \<Rightarrow> 'w hub_op" where
  "handleICECandidate E client data h w =
    (case unmarshal_raw dec_ICECandidateMsg data of
       Inl _ \<Rightarrow> (SendError client ErrCodeInvalidMessage ''invalid ice_candidate payload'' [] h, w)
     | Inr msg \<Rightarrow>
      (let (g, w1) = SessionStore_Get E (ice_CallID msg) w in
       case g of
         Inl _ \<Rightarrow> (SendError client ErrCodeNotFound ''call not found'' (ice_CallID msg) h, w1)
       | Inr sess \<Rightarrow>
          if cs_State sess = StateReconnecting then (bufferICECandidate (ice_CallID msg) msg h, w1)
          else
           (let (peer, w2) = getClient E (peer_of sess (c_userID client)) h w1 in
            case peer of
              None \<Rightarrow> (h, w2)
            | Some p \<Rightarrow> (SendJSON p MsgICECandidate (IceOut msg) h, w2))))"

definition metrics_event :: "string \<Rightarrow> QualityMetricSample \<Rightarrow> QualityMetricsSample" where
  "metrics_event userID s = \<lparr>qs_ParticipantID = userID, qs_Timestamp = qm_Timestamp s,
     qs_Direction = qm_Direction s, qs_RTTMs = qm_RTTMs s, qs_LossPct = qm_LossPct s,
     qs_JitterMs = qm_JitterMs s, qs_BitrateKbps = qm_BitrateKbps s, qs_Framerate = qm_Framerate s,
     qs_Resolution = qm_Resolution s, qs_NetworkTier = qm_NetworkTier s\<rparr>"

definition handleQualityMetrics :: "('w, 'z) env_scheme \<Rightarrow> Client \<Rightarrow> json option \<Rightarrow> 'w hub_op" where
  "handleQualityMetrics E client data h w =
    (case unmarshal_raw dec_QualityMetricsMsg data of
       Inl _ \<Rightarrow> (SendError client ErrCodeInvalidMessage ''invalid quality_metrics payload'' [] h, w)
     | Inr msg \<Rightarrow>
        if qmm_CallID msg = [] \<or> qmm_Samples msg = [] then (h, w)
        else (h, hub_publish E h SubjectQualityMetrics (QualityMetrics (qmm_CallID msg) []
                   (map (metrics_event (c_userID client)) (qmm_Samples msg))) w))"

section \<open>Timeouts\<close>

definition ringTimeout_duration :: "Hub \<Rightarrow> duration" where
  "ringTimeout_duration h = (if h_ringSeconds h > 0 then h_ringSeconds h * Second else 45 * Second)"

definition iceTimeout_duration :: "Hub \<Rightarrow> duration" where
  "iceTimeout_duration h = (if h_iceSeconds h > 0 then h_iceSeconds h * Second else 15 * Second)"

definition reconnectGracePeriod :: duration where
  "reconnectGracePeriod = 30 * Second"

definition endBoth :: "('w, 'z) env_scheme \<Rightarrow> string \<Rightarrow> CallState \<Rightarrow> string \<Rightarrow> string \<Rightarrow> 'w hub_op" where
  "endBoth E callID expected reason shown h w =
    (let (g, w1) = SessionStore_Get E callID w in
     case g of
       Inl _ \<Rightarrow> (h, w1)
     | Inr sess \<Rightarrow>
        if cs_State sess \<noteq> expected then (h, w1)
        else (let (r, w2) = SessionStore_End E callID reason w1 in
          case r of
            Inl _ \<Rightarrow> (h, w2)
          | Inr _ \<Rightarrow> (toUser (cs_CalleeID sess) MsgCallEnded (CallEndedMsg callID shown)
                       (toUser (cs_CallerID sess) MsgCallEnded (CallEndedMsg callID shown) h), w2)))"

definition ringTimeout :: "('w, 'z) env_scheme \<Rightarrow> string \<Rightarrow> 'w hub_op" where
  "ringTimeout E callID = endBoth E callID StateRinging ''ring_timeout'' ''timeout''"

definition iceTimeout :: "('w, 'z) env_scheme \<Rightarrow> string \<Rightarrow> 'w hub_op" where
  "iceTimeout E callID = endBoth E callID StateConnecting ''ice_timeout'' ''ice_timeout''"

definition PromoteToActive :: "('w, 'z) env_scheme \<Rightarrow> string \<Rightarrow> 'w \<Rightarrow> unit result \<times> 'w" where
  "PromoteToActive E callID w = SessionStore_TransitionState E callID StateActive no_mutate w"

section \<open>Reconnection\<close>

definition startGracePeriod :: "('w, 'z) env_scheme \<Rightarrow> string \<Rightarrow> Hub \<Rightarrow> 'w \<Rightarrow> bool \<times> Hub \<times> 'w" where
  "startGracePeriod E userID h w =
    (let (a, w1) = SessionStore_GetUserActiveCall E userID w in
     case a of
       Inl _ \<Rightarrow> (False, h, w1)
     | Inr callID \<Rightarrow>
        if callID = [] then (False, h, w1)
        else
         (let (g, w2) = SessionStore_Get E callID w1 in
          case g of
            Inl _ \<Rightarrow> (False, h, w2)
          | Inr sess \<Rightarrow>
             if cs_State sess \<noteq> StateActive \<and> cs_State sess \<noteq> StateConnecting then (False, h, w2)
             else
              (let (r, w3) = SessionStore_TransitionState E callID StateReconnecting no_mutate w2 in
               case r of
                 Inl _ \<Rightarrow> (False, h, w3)
               | Inr _ \<Rightarrow>
                 (let peerID = peer_of sess userID;
                      h1 = toUser peerID MsgPeerReconnecting (PeerReconnectingMsg callID userID) h;
                      h2 = snd (cancelGracePeriod userID h1)
                  in (True, go (GraceTimeout userID callID peerID) h2, w3)))))"

text \<open>The timeout branch of \<open>reconnectGraceTimeout\<close>.\<close>

definition reconnectGraceTimeout :: "('w, 'z) env_scheme \<Rightarrow> string \<Rightarrow> string \<Rightarrow> string \<Rightarrow> 'w hub_op" where
  "reconnectGraceTimeout E userID callID peerID h w =
    (let h1 = clearICEBuffer callID (snd (cancelGracePeriod userID h));
         (r, w1) = SessionStore_End E callID ''reconnect_timeout'' w in
     case r of
       Inl _ \<Rightarrow> (h1, w1)
     | Inr _ \<Rightarrow>
       (let w2 = hub_publish E h1 SubjectCallEnded (CallEnded callID ''reconnect_timeout'' 0) w1;
            h2 = toUser peerID MsgCallEnded (CallEndedMsg callID ''reconnect_timeout'') h1
        in removeFromAllRooms E userID h2 w2))"

definition roomGraceTimeout :: "('w, 'z) env_scheme \<Rightarrow> string \<Rightarrow> 'w hub_op" where
  "roomGraceTimeout E userID h w = removeFromAllRooms E userID (snd (cancelRoomGracePeriod userID h)) w"

definition handleReconnect :: "('w, 'z) env_scheme \<Rightarrow> Client \<Rightarrow> json option \<Rightarrow> 'w hub_op" where
  "handleReconnect E client data h w =
    (case unmarshal_raw dec_call_id data of
       Inl _ \<Rightarrow> (SendError client ErrCodeInvalidMessage ''invalid reconnect payload'' [] h, w)
     | Inr callID \<Rightarrow>
        if callID = [] then (SendError client ErrCodeInvalidMessage ''call_id required'' [] h, w)
        else
         (let (g, w1) = SessionStore_Get E callID w in
          case g of
            Inl _ \<Rightarrow> (SendError client ErrCodeNotFound ''call not found'' callID h, w1)
          | Inr sess \<Rightarrow>
             if cs_CallerID sess \<noteq> c_userID client \<and> cs_CalleeID sess \<noteq> c_userID client
             then (SendError client ErrCodeUnauthorized ''not a participant'' callID h, w1)
             else if cs_State sess \<noteq> StateReconnecting
             then (SendError client ErrCodeInvalidState ''call not in reconnecting state'' callID h, w1)
             else
              (let h1 = snd (cancelGracePeriod (c_userID client) h);
                   (r, w2) = SessionStore_TransitionState E callID StateActive no_mutate w1 in
               case r of
                 Inl _ \<Rightarrow> (SendError client ErrCodeInternal ''failed to resume session'' callID h1, w2)
               | Inr _ \<Rightarrow>
                 (let peerID = peer_of sess (c_userID client);
                      h2 = SendJSON client MsgSessionResumed (SessionResumedMsg callID StateActive peerID []) h1;
                      h3 = toUser peerID MsgPeerReconnected (PeerReconnectedMsg callID (c_userID client)) h2
                  in (flushICEBuffer callID client h3, w2)))))"

section \<open>State sync\<close>

definition sendStateSync :: "('w, 'z) env_scheme \<Rightarrow> Client \<Rightarrow> 'w hub_op" where
  "sendStateSync E client h w =
    (let (a, w1) = SessionStore_GetUserActiveCall E (c_userID client) w in
     case a of
       Inl _ \<Rightarrow> (h, w1)
     | Inr callID \<Rightarrow>
        if callID = [] then (h, w1)
        else
         (let (g, w2) = SessionStore_Get E callID w1 in
          case g of
            Inl _ \<Rightarrow> (h, w2)
          | Inr sess \<Rightarrow>
             (SendJSON client MsgStateSync (StateSyncMsg [\<lparr>ss_CallID = callID,
                ss_PeerID = peer_of sess (c_userID client), ss_CallType = cs_CallType sess,
                ss_State = cs_State sess,
                ss_Role = (if cs_CallerID sess = c_userID client then ''caller'' else ''callee'')\<rparr>]) h, w2)))"

end
