(* ===== verification/Store_Interleaving.thy ===== *)
theory Store_Interleaving
  imports Call_Registry Hub_Calls
begin

text \<open>
  The signaling store when several goroutines use it at once.  The loop of the hub and the timers of the
  calls share one Redis, so the commands of one store operation may be separated by commands of another.
  Here an operation is the sequence of its commands, each chosen from the answers to the ones before
  (\<open>prog\<close>); run without interference it is the operation of \<open>Call_Store\<close>.  \<open>istep\<close> lets any process take its next
  command, and \<open>WATCH\<close> and \<open>EXEC\<close> behave as Redis documents them.
\<close>

section \<open>Operations as sequences of commands\<close>

datatype 'a prog = Return 'a
  | Exists string "nat result \<Rightarrow> 'a prog"
  | Get string "payload result \<Rightarrow> 'a prog"
  | Exec "rcmd list" "unit result \<Rightarrow> 'a prog"
  | Watch string "'a prog"
  | WatchExec string "rcmd list" "unit result \<Rightarrow> 'a prog"
  | Now "time \<Rightarrow> 'a prog"

primrec run :: "('w, 'z) env_scheme \<Rightarrow> 'a prog \<Rightarrow> 'w \<Rightarrow> 'a \<times> 'w" where
  "run E (Return x) = (\<lambda>w. (x, w))"
| "run E (Exists k f) = (\<lambda>w. case r_exists E k w of (r, w1) \<Rightarrow> run E (f r) w1)"
| "run E (Get k f) = (\<lambda>w. case r_get E k w of (r, w1) \<Rightarrow> run E (f r) w1)"
| "run E (Exec cs f) = (\<lambda>w. case r_exec E cs w of (r, w1) \<Rightarrow> run E (f r) w1)"
| "run E (Watch k p) = run E p"
| "run E (WatchExec k cs f) = (\<lambda>w. case r_watch_exec E k cs w of (r, w1) \<Rightarrow> run E (f r) w1)"
| "run E (Now f) = (\<lambda>w. case time_now E w of (t, w1) \<Rightarrow> run E (f t) w1)"

text \<open>The closures that the program passes to \<open>TransitionState\<close>.\<close>

datatype stamp = Plain | Ended string | Answered string

fun stamped :: "stamp \<Rightarrow> time \<Rightarrow> CallSession \<Rightarrow> CallSession" where
  "stamped Plain t s = s"
| "stamped (Ended reason) t s = s\<lparr>cs_EndedAt := t, cs_EndReason := reason\<rparr>"
| "stamped (Answered sdp) t s = s\<lparr>cs_SDPAnswer := sdp, cs_AnsweredAt := t\<rparr>"

fun mutator_of :: "('w, 'z) env_scheme \<Rightarrow> stamp \<Rightarrow> 'w mutator" where
  "mutator_of E Plain = no_mutate"
| "mutator_of E (Ended reason) = end_mutate E reason"
| "mutator_of E (Answered sdp) = accept_mutate E sdp"

definition write_session :: "string \<Rightarrow> CallSession \<Rightarrow> rcmd list" where
  "write_session c s = [CSet (sessionKey c) (PJson (marshal_CallSession s)) day_ttl]"

definition commit :: "string \<Rightarrow> (unit result \<Rightarrow> 'a prog) \<Rightarrow> CallSession \<Rightarrow> 'a prog" where
  "commit c k s = WatchExec (sessionKey c) (write_session c s)
     (\<lambda>x. k (case x of Inl e \<Rightarrow> Inl (if errors_Is e TxFailedErr then Call_Store.ErrConcurrentWrite else e) | Inr _ \<Rightarrow> Inr ()))"

definition mutate_then :: "stamp \<Rightarrow> CallSession \<Rightarrow> (CallSession \<Rightarrow> 'a prog) \<Rightarrow> 'a prog" where
  "mutate_then st s k = (if st = Plain then k s else Now (\<lambda>t. k (stamped st t s)))"

definition decide :: "string \<Rightarrow> CallState \<Rightarrow> stamp \<Rightarrow> (unit result \<Rightarrow> 'a prog) \<Rightarrow> payload result \<Rightarrow> 'a prog" where
  "decide c tgt st k r = (case r of
      Inl e \<Rightarrow> k (Inl (if errors_Is e redis_Nil then Call_Store.ErrSessionNotFound else e))
    | Inr p \<Rightarrow> (case decode_CallSession p of
        Inl e \<Rightarrow> k (Inl e)
      | Inr s \<Rightarrow> (case fst (Transition (NewStateMachineFrom (cs_State s)) tgt) of
          Inl e \<Rightarrow> k (Inl e)
        | Inr _ \<Rightarrow> mutate_then st (s\<lparr>cs_State := tgt\<rparr>) (commit c k))))"

definition transition_prog :: "string \<Rightarrow> CallState \<Rightarrow> stamp \<Rightarrow> (unit result \<Rightarrow> 'a prog) \<Rightarrow> 'a prog" where
  "transition_prog c tgt st k = Watch (sessionKey c) (Get (sessionKey c) (decide c tgt st k))"

definition clear_markers :: "CallSession \<Rightarrow> rcmd list" where
  "clear_markers s = [CDel (userActiveCallKey (cs_CallerID s)), CDel (userActiveCallKey (cs_CalleeID s))]"

definition cleanup :: "CallSession \<Rightarrow> (unit result \<Rightarrow> 'a prog) \<Rightarrow> unit result \<Rightarrow> 'a prog" where
  "cleanup s k x = (case x of Inl e \<Rightarrow> k (Inl e) | Inr _ \<Rightarrow> Exec (clear_markers s) k)"

definition end_read :: "string \<Rightarrow> string \<Rightarrow> (unit result \<Rightarrow> 'a prog) \<Rightarrow> payload result \<Rightarrow> 'a prog" where
  "end_read c reason k r = (case r of
      Inl e \<Rightarrow> k (Inl (if errors_Is e redis_Nil then Call_Store.ErrSessionNotFound else Wrap ''get session'' e))
    | Inr p \<Rightarrow> (case decode_CallSession p of
        Inl e \<Rightarrow> k (Inl (Wrap ''unmarshal session'' e))
      | Inr s \<Rightarrow> transition_prog c StateEnded (Ended reason) (cleanup s k)))"

definition end_prog :: "string \<Rightarrow> string \<Rightarrow> (unit result \<Rightarrow> 'a prog) \<Rightarrow> 'a prog" where
  "end_prog c reason k = Get (sessionKey c) (end_read c reason k)"

definition write_new :: "CallSession \<Rightarrow> rcmd list" where
  "write_new s = [CSet (sessionKey (cs_CallID s)) (PJson (marshal_CallSession s)) day_ttl,
     CSet (userActiveCallKey (cs_CallerID s)) (PText (cs_CallID s)) day_ttl,
     CSet (userActiveCallKey (cs_CalleeID s)) (PText (cs_CallID s)) day_ttl]"

fun create_from :: "CallSession \<Rightarrow> (unit result \<Rightarrow> 'a prog) \<Rightarrow> string list \<Rightarrow> 'a prog" where
  "create_from s k [] = Exec (write_new s) (\<lambda>x. k (case x of Inl e \<Rightarrow> Inl (Wrap ''create session'' e) | Inr _ \<Rightarrow> Inr ()))"
| "create_from s k (uid # uids) = Exists (userActiveCallKey uid) (\<lambda>r. case r of
      Inl e \<Rightarrow> k (Inl (Wrap ''check user busy'' e))
    | Inr n \<Rightarrow> if n > 0 then k (Inl Call_Store.ErrUserBusy) else create_from s k uids)"

definition create_prog :: "CallSession \<Rightarrow> (unit result \<Rightarrow> 'a prog) \<Rightarrow> 'a prog" where
  "create_prog s k = create_from s k [cs_CallerID s, cs_CalleeID s]"

subsection \<open>They are the operations of the store\<close>

lemma run_mutate: "run E (mutate_then st s k) w = (case mutator_of E st s w of (s', w1) \<Rightarrow> run E (k s') w1)"
  by (cases st) (simp_all add: mutate_then_def no_mutate_def end_mutate_def accept_mutate_def split_beta Let_def)

lemma run_transition:
  "run E (transition_prog c tgt st k) w = (case SessionStore_TransitionState E c tgt (mutator_of E st) w of (x, w') \<Rightarrow> run E (k x) w')"
  by (simp add: transition_prog_def decide_def SessionStore_TransitionState_def commit_def write_session_def run_mutate
      split_beta Let_def split: sum.splits)

lemma run_end: "run E (end_prog c reason k) w = (case SessionStore_End E c reason w of (x, w') \<Rightarrow> run E (k x) w')"
  by (simp add: end_prog_def end_read_def SessionStore_End_def SessionStore_Get_def run_transition cleanup_def clear_markers_def
      split_beta Let_def split: sum.splits)

lemma run_create_from:
  "run E (create_from s k us) w = (case SessionStore_checkFree E us w of
      (Inl e, w1) \<Rightarrow> run E (k (Inl e)) w1
    | (Inr _, w1) \<Rightarrow> (case r_exec E (write_new s) w1 of (x, w2) \<Rightarrow>
        run E (k (case x of Inl e \<Rightarrow> Inl (Wrap ''create session'' e) | Inr _ \<Rightarrow> Inr ())) w2))"
  by (induction us arbitrary: w) (auto simp: split_beta Let_def split: sum.splits)

lemma run_create: "run E (create_prog s k) w = (case SessionStore_Create E s w of (x, w') \<Rightarrow> run E (k x) w')"
  by (simp add: create_prog_def run_create_from SessionStore_Create_def write_new_def split_beta Let_def
      del: create_from.simps SessionStore_checkFree.simps split: sum.splits)

section \<open>Interleaved runs\<close>

text \<open>A process is the rest of its operation and the key it watches, with a flag that says whether the key has been
  written since.\<close>

type_synonym proc = "unit result prog \<times> (string \<times> bool) option"

definition mark :: "string set \<Rightarrow> proc \<Rightarrow> proc" where
  "mark K = (\<lambda>(p, v). (p, map_option (\<lambda>(k, d). (k, d \<or> k \<in> K)) v))"

text \<open>Any process takes its next command; the connection may refuse a request or lose an answer.  A write marks
  at least the keys that it changes.  A process may begin the next operation at any moment, leaving the one
  it is in where it stands.  Only the processes of \<open>C\<close> create calls, each under an identifier not in use.\<close>

inductive istep :: "nat set \<Rightarrow> keyspace \<times> (nat \<Rightarrow> proc) \<Rightarrow> keyspace \<times> (nat \<Rightarrow> proc) \<Rightarrow> bool" for C where
  ask: "ps i = (Exists k f, v) \<Longrightarrow>
    istep C (db, ps) (db, ps(i := (f (answer a (Inr (if db k = None then 0 else 1))), v)))"
| fetch: "ps i = (Get k f, v) \<Longrightarrow> istep C (db, ps) (db, ps(i := (f (answer a (get_res (db k))), v)))"
| watch: "ps i = (Watch k p, v) \<Longrightarrow> istep C (db, ps) (db, ps(i := (p, Some (k, False))))"
| clock: "ps i = (Now f, v) \<Longrightarrow> 0 < t \<Longrightarrow> istep C (db, ps) (db, ps(i := (f t, v)))"
| exec: "ps i = (Exec cs f, v) \<Longrightarrow> db' = (if happens a then exec_db cs db else db) \<Longrightarrow> {k. db' k \<noteq> db k} \<subseteq> K \<Longrightarrow>
    istep C (db, ps) (db', mark K \<circ> ps(i := (f (answer a (exec_res cs db)), v)))"
| commit: "ps i = (WatchExec k cs f, Some (k, False)) \<Longrightarrow> db' = (if happens a then exec_db cs db else db) \<Longrightarrow>
    {k. db' k \<noteq> db k} \<subseteq> K \<Longrightarrow> istep C (db, ps) (db', mark K \<circ> ps(i := (f (answer a (exec_res cs db)), None)))"
| conflict: "ps i = (WatchExec k cs f, v) \<Longrightarrow> v \<noteq> Some (k, False) \<Longrightarrow>
    istep C (db, ps) (db, ps(i := (f (answer a (Inl TxFailedErr)), None)))"
| begin_create: "i \<in> C \<Longrightarrow> live s \<Longrightarrow> db (sessionKey (cs_CallID s)) = None \<Longrightarrow>
    istep C (db, ps) (db, ps(i := (create_prog s Return, None)))"
| begin_transition: "tgt \<in> {StateConnecting, StateActive, StateReconnecting} \<Longrightarrow>
    istep C (db, ps) (db, ps(i := (transition_prog c tgt st Return, None)))"
| begin_end: "istep C (db, ps) (db, ps(i := (end_prog c reason Return, None)))"

inductive interleaved :: "nat set \<Rightarrow> keyspace \<times> (nat \<Rightarrow> proc) \<Rightarrow> keyspace \<times> (nat \<Rightarrow> proc) \<Rightarrow> bool" for C where
  none: "interleaved C x x"
| then_step: "interleaved C x y \<Longrightarrow> istep C y z \<Longrightarrow> interleaved C x z"

section \<open>What holds at every command\<close>

definition same_parties :: "CallSession \<Rightarrow> CallSession \<Rightarrow> bool" where
  "same_parties s s' \<longleftrightarrow> cs_CallerID s' = cs_CallerID s \<and> cs_CalleeID s' = cs_CalleeID s"

lemma same_parties_party: "same_parties s s' \<Longrightarrow> party s' = party s"
  by (rule ext) (simp add: same_parties_def party_def)

lemma same_parties_refl [simp]: "same_parties s s"
  by (simp add: same_parties_def)

lemma same_parties_stamped [simp]: "same_parties (stamped st t s) x = same_parties s x" "same_parties x (stamped st t s) = same_parties x s"
  "same_parties (s\<lparr>cs_State := tgt\<rparr>) x = same_parties s x" "same_parties x (s\<lparr>cs_State := tgt\<rparr>) = same_parties x s"
  by (cases st; simp add: same_parties_def)+

lemma cs_State_stamped [simp]: "cs_State (stamped st t s) = cs_State s"
  by (cases st) simp_all

text \<open>Every call is still there, between the same users, and has moved along edges of the state machine, or not at
  all once it is over.\<close>

definition progress :: "keyspace \<Rightarrow> keyspace \<Rightarrow> bool" where
  "progress db db' \<longleftrightarrow> (\<forall>c s. call_at db c = Some s \<longrightarrow> (\<exists>s'. call_at db' c = Some s' \<and> same_parties s s' \<and>
     edge\<^sup>*\<^sup>* (cs_State s) (cs_State s') \<and> (\<not> live s \<longrightarrow> s' = s)))"

lemma progress_refl [simp]: "progress db db"
  by (simp add: progress_def)

lemma progress_trans:
  assumes "progress db db1" "progress db1 db2"
  shows "progress db db2"
  unfolding progress_def
proof (intro allI impI)
  fix c s assume "call_at db c = Some s"
  with assms obtain s1 s2 where "call_at db2 c = Some s2" "same_parties s s1" "same_parties s1 s2"
    "edge\<^sup>*\<^sup>* (cs_State s) (cs_State s1)" "edge\<^sup>*\<^sup>* (cs_State s1) (cs_State s2)" "\<not> live s \<longrightarrow> s1 = s" "\<not> live s1 \<longrightarrow> s2 = s1"
    unfolding progress_def by meson
  then show "\<exists>s'. call_at db2 c = Some s' \<and> same_parties s s' \<and> edge\<^sup>*\<^sup>* (cs_State s) (cs_State s') \<and> (\<not> live s \<longrightarrow> s' = s)"
    by (auto simp: same_parties_def)
qed

lemma progress_stored:
  "call_at db c = Some s \<Longrightarrow> live s \<Longrightarrow> edge (cs_State s) (cs_State s') \<Longrightarrow> same_parties s s' \<Longrightarrow> progress db (stored c s' db)"
  by (auto simp: progress_def)

lemma progress_released: "progress db (released s db)"
  by (simp add: progress_def)

lemma progress_created: "db (sessionKey (cs_CallID s)) = None \<Longrightarrow> progress db (created s db)"
  by (auto simp: progress_def dest: call_at_SomeD)

text \<open>Where a process stands: in the checks before a creation, holding the right to free the parties of a call that
  it has ended, or elsewhere.\<close>

datatype point = Calm | Making | Won string

definition kont :: "CallSession option \<Rightarrow> unit result \<Rightarrow> unit result prog" where
  "kont ses = (case ses of None \<Rightarrow> Return | Some s \<Rightarrow> cleanup s Return)"

definition kont_ok :: "keyspace \<Rightarrow> string \<Rightarrow> CallState \<Rightarrow> CallSession option \<Rightarrow> bool" where
  "kont_ok db c tgt ses = (case ses of None \<Rightarrow> tgt \<in> {StateConnecting, StateActive, StateReconnecting}
     | Some s \<Rightarrow> tgt = StateEnded \<and> (\<exists>s0. call_at db c = Some s0 \<and> same_parties s0 s))"

inductive fits :: "keyspace \<Rightarrow> point \<Rightarrow> proc \<Rightarrow> bool" for db where
  returned: "fits db Calm (Return x, v)"
| vetting: "live s \<Longrightarrow> db (sessionKey (cs_CallID s)) = None \<Longrightarrow> done @ us = [cs_CallerID s, cs_CalleeID s] \<Longrightarrow>
    (\<forall>u\<in>set done. db (userActiveCallKey u) = None) \<Longrightarrow> fits db Making (create_from s Return us, v)"
| ending: "fits db Calm (end_prog c reason Return, v)"
| starting: "kont_ok db c tgt ses \<Longrightarrow> fits db Calm (transition_prog c tgt st (kont ses), v)"
| reading: "kont_ok db c tgt ses \<Longrightarrow> fits db Calm (Get (sessionKey c) (decide c tgt st (kont ses)), Some (sessionKey c, d))"
| stamping: "kont_ok db c tgt ses \<Longrightarrow> (\<not> d \<longrightarrow> call_at db c = Some s) \<Longrightarrow> edge (cs_State s) tgt \<Longrightarrow>
    fits db Calm (Now (\<lambda>t. commit c (kont ses) (stamped st t (s\<lparr>cs_State := tgt\<rparr>))), Some (sessionKey c, d))"
| committing: "kont_ok db c tgt ses \<Longrightarrow> (\<not> d \<longrightarrow> call_at db c = Some s) \<Longrightarrow> edge (cs_State s) tgt \<Longrightarrow> cs_State s' = tgt \<Longrightarrow>
    same_parties s s' \<Longrightarrow> fits db Calm (commit c (kont ses) s', Some (sessionKey c, d))"
| won: "call_at db c = Some s0 \<Longrightarrow> \<not> live s0 \<Longrightarrow> same_parties s0 s \<Longrightarrow> (\<forall>u. party s u \<longrightarrow> marker db u = Some c) \<Longrightarrow>
    fits db (Won c) (Exec (clear_markers s) Return, v)"

subsection \<open>Interference\<close>

lemma call_at_cong: "db' (sessionKey c) = db (sessionKey c) \<Longrightarrow> call_at db' c = call_at db c"
  by (simp add: call_at_def)

lemma kont_ok_progress: "kont_ok db c tgt ses \<Longrightarrow> progress db db' \<Longrightarrow> kont_ok db' c tgt ses"
  by (fastforce simp: kont_ok_def progress_def same_parties_def split: option.splits)

lemma fits_stable:
  assumes "fits db p x" and pr: "progress db db'" and K: "{k. db' k \<noteq> db k} \<subseteq> K"
    and making: "\<And>k. p = Making \<Longrightarrow> db k = None \<Longrightarrow> db' k = None"
    and won: "\<And>c u. p = Won c \<Longrightarrow> marker db u = Some c \<Longrightarrow> marker db' u = Some c"
  shows "fits db' p (mark K x)"
proof -
  have clean: "call_at db' c = call_at db c" if "sessionKey c \<notin> K" for c
    using K that by (intro call_at_cong) auto
  from assms(1) show ?thesis
  proof cases
    case (vetting s pre us v)
    then show ?thesis using making by (auto simp: mark_def intro!: fits.vetting[of s _ pre])
  next
    case (starting c tgt ses st v)
    then show ?thesis using kont_ok_progress[OF _ pr] by (auto simp: mark_def intro: fits.starting)
  next
    case (reading c tgt ses st d)
    then show ?thesis using kont_ok_progress[OF _ pr] by (auto simp: mark_def intro: fits.reading)
  next
    case (stamping c tgt ses d s st)
    then show ?thesis using kont_ok_progress[OF _ pr] clean[of c] by (auto simp: mark_def intro!: fits.stamping)
  next
    case (committing c tgt ses d s s')
    then show ?thesis using kont_ok_progress[OF _ pr] clean[of c] by (auto simp: mark_def intro!: fits.committing[of _ _ tgt _ _ s])
  next
    case (won c s0 s v)
    then have "call_at db' c = Some s0" using pr by (auto simp: progress_def)
    then show ?thesis using won assms(5) by (auto simp: mark_def intro!: fits.won)
  qed (auto simp: mark_def intro: fits.returned fits.ending)
qed

subsection \<open>What a process does next\<close>

lemma fits_kont_Inl: "fits db Calm (kont ses (Inl e), v)"
  by (auto simp: kont_def cleanup_def split: option.splits intro: fits.returned)

lemma fits_decide:
  assumes k: "kont_ok db c tgt ses" and only: "only_calls db"
  shows "fits db Calm (decide c tgt st (kont ses) (answer a (get_res (db (sessionKey c)))), Some (sessionKey c, d))"
proof (cases "call_at db c")
  case None
  then have "get_res (db (sessionKey c)) = Inl redis_Nil" using only by (simp add: only_callsD)
  then show ?thesis by (cases a) (simp_all add: decide_def fits_kont_Inl)
next
  case (Some s)
  show ?thesis
  proof (cases "fst (Transition (NewStateMachineFrom (cs_State s)) tgt)")
    case (Inl e)
    then show ?thesis using decode_at[OF Some] by (cases a) (simp_all add: decide_def fits_kont_Inl decode_CallSession_def)
  next
    case (Inr x)
    then have e: "edge (cs_State s) tgt" using Transition_ok_iff[of "NewStateMachineFrom (cs_State s)" tgt]
      by (simp add: NewStateMachineFrom_def)
    have "fits db Calm (mutate_then st (s\<lparr>cs_State := tgt\<rparr>) (commit c (kont ses)), Some (sessionKey c, d))"
      using fits.stamping[OF k _ e, of d st] fits.committing[OF k _ e, of d "s\<lparr>cs_State := tgt\<rparr>"] Some by (auto simp: mutate_then_def)
    then show ?thesis using decode_at[OF Some] Inr by (cases a) (simp_all add: decide_def fits_kont_Inl decode_CallSession_def)
  qed
qed

lemma fits_end_read:
  assumes "only_calls db"
  shows "fits db Calm (end_read c reason Return (answer a (get_res (db (sessionKey c)))), v)"
proof (cases "call_at db c")
  case None
  then have "get_res (db (sessionKey c)) = Inl redis_Nil" using assms by (simp add: only_callsD)
  then show ?thesis by (cases a) (simp_all add: end_read_def fits.returned)
next
  case (Some s)
  then have "fits db Calm (transition_prog c StateEnded (Ended reason) (kont (Some s)), v)"
    by (intro fits.starting) (simp add: kont_ok_def)
  then show ?thesis using decode_at[OF Some]
    by (cases a) (simp_all add: end_read_def fits.returned decode_CallSession_def kont_def)
qed

lemmas prog_defs = transition_prog_def end_prog_def commit_def

lemma create_from_cases: "create_from s Return us = p \<Longrightarrow> (\<exists>f. p = Exec (write_new s) f \<and> us = [] \<and> (\<forall>x. \<exists>y. f x = Return y)) \<or>
    (\<exists>u us'. us = u # us' \<and> p = Exists (userActiveCallKey u) (\<lambda>r. case r of Inl e \<Rightarrow> Return (Inl (Wrap ''check user busy'' e))
       | Inr n \<Rightarrow> if n > 0 then Return (Inl Call_Store.ErrUserBusy) else create_from s Return us'))"
  by (cases us) auto

lemma create_from_shape [simp]: "Get k f \<noteq> create_from s r us" "Watch k q \<noteq> create_from s r us" "Now g \<noteq> create_from s r us"
  "WatchExec k cs h \<noteq> create_from s r us"
  by (cases us; simp)+

lemma fits_ask:
  assumes "fits db p (Exists k f, v)"
  shows "\<exists>p'\<in>{p, Calm}. fits db p' (f (answer a (Inr (if db k = None then 0 else 1))), v)"
  using assms
proof cases
  case (vetting s pre us)
  then obtain u us' where u: "us = u # us'" "k = userActiveCallKey u"
    "f = (\<lambda>r. case r of Inl e \<Rightarrow> Return (Inl (Wrap ''check user busy'' e))
       | Inr n \<Rightarrow> if n > 0 then Return (Inl Call_Store.ErrUserBusy) else create_from s Return us')"
    using create_from_cases[of s us "Exists k f"] by auto
  show ?thesis
  proof (cases "db k = None \<and> (a = Fine \<or> a = Conflict)")
    case True
    then show ?thesis using fits.vetting[of s db "pre @ [u]" us' v] vetting u by auto
  next
    case False
    then show ?thesis using u by (cases a) (auto intro: fits.returned)
  qed
qed (simp_all add: prog_defs)

lemma fits_fetch: "fits db p (Get k f, v) \<Longrightarrow> only_calls db \<Longrightarrow> fits db Calm (f (answer a (get_res (db k))), v)"
  by (erule fits.cases) (auto simp: prog_defs intro: fits_decide fits_end_read)

lemma fits_watch: "fits db p (Watch k q, v) \<Longrightarrow> fits db Calm (q, Some (k, False))"
  by (erule fits.cases) (auto simp: prog_defs intro: fits.reading)

lemma fits_clock:
  assumes "fits db p (Now f, v)"
  shows "fits db Calm (f t, v)"
  using assms
proof cases
  case (stamping c tgt ses d s st)
  then show ?thesis using fits.committing[OF stamping(4-6), of "stamped st t (s\<lparr>cs_State := tgt\<rparr>)"] by simp
qed (simp_all add: prog_defs)

text \<open>The writes.\<close>

lemma exec_clear: "exec_db (clear_markers s) db = released s db"
  by (simp add: clear_markers_def released_def)

lemma fits_exec:
  assumes "fits db p (Exec cs f, v)"
  shows "(\<exists>s. p = Making \<and> (\<forall>db. exec_db cs db = created s db) \<and> (\<forall>r. \<exists>x. f r = Return x) \<and> db (sessionKey (cs_CallID s)) = None \<and>
      (\<forall>u. party s u \<longrightarrow> db (userActiveCallKey u) = None)) \<or>
    (\<exists>c s. p = Won c \<and> (\<forall>db. exec_db cs db = released s db) \<and> f = Return \<and> call_at db c = Some s \<and> \<not> live s \<and>
      (\<forall>u. party s u \<longrightarrow> marker db u = Some c))"
  using assms
proof cases
  case (vetting s pre us)
  then have "cs = write_new s" "us = []" "\<forall>r. \<exists>x. f r = Return x" using create_from_cases[of s us "Exec cs f"] by auto
  with vetting show ?thesis by (intro disjI1 exI[of _ s]) (auto simp: write_new_def party_def simp del: exec_db.simps)
next
  case (won c s0 s)
  then have "cs = clear_markers s0" "\<forall>u. party s0 u \<longrightarrow> marker db u = Some c" "p = Won c" "f = Return"
    "call_at db c = Some s0" "\<not> live s0"
    by (simp_all add: same_parties_def party_def clear_markers_def)
  then show ?thesis using exec_clear by blast
qed (simp_all add: prog_defs)

lemma fits_commit:
  assumes "fits db p (WatchExec k cs f, Some (k, d))" "run_inv db"
  shows "\<exists>c s s'. k = sessionKey c \<and> (\<forall>db. exec_db cs db = stored c s' db \<and> exec_res cs db = Inr ()) \<and> (\<forall>e v. fits db Calm (f (Inl e), v)) \<and>
      edge (cs_State s) (cs_State s') \<and> live s \<and> same_parties s s' \<and> (\<not> d \<longrightarrow> call_at db c = Some s \<and>
      (\<exists>p'\<in>{Calm, Won c}. fits (stored c s' db) p' (f (Inr ()), None)))"
  using assms(1)
proof cases
  case (committing c tgt ses s s')
  have "live s" using edge_source_live[OF committing(6)] committing(4)
    by (auto simp: kont_ok_def live_def split: option.splits)
  moreover have "\<forall>e v. fits db Calm (f (Inl e), v)" using committing(2) by (auto simp: commit_def fits_kont_Inl)
  moreover have "\<exists>p'\<in>{Calm, Won c}. fits (stored c s' db) p' (f (Inr ()), None)" if "\<not> d"
  proof (cases ses)
    case None
    then show ?thesis using committing(2) by (auto simp: commit_def kont_def intro: fits.returned)
  next
    case (Some s1)
    with committing that have c: "call_at db c = Some s" "cs_State s' = StateEnded" "same_parties s s1" "same_parties s' s1"
      by (auto simp: kont_ok_def same_parties_def)
    have "marker db u = Some c" if "party s1 u" for u
      using assms(2) c(1) \<open>live s\<close> that same_parties_party[OF c(3)] by (auto simp: run_inv_def dest: call_ownedD)
    then have "fits (stored c s' db) (Won c) (Exec (clear_markers s1) Return, None)"
      using c by (intro fits.won[of _ c s']) (auto simp: live_def)
    then show ?thesis using committing(2) Some by (auto simp: commit_def kont_def cleanup_def)
  qed
  ultimately show ?thesis using committing
    by (intro exI[of _ c] exI[of _ s] exI[of _ s']) (auto simp: commit_def write_session_def stored_def)
qed (simp_all add: prog_defs)

lemma fits_commit_err: "fits db p (WatchExec k cs f, v) \<Longrightarrow> fits db Calm (f (Inl e), w)"
  by (erule fits.cases) (auto simp: prog_defs fits_kont_Inl)

subsection \<open>All processes together\<close>

definition places :: "nat set \<Rightarrow> keyspace \<Rightarrow> (nat \<Rightarrow> point) \<Rightarrow> (nat \<Rightarrow> proc) \<Rightarrow> bool" where
  "places C db pt ps \<longleftrightarrow> (\<forall>i. fits db (pt i) (ps i)) \<and> (\<forall>i. pt i = Making \<longrightarrow> i \<in> C) \<and>
     (\<forall>i j c. pt i = Won c \<longrightarrow> pt j = Won c \<longrightarrow> i = j)"

definition iinv :: "nat set \<Rightarrow> keyspace \<times> (nat \<Rightarrow> proc) \<Rightarrow> bool" where
  "iinv C = (\<lambda>(db, ps). run_inv db \<and> (\<exists>pt. places C db pt ps))"

lemma places_local:
  assumes "places C db pt ps" "fits db p q" "p \<in> {pt i, Calm} \<or> p = Making \<and> i \<in> C"
  shows "places C db (pt(i := p)) (ps(i := q))"
  using assms by (auto simp: places_def)

lemma places_write:
  assumes "places C db pt ps" "progress db db'" "{k. db' k \<noteq> db k} \<subseteq> K"
    and "\<And>j k. j \<noteq> i \<Longrightarrow> pt j = Making \<Longrightarrow> db k = None \<Longrightarrow> db' k = None"
    and "\<And>j c u. j \<noteq> i \<Longrightarrow> pt j = Won c \<Longrightarrow> marker db u = Some c \<Longrightarrow> marker db' u = Some c"
    and "fits db' p (mark K q)" "p = Calm \<or> (\<exists>c. p = Won c \<and> (\<forall>j. j \<noteq> i \<longrightarrow> pt j \<noteq> Won c))"
  shows "places C db' (pt(i := p)) (mark K \<circ> ps(i := q))"
proof -
  have "fits db' (pt j) (mark K (ps j))" if "j \<noteq> i" for j
    using assms(1-5) that by (intro fits_stable[OF _ assms(2,3)]) (auto simp: places_def)
  then show ?thesis using assms(1,6,7) by (auto simp: places_def)
qed

lemma mark_simps [simp]: "mark K (q, None) = (q, None)" "fits db Calm (mark K (Return x, v))"
  by (auto simp: mark_def intro: fits.returned)

lemma iinv_local:
  assumes "run_inv db" "places C db pt ps" "fits db p q" "p \<in> {pt i, Calm} \<or> p = Making \<and> i \<in> C"
  shows "iinv C (db, ps(i := q))"
  using assms places_local[OF assms(2-4)] by (auto simp: iinv_def)

lemma begin_fits: "fits db Calm (end_prog c reason Return, v)"
  "tgt \<in> {StateConnecting, StateActive, StateReconnecting} \<Longrightarrow> fits db Calm (transition_prog c tgt st Return, v)"
  "live s \<Longrightarrow> db (sessionKey (cs_CallID s)) = None \<Longrightarrow> fits db Making (create_prog s Return, v)"
  using fits.starting[of db c tgt None st v] fits.vetting[of s db "[]"]
  by (auto simp: kont_def kont_ok_def create_prog_def intro: fits.ending simp del: create_from.simps)

lemma exec_inv:
  assumes inv: "run_inv db" and pl: "places C db pt ps" and one: "C \<subseteq> {m}" and p: "ps i = (Exec cs f, v)"
    and K: "{k. exec_db cs db k \<noteq> db k} \<subseteq> K"
  shows "iinv C (exec_db cs db, mark K \<circ> ps(i := (f r, v))) \<and> progress db (exec_db cs db)"
proof -
  have "fits db (pt i) (Exec cs f, v)" using pl p by (metis places_def)
  from fits_exec[OF this] show ?thesis
  proof (elim disjE exE conjE)
    fix s assume new: "pt i = Making" "\<forall>db. exec_db cs db = created s db" "\<forall>r. \<exists>x. f r = Return x" "db (sessionKey (cs_CallID s)) = None"
      "\<forall>u. party s u \<longrightarrow> db (userActiveCallKey u) = None"
    have "run_inv (created s db)" using inv new by (auto simp: run_inv_def intro: call_owned_created)
    moreover have "places C (created s db) (pt(i := Calm)) (mark K \<circ> ps(i := (f r, v)))"
    proof (rule places_write[OF pl progress_created[of db s, OF new(4)]])
      show "{k. created s db k \<noteq> db k} \<subseteq> K" using K new(2) by simp
      show "created s db k = None" if "j \<noteq> i" "pt j = Making" for j k
      proof -
        have "i \<in> C" "j \<in> C" using pl new(1) that by (simp_all add: places_def)
        with one that(1) show ?thesis by blast
      qed
      show "marker (created s db) u = Some c" if "marker db u = Some c" for c u
        using marker_present[OF that] new(5) that by (auto simp: party_def)
      show "fits (created s db) Calm (mark K (f r, v))" using spec[OF new(3), of r] by auto
    qed simp
    ultimately show ?thesis using new progress_created by (auto simp: iinv_def)
  next
    fix c s assume free: "pt i = Won c" "\<forall>db. exec_db cs db = released s db" "f = Return" "call_at db c = Some s" "\<not> live s"
      "\<forall>u. party s u \<longrightarrow> marker db u = Some c"
    have "run_inv (released s db)"
      using inv free by (auto simp: run_inv_def intro: call_owned_released)
    moreover have "places C (released s db) (pt(i := Calm)) (mark K \<circ> ps(i := (f r, v)))"
    proof (rule places_write[OF pl progress_released])
      show "{k. released s db k \<noteq> db k} \<subseteq> K" using K free(2) by simp
      show "released s db k = None" if "db k = None" for k using that by (simp add: released_def)
      show "marker (released s db) u = Some d" if "j \<noteq> i" "pt j = Won d" "marker db u = Some d" for j d u
        using pl that free(1,6) by (auto simp: places_def party_def)
    qed (use free(3) in auto)
    ultimately show ?thesis using free progress_released by (auto simp: iinv_def)
  qed
qed

lemma commit_inv:
  assumes inv: "run_inv db" and pl: "places C db pt ps" and p: "ps i = (WatchExec k cs f, Some (k, False))"
    and K: "{k. exec_db cs db k \<noteq> db k} \<subseteq> K"
  shows "iinv C (exec_db cs db, mark K \<circ> ps(i := (f r, None))) \<and> progress db (exec_db cs db)"
proof -
  have "fits db (pt i) (WatchExec k cs f, Some (k, False))" using pl p by (metis places_def)
  from fits_commit[OF this inv] obtain c s s' where c: "exec_db cs db = stored c s' db" "\<And>e v. fits db Calm (f (Inl e), v)"
    "edge (cs_State s) (cs_State s')" "live s" "same_parties s s'" "call_at db c = Some s"
    "\<exists>p'\<in>{Calm, Won c}. fits (stored c s' db) p' (f (Inr ()), None)" by auto
  have pr: "progress db (stored c s' db)" using c by (intro progress_stored)
  have "run_inv (stored c s' db)"
    using inv c(4-6) by (auto simp: run_inv_def same_parties_party intro: call_owned_stored)
  have K': "{k. stored c s' db k \<noteq> db k} \<subseteq> K" using K c(1) by simp
  have "fits (stored c s' db) Calm (f (Inl e), None)" for e
    using fits_stable[OF c(2)[of e None] pr K'] by simp
  then obtain p' where p': "p' \<in> {Calm, Won c}" "fits (stored c s' db) p' (f r, None)" using c(7) by (cases r) auto
  have alone: "pt j \<noteq> Won c" for j
  proof
    assume "pt j = Won c"
    then have "fits db (Won c) (ps j)" using pl by (metis places_def)
    then show False using c(4,6) by cases auto
  qed
  have "places C (stored c s' db) (pt(i := p')) (mark K \<circ> ps(i := (f r, None)))"
  proof (rule places_write[OF pl pr K'])
    show "stored c s' db k = None" if "db k = None" for k
      using that call_at_SomeD[OF c(6)] by (auto simp: stored_def)
  qed (use p' alone in auto)
  with \<open>run_inv (stored c s' db)\<close> pr c(1) show ?thesis by (auto simp: iinv_def)
qed

lemma refused_inv:
  assumes "run_inv db" "places C db pt ps" "fits db Calm (mark K q)"
  shows "iinv C (db, mark K \<circ> ps(i := q))"
  using assms places_write[OF assms(2) progress_refl _ _ _ assms(3), of i] by (auto simp: iinv_def)

lemma istep_inv:
  assumes "istep C x y" "iinv C x" "C \<subseteq> {m}"
  shows "iinv C y \<and> progress (fst x) (fst y)"
proof -
  obtain db ps pt where x: "x = (db, ps)" and inv: "run_inv db" and pl: "places C db pt ps"
    using assms(2) by (auto simp: iinv_def)
  have only: "only_calls db" using inv by (simp add: run_inv_def)
  have at: "fits db (pt i) q" if "ps i = q" for i q using pl that by (auto simp: places_def)
  note local = iinv_local[OF inv pl]
  from assms(1)[unfolded x] show ?thesis
  proof cases
    case (ask i k f v a)
    then show ?thesis using fits_ask[OF at[OF ask(2)], of a] local by (auto simp: x)
  next
    case (fetch i k f v a)
    then show ?thesis using fits_fetch[OF at[OF fetch(2)] only, of a] local by (auto simp: x)
  next
    case (watch i k p v)
    then show ?thesis using fits_watch[OF at[OF watch(2)]] local by (auto simp: x)
  next
    case (clock i f v t)
    then show ?thesis using fits_clock[OF at[OF clock(2)], of t] local by (auto simp: x)
  next
    case (exec i cs f v db' a K)
    show ?thesis
    proof (cases "happens a")
      case True
      then show ?thesis using exec_inv[OF inv pl assms(3) exec(2), of K] exec by (simp add: x)
    next
      case False
      obtain z where "f (answer a (exec_res cs db)) = Return z" using fits_exec[OF at[OF exec(2)]] by blast
      then show ?thesis using exec False refused_inv[OF inv pl] by (simp add: x)
    qed
  next
    case (commit i k cs f db' a K)
    from fits_commit[OF at[OF commit(2)] inv] obtain e: "exec_res cs db = Inr ()" "\<And>e v. fits db Calm (f (Inl e), v)" by blast
    show ?thesis
    proof (cases "happens a")
      case True
      then show ?thesis using commit_inv[OF inv pl commit(2), of K] commit True by (simp add: x)
    next
      case False
      then show ?thesis using commit refused_inv[OF inv pl, of K "(f (answer a (exec_res cs db)), None)"] e by (cases a) (auto simp: x)
    qed
  next
    case (conflict i k cs f v a)
    have "fits db Calm (f (answer a (Inl TxFailedErr)), None)"
      using fits_commit_err[OF at[OF conflict(2)]] by (cases a) auto
    then show ?thesis using conflict local by (auto simp: x)
  next
    case (begin_create i s)
    then show ?thesis using begin_fits(3)[of s db None] local[of Making _ i] by (simp add: x)
  next
    case (begin_transition tgt i c st)
    then show ?thesis using begin_fits(2)[of tgt db c st None] local by (simp add: x)
  next
    case (begin_end i c reason)
    then show ?thesis using begin_fits(1)[of db c reason None] local by (simp add: x)
  qed
qed

lemma interleaved_inv: "interleaved C x y \<Longrightarrow> C \<subseteq> {m} \<Longrightarrow> iinv C x \<Longrightarrow> iinv C y \<and> progress (fst x) (fst y)"
  by (induction rule: interleaved.induct) (auto dest: istep_inv intro: progress_trans)

section \<open>Properties\<close>

lemma iinv_start:
  assumes "\<forall>c. db (sessionKey c) = None" "\<forall>j. \<exists>z. fst (ps j) = Return z"
  shows "iinv C (db, ps)"
proof -
  have "call_at db = Map.empty" using assms(1) by (intro ext) (simp add: call_at_def)
  then have "run_inv db" using assms(1) by (simp add: run_inv_def only_calls_def call_owned_def)
  moreover have "fits db Calm (ps j)" for j
    using spec[OF assms(2), of j] by (cases "ps j") (auto intro: fits.returned)
  then have "places C db (\<lambda>_. Calm) ps" by (simp add: places_def)
  ultimately show ?thesis by (auto simp: iinv_def)
qed

text \<open>C4: The store of calls is safe under interleaving.  The three sequences of commands are the operations
  of the store.  When any number of processes run transitions and ends command by command in any order, with
  requests refused, answers lost and operations broken off anywhere, and one of them (the loop of the hub)
  also creates calls, then no user is ever in two live calls, no call disappears or changes its users, every
  change of state follows the edges of the state machine, and a call that is over is never written again.\<close>

theorem interleaved_store:
  assumes "\<forall>c. db0 (sessionKey c) = None" "\<forall>j. \<exists>z. fst (ps0 j) = Return z"
    and "interleaved {m} (db0, ps0) (db1, ps1)" "interleaved {m} (db1, ps1) (db2, ps2)"
  shows "(run E (create_prog s0 Return) w = SessionStore_Create E s0 w \<and>
      run E (transition_prog k tgt st Return) w = SessionStore_TransitionState E k tgt (mutator_of E st) w \<and>
      run E (end_prog k reason Return) w = SessionStore_End E k reason w) \<and>
    (\<forall>c d u s s'. call_at db2 c = Some s \<and> live s \<and> party s u \<and> call_at db2 d = Some s' \<and> live s' \<and> party s' u \<longrightarrow> c = d) \<and>
    progress db1 db2"
proof -
  have 1: "iinv {m} (db1, ps1)" using interleaved_inv[OF assms(3) subset_refl iinv_start[OF assms(1,2)]] by simp
  with interleaved_inv[OF assms(4) subset_refl] have "run_inv db2" "progress db1 db2" by (auto simp: iinv_def)
  then show ?thesis
    by (auto simp: run_create run_transition run_end split_beta run_inv_def intro: call_owned_unique)
qed

subsection \<open>A call is created, step by step\<close>

lemma ask_all:
  "interleaved C x (db, ps) \<Longrightarrow> ps i = (create_from s Return us, v) \<Longrightarrow> \<forall>u\<in>set us. db (userActiveCallKey u) = None \<Longrightarrow>
   interleaved C x (db, ps(i := (create_from s Return [], v)))"
proof (induction us arbitrary: ps)
  case (Cons u us)
  have "interleaved C x (db, ps(i := (create_from s Return us, v)))"
    using interleaved.then_step[OF Cons.prems(1) istep.ask[of ps i, OF Cons.prems(2)[unfolded create_from.simps], of C db Fine]] Cons.prems(3)
    by simp
  from Cons.IH[OF this fun_upd_same] Cons.prems(3) show ?case unfolding fun_upd_upd by auto
qed (simp add: fun_upd_idem)

lemma store_all:
  assumes "interleaved C x (db, ps)" "ps i = (create_from s Return [], None)" "\<forall>j. snd (ps j) = None"
  shows "interleaved C x (created s db, ps(i := (Return (Inr ()), None)))"
proof -
  let ?K = "{k. created s db k \<noteq> db k}" and ?f = "\<lambda>x. Return (case x of Inl e \<Rightarrow> Inl (Wrap ''create session'' e) | Inr _ \<Rightarrow> Inr ())"
  have e: "exec_db (write_new s) db = created s db" "exec_res (write_new s) db = Inr ()"
    by (simp_all add: write_new_def created_def)
  have "istep C (db, ps) (created s db, mark ?K \<circ> ps(i := (?f (answer Fine (exec_res (write_new s) db)), None)))"
    using assms(2) by (intro istep.exec[where v = None]) (simp_all add: e(1))
  moreover have "mark ?K \<circ> ps(i := (Return (Inr ()), None)) = ps(i := (Return (Inr ()), None))"
    using assms(3) by (auto simp: mark_def fun_eq_iff split_beta prod_eq_iff)
  ultimately show ?thesis using assms(1) by (auto simp: e(2) intro: interleaved.then_step)
qed

definition at_rest :: "nat \<Rightarrow> proc" where
  "at_rest = (\<lambda>_. (Return (Inr ()), None))"

lemma sample_created: "interleaved {0} (Map.empty, at_rest) (created sample_call Map.empty, at_rest)"
proof -
  have "istep {0} (Map.empty, at_rest) (Map.empty, at_rest(0 := (create_prog sample_call Return, None)))"
    by (rule istep.begin_create) (simp_all add: sample_call_def live_def)
  then have "interleaved {0} (Map.empty, at_rest) (Map.empty, at_rest(0 := (create_from sample_call Return [cs_CallerID sample_call, cs_CalleeID sample_call], None)))"
    unfolding create_prog_def by (intro interleaved.then_step[OF interleaved.none])
  from ask_all[OF this, of 0] have "interleaved {0} (Map.empty, at_rest) (Map.empty, at_rest(0 := (create_from sample_call Return [], None)))"
    by (simp del: create_from.simps)
  from store_all[OF this, of 0 sample_call] show ?thesis by (simp add: at_rest_def fun_upd_idem del: create_from.simps)
qed

theorem interleaved_store_witness:
  "call_at (created sample_call Map.empty) ''c1'' = Some sample_call \<and> live sample_call \<and>
   \<not> (\<exists>d s'. d \<noteq> ''c1'' \<and> call_at (created sample_call Map.empty) d = Some s' \<and> live s' \<and> party s' ''alice'')"
proof -
  have c: "call_at (created sample_call Map.empty) ''c1'' = Some sample_call" "live sample_call" "party sample_call ''alice''"
    by (simp_all add: sample_call_def live_def party_def)
  have "\<forall>j. \<exists>z. fst (at_rest j) = Return z" by (simp add: at_rest_def)
  note w = interleaved_store[OF _ this sample_created interleaved.none, where E = mem_env and w = world0, OF allI[OF refl]]
  from w[THEN conjunct2, THEN conjunct1] c show ?thesis by blast
qed

subsection \<open>Two hubs\<close>

text \<open>One creating process is needed.  \<open>Create\<close> reads the keys of the two users and then writes without watching
  them: when two hubs create calls at the same time, both may succeed with a user in both.\<close>

definition carols_call :: CallSession where
  "carols_call = sample_call\<lparr>cs_CallID := ''c2'', cs_CallerID := ''carol'', cs_CalleeID := ''alice''\<rparr>"

theorem two_hubs_race:
  "\<exists>db. interleaved {0, 1} (Map.empty, at_rest) (db, at_rest(0 := (Return (Inr ()), None), 1 := (Return (Inr ()), None))) \<and>
     call_at db ''c1'' = Some sample_call \<and> live sample_call \<and> party sample_call ''alice'' \<and>
     call_at db ''c2'' = Some carols_call \<and> live carols_call \<and> party carols_call ''alice''"
proof -
  let ?from = "interleaved {0, 1} (Map.empty, at_rest)" and ?c = "\<lambda>s. create_from s Return"
  let ?us = "\<lambda>s. [cs_CallerID s, cs_CalleeID s]"
  have l: "live sample_call" "live carols_call" by (simp_all add: sample_call_def carols_call_def live_def)
  have "?from (Map.empty, at_rest(0 := (?c sample_call (?us sample_call), None)))"
    using l by (intro interleaved.then_step[OF interleaved.none] istep.begin_create[of 0 _ sample_call, unfolded create_prog_def]) simp_all
  then have "?from (Map.empty, at_rest(0 := (?c sample_call (?us sample_call), None), 1 := (?c carols_call (?us carols_call), None)))"
    by (rule interleaved.then_step) (intro istep.begin_create[of 1 _ carols_call, unfolded create_prog_def]; simp add: l)
  from ask_all[OF ask_all[OF this, of 0 sample_call "?us sample_call" None], of 1 carols_call "?us carols_call" None]
  have "?from (Map.empty, at_rest(0 := (?c sample_call [], None), 1 := (?c carols_call [], None)))"
    by (simp add: fun_upd_twist[of 0 1] del: create_from.simps)
  from store_all[OF store_all[OF this, of 0 sample_call], of 1 carols_call]
  have "?from (created carols_call (created sample_call Map.empty), at_rest(0 := (Return (Inr ()), None), 1 := (Return (Inr ()), None)))"
    by (simp add: at_rest_def fun_upd_twist[of 0 1] del: create_from.simps)
  then show ?thesis using l
    by (intro exI[of _ "created carols_call (created sample_call Map.empty)"]) (simp add: carols_call_def sample_call_def party_def)
qed

end
