(* ===== verification/Session_Contract.thy ===== *)
theory Session_Contract
  imports Session_Store
begin

text \<open>
  What the orchestrator relies on of its store, as the locale \<open>session_store\<close>: every
  operation leaves the stored sessions alone or replaces exactly one of them, by the session the
  caller asked for, and reports success only in the second case; in a world without faults the
  second case is the one that happens.  The Redis store meets the contract for every environment
  that satisfies the laws of \<open>services\<close>.
\<close>

section \<open>Abstraction\<close>

text \<open>Call identifiers are UUIDs.  An identifier with a colon could clash with the participants
  key of another call, so the store is specified for identifiers without one.\<close>

definition plain :: "string \<Rightarrow> bool" where
  "plain c \<longleftrightarrow> CHR '':'' \<notin> set c"

definition stored :: "keyspace \<Rightarrow> string \<Rightarrow> Session option" where
  "stored db c = (case db (SessionKey c) of
      Some (RStr p, _) \<Rightarrow> (case decode_Session p of Inr s \<Rightarrow> Some s | Inl _ \<Rightarrow> None)
    | _ \<Rightarrow> None)"

definition user_busy :: "keyspace \<Rightarrow> string \<Rightarrow> bool" where
  "user_busy db u \<longleftrightarrow> db (UserActiveCallKey u) \<noteq> None"

definition sessions :: "keyspace \<Rightarrow> string \<Rightarrow> Session option" where
  "sessions db c = (if plain c then stored db c else None)"

section \<open>Keys\<close>

lemma SessionKey_inj [simp]: "SessionKey c = SessionKey d \<longleftrightarrow> c = d"
  by (simp add: SessionKey_def)

lemma session_user_key [simp]: "SessionKey c \<noteq> UserActiveCallKey u" "UserActiveCallKey u \<noteq> SessionKey c"
  "SessionParticipantsKey c \<noteq> UserActiveCallKey u" "UserActiveCallKey u \<noteq> SessionParticipantsKey c"
  by (simp_all add: SessionKey_def UserActiveCallKey_def SessionParticipantsKey_def)

lemma UserActiveCallKey_inj [simp]: "UserActiveCallKey u = UserActiveCallKey v \<longleftrightarrow> u = v"
  by (simp add: UserActiveCallKey_def)

lemma participants_key [simp]: "plain d \<Longrightarrow> SessionParticipantsKey c \<noteq> SessionKey d"
  "plain d \<Longrightarrow> SessionKey d \<noteq> SessionParticipantsKey c"
  by (auto simp: SessionKey_def SessionParticipantsKey_def plain_def)

section \<open>Effects of the transactions\<close>

lemma sessions_other:
  assumes "\<And>k d. k \<in> cmd_key ` set cs \<Longrightarrow> plain d \<Longrightarrow> k \<noteq> SessionKey d"
  shows "sessions (exec_db cs db) = sessions db"
proof
  fix c
  show "sessions (exec_db cs db) c = sessions db c"
  proof (cases "plain c")
    case True
    then have "SessionKey c \<notin> cmd_key ` set cs" using assms by blast
    then show ?thesis by (simp add: sessions_def stored_def exec_db_other)
  qed (simp add: sessions_def)
qed

lemma sessions_write:
  assumes "\<And>k d. k \<in> cmd_key ` set cs \<Longrightarrow> plain d \<Longrightarrow> k \<noteq> SessionKey d"
  shows "sessions (exec_db (CSet (SessionKey c) (PJson (marshal_Session s)) t # cs) db) =
    (if plain c then (sessions db)(c \<mapsto> s) else sessions db)"
  using sessions_other[OF assms, of cs "db(SessionKey c \<mapsto> (RStr (PJson (marshal_Session s)), Some t))"]
  by (auto simp: sessions_def stored_def fun_eq_iff)

lemma exec_res_session:
  assumes "list_all (\<lambda>c. \<forall>db. \<not> cmd_fails c db) cs"
  shows "exec_res cs db = Inr ()"
  using assms by (intro exec_res_no_fail) (auto simp: list_all_iff)

abbreviation put :: "string \<Rightarrow> Session \<Rightarrow> int \<Rightarrow> rcmd list \<Rightarrow> rcmd list" where
  "put c s t cs \<equiv> CSet (SessionKey c) (PJson (marshal_Session s)) t # cs"

section \<open>The contract\<close>

text \<open>The sessions an operation may leave behind.\<close>

definition appended :: "Participant \<Rightarrow> Session \<Rightarrow> Session" where
  "appended p s = s\<lparr>s_Participants := s_Participants s @ [p]\<rparr>"

definition departed :: "time \<Rightarrow> string \<Rightarrow> Session \<Rightarrow> Session" where
  "departed t u s = UpdateFound u (\<lambda>p. p\<lparr>p_LeftAt := t\<rparr>) s"

definition ended :: "time \<Rightarrow> string \<Rightarrow> Session \<Rightarrow> Session" where
  "ended t reason s = s\<lparr>s_EndedAt := t, s_EndReason := reason,
     s_Participants := map (mark_left t) (s_Participants s)\<rparr>"

definition role_set :: "string \<Rightarrow> Role \<Rightarrow> Session \<Rightarrow> Session" where
  "role_set u r s = UpdateFound u (\<lambda>p. p\<lparr>p_Role := r\<rparr>) s"

locale session_store =
  fixes E :: "('w, 'z) env_scheme"
    and sess :: "'w \<Rightarrow> string \<Rightarrow> Session option"
    and calm :: "'w \<Rightarrow> bool"
  assumes Get_sess: "sess (snd (Store_Get E c w)) = sess w"
    and Get_found: "plain c \<Longrightarrow> fst (Store_Get E c w) = Inr s \<Longrightarrow> sess w c = Some s"
    and Get_calm: "calm w \<Longrightarrow> sess w c = Some s \<Longrightarrow> fst (Store_Get E c w) = Inr s"
    and Get_keeps_calm: "calm w \<Longrightarrow> calm (snd (Store_Get E c w))"
    and Create_sess: "plain (s_CallID s) \<Longrightarrow>
          sess (snd (Store_Create E s w)) = sess w \<and> \<not> is_ok (fst (Store_Create E s w)) \<or>
          sess (snd (Store_Create E s w)) = (sess w)(s_CallID s \<mapsto> s)"
    and Update_sess: "plain (s_CallID s) \<Longrightarrow>
          sess (snd (Store_Update E s w)) = sess w \<and> \<not> is_ok (fst (Store_Update E s w)) \<or>
          sess (snd (Store_Update E s w)) = (sess w)(s_CallID s \<mapsto> s)"
    and Update_calm: "calm w \<Longrightarrow> is_ok (fst (Store_Update E s w)) \<and> calm (snd (Store_Update E s w))"
    and Add_sess: "plain c \<Longrightarrow>
          sess (snd (Store_AddParticipant E c p m w)) = sess w \<and>
             \<not> is_ok (fst (Store_AddParticipant E c p m w)) \<or>
          (\<exists>s. sess w c = Some s \<and> FindParticipant s (p_UserID p) = None \<and>
             int (length (ActiveParticipants s)) < m \<and>
             sess (snd (Store_AddParticipant E c p m w)) = (sess w)(c \<mapsto> appended p s))"
    and Remove_sess: "plain c \<Longrightarrow>
          sess (snd (Store_RemoveParticipant E c u w)) = sess w \<or>
          (\<exists>s t. sess w c = Some s \<and> 0 < t \<and>
             sess (snd (Store_RemoveParticipant E c u w)) = (sess w)(c \<mapsto> departed t u s))"
    and Remove_ok: "plain c \<Longrightarrow> fst (Store_RemoveParticipant E c u w) = Inr s' \<Longrightarrow>
          sess (snd (Store_RemoveParticipant E c u w)) c = Some s'"
    and End_sess: "plain c \<Longrightarrow>
          sess (snd (Store_EndSession E c r w)) = sess w \<and> \<not> is_ok (fst (Store_EndSession E c r w)) \<or>
          (\<exists>s t. sess w c = Some s \<and> 0 < t \<and>
             sess (snd (Store_EndSession E c r w)) = (sess w)(c \<mapsto> ended t r s))"
    and Role_sess: "plain c \<Longrightarrow>
          sess (snd (Store_UpdateParticipantRole E c u ro w)) = sess w \<or>
          (\<exists>s. sess w c = Some s \<and>
             sess (snd (Store_UpdateParticipantRole E c u ro w)) = (sess w)(c \<mapsto> role_set u ro s))"
    and Initiator_sess: "plain c \<Longrightarrow>
          sess (snd (Store_UpdateInitiator E c u w)) = sess w \<or>
          (\<exists>s. sess w c = Some s \<and>
             sess (snd (Store_UpdateInitiator E c u w)) = (sess w)(c \<mapsto> s\<lparr>s_InitiatorID := u\<rparr>))"
    and now_sess: "sess (snd (time_now E w)) = sess w"
    and now_pos: "0 < fst (time_now E w)"
    and uuid_sess: "sess (snd (uuid_new E w)) = sess w"
    and uuid_plain: "plain (fst (uuid_new E w))"
    and publish_sess: "sess (snd (js_publish E subj ev w)) = sess w"
    and sql_exec_sess: "sess (snd (sql_exec E q args w)) = sess w"
    and sql_row_sess: "sess (snd (sql_row E q args w)) = sess w"
    and lk_sess: "sess (snd (lk_jwt E key claims d w)) = sess w"

section \<open>The Redis store meets it\<close>

context services
begin

lemma Store_Get_laws [svc_simps]: "view (snd (Store_Get E c w)) = view w"
  "published (snd (Store_Get E c w)) = published w"
  "calm w \<Longrightarrow> calm (snd (Store_Get E c w))"
  by (simp_all add: Store_Get_def svc_simps Let_def split_beta split: sum.splits)

lemma Store_Get_found:
  "fst (Store_Get E c w) = Inr s \<Longrightarrow> stored (view w) c = Some s"
  by (auto simp: Store_Get_def svc_simps Let_def split_beta stored_def
      split: sum.splits option.splits rval.splits elim!: get_res.elims)

lemma Store_Get_stored:
  "calm w \<Longrightarrow> stored (view w) c = Some s \<Longrightarrow> fst (Store_Get E c w) = Inr s"
  by (auto simp: Store_Get_def svc_simps Let_def split_beta stored_def
      split: sum.splits option.splits rval.splits)

lemma exec_cases:
  "view (snd (r_exec E cs w)) = view w \<and> \<not> is_ok (fst (r_exec E cs w)) \<or>
   view (snd (r_exec E cs w)) = exec_db cs (view w)"
  by (cases "fate w") (auto simp: svc_simps)

lemma Store_Create_view:
  "view (snd (Store_Create E s w)) = view w \<and> \<not> is_ok (fst (Store_Create E s w)) \<or>
   \<not> user_busy (view w) (s_InitiatorID s) \<and>
   view (snd (Store_Create E s w)) = exec_db
            ([CSet (SessionKey (s_CallID s)) (PJson (marshal_Session s)) SessionTTL] @
             map (\<lambda>p. CSet (UserActiveCallKey (p_UserID p)) (PText (s_CallID s)) SessionTTL) (s_Participants s) @
             map (\<lambda>p. CSAdd (SessionParticipantsKey (s_CallID s)) (p_UserID p)) (s_Participants s) @
             [CExpire (SessionParticipantsKey (s_CallID s)) SessionTTL]) (view w)"
proof -
  define k where "k = UserActiveCallKey (s_InitiatorID s)"
  show ?thesis
    using exec_cases[of _ "snd (r_exists E k w)"] exists_res[of k w]
    by (cases "fate w")
      (auto simp: Store_Create_def svc_simps Let_def split_beta user_busy_def k_def
        split: sum.splits if_splits)
qed

lemma write_cases:
  assumes "\<forall>k\<in>cmd_key ` set cs. \<forall>d. plain d \<longrightarrow> k \<noteq> SessionKey d" "plain c"
    and "x = r_exec E (put c s t cs) w"
  shows "sessions (view (snd x)) = sessions (view w) \<and> \<not> is_ok (fst x) \<or>
    sessions (view (snd x)) = (sessions (view w))(c \<mapsto> s)"
  using exec_cases[of "put c s t cs" w] sessions_write[of cs c s t "view w"] assms
  by (metis (no_types, lifting))

lemma Store_Create_sess:
  assumes "plain (s_CallID s)"
  shows "sessions (view (snd (Store_Create E s w))) = sessions (view w) \<and> \<not> is_ok (fst (Store_Create E s w)) \<or>
    sessions (view (snd (Store_Create E s w))) = (sessions (view w))(s_CallID s \<mapsto> s)"
proof -
  define cs where "cs = map (\<lambda>p. CSet (UserActiveCallKey (p_UserID p)) (PText (s_CallID s)) SessionTTL) (s_Participants s) @
             map (\<lambda>p. CSAdd (SessionParticipantsKey (s_CallID s)) (p_UserID p)) (s_Participants s) @
             [CExpire (SessionParticipantsKey (s_CallID s)) SessionTTL]"
  have "sessions (exec_db (put (s_CallID s) s SessionTTL cs) (view w)) = (sessions (view w))(s_CallID s \<mapsto> s)"
    using assms by (subst sessions_write) (auto simp: cs_def)
  then show ?thesis
    using Store_Create_view[of s w] unfolding append_Cons append_Nil cs_def by metis
qed

lemma Store_Update_sess:
  "plain (s_CallID s) \<Longrightarrow>
   sessions (view (snd (Store_Update E s w))) = sessions (view w) \<and> \<not> is_ok (fst (Store_Update E s w)) \<or>
   sessions (view (snd (Store_Update E s w))) = (sessions (view w))(s_CallID s \<mapsto> s)"
  unfolding Store_Update_def by (rule write_cases[where cs = "[]", OF _ _ refl]) auto

lemma Store_AddParticipant_sess:
  assumes "plain c"
  shows "sessions (view (snd (Store_AddParticipant E c p m w))) = sessions (view w) \<and>
      \<not> is_ok (fst (Store_AddParticipant E c p m w)) \<or>
    (\<exists>s. sessions (view w) c = Some s \<and> FindParticipant s (p_UserID p) = None \<and>
       int (length (ActiveParticipants s)) < m \<and>
       sessions (view (snd (Store_AddParticipant E c p m w))) = (sessions (view w))(c \<mapsto> appended p s))"
proof (cases "fst (Store_Get E c w)")
  case (Inr s)
  define w2 where "w2 = snd (r_exists E (UserActiveCallKey (p_UserID p)) (snd (Store_Get E c w)))"
  define x where "x = r_exec E (put c (appended p s) SessionTTL [CSet (UserActiveCallKey (p_UserID p)) (PText c) SessionTTL,
        CSAdd (SessionParticipantsKey c) (p_UserID p)]) w2"
  have v: "view w2 = view w" by (simp add: w2_def svc_simps)
  have found: "sessions (view w) c = Some s"
    using Store_Get_found[OF Inr] assms by (simp add: sessions_def)
  have "sessions (view (snd x)) = sessions (view w) \<and> \<not> is_ok (fst x) \<or>
    sessions (view (snd x)) = (sessions (view w))(c \<mapsto> appended p s)"
    by (rule write_cases[OF _ assms x_def, unfolded v]) auto
  then show ?thesis
    using Inr found x_def
    by (auto simp: Store_AddParticipant_def Let_def split_beta appended_def v svc_simps
        w2_def[symmetric] not_le split: sum.splits)
qed (simp add: Store_AddParticipant_def Let_def split_beta svc_simps)

lemma Store_RemoveParticipant_effect:
  assumes "plain c" and x: "x = Store_RemoveParticipant E c u w"
  shows "sessions (view (snd x)) = sessions (view w) \<and>
      (\<forall>s. fst x = Inr s \<longrightarrow> sessions (view w) c = Some s \<and> FindParticipant s u = None) \<or>
    (\<exists>s t. sessions (view w) c = Some s \<and> FindParticipant s u \<noteq> None \<and> 0 < t \<and>
      sessions (view (snd x)) = (sessions (view w))(c \<mapsto> departed t u s) \<and>
      (\<forall>s'. fst x = Inr s' \<longrightarrow> s' = departed t u s))"
proof (cases "fst (Store_Get E c w)")
  case (Inr s)
  define w1 where "w1 = snd (Store_Get E c w)"
  define t where "t = fst (time_now E w1)"
  define y where "y = r_exec E (put c (departed t u s) SessionTTL
     [CDel (UserActiveCallKey u), CSRem (SessionParticipantsKey c) u]) (snd (time_now E w1))"
  have v: "view w1 = view w" "view (snd (time_now E w1)) = view w" "0 < t"
    by (simp_all add: t_def w1_def svc_simps)
  have found: "sessions (view w) c = Some s"
    using Store_Get_found[OF Inr] assms by (simp add: sessions_def)
  have y: "sessions (view (snd y)) = sessions (view w) \<and> \<not> is_ok (fst y) \<or>
      sessions (view (snd y)) = (sessions (view w))(c \<mapsto> departed t u s)"
    by (rule write_cases[OF _ assms(1) y_def, unfolded v]) auto
  have "x = (if FindParticipant s u = None then (Inr s, w1)
     else case fst y of Inl e \<Rightarrow> (Inl (Wrap ''remove participant'' e), snd y)
        | Inr _ \<Rightarrow> (Inr (departed t u s), snd y))"
    unfolding x y_def departed_def t_def w1_def using Inr
    by (simp add: Store_RemoveParticipant_def Let_def split_beta)
  then show ?thesis using y found v by (auto split: sum.splits)
qed (simp add: x Store_RemoveParticipant_def Let_def split_beta svc_simps)

lemma Store_EndSession_effect:
  assumes "plain c" and x: "x = Store_EndSession E c r w"
  shows "sessions (view (snd x)) = sessions (view w) \<and> \<not> is_ok (fst x) \<or>
    (\<exists>s t. sessions (view w) c = Some s \<and> 0 < t \<and>
      sessions (view (snd x)) = (sessions (view w))(c \<mapsto> ended t r s) \<and>
      (\<forall>s'. fst x = Inr s' \<longrightarrow> s' = ended t r s))"
proof (cases "fst (Store_Get E c w)")
  case (Inr s)
  define w1 where "w1 = snd (Store_Get E c w)"
  define t where "t = fst (time_now E w1)"
  define y where "y = r_exec E (put c (ended t r s) (60 * 60)
     (map (\<lambda>p. CDel (UserActiveCallKey (p_UserID p))) (s_Participants (ended t r s)) @
      [CDel (SessionParticipantsKey c)])) (snd (time_now E w1))"
  have v: "view w1 = view w" "view (snd (time_now E w1)) = view w" "0 < t"
    by (simp_all add: t_def w1_def svc_simps)
  have found: "sessions (view w) c = Some s"
    using Store_Get_found[OF Inr] assms by (simp add: sessions_def)
  have y: "sessions (view (snd y)) = sessions (view w) \<and> \<not> is_ok (fst y) \<or>
      sessions (view (snd y)) = (sessions (view w))(c \<mapsto> ended t r s)"
    by (rule write_cases[OF _ assms(1) y_def, unfolded v]) auto
  have "x = (case fst y of Inl e \<Rightarrow> (Inl (Wrap ''end session'' e), snd y)
        | Inr _ \<Rightarrow> (Inr (ended t r s), snd y))"
    unfolding x y_def ended_def t_def w1_def using Inr
    by (simp add: Store_EndSession_def Let_def split_beta cong: sum.case_cong)
  then show ?thesis using y found v by (auto split: sum.splits)
qed (simp add: x Store_EndSession_def Let_def split_beta svc_simps)

text \<open>One attempt of the optimistic transaction, and the loop around it.\<close>

lemma watch_update_effect:
  assumes "plain c" and x: "x = watch_update E (SessionKey c) change w"
  shows "sessions (view (snd x)) = sessions (view w) \<and> \<not> is_ok (fst x) \<or>
    (\<exists>s s'. sessions (view w) c = Some s \<and> change s = Inr s' \<and>
       sessions (view (snd x)) = (sessions (view w))(c \<mapsto> s') \<and> fst x \<noteq> Inl TxFailedErr)"
proof (cases "\<exists>s s'. sessions (view w) c = Some s \<and> change s = Inr s' \<and> (fate w = Fine \<or> fate w = Conflict)")
  case True
  then obtain s s' where s: "sessions (view w) c = Some s" "change s = Inr s'" "fate w = Fine \<or> fate w = Conflict"
    by blast
  then obtain p t where p: "view w (SessionKey c) = Some (RStr p, t)" "decode_Session p = Inr s"
    by (auto simp: sessions_def stored_def split: if_splits option.splits rval.splits sum.splits)
  define w1 where "w1 = snd (r_get E (SessionKey c) w)"
  have "x = r_watch_exec E (SessionKey c) (put c s' (24 * 60 * 60) []) w1"
    unfolding x watch_update_def w1_def using s p
    by (auto simp: Let_def split_beta svc_simps)
  then show ?thesis
    using s assms(1) sessions_write[of "[]" c s' "24 * 60 * 60" "view w"]
    by (cases "fate w1") (auto simp: svc_simps w1_def)
next
  case False
  then have "is_ok (fst (watch_update E (SessionKey c) change w)) = False"
    "view (snd (watch_update E (SessionKey c) change w)) = view w"
    using assms(1) unfolding watch_update_def
    by (auto simp: Let_def split_beta svc_simps sessions_def stored_def
        split: sum.splits elim!: get_res.elims)
  then show ?thesis unfolding x by simp
qed

lemma retry_effect:
  assumes "plain c" "\<And>s s'. change s = Inr s' \<Longrightarrow> s' = f s"
  shows "sessions (view (snd (retry n g (watch_update E (SessionKey c) change) w))) = sessions (view w) \<or>
    (\<exists>s. sessions (view w) c = Some s \<and>
       sessions (view (snd (retry n g (watch_update E (SessionKey c) change) w))) = (sessions (view w))(c \<mapsto> f s))"
proof (induction n arbitrary: w)
  case (Suc n)
  define x where "x = watch_update E (SessionKey c) change w"
  show ?case
  proof (cases "fst x = Inl TxFailedErr")
    case True
    then have "sessions (view (snd x)) = sessions (view w)"
      using watch_update_effect[OF assms(1) x_def] by blast
    then show ?thesis
      using True Suc.IH[of "snd x"] by (simp add: Let_def split_beta x_def[symmetric])
  next
    case False
    then show ?thesis
      using watch_update_effect[OF assms(1) x_def] assms(2)
      by (auto simp: Let_def split_beta x_def[symmetric] simp del: fun_upd_apply)
  qed
qed simp

lemma Store_UpdateParticipantRole_sess:
  "plain c \<Longrightarrow> sessions (view (snd (Store_UpdateParticipantRole E c u ro w))) = sessions (view w) \<or>
    (\<exists>s. sessions (view w) c = Some s \<and>
       sessions (view (snd (Store_UpdateParticipantRole E c u ro w))) = (sessions (view w))(c \<mapsto> role_set u ro s))"
  unfolding Store_UpdateParticipantRole_def
  by (rule retry_effect) (auto simp: set_role_def role_set_def split: if_splits)

lemma Store_UpdateInitiator_sess:
  "plain c \<Longrightarrow> sessions (view (snd (Store_UpdateInitiator E c u w))) = sessions (view w) \<or>
    (\<exists>s. sessions (view w) c = Some s \<and>
       sessions (view (snd (Store_UpdateInitiator E c u w))) = (sessions (view w))(c \<mapsto> s\<lparr>s_InitiatorID := u\<rparr>))"
  unfolding Store_UpdateInitiator_def by (rule retry_effect) auto

lemma Store_Update_calm:
  "calm w \<Longrightarrow> is_ok (fst (Store_Update E s w)) \<and> calm (snd (Store_Update E s w))"
  by (simp add: Store_Update_def svc_simps)

end

sublocale services \<subseteq> store: session_store E "\<lambda>w. sessions (view w)" calm
proof (unfold_locales, goal_cases)
  case (3 w c s) then show ?case
    by (auto intro!: Store_Get_stored simp: sessions_def split: if_splits)
next
  case (5 s w) then show ?case by (rule Store_Create_sess)
next
  case (6 s w) then show ?case by (rule Store_Update_sess)
next
  case (7 w s) then show ?case by (rule Store_Update_calm)
next
  case (8 c p m w) then show ?case by (rule Store_AddParticipant_sess)
next
  case (9 c u w) then show ?case using Store_RemoveParticipant_effect[OF 9 refl, of u w] by blast
next
  case (10 c u w s') then show ?case
    using Store_RemoveParticipant_effect[OF 10(1) refl, of u w] by fastforce
next
  case (11 c r w) then show ?case using Store_EndSession_effect[OF 11 refl, of r w] by blast
next
  case (12 c u ro w) then show ?case by (rule Store_UpdateParticipantRole_sess)
next
  case (13 c u w) then show ?case by (rule Store_UpdateInitiator_sess)
next
  case (2 c w s) then show ?case by (simp add: sessions_def Store_Get_found)
qed (use uuid_plain in \<open>simp_all add: svc_simps plain_def\<close>)

end
