(* ===== verification/Hub_Rooms.thy ===== *)
theory Hub_Rooms
  imports Hub
begin

text \<open>
  The group call handlers of \<open>internal/signaling/hub.go\<close>: create, invite, join, leave, end for
  all and media changes, over the orchestrator.
\<close>

section \<open>Classification of orchestrator errors\<close>

definition isMaxParticipantsError :: "goerr \<Rightarrow> bool" where
  "isMaxParticipantsError err \<longleftrightarrow>
     Error_text err = ''too many participants'' \<or> err = ErrMaxParticipants"

definition isUserBusyError :: "goerr \<Rightarrow> bool" where
  "isUserBusyError err \<longleftrightarrow> errors_Is err Session_Store.ErrUserBusy \<or>
     Contains (Error_text err) ''user already in active call''"

definition no_groups :: "Client \<Rightarrow> Hub \<Rightarrow> Hub" where
  "no_groups client h = SendError client ErrCodeInternal ''group calls not available'' [] h"

section \<open>Handlers\<close>

definition handleRoomCreate :: "('w, 'z) env_scheme \<Rightarrow> Client \<Rightarrow> json option \<Rightarrow> 'w hub_op" where
  "handleRoomCreate E client data h w =
    (case h_orchestrator h of
       None \<Rightarrow> (no_groups client h, w)
     | Some orc \<Rightarrow>
    (case unmarshal_raw dec_RoomCreateMsg data of
       Inl _ \<Rightarrow> (SendError client ErrCodeInvalidMessage ''invalid room_create payload'' [] h, w)
     | Inr msg \<Rightarrow>
        if rcm_Participants msg = []
        then (SendError client ErrCodeInvalidMessage ''at least one participant required'' [] h, w)
        else if rcm_CallType msg \<noteq> ''audio'' \<and> rcm_CallType msg \<noteq> ''video''
        then (SendError client ErrCodeInvalidMessage ''call_type must be audio or video'' [] h, w)
        else
         (let (l, w1) = SessionStore_CheckRateLimit E (''room_create:'' @ c_userID client) 5 60 w in
          if l = Inr True
          then (SendError client ErrCodeRateLimit ''room creation rate limited'' [] h, w1)
          else
           (let (r, w2) = Orchestrator_CreateGroupSession E orc \<lparr>gq_InitiatorID = c_userID client,
                  gq_Participants = rcm_Participants msg, gq_CallType = rcm_CallType msg, gq_Region = []\<rparr> w1 in
            case r of
              Inl e \<Rightarrow>
               (if isMaxParticipantsError e then (SendError client ErrCodeRoomFull (Error_text e) [] h, w2)
                else if isUserBusyError e then (SendError client ErrCodeBusy ''already in a call'' [] h, w2)
                else (SendError client ErrCodeInternal ''failed to create room'' [] h, w2))
            | Inr resp \<Rightarrow>
               (let h1 = setRoomHost (gp_RoomID resp) (c_userID client) (addToRoom (gp_RoomID resp) (c_userID client) h);
                    h2 = SendJSON client MsgRoomCreated
                           (RoomCreatedMsg (gp_RoomID resp) (gp_LiveKitToken resp) (gp_LiveKitURL resp)) h1;
                    h3 = send_users (rcm_Participants msg) MsgRoomInvitation (RoomInvitationMsg (gp_RoomID resp)
                           (c_userID client) (rcm_CallType msg) (rcm_Participants msg)) h2
                in (h3, w2))))))"

definition handleRoomInvite :: "('w, 'z) env_scheme \<Rightarrow> Client \<Rightarrow> json option \<Rightarrow> 'w hub_op" where
  "handleRoomInvite E client data h w =
    (case h_orchestrator h of
       None \<Rightarrow> (no_groups client h, w)
     | Some orc \<Rightarrow>
    (case unmarshal_raw dec_RoomInviteMsg data of
       Inl _ \<Rightarrow> (SendError client ErrCodeInvalidMessage ''invalid room_invite payload'' [] h, w)
     | Inr msg \<Rightarrow>
        if rim_RoomID msg = [] \<or> rim_Invitees msg = []
        then (SendError client ErrCodeInvalidMessage ''room_id and invitees required'' [] h, w)
        else if \<not> isInRoom (rim_RoomID msg) (c_userID client) h
        then (SendError client ErrCodeUnauthorized ''not in room'' (rim_RoomID msg) h, w)
        else
         (let (r, w1) = Orchestrator_InviteToRoom E orc (rim_RoomID msg) (c_userID client) (rim_Invitees msg) w in
          case r of
            Inl e \<Rightarrow> (SendError client ErrCodeInternal (Error_text e) (rim_RoomID msg) h, w1)
          | Inr resp \<Rightarrow>
             (let (participants, w2) = getRoomMembers E (rim_RoomID msg) h w1
              in (send_users (ir_Invited resp) MsgRoomInvitation (RoomInvitationMsg (rim_RoomID msg)
                    (c_userID client) [] participants) h, w2)))))"

definition handleRoomJoin :: "('w, 'z) env_scheme \<Rightarrow> Client \<Rightarrow> json option \<Rightarrow> 'w hub_op" where
  "handleRoomJoin E client data h w =
    (case h_orchestrator h of
       None \<Rightarrow> (no_groups client h, w)
     | Some orc \<Rightarrow>
    (case unmarshal_raw dec_room_id data of
       Inl _ \<Rightarrow> (SendError client ErrCodeInvalidMessage ''invalid room_join payload'' [] h, w)
     | Inr roomID \<Rightarrow>
        if roomID = [] then (SendError client ErrCodeInvalidMessage ''room_id required'' [] h, w)
        else if isInRoom roomID (c_userID client) h
        then
         (let h1 = snd (cancelRoomGracePeriod (c_userID client) h);
              (r, w1) = Orchestrator_JoinGroupSession E orc roomID (c_userID client) w in
          case r of
            Inl e \<Rightarrow> (SendError client ErrCodeInternal (Error_text e) roomID h1, w1)
          | Inr resp \<Rightarrow> (SendJSON client MsgRoomCreated
                (RoomCreatedMsg roomID (jp_LiveKitToken resp) (jp_LiveKitURL resp)) h1, w1))
        else
         (let (r, w1) = Orchestrator_JoinGroupSession E orc roomID (c_userID client) w in
          case r of
            Inl e \<Rightarrow>
             (if isMaxParticipantsError e then (SendError client ErrCodeRoomFull (Error_text e) roomID h, w1)
              else if isUserBusyError e then (SendError client ErrCodeBusy ''already in a call'' roomID h, w1)
              else (SendError client ErrCodeInternal (Error_text e) roomID h, w1))
          | Inr resp \<Rightarrow>
             (let h1 = addToRoom roomID (c_userID client) h;
                  h2 = SendJSON client MsgRoomCreated
                         (RoomCreatedMsg roomID (jp_LiveKitToken resp) (jp_LiveKitURL resp)) h1
              in broadcastToRoom E roomID (c_userID client) MsgParticipantJoined
                   (ParticipantJoinedMsg roomID (c_userID client) ''participant'') h2 w1))))"

definition handleRoomLeave :: "('w, 'z) env_scheme \<Rightarrow> Client \<Rightarrow> json option \<Rightarrow> 'w hub_op" where
  "handleRoomLeave E client data h w =
    (case h_orchestrator h of
       None \<Rightarrow> (no_groups client h, w)
     | Some orc \<Rightarrow>
    (case unmarshal_raw dec_room_id data of
       Inl _ \<Rightarrow> (SendError client ErrCodeInvalidMessage ''invalid room_leave payload'' [] h, w)
     | Inr roomID \<Rightarrow>
        if roomID = [] then (SendError client ErrCodeInvalidMessage ''room_id required'' [] h, w)
        else if \<not> isInRoom roomID (c_userID client) h
        then (SendError client ErrCodeNotFound ''not in room'' roomID h, w)
        else
         (let isHost = isRoomHost roomID (c_userID client) h;
              w1 = snd (Orchestrator_LeaveGroupSession E orc roomID (c_userID client) w);
              h1 = removeFromRoom roomID (c_userID client) h;
              (ms, w2) = getRoomMembers E roomID h1 w1;
              (h3, w3) = (if isHost \<and> ms \<noteq> []
                then (let (t, v) = Orchestrator_TransferHost E roomID (hd ms) w2 in
                      case t of
                        Inl _ \<Rightarrow> (h1, v)
                      | Inr _ \<Rightarrow> broadcastToRoom E roomID [] MsgParticipantJoined
                                  (ParticipantJoinedMsg roomID (hd ms) ''host'') h1 v)
                else (h1, w2));
              (h4, w4) = broadcastToRoom E roomID [] MsgParticipantLeft
                           (ParticipantLeftMsg roomID (c_userID client)) h3 w3
          in (if ms = [] then clearRoomHost roomID (deleteRoom roomID h4) else h4, w4))))"

definition handleRoomEndAll :: "('w, 'z) env_scheme \<Rightarrow> Client \<Rightarrow> json option \<Rightarrow> 'w hub_op" where
  "handleRoomEndAll E client data h w =
    (case h_orchestrator h of
       None \<Rightarrow> (no_groups client h, w)
     | Some orc \<Rightarrow>
    (case unmarshal_raw dec_room_id data of
       Inl _ \<Rightarrow> (SendError client ErrCodeInvalidMessage ''invalid room_end_all payload'' [] h, w)
     | Inr roomID \<Rightarrow>
        if roomID = [] then (SendError client ErrCodeInvalidMessage ''room_id required'' [] h, w)
        else if \<not> isInRoom roomID (c_userID client) h
        then (SendError client ErrCodeNotFound ''not in room'' roomID h, w)
        else if \<not> isRoomHost roomID (c_userID client) h
        then (SendError client ErrCodeUnauthorized ''only the host can end the room for all'' roomID h, w)
        else
         (let (ms, w1) = getRoomMembers E roomID h w;
              (r, w2) = Orchestrator_CloseRoom E orc roomID ''host_ended'' w1 in
          case r of
            Inl _ \<Rightarrow> (SendError client ErrCodeInternal ''failed to end room'' roomID h, w2)
          | Inr _ \<Rightarrow> (clearRoomHost roomID (deleteRoom roomID
                (send_users ms MsgRoomClosed (RoomClosedMsg roomID ''host_ended'') h)), w2))))"

definition handleMediaChange :: "('w, 'z) env_scheme \<Rightarrow> Client \<Rightarrow> json option \<Rightarrow> 'w hub_op" where
  "handleMediaChange E client data h w =
    (case h_orchestrator h of
       None \<Rightarrow> (no_groups client h, w)
     | Some orc \<Rightarrow>
    (case unmarshal_raw dec_MediaChangeMsg data of
       Inl _ \<Rightarrow> (SendError client ErrCodeInvalidMessage ''invalid media_change payload'' [] h, w)
     | Inr msg \<Rightarrow>
        if mcm_RoomID msg = [] then (SendError client ErrCodeInvalidMessage ''room_id required'' [] h, w)
        else if \<not> isInRoom (mcm_RoomID msg) (c_userID client) h
        then (SendError client ErrCodeNotFound ''not in room'' (mcm_RoomID msg) h, w)
        else
         (let w1 = snd (Orchestrator_UpdateMediaState E (mcm_RoomID msg) (c_userID client)
                     \<lparr>m_AudioEnabled = mcm_Audio msg, m_VideoEnabled = mcm_Video msg, m_ScreenSharing = False\<rparr> w)
          in broadcastToRoom E (mcm_RoomID msg) (c_userID client) MsgParticipantMediaChanged
               (ParticipantMediaChangedMsg (mcm_RoomID msg) (c_userID client) (mcm_Audio msg) (mcm_Video msg)) h w1)))"

end
