(* ===== verification/Hub_Loop.thy ===== *)
theory Hub_Loop
  imports Hub_Calls Hub_Rooms
begin

text \<open>
  The event loop of \<open>internal/signaling/hub.go\<close>: dispatch of incoming messages with
  deduplication, registration and loss of connections, expiry of timers, shutdown and recovery
  after a restart, and the step relation that interleaves them.
\<close>

section \<open>Dispatch\<close>

text \<open>The payload of a message is a JSON document, or \<open>None\<close> when the bytes are not JSON.\<close>

definition handleMessage :: "('w, 'z) env_scheme \<Rightarrow> Client \<Rightarrow> json option \<Rightarrow> 'w hub_op" where
  "handleMessage E client payload h w =
    (case (case payload of None \<Rightarrow> Inl json_err | Some j \<Rightarrow> unmarshal_SigEnvelope j) of
       Inl _ \<Rightarrow> (SendError client ErrCodeInvalidMessage ''invalid JSON'' [] h, w)
     | Inr env \<Rightarrow>
      (let (dup, w1) = (if e_MsgID env \<noteq> [] then SessionStore_CheckMsgDedup E (e_MsgID env) w
                        else (Inr False, w)) in
       if dup = Inr True then (SendError client ErrCodeDuplicate ''duplicate message'' [] h, w1)
       else let t = e_Type env; d = e_Data env in
         if t = MsgCallInitiate then handleCallInitiate E client d h w1
         else if t = MsgCallAccept then handleCallAccept E client d h w1
         else if t = MsgCallReject then handleCallReject E client d h w1
         else if t = MsgCallEnd then handleCallEnd E client d h w1
         else if t = MsgCallCancel then handleCallCancel E client d h w1
         else if t = MsgICECandidate then handleICECandidate E client d h w1
         else if t = MsgQualityMetrics then handleQualityMetrics E client d h w1
         else if t = MsgReconnect then handleReconnect E client d h w1
         else if t = MsgPing then (SendJSON client MsgPong NoData h, w1)
         else if t = MsgRoomCreate then handleRoomCreate E client d h w1
         else if t = MsgRoomInvite then handleRoomInvite E client d h w1
         else if t = MsgRoomJoin then handleRoomJoin E client d h w1
         else if t = MsgRoomLeave then handleRoomLeave E client d h w1
         else if t = MsgRoomEndAll then handleRoomEndAll E client d h w1
         else if t = MsgMediaChange then handleMediaChange E client d h w1
         else (SendError client ErrCodeInvalidMessage (''unknown message type: '' @ t) [] h, w1)))"

section \<open>Connections\<close>

definition Run_register :: "('w, 'z) env_scheme \<Rightarrow> Client \<Rightarrow> 'w hub_op" where
  "Run_register E client h w =
    (let ds = devices h (c_userID client);
         h1 = (case map_of ds (c_deviceID client) of None \<Rightarrow> h | Some old \<Rightarrow> Client_Close old h);
         h2 = h1\<lparr>h_clients := aput (c_userID client) (aput (c_deviceID client) client ds) (h_clients h1)\<rparr>;
         h3 = snd (cancelRoomGracePeriod (c_userID client) h2)
     in sendStateSync E client h3 w)"

definition drop_device :: "Client \<Rightarrow> Hub \<Rightarrow> Hub" where
  "drop_device client h = (case map_of (h_clients h) (c_userID client) of
      None \<Rightarrow> h
    | Some ds \<Rightarrow>
       if map_of ds (c_deviceID client) = Some client
       then (let ds' = adel (c_deviceID client) ds in
             h\<lparr>h_clients := (if ds' = [] then adel (c_userID client) (h_clients h)
                             else aput (c_userID client) ds' (h_clients h))\<rparr>)
       else h)"

definition Run_unregister :: "('w, 'z) env_scheme \<Rightarrow> Client \<Rightarrow> 'w hub_op" where
  "Run_unregister E client h w =
    (let h1 = drop_device client h in
     if isUserOnline (c_userID client) h1 then (h1, w)
     else
      (let (started, h2, w2) = startGracePeriod E (c_userID client) h1 w in
       if started then (h2, w2)
       else
        (let (started', h3, w3) = startRoomGracePeriod E (c_userID client) h2 w2 in
         if started' then (h3, w3) else removeFromAllRooms E (c_userID client) h3 w3)))"

text \<open>\<open>ReadPump\<close> returns: the client is unregistered and closed.\<close>

definition ReadPump_exit :: "('w, 'z) env_scheme \<Rightarrow> Client \<Rightarrow> 'w hub_op" where
  "ReadPump_exit E client h w =
    (let (h1, w1) = Run_unregister E client h w in (Client_Close client h1, w1))"

fun close_all :: "Client list \<Rightarrow> Hub \<Rightarrow> Hub" where
  "close_all [] h = h"
| "close_all (c # cs) h = close_all cs (Client_Close c h)"

text \<open>\<open>Stop\<close> cancels the hub's context, which every waiting timer selects on.\<close>

definition Hub_Stop :: "Hub \<Rightarrow> Hub" where
  "Hub_Stop h =
    (let h1 = close_all (concat (map (\<lambda>(_, ds). map snd ds) (h_clients h)))
                (h\<lparr>h_done := True, h_timers := []\<rparr>)
     in h1\<lparr>h_clients := []\<rparr>)"

section \<open>Timers\<close>

text \<open>A waiting goroutine wakes up: it leaves the list of timers and runs its timeout branch.\<close>

definition fire :: "('w, 'z) env_scheme \<Rightarrow> timer \<Rightarrow> 'w hub_op" where
  "fire E t h w =
    (let h1 = h\<lparr>h_timers := remove1 t (h_timers h)\<rparr> in
     case t of
       RingTimeout callID \<Rightarrow> ringTimeout E callID h1 w
     | IceTimeout callID \<Rightarrow> iceTimeout E callID h1 w
     | GraceTimeout userID callID peerID \<Rightarrow> reconnectGraceTimeout E userID callID peerID h1 w
     | RoomGraceTimeout userID _ \<Rightarrow> roomGraceTimeout E userID h1 w)"

section \<open>Recovery\<close>

fun recover_calls :: "('w, 'z) env_scheme \<Rightarrow> CallSession list \<Rightarrow> Hub \<Rightarrow> 'w \<Rightarrow> 'w" where
  "recover_calls E [] h w = w"
| "recover_calls E (s # ss) h w =
    (let w1 = (if \<not> isUserOnline (cs_CallerID s) h \<and> \<not> isUserOnline (cs_CalleeID s) h
               then snd (SessionStore_Delete E (cs_CallID s) w) else w)
     in recover_calls E ss h w1)"

fun recover_members :: "string \<Rightarrow> Participant list \<Rightarrow> Hub \<Rightarrow> Hub" where
  "recover_members roomID [] h = h"
| "recover_members roomID (p # ps) h =
     recover_members roomID ps (if isUserOnline (p_UserID p) h then addToRoom roomID (p_UserID p) h else h)"

fun recover_rooms :: "('w, 'z) env_scheme \<Rightarrow> Orchestrator \<Rightarrow> Session list \<Rightarrow> 'w hub_op" where
  "recover_rooms E orc [] h w = (h, w)"
| "recover_rooms E orc (s # ss) h w =
    (if ActiveParticipants s = []
     then recover_rooms E orc ss h (snd (Orchestrator_CloseRoom E orc (s_CallID s) ''orphan_cleanup'' w))
     else
      (let h1 = recover_members (s_CallID s) (ActiveParticipants s) h;
           h2 = (if s_InitiatorID s \<noteq> [] then setRoomHost (s_CallID s) (s_InitiatorID s) h1 else h1)
       in recover_rooms E orc ss h2 w))"

text \<open>The scans may not return; the recovery then does not either.\<close>

definition RecoverSessions :: "('w, 'z) env_scheme \<Rightarrow> Hub \<Rightarrow> 'w \<Rightarrow> (Hub \<times> 'w) option" where
  "RecoverSessions E h w =
    (case SessionStore_ScanActiveSessions E w of
       None \<Rightarrow> None
     | Some (Inl _, w1) \<Rightarrow> Some (h, w1)
     | Some (Inr calls, w1) \<Rightarrow>
        (let w2 = recover_calls E calls h w1 in
         case h_orchestrator h of
           None \<Rightarrow> Some (h, w2)
         | Some orc \<Rightarrow>
            (case Orchestrator_RecoverGroupSessions E w2 of
               None \<Rightarrow> None
             | Some ((_, Some _), w3) \<Rightarrow> Some (h, w3)
             | Some ((rooms, None), w3) \<Rightarrow> Some (recover_rooms E orc rooms h w3))))"

section \<open>Steps\<close>

text \<open>A new connection gets a fresh number and the identity its token carries.\<close>

inductive hub_step :: "('w, 'z) env_scheme \<Rightarrow> Hub \<times> 'w \<Rightarrow> Hub \<times> 'w \<Rightarrow> bool" for E where
  connect: "\<not> h_done h \<Longrightarrow> h_conns h i = None \<Longrightarrow> NewClient i u d h = (c, h1) \<Longrightarrow>
     hub_step E (h, w) (Run_register E c h1 w)"
| message: "\<not> h_done h \<Longrightarrow> h_conns h (c_id c) \<noteq> None \<Longrightarrow> hub_step E (h, w) (handleMessage E c p h w)"
| disconnect: "\<not> h_done h \<Longrightarrow> h_conns h (c_id c) \<noteq> None \<Longrightarrow> hub_step E (h, w) (ReadPump_exit E c h w)"
| deliver: "hub_step E (h, w) (snd (WritePump_take c h), w)"
| timeout: "t \<in> set (h_timers h) \<Longrightarrow> hub_step E (h, w) (fire E t h w)"
| promote: "hub_step E (h, w) (h, snd (PromoteToActive E callID w))"
| recover: "RecoverSessions E h w = Some s \<Longrightarrow> hub_step E (h, w) s"
| shutdown: "hub_step E (h, w) (Hub_Stop h, w)"

inductive hub_run :: "('w, 'z) env_scheme \<Rightarrow> Hub \<times> 'w \<Rightarrow> Hub \<times> 'w \<Rightarrow> bool" for E where
  stop: "hub_run E s s"
| go: "hub_step E s t \<Longrightarrow> hub_run E t u \<Longrightarrow> hub_run E s u"

end
