(* ===== verification/Shared_Redis.thy ===== *)
theory Shared_Redis
  imports Call_Registry Session_Contract Hub_Loop
begin

text \<open>
  The call store of the signaling service (\<open>signaling/session.go\<close>) and the session store of the orchestrator
  (\<open>session/store.go\<close>) live in one Redis, under keys of the same form.  With different identifiers they leave
  each other alone, so that each may be reasoned about on its own; but the scan of one reads the documents of
  the other.
\<close>

section \<open>Keys\<close>

lemma sessionKey_SessionKey: "sessionKey c = SessionKey c"
  by (simp add: sessionKey_def SessionKey_def)

text \<open>A user identifier is ordinary if it has no colon and is not the word of the key itself.\<close>

definition ordinary :: "string \<Rightarrow> bool" where
  "ordinary u \<longleftrightarrow> plain u \<and> u \<noteq> ''active_call''"

lemma active_keys_apart:
  assumes "ordinary u"
  shows "userActiveCallKey u \<noteq> UserActiveCallKey v" "userActiveCallKey v \<noteq> UserActiveCallKey u"
proof -
  have u: "CHR '':'' \<notin> set u" "u \<noteq> ''active_call''" using assms by (auto simp: ordinary_def plain_def)
  show "userActiveCallKey u \<noteq> UserActiveCallKey v"
    using append_Cons_eq_iff[of "CHR '':''" "''active_call''" u v "''active_call''"] u by (auto simp: userActiveCallKey_def UserActiveCallKey_def)
  show "userActiveCallKey v \<noteq> UserActiveCallKey u"
    using append_Cons_eq_iff[of "CHR '':''" u "''active_call''" "''active_call''" v] u by (auto simp: userActiveCallKey_def UserActiveCallKey_def)
qed

lemma call_keys_apart [simp]: "sessionKey c \<noteq> UserActiveCallKey u" "SessionKey c \<noteq> userActiveCallKey u"
  "SessionParticipantsKey c \<noteq> userActiveCallKey u"
  by (simp_all add: sessionKey_def UserActiveCallKey_def SessionKey_def userActiveCallKey_def SessionParticipantsKey_def)

section \<open>What an operation may touch\<close>

definition call_keys :: "string \<Rightarrow> string set" where
  "call_keys c = insert (sessionKey c) (range userActiveCallKey)"

definition session_keys :: "string \<Rightarrow> string set" where
  "session_keys c = {SessionKey c, SessionParticipantsKey c} \<union> range UserActiveCallKey"

inductive call_op :: "('w, 'z) env_scheme \<Rightarrow> string \<Rightarrow> ('w \<Rightarrow> 'w) \<Rightarrow> bool" for E where
  create: "cs_CallID s = c \<Longrightarrow> call_op E c (\<lambda>w. snd (SessionStore_Create E s w))"
| transition: "f \<in> {no_mutate, end_mutate E reason, accept_mutate E sdp} \<Longrightarrow>
    call_op E c (\<lambda>w. snd (SessionStore_TransitionState E c tgt f w))"
| finish: "call_op E c (\<lambda>w. snd (SessionStore_End E c reason w))"
| delete: "call_op E c (\<lambda>w. snd (SessionStore_Delete E c w))"

inductive session_op :: "('w, 'z) env_scheme \<Rightarrow> string \<Rightarrow> ('w \<Rightarrow> 'w) \<Rightarrow> bool" for E where
  create: "s_CallID s = c \<Longrightarrow> session_op E c (\<lambda>w. snd (Store_Create E s w))"
| update: "s_CallID s = c \<Longrightarrow> session_op E c (\<lambda>w. snd (Store_Update E s w))"
| add: "session_op E c (\<lambda>w. snd (Store_AddParticipant E c p m w))"
| remove: "session_op E c (\<lambda>w. snd (Store_RemoveParticipant E c u w))"
| finish: "session_op E c (\<lambda>w. snd (Store_EndSession E c reason w))"
| delete: "session_op E c (\<lambda>w. snd (Store_Delete E c w))"
| role: "session_op E c (\<lambda>w. snd (Store_UpdateParticipantRole E c u r w))"
| initiator: "session_op E c (\<lambda>w. snd (Store_UpdateInitiator E c u w))"

context services
begin

lemma exec_outside: "k \<notin> cmd_key ` set cs \<Longrightarrow> view (snd (r_exec E cs w)) k = view w k"
  "k \<notin> cmd_key ` set cs \<Longrightarrow> view (snd (r_watch_exec E key cs w)) k = view w k"
  by (simp_all add: svc_simps exec_db_other)

lemma call_mutators_view: "f \<in> {no_mutate, end_mutate E reason, accept_mutate E sdp} \<Longrightarrow> view (snd (f s w)) = view w"
  by (auto simp: no_mutate_def end_mutate_def accept_mutate_def split_beta Let_def svc_simps)

lemma transition_outside:
  assumes "k \<noteq> sessionKey c" "\<And>s v. view (snd (f s v)) = view v"
  shows "view (snd (SessionStore_TransitionState E c tgt f w)) k = view w k"
  using assms by (simp add: SessionStore_TransitionState_def split_beta Let_def exec_outside(2) svc_simps split: sum.splits)

lemma call_keysD: "k \<notin> call_keys c \<Longrightarrow> k \<noteq> sessionKey c \<and> (\<forall>u. k \<noteq> userActiveCallKey u)"
  by (auto simp: call_keys_def)

lemma session_keysD: "k \<notin> session_keys c \<Longrightarrow> k \<noteq> SessionKey c \<and> k \<noteq> SessionParticipantsKey c \<and> (\<forall>u. k \<noteq> UserActiveCallKey u)"
  by (auto simp: session_keys_def)

lemma call_op_outside: "call_op E c f \<Longrightarrow> k \<notin> call_keys c \<Longrightarrow> view (f w) k = view w k"
proof (induction rule: call_op.induct)
  case (create s c)
  then show ?case using Create_cases[of s w]
    by (auto simp: call_keys_def created_def)
next
  case (transition f reason sdp c tgt)
  then show ?case using call_mutators_view by (intro transition_outside) (auto simp: call_keys_def)
next
  case (finish c reason)
  with call_keysD show ?case
    by (simp add: SessionStore_End_def split_beta Let_def exec_outside(1) transition_outside end_mutate_view Get_view
        split: sum.splits)
next
  case (delete c)
  with call_keysD show ?case
    by (simp add: SessionStore_Delete_def split_beta Let_def exec_outside(1) Get_view split: sum.splits)
qed

lemma watch_update_outside: "k \<noteq> key \<Longrightarrow> view (snd (watch_update E key g w)) k = view w k"
  by (simp add: watch_update_def split_beta Let_def exec_outside(2) svc_simps split: sum.splits)

lemma retry_outside:
  assumes "\<And>w. view (snd (attempt w)) k = view w k"
  shows "view (snd (retry n e attempt w)) k = view w k"
  by (induction n arbitrary: w) (simp_all add: split_beta Let_def assms)

lemma session_op_outside: "session_op E c f \<Longrightarrow> k \<notin> session_keys c \<Longrightarrow> view (f w) k = view w k"
proof (induction rule: session_op.induct)
  case (create s c)
  define cs where "cs = CSet (SessionKey (s_CallID s)) (PJson (marshal_Session s)) SessionTTL #
    map (\<lambda>p. CSet (UserActiveCallKey (p_UserID p)) (PText (s_CallID s)) SessionTTL) (s_Participants s) @
    map (\<lambda>p. CSAdd (SessionParticipantsKey (s_CallID s)) (p_UserID p)) (s_Participants s) @
    [CExpire (SessionParticipantsKey (s_CallID s)) SessionTTL]"
  have "k \<notin> cmd_key ` set cs" using create by (auto simp: cs_def session_keys_def)
  then show ?case using exec_outside(1)[of k cs]
    by (simp add: Store_Create_def split_beta Let_def exists_view flip: cs_def split: sum.splits)
next
  case (update s c)
  then show ?case by (auto simp: Store_Update_def exec_outside(1) session_keys_def)
next
  case (add c p m)
  with session_keysD show ?case
    by (simp add: Store_AddParticipant_def split_beta Let_def exec_outside(1) exists_view Store_Get_laws split: sum.splits)
next
  case (remove c u)
  with session_keysD show ?case
    by (simp add: Store_RemoveParticipant_def split_beta Let_def exec_outside(1) now_view Store_Get_laws split: sum.splits)
next
  case (finish c reason)
  with session_keysD show ?case
    by (simp add: Store_EndSession_def split_beta Let_def exec_outside(1) now_view Store_Get_laws image_iff split: sum.splits)
next
  case (delete c)
  with session_keysD show ?case
    by (simp add: Store_Delete_def split_beta Let_def exec_outside(1) Store_Get_laws image_iff split: sum.splits)
next
  case (role c u r)
  then show ?case by (auto simp: Store_UpdateParticipantRole_def session_keys_def intro!: retry_outside watch_update_outside)
next
  case (initiator c u)
  then show ?case by (auto simp: Store_UpdateInitiator_def session_keys_def intro!: retry_outside watch_update_outside)
qed

end

section \<open>Properties\<close>



subsection \<open>The scans\<close>

text \<open>The document of a session reads as a call without parties and without a state.\<close>

definition session_as_call :: "Session \<Rightarrow> CallSession" where
  "session_as_call s = \<lparr>cs_CallID = s_CallID s, cs_CallerID = [], cs_CalleeID = [], cs_CallType = s_CallType s, cs_State = [],
     cs_SDPOffer = [], cs_SDPAnswer = [], cs_StartedAt = zero_time, cs_AnsweredAt = zero_time, cs_EndedAt = s_EndedAt s, cs_EndReason = s_EndReason s\<rparr>"

lemma session_reads_as_call: "decode_CallSession (PJson (marshal_Session s)) = Inr (session_as_call s)"
  by (simp add: decode_CallSession_def unmarshal_CallSession_def marshal_Session_def session_as_call_def omit_str_def)

text \<open>So the recovery of one-to-one calls takes a session for an orphan and deletes it, whoever is in it.\<close>

theorem recovery_deletes_sessions:
  assumes svc: "services E view fate published calm" and w: "calm w" "view w (SessionKey (s_CallID s)) = Some (RStr (PJson (marshal_Session s)), ttl)"
    and scan: "fst (r_scan E 0 ''session:'' w) = Inr ([SessionKey (s_CallID s)], 0)" and h: "\<not> isUserOnline [] h"
  shows "\<exists>calls w'. SessionStore_ScanActiveSessions E w = Some (Inr calls, w') \<and>
    view (recover_calls E calls h w') (SessionKey (s_CallID s)) = None"
proof -
  let ?c = "s_CallID s" and ?w1 = "snd (r_scan E 0 ''session:'' w)"
  define w2 where "w2 = snd (r_get E (SessionKey ?c) ?w1)"
  have calm: "calm ?w1" "calm w2" using w(1) by (simp_all add: w2_def services.calm_laws[OF svc])
  have view: "view w2 = view w" by (simp add: w2_def services.view_laws[OF svc])
  have get: "fst (r_get E (SessionKey ?c) v) = Inr (PJson (marshal_Session s))" if "calm v" "view v = view w" for v
    using that w(2) by (simp add: services.result_laws[OF svc] services.calm_fine[OF svc])
  have "fst (r_get E (SessionKey ?c) ?w1) = Inr (PJson (marshal_Session s))"
    using get[OF calm(1)] by (simp add: services.view_laws[OF svc])
  then have scanned: "SessionStore_ScanActiveSessions E w = Some (Inr [session_as_call s], w2)"
    using scan unfolding SessionStore_ScanActiveSessions_def
    by (subst scan_loop.simps) (simp add: Let_def split_beta session_reads_as_call w2_def session_as_call_def StateEnded_def StateCleanup_def)
  define w3 where "w3 = snd (r_get E (SessionKey ?c) w2)"
  have g: "SessionStore_Get E ?c w2 = (Inr (session_as_call s), w3)"
    using get[OF calm(2) view] by (simp add: SessionStore_Get_def sessionKey_SessionKey split_beta w3_def session_reads_as_call)
  have w3: "calm w3" using calm(2) by (simp add: w3_def services.calm_laws[OF svc])
  have "view (snd (SessionStore_Delete E ?c w2)) (SessionKey ?c) = None"
    using services.calm_fine[OF svc w3] call_keys_apart(2)[of ?c "[]"]
    by (simp add: SessionStore_Delete_def g services.view_laws[OF svc] sessionKey_SessionKey session_as_call_def)
  then have "view (recover_calls E [session_as_call s] h w2) (SessionKey ?c) = None"
    using h by (simp add: session_as_call_def)
  with scanned show ?thesis by blast
qed

end
