(* ===== verification/Orchestration.thy ===== *)
theory Orchestration
  imports Orchestrator Session_Contract
begin

text \<open>
  What the orchestrator guarantees.  The first part is proved from the store contract alone:
  whatever operations run, in whatever order and with whatever faults, a session only evolves
  (topology never steps back, ended stays ended, the list of participants only grows, nobody who
  left comes back).  The second part states each operation's result.
\<close>

section \<open>How a session may evolve\<close>

definition topo_rank :: "Topology \<Rightarrow> nat" where
  "topo_rank t = (if t = TopologySFU then 2 else if t = TopologyTURN then 1 else 0)"

definition p_evolves :: "Participant \<Rightarrow> Participant \<Rightarrow> bool" where
  "p_evolves p q \<longleftrightarrow> p_UserID q = p_UserID p \<and> p_JoinedAt q = p_JoinedAt p \<and>
     (\<not> IsZero (p_LeftAt p) \<longrightarrow> \<not> IsZero (p_LeftAt q))"

definition grows :: "Participant list \<Rightarrow> Participant list \<Rightarrow> bool" where
  "grows ps ps' \<longleftrightarrow> (\<exists>qs rs. ps' = qs @ rs \<and> list_all2 p_evolves ps qs)"

definition evolves :: "Session \<Rightarrow> Session \<Rightarrow> bool" where
  "evolves s t \<longleftrightarrow> s_CallID t = s_CallID s \<and> s_CallType t = s_CallType s \<and>
     s_CreatedAt t = s_CreatedAt s \<and> topo_rank (s_Topology s) \<le> topo_rank (s_Topology t) \<and>
     (\<not> IsZero (s_EndedAt s) \<longrightarrow> \<not> IsZero (s_EndedAt t)) \<and>
     grows (s_Participants s) (s_Participants t)"

lemma p_evolves_refl [simp]: "p_evolves p p"
  by (simp add: p_evolves_def)

lemma list_evolves_refl [simp]: "list_all2 p_evolves ps ps"
  by (simp add: list_all2_refl)

lemma p_evolves_trans: "p_evolves p q \<Longrightarrow> p_evolves q r \<Longrightarrow> p_evolves p r"
  by (auto simp: p_evolves_def)

lemma grows_evolved: "list_all2 p_evolves ps qs \<Longrightarrow> grows ps qs"
  unfolding grows_def by (metis append_Nil2)

lemma grows_refl [simp]: "grows ps ps"
  by (simp add: grows_evolved)

lemma grows_append [simp]: "grows ps (ps @ qs)"
  unfolding grows_def using list_evolves_refl by blast

lemma grows_trans:
  assumes "grows ps qs" "grows qs rs"
  shows "grows ps rs"
proof -
  obtain as bs where q: "qs = as @ bs" "list_all2 p_evolves ps as"
    using assms(1) by (auto simp: grows_def)
  obtain cs ds where r: "rs = cs @ ds" "list_all2 p_evolves (as @ bs) cs"
    using assms(2) q by (auto simp: grows_def)
  then obtain e f where ef: "cs = e @ f" "list_all2 p_evolves as e"
    by (auto simp: list_all2_append1)
  have "list_all2 p_evolves ps e" using list_all2_trans[OF p_evolves_trans q(2) ef(2)] .
  then show ?thesis unfolding grows_def using r(1) ef(1) by (metis append_assoc)
qed

lemma evolves_refl [simp]: "evolves s s"
  by (simp add: evolves_def)

lemma evolves_trans: "evolves s t \<Longrightarrow> evolves t u \<Longrightarrow> evolves s u"
  unfolding evolves_def by (auto intro: grows_trans)

lemma evolves_participants:
  "list_all2 p_evolves (s_Participants s) qs \<Longrightarrow> evolves s (s\<lparr>s_Participants := qs\<rparr>)"
  by (simp add: evolves_def grows_evolved)

lemma upd_first_evolves:
  "(\<And>p. p_evolves p (f p)) \<Longrightarrow> list_all2 p_evolves ps (upd_first P f ps)"
  by (induction ps) auto

lemma evolves_UpdateFound: "(\<And>p. p_evolves p (f p)) \<Longrightarrow> evolves s (UpdateFound u f s)"
  unfolding UpdateFound_def by (intro evolves_participants upd_first_evolves)

lemma evolves_appended: "evolves s (appended p s)"
  by (auto simp: evolves_def appended_def)

lemma evolves_departed: "0 < t \<Longrightarrow> evolves s (departed t u s)"
  unfolding departed_def by (intro evolves_UpdateFound) (auto simp: p_evolves_def)

lemma evolves_role_set: "evolves s (role_set u r s)"
  unfolding role_set_def by (intro evolves_UpdateFound) (auto simp: p_evolves_def)

lemma evolves_ended: "0 < t \<Longrightarrow> evolves s (ended t r s)"
  by (auto simp: evolves_def ended_def p_evolves_def mark_left_def list_all2_conv_all_nth
      intro!: grows_evolved)

lemma evolves_initiator: "evolves s (s\<lparr>s_InitiatorID := u\<rparr>)"
  by (auto simp: evolves_def)

lemma evolves_topology: "topo_rank (s_Topology s) \<le> topo_rank t \<Longrightarrow> evolves s (s\<lparr>s_Topology := t\<rparr>)"
  by (auto simp: evolves_def)

lemmas evolves_intros = evolves_appended evolves_departed evolves_role_set evolves_ended
  evolves_initiator evolves_topology

section \<open>Runs of the orchestrator\<close>

text \<open>The identifier a creating operation will draw.\<close>

definition new_session_id :: "('w, 'z) env_scheme \<Rightarrow> Orchestrator \<Rightarrow> CreateSessionRequest \<Rightarrow> 'w \<Rightarrow> string" where
  "new_session_id E orc req w = fst (uuid_new E (snd (resolve_one E orc (cq_CalleeID req) w)))"

definition new_room_id :: "('w, 'z) env_scheme \<Rightarrow> Orchestrator \<Rightarrow> CreateGroupRequest \<Rightarrow> 'w \<Rightarrow> string" where
  "new_room_id E orc req w = fst (uuid_new E (snd (resolve_list E orc (gq_Participants req) w)))"

text \<open>One operation of the orchestrator, over a reading \<open>sess\<close> of the stored sessions.  A
  creation draws an identifier that names no stored session.\<close>

inductive orch_step ::
  "('w, 'z) env_scheme \<Rightarrow> Orchestrator \<Rightarrow> ('w \<Rightarrow> string \<Rightarrow> Session option) \<Rightarrow> 'w \<Rightarrow> 'w \<Rightarrow> bool"
  for E orc sess where
  create: "sess w (new_session_id E orc req w) = None \<Longrightarrow>
     orch_step E orc sess w (snd (Orchestrator_CreateSession E orc req w))"
| create_group: "sess w (new_room_id E orc greq w) = None \<Longrightarrow>
     orch_step E orc sess w (snd (Orchestrator_CreateGroupSession E orc greq w))"
| join: "plain (jq_CallID jreq) \<Longrightarrow> orch_step E orc sess w (snd (Orchestrator_JoinSession E orc jreq w))"
| join_group: "plain c \<Longrightarrow> orch_step E orc sess w (snd (Orchestrator_JoinGroupSession E orc c u w))"
| leave: "plain c \<Longrightarrow> orch_step E orc sess w (snd (Orchestrator_LeaveSession E orc c u w))"
| leave_group: "plain c \<Longrightarrow> orch_step E orc sess w (snd (Orchestrator_LeaveGroupSession E orc c u w))"
| end_session: "plain c \<Longrightarrow> orch_step E orc sess w (snd (Orchestrator_EndSession E orc c r w))"
| close_room: "plain c \<Longrightarrow> orch_step E orc sess w (snd (Orchestrator_CloseRoom E orc c r w))"
| media: "plain c \<Longrightarrow> orch_step E orc sess w (snd (Orchestrator_UpdateMediaState E c u m w))"
| fallback: "plain c \<Longrightarrow> orch_step E orc sess w (snd (Orchestrator_FallbackToTURN E orc c w))"
| turn: "orch_step E orc sess w (snd (Orchestrator_GetTurnCredentials E orc u w))"
| invite: "plain c \<Longrightarrow> orch_step E orc sess w (snd (Orchestrator_InviteToRoom E orc c u us w))"
| transfer: "plain c \<Longrightarrow> orch_step E orc sess w (snd (Orchestrator_TransferHost E c u w))"
| end_all: "plain c \<Longrightarrow> orch_step E orc sess w (snd (Orchestrator_EndRoomForAll E orc c u w))"

inductive orch_run ::
  "('w, 'z) env_scheme \<Rightarrow> Orchestrator \<Rightarrow> ('w \<Rightarrow> string \<Rightarrow> Session option) \<Rightarrow> 'w \<Rightarrow> 'w \<Rightarrow> bool"
  for E orc sess where
  stop: "orch_run E orc sess w w"
| go: "orch_step E orc sess w w1 \<Longrightarrow> orch_run E orc sess w1 w2 \<Longrightarrow> orch_run E orc sess w w2"

text \<open>Well-keyed, and within capacity (creation of a 1:1 session stores two participants whatever
  the configured maximum is).\<close>

definition sess_ok :: "int \<Rightarrow> (string \<Rightarrow> Session option) \<Rightarrow> bool" where
  "sess_ok cap S \<longleftrightarrow> (\<forall>c s. S c = Some s \<longrightarrow> plain c \<and> s_CallID s = c \<and>
     int (length (ActiveParticipants s)) \<le> max 2 cap)"

definition advances :: "int \<Rightarrow> (string \<Rightarrow> Session option) \<Rightarrow> (string \<Rightarrow> Session option) \<Rightarrow> bool" where
  "advances cap S T \<longleftrightarrow> (sess_ok cap S \<longrightarrow> sess_ok cap T) \<and>
     (sess_ok cap S \<longrightarrow> (\<forall>c s. S c = Some s \<longrightarrow> (\<exists>t. T c = Some t \<and> evolves s t)))"

lemma advances_refl [simp]: "advances cap S S"
  by (auto simp: advances_def)

lemma advances_trans: "advances cap S T \<Longrightarrow> advances cap T U \<Longrightarrow> advances cap S U"
  unfolding advances_def by (meson evolves_trans)

lemma advances_if_ok: "(sess_ok cap S \<Longrightarrow> advances cap S T) \<Longrightarrow> advances cap S T"
  by (auto simp: advances_def)

lemma advances_upd:
  assumes S: "S c = Some s" "evolves s t"
    and cap: "sess_ok cap S \<Longrightarrow> int (length (ActiveParticipants t)) \<le> max 2 cap"
  shows "advances cap S (S(c \<mapsto> t))"
proof -
  have id: "s_CallID t = s_CallID s" using S(2) by (simp add: evolves_def)
  have "sess_ok cap (S(c \<mapsto> t))" if "sess_ok cap S"
    using that S(1) id cap[OF that] unfolding sess_ok_def by simp
  then show ?thesis using S unfolding advances_def by (auto intro: evolves_refl)
qed

lemma advances_new:
  assumes "S c = None" "plain c" "s_CallID t = c" "length (ActiveParticipants t) \<le> 2"
  shows "advances cap S (S(c \<mapsto> t))"
proof -
  have "sess_ok cap (S(c \<mapsto> t))" if "sess_ok cap S"
    using that assms unfolding sess_ok_def by simp
  then show ?thesis using assms(1) unfolding advances_def by (auto intro: evolves_refl)
qed

section \<open>Active participants after each change\<close>

lemma active_UpdateFound_le:
  assumes "\<And>p. IsZero (p_LeftAt (f p)) \<Longrightarrow> IsZero (p_LeftAt p)"
  shows "length (ActiveParticipants (UpdateFound u f s)) \<le> length (ActiveParticipants s)"
proof -
  have "length (filter (\<lambda>p. IsZero (p_LeftAt p)) (upd_first (\<lambda>p. p_UserID p = u) f ps))
      \<le> length (filter (\<lambda>p. IsZero (p_LeftAt p)) ps)" for ps
    using assms by (induction ps) (auto intro: le_SucI)
  then show ?thesis by (simp add: ActiveParticipants_def UpdateFound_def)
qed

lemma active_departed_le: "0 < t \<Longrightarrow> length (ActiveParticipants (departed t u s)) \<le> length (ActiveParticipants s)"
  unfolding departed_def by (rule active_UpdateFound_le) simp

lemma active_role_set_le: "length (ActiveParticipants (role_set u r s)) \<le> length (ActiveParticipants s)"
  unfolding role_set_def by (rule active_UpdateFound_le) simp

lemma active_ended: "0 < t \<Longrightarrow> ActiveParticipants (ended t r s) = []"
  by (auto simp: ActiveParticipants_def ended_def filter_empty_conv mark_left_def)

lemma active_appended_le:
  "length (ActiveParticipants (appended p s)) \<le> Suc (length (ActiveParticipants s))"
  by (simp add: appended_def)

lemma active_simps [simp]:
  "ActiveParticipants (s\<lparr>s_Topology := t\<rparr>) = ActiveParticipants s"
  "ActiveParticipants (s\<lparr>s_InitiatorID := u\<rparr>) = ActiveParticipants s"
  by (simp_all add: ActiveParticipants_def)

section \<open>Every operation advances\<close>

context session_store
begin

lemma shrink_adv:
  assumes "sess w c = Some s" "evolves s t" "length (ActiveParticipants t) \<le> length (ActiveParticipants s)"
    and "sess w' = (sess w)(c \<mapsto> t)"
  shows "advances m (sess w) (sess w')"
  unfolding assms(4)
proof (rule advances_upd[where S = "sess w", OF assms(1,2)])
  assume "sess_ok m (sess w)"
  then have "int (length (ActiveParticipants s)) \<le> max 2 m" using assms(1) by (simp add: sess_ok_def)
  then show "int (length (ActiveParticipants t)) \<le> max 2 m" using assms(3) by linarith
qed

lemma Add_adv:
  assumes "plain c"
  shows "advances m (sess w) (sess (snd (Store_AddParticipant E c p m w)))"
  using Add_sess[OF assms, of p m w]
proof (elim disjE exE conjE)
  fix s assume s: "sess w c = Some s" "int (length (ActiveParticipants s)) < m"
    and w': "sess (snd (Store_AddParticipant E c p m w)) = (sess w)(c \<mapsto> appended p s)"
  have "int (length (ActiveParticipants (appended p s))) \<le> max 2 m"
    using active_appended_le[of p s] s(2) by linarith
  then show ?thesis unfolding w' by (intro advances_upd[where S = "sess w", OF s(1) evolves_appended])
qed simp

lemma Remove_adv:
  assumes "plain c"
  shows "advances m (sess w) (sess (snd (Store_RemoveParticipant E c u w)))"
  using Remove_sess[OF assms, of u w]
  by (metis advances_refl shrink_adv evolves_departed active_departed_le)

lemma End_adv:
  assumes "plain c"
  shows "advances m (sess w) (sess (snd (Store_EndSession E c r w)))"
  using End_sess[OF assms, of r w]
  by (metis advances_refl shrink_adv evolves_ended active_ended le0 list.size(3))

lemma Role_adv:
  assumes "plain c"
  shows "advances m (sess w) (sess (snd (Store_UpdateParticipantRole E c u r w)))"
  using Role_sess[OF assms, of u r w]
  by (metis advances_refl shrink_adv evolves_role_set active_role_set_le)

lemma Initiator_adv:
  assumes "plain c"
  shows "advances m (sess w) (sess (snd (Store_UpdateInitiator E c u w)))"
  using Initiator_sess[OF assms, of u w]
  by (metis advances_refl shrink_adv evolves_initiator active_simps(2) order_refl)

lemma Update_adv:
  assumes "plain c" "sess w c = Some s" "evolves s t"
    "length (ActiveParticipants t) \<le> length (ActiveParticipants s)"
  shows "advances m (sess w) (sess (snd (Store_Update E t w)))"
proof (rule advances_if_ok)
  assume "sess_ok m (sess w)"
  then have "s_CallID t = c" using assms by (simp add: evolves_def sess_ok_def)
  then show ?thesis
    using Update_sess[of t w] assms by (metis advances_refl shrink_adv)
qed

text \<open>Calls that only read the sessions.\<close>

lemma Bus_Publish_sess [simp]: "sess (snd (Bus_Publish E src subj ev w)) = sess w"
  by (simp add: Bus_Publish_def Bus_PublishJson_def Let_def split_beta uuid_sess now_sess publish_sess split: sum.splits)

lemma publish_reads [simp]: "sess (publish E orc subj ev w) = sess w"
  by (simp add: publish_def)

lemma WriteCallParticipants_sess [simp]: "sess (snd (WriteCallParticipants E c ps w)) = sess w"
  by (induction ps arbitrary: w) (simp_all add: Let_def split_beta sql_exec_sess split: sum.splits)

lemma WriteFull_sess [simp]: "sess (WriteFull E src s w) = sess w"
  by (simp add: WriteFull_def PublishCDR_def WriteCallHistory_def Let_def split_beta sql_exec_sess
      split: sum.splits)

lemma creds_sess [simp]: "sess (snd (TurnService_GenerateCredentials E ts u w)) = sess w"
  "sess (snd (turn_creds E orc tp u w)) = sess w"
  "sess (snd (room_token E orc c u w)) = sess w"
  "sess (snd (sfu_token E orc tp c u w)) = sess w"
  by (simp_all add: TurnService_GenerateCredentials_def turn_creds_def room_token_def sfu_token_def
      GenerateRoomToken_def Let_def split_beta now_sess lk_sess split: sum.splits)

lemma Resolve_sess [simp]: "sess (snd (Resolve E i w)) = sess w"
  by (auto simp: Resolve_def lookupByPhone_def lookupByExternalID_def sql_row_sess Let_def)

lemma ResolveAll_sess [simp]: "sess (snd (ResolveAll E is w)) = sess w"
proof (induction "is" arbitrary: w)
  case (Cons i js)
  then show ?case
    using Cons[of "snd (Resolve E i w)"] by (simp add: Let_def split_beta split: sum.splits)
qed simp

lemma resolve_sess [simp]: "sess (snd (resolve_one E orc i w)) = sess w"
  "sess (snd (resolve_list E orc is w)) = sess w"
  by (simp_all add: resolve_one_def resolve_list_def)

lemmas reads = Get_sess now_sess uuid_sess

lemma EndSession_adv:
  "plain c \<Longrightarrow> advances m (sess w) (sess (snd (Orchestrator_EndSession E orc c r w)))"
  using End_adv[of c m w r]
  by (simp add: Orchestrator_EndSession_def Let_def split_beta split: sum.splits)

lemma CloseRoom_adv:
  "plain c \<Longrightarrow> advances m (sess w) (sess (snd (Orchestrator_CloseRoom E orc c r w)))"
  using End_adv[of c m w r]
  by (simp add: Orchestrator_CloseRoom_def Let_def split_beta split: sum.splits)

lemma LeaveSession_adv:
  assumes "plain c"
  shows "advances m (sess w) (sess (snd (Orchestrator_LeaveSession E orc c u w)))"
proof -
  let ?w1 = "snd (Store_RemoveParticipant E c u w)"
  have "advances m (sess w) (sess (snd (Orchestrator_EndSession E orc c r ?w1)))" for r
    by (rule advances_trans[OF Remove_adv EndSession_adv]) (use assms in auto)
  then show ?thesis using Remove_adv[OF assms]
    by (simp add: Orchestrator_LeaveSession_def Let_def split_beta split: sum.splits)
qed

lemma LeaveGroupSession_adv:
  assumes "plain c"
  shows "advances m (sess w) (sess (snd (Orchestrator_LeaveGroupSession E orc c u w)))"
proof -
  let ?w1 = "snd (Store_Get E c w)"
  let ?w2 = "publish E orc SubjectRoomParticipantLeft (RoomParticipantLeft c u) (snd (Store_RemoveParticipant E c u ?w1))"
  have rem: "advances m (sess w) (sess ?w2)"
    using Remove_adv[OF assms, of m ?w1 u] by (simp add: Get_sess)
  then have "advances m (sess w) (sess (snd (Orchestrator_CloseRoom E orc c r ?w2)))" for r
    by (rule advances_trans[OF _ CloseRoom_adv]) (use assms in auto)
  then show ?thesis using rem
    by (simp add: Orchestrator_LeaveGroupSession_def Let_def split_beta Get_sess split: sum.splits)
qed

lemma CreateSession_adv:
  assumes "sess w (new_session_id E orc req w) = None"
  shows "advances m (sess w) (sess (snd (Orchestrator_CreateSession E orc req w)))"
proof (cases "fst (resolve_one E orc (cq_CalleeID req) w)")
  case (Inr callee)
  let ?w1 = "snd (resolve_one E orc (cq_CalleeID req) w)"
  let ?w2 = "snd (uuid_new E ?w1)"
  let ?c = "fst (uuid_new E ?w1)"
  have c: "plain ?c" by (rule uuid_plain)
  define s where "s = \<lparr>s_CallID = ?c, s_CallType = cq_CallType req, s_Topology = DecideTopology 2,
                    s_InitiatorID = cq_CallerID req, s_Region = cq_Region req, s_HasVideo = cq_HasVideo req,
                    s_Participants = [joining (cq_CallerID req) RoleCaller (cq_HasVideo req) (fst (time_now E ?w2)),
                                      joining callee RoleCallee (cq_HasVideo req) (fst (time_now E ?w2))],
                    s_CreatedAt = fst (time_now E ?w2), s_EndedAt = zero_time, s_EndReason = []\<rparr>"
  let ?x = "Store_Create E s (snd (time_now E ?w2))"
  have "advances m (sess w) ((sess w)(?c \<mapsto> s))"
    using assms c by (intro advances_new) (auto simp: s_def new_session_id_def ActiveParticipants_def)
  then have "advances m (sess w) (sess (snd ?x))"
    using Create_sess[of s "snd (time_now E ?w2)"] c by (auto simp: reads s_def)
  then show ?thesis
    unfolding Orchestrator_CreateSession_def using Inr
    by (simp add: Let_def split_beta s_def split: sum.splits)
qed (simp add: Orchestrator_CreateSession_def Let_def split_beta)

lemma CreateGroupSession_adv:
  assumes "sess w (new_room_id E orc req w) = None"
  shows "advances m (sess w) (sess (snd (Orchestrator_CreateGroupSession E orc req w)))"
proof (cases "fst (resolve_list E orc (gq_Participants req) w)")
  case (Inr ids)
  let ?w1 = "snd (resolve_list E orc (gq_Participants req) w)"
  let ?w2 = "snd (uuid_new E ?w1)"
  let ?c = "fst (uuid_new E ?w1)"
  have c: "plain ?c" by (rule uuid_plain)
  define s where "s = \<lparr>s_CallID = ?c, s_CallType = ''group'', s_Topology = TopologySFU,
                      s_InitiatorID = gq_InitiatorID req, s_Region = gq_Region req, s_HasVideo = (gq_CallType req = ''video''),
                      s_Participants = [joining (gq_InitiatorID req) RoleCaller (gq_CallType req = ''video'') (fst (time_now E ?w2))],
                      s_CreatedAt = fst (time_now E ?w2), s_EndedAt = zero_time, s_EndReason = []\<rparr>"
  let ?x = "Store_Create E s (snd (time_now E ?w2))"
  have "advances m (sess w) ((sess w)(?c \<mapsto> s))"
    using assms c by (intro advances_new) (auto simp: s_def new_room_id_def ActiveParticipants_def)
  then have "advances m (sess w) (sess (snd ?x))"
    using Create_sess[of s "snd (time_now E ?w2)"] c by (auto simp: reads s_def)
  then show ?thesis
    unfolding Orchestrator_CreateGroupSession_def using Inr
    by (simp add: Let_def split_beta s_def split: sum.splits)
qed (simp add: Orchestrator_CreateGroupSession_def Let_def split_beta)

lemma JoinSession_adv:
  assumes "plain (jq_CallID req)"
  shows "advances (maxP orc) (sess w) (sess (snd (Orchestrator_JoinSession E orc req w)))"
proof -
  let ?c = "jq_CallID req"
  define p where "p = joining (jq_UserID req) (jq_Role req) (jq_HasVideo req) (fst (time_now E w))"
  define w2 where "w2 = snd (Store_AddParticipant E ?c p (maxP orc) (snd (time_now E w)))"
  define w3 where "w3 = snd (Store_Get E ?c w2)"
  have "advances (maxP orc) (sess w) (sess w2)"
    using Add_adv[OF assms, of "maxP orc" "snd (time_now E w)" p] by (simp add: w2_def now_sess)
  then have a3: "advances (maxP orc) (sess w) (sess w3)" by (simp add: w3_def Get_sess)
  have esc: "advances (maxP orc) (sess w) (sess (snd (Store_Update E (s\<lparr>s_Topology := TopologySFU\<rparr>) w3)))"
    if "fst (Store_Get E ?c w2) = Inr s" for s
  proof (rule advances_trans[OF a3 Update_adv[OF assms]])
    show "sess w3 ?c = Some s" using Get_found[OF assms that] by (simp add: w3_def Get_sess)
  qed (auto intro!: evolves_topology simp: topo_rank_def)
  show ?thesis
    using a3 esc
    by (simp add: Orchestrator_JoinSession_def Let_def split_beta p_def[symmetric] now_sess
        w2_def[symmetric] w3_def[symmetric] split: sum.splits)
      (simp add: w2_def w3_def Get_sess)
qed

lemma JoinGroupSession_adv:
  assumes "plain c"
  shows "advances (maxP orc) (sess w) (sess (snd (Orchestrator_JoinGroupSession E orc c u w)))"
  using Add_adv[OF assms, of "maxP orc" "snd (time_now E (snd (Store_Get E c w)))"]
  by (simp add: Orchestrator_JoinGroupSession_def Let_def split_beta reads split: sum.splits)

lemma UpdateMediaState_adv:
  assumes "plain c"
  shows "advances m (sess w) (sess (snd (Orchestrator_UpdateMediaState E c u ms w)))"
proof -
  let ?w1 = "snd (Store_Get E c w)"
  have "advances m (sess ?w1) (sess (snd (Store_Update E (UpdateFound u (\<lambda>p. p\<lparr>p_MediaState := ms\<rparr>) s) ?w1)))"
    if "fst (Store_Get E c w) = Inr s" for s
  proof (rule Update_adv[OF assms])
    show "sess ?w1 c = Some s" using Get_found[OF assms that] by (simp add: Get_sess)
  qed (auto intro!: evolves_UpdateFound active_UpdateFound_le simp: p_evolves_def)
  then show ?thesis
    by (simp add: Orchestrator_UpdateMediaState_def Let_def split_beta Get_sess split: sum.splits)
qed

lemma FallbackToTURN_adv:
  assumes "plain c"
  shows "advances m (sess w) (sess (snd (Orchestrator_FallbackToTURN E orc c w)))"
proof -
  let ?w1 = "snd (Store_Get E c w)"
  have "advances m (sess ?w1) (sess (snd (Store_Update E (s\<lparr>s_Topology := TopologyTURN\<rparr>) ?w1)))"
    if "fst (Store_Get E c w) = Inr s" "s_Topology s = TopologyP2P" for s
  proof (rule Update_adv[OF assms])
    show "sess ?w1 c = Some s" using Get_found[OF assms that(1)] by (simp add: Get_sess)
  qed (use that in \<open>auto intro!: evolves_topology simp: topo_rank_def\<close>)
  then show ?thesis
    by (simp add: Orchestrator_FallbackToTURN_def ShouldFallbackToTURN_def Let_def split_beta
        Get_sess split: sum.splits)
qed

lemma TransferHost_adv:
  assumes "plain c"
  shows "advances m (sess w) (sess (snd (Orchestrator_TransferHost E c u w)))"
proof -
  let ?w2 = "snd (Store_UpdateParticipantRole E c u RoleCaller (snd (Store_Get E c w)))"
  have "advances m (sess w) (sess ?w2)"
    using Role_adv[OF assms, of m "snd (Store_Get E c w)"] by (simp add: Get_sess)
  then show ?thesis
    using advances_trans[OF _ Initiator_adv[OF assms, of m ?w2 u]]
    by (simp add: Orchestrator_TransferHost_def Let_def split_beta Get_sess split: sum.splits)
qed

lemma EndRoomForAll_adv:
  "plain c \<Longrightarrow> advances m (sess w) (sess (snd (Orchestrator_EndRoomForAll E orc c u w)))"
  using CloseRoom_adv[of c m "snd (Store_Get E c w)" orc]
  by (simp add: Orchestrator_EndRoomForAll_def Let_def split_beta Get_sess split: sum.splits option.splits)

lemma InviteToRoom_reads: "sess (snd (Orchestrator_InviteToRoom E orc c u us w)) = sess w"
  by (simp add: Orchestrator_InviteToRoom_def Let_def split_beta Get_sess split: sum.splits option.splits)

lemma step_advances:
  "orch_step E orc sess w w' \<Longrightarrow> advances (maxP orc) (sess w) (sess w')"
  by (induction rule: orch_step.induct)
    (simp_all add: CreateSession_adv CreateGroupSession_adv JoinSession_adv JoinGroupSession_adv
      LeaveSession_adv LeaveGroupSession_adv EndSession_adv CloseRoom_adv UpdateMediaState_adv
      FallbackToTURN_adv TransferHost_adv EndRoomForAll_adv InviteToRoom_reads
      Orchestrator_GetTurnCredentials_def)

lemma run_advances:
  "orch_run E orc sess w w' \<Longrightarrow> advances (maxP orc) (sess w) (sess w')"
  by (induction rule: orch_run.induct) (auto intro: advances_trans step_advances)

end

section \<open>Results in a world without faults\<close>

text \<open>The participants key of a call holds a set, or nothing.\<close>

definition members_ok :: "keyspace \<Rightarrow> string \<Rightarrow> bool" where
  "members_ok db c \<longleftrightarrow> (case db (SessionParticipantsKey c) of Some (RStr _, _) \<Rightarrow> False | _ \<Rightarrow> True)"

lemma user_busy_other:
  "UserActiveCallKey v \<notin> cmd_key ` set cs \<Longrightarrow> user_busy (exec_db cs db) v = user_busy db v"
  by (simp add: user_busy_def exec_db_other)

lemma members_fails [simp]: "members_ok db c \<Longrightarrow> \<not> cmd_fails (CSAdd (SessionParticipantsKey c) u) db"
  "members_ok db c \<Longrightarrow> \<not> cmd_fails (CSRem (SessionParticipantsKey c) u) db"
  by (auto simp: members_ok_def split: option.splits rval.splits)

lemma members_ok_other [simp]:
  "k \<noteq> SessionParticipantsKey c \<Longrightarrow> members_ok (db(k := v)) c = members_ok db c"
  by (simp add: members_ok_def)

text \<open>The contract of \<open>AddParticipant\<close> as a function of the abstract state.\<close>

definition admit :: "keyspace \<Rightarrow> Session \<Rightarrow> Participant \<Rightarrow> int \<Rightarrow> unit result" where
  "admit db s p m =
    (if FindParticipant s (p_UserID p) \<noteq> None then Inl ErrAlreadyInCall
     else if m \<le> int (length (ActiveParticipants s)) then Inl ErrMaxParticipants
     else if user_busy db (p_UserID p) then Inl ErrUserBusy
     else Inr ())"

lemma CSAdd_keeps_user: "UserActiveCallKey v \<noteq> k \<Longrightarrow> user_busy (apply_cmd (CSAdd k u) db) v = user_busy db v"
  "UserActiveCallKey v \<noteq> k \<Longrightarrow> user_busy (apply_cmd (CSRem k u) db) v = user_busy db v"
  by (simp_all add: user_busy_def del: apply_cmd.simps)

lemma add_cmds:
  assumes "plain c" "members_ok db c"
    and cs_def: "cs = put c s t [CSet (UserActiveCallKey u) (PText c) t, CSAdd (SessionParticipantsKey c) u]"
  shows "exec_res cs db = Inr ()" "sessions (exec_db cs db) = (sessions db)(c \<mapsto> s)"
    "user_busy (exec_db cs db) v \<longleftrightarrow> user_busy db v \<or> v = u"
proof -
  show "exec_res cs db = Inr ()" using assms(1,2) by (simp add: cs_def del: cmd_fails.simps(1))
  show "sessions (exec_db cs db) = (sessions db)(c \<mapsto> s)"
    unfolding cs_def using assms(1) by (subst sessions_write) auto
  have "exec_db cs db = apply_cmd (CSAdd (SessionParticipantsKey c) u)
     (db(SessionKey c \<mapsto> (RStr (PJson (marshal_Session s)), Some t), UserActiveCallKey u \<mapsto> (RStr (PText c), Some t)))"
    by (simp add: cs_def)
  then show "user_busy (exec_db cs db) v \<longleftrightarrow> user_busy db v \<or> v = u"
    by (simp only: CSAdd_keeps_user session_user_key not_False_eq_True) (auto simp: user_busy_def)
qed

lemma remove_cmds:
  assumes "plain c" "members_ok db c"
    and cs_def: "cs = put c s t [CDel (UserActiveCallKey u), CSRem (SessionParticipantsKey c) u]"
  shows "exec_res cs db = Inr ()" "sessions (exec_db cs db) = (sessions db)(c \<mapsto> s)"
    "user_busy (exec_db cs db) v \<longleftrightarrow> user_busy db v \<and> v \<noteq> u"
proof -
  show "exec_res cs db = Inr ()" using assms(1,2) by (simp add: cs_def del: cmd_fails.simps(2))
  show "sessions (exec_db cs db) = (sessions db)(c \<mapsto> s)"
    unfolding cs_def using assms(1) by (subst sessions_write) auto
  have "exec_db cs db = apply_cmd (CSRem (SessionParticipantsKey c) u)
     (db(SessionKey c \<mapsto> (RStr (PJson (marshal_Session s)), Some t), UserActiveCallKey u := None))"
    by (simp add: cs_def)
  then show "user_busy (exec_db cs db) v \<longleftrightarrow> user_busy db v \<and> v \<noteq> u"
    by (simp only: CSAdd_keeps_user session_user_key not_False_eq_True) (auto simp: user_busy_def)
qed

lemma del_users:
  "user_busy (exec_db (map (\<lambda>p. CDel (UserActiveCallKey (p_UserID p))) ps) db) v \<longleftrightarrow>
     user_busy db v \<and> v \<notin> p_UserID ` set ps"
  by (induction ps arbitrary: db) (auto simp: user_busy_def)

lemma end_cmds:
  assumes "plain c"
    and cs_def: "cs = put c s t (map (\<lambda>p. CDel (UserActiveCallKey (p_UserID p))) ps @ [CDel (SessionParticipantsKey c)])"
  shows "exec_res cs db = Inr ()" "sessions (exec_db cs db) = (sessions db)(c \<mapsto> s)"
    "user_busy (exec_db cs db) v \<longleftrightarrow> user_busy db v \<and> v \<notin> p_UserID ` set ps"
proof -
  show "exec_res cs db = Inr ()" by (rule exec_res_no_fail) (auto simp: cs_def)
  show "sessions (exec_db cs db) = (sessions db)(c \<mapsto> s)"
    unfolding cs_def using assms(1) by (subst sessions_write) auto
  show "user_busy (exec_db cs db) v \<longleftrightarrow> user_busy db v \<and> v \<notin> p_UserID ` set ps"
    using del_users[of ps "db(SessionKey c \<mapsto> (RStr (PJson (marshal_Session s)), Some t))" v]
    by (simp add: cs_def user_busy_def del: not_None_eq)
qed

lemma ended_users [simp]: "p_UserID ` set (s_Participants (ended t r s)) = p_UserID ` set (s_Participants s)"
proof -
  have "p_UserID \<circ> mark_left t = p_UserID" by (auto simp: mark_left_def)
  then have "map p_UserID (s_Participants (ended t r s)) = map p_UserID (s_Participants s)"
    by (simp add: ended_def)
  then show ?thesis by (metis list.set_map)
qed

lemma departed_users: "p_UserID ` set (s_Participants (departed t u s)) = p_UserID ` set (s_Participants s)"
proof -
  have "map p_UserID (s_Participants (departed t u s)) = map p_UserID (s_Participants s)"
    unfolding departed_def by (rule UpdateFound_UserIDs) simp
  then show ?thesis by (metis list.set_map)
qed

context services
begin

lemma Get_session:
  assumes "calm w" "sessions (view w) c = Some s"
  shows "fst (Store_Get E c w) = Inr s" "plain c" "stored (view w) c = Some s"
  using assms store.Get_calm by (auto simp: sessions_def split: if_splits)

lemma AddParticipant_calm:
  assumes w: "calm w" "sessions (view w) c = Some s" "members_ok (view w) c"
    and x: "x = Store_AddParticipant E c p m w"
  shows "fst x = admit (view w) s p m" "calm (snd x)"
    "sessions (view (snd x)) = (if fst x = Inr () then (sessions (view w))(c \<mapsto> appended p s) else sessions (view w))"
    "user_busy (view (snd x)) v \<longleftrightarrow> user_busy (view w) v \<or> fst x = Inr () \<and> v = p_UserID p"
proof -
  note g = Get_session[OF w(1,2)]
  note a = add_cmds[OF g(2) w(3) refl, where s = "appended p s" and t = SessionTTL and u = "p_UserID p"]
  have eq: "x = (if admit (view w) s p m = Inr ()
     then r_exec E (put c (appended p s) SessionTTL [CSet (UserActiveCallKey (p_UserID p)) (PText c) SessionTTL,
            CSAdd (SessionParticipantsKey c) (p_UserID p)]) (snd (r_exists E (UserActiveCallKey (p_UserID p)) (snd (Store_Get E c w))))
     else (admit (view w) s p m, snd x))"
    unfolding x using g w
    by (auto simp: Store_AddParticipant_def Let_def split_beta appended_def admit_def svc_simps
        user_busy_def session_errs)
  have same: "view (snd x) = view w" "calm (snd x)" if "admit (view w) s p m \<noteq> Inr ()"
    using that g w unfolding x
    by (auto simp: Store_AddParticipant_def Let_def split_beta admit_def svc_simps
        user_busy_def session_errs split: if_splits)
  show "fst x = admit (view w) s p m" using w(1) a(1) by (subst eq) (simp add: svc_simps)
  then show "sessions (view (snd x)) = (if fst x = Inr () then (sessions (view w))(c \<mapsto> appended p s) else sessions (view w))"
    "user_busy (view (snd x)) v \<longleftrightarrow> user_busy (view w) v \<or> fst x = Inr () \<and> v = p_UserID p"
    "calm (snd x)"
    using same w(1) a(2,3) by (subst eq; auto simp: svc_simps)+
qed

lemma EndSession_calm:
  assumes w: "calm w" "sessions (view w) c = Some s"
    and x: "x = Store_EndSession E c r w" and t: "t = fst (time_now E (snd (Store_Get E c w)))"
  shows "fst x = Inr (ended t r s)" "calm (snd x)"
    "sessions (view (snd x)) = (sessions (view w))(c \<mapsto> ended t r s)"
    "user_busy (view (snd x)) v \<longleftrightarrow> user_busy (view w) v \<and> v \<notin> p_UserID ` set (s_Participants s)"
    "published (snd x) = published w"
proof -
  note g = Get_session[OF w]
  let ?y = "r_exec E (put c (ended t r s) (60 * 60)
     (map (\<lambda>p. CDel (UserActiveCallKey (p_UserID p))) (s_Participants (ended t r s)) @
      [CDel (SessionParticipantsKey c)])) (snd (time_now E (snd (Store_Get E c w))))"
  note a = end_cmds[OF g(2) refl, where s = "ended t r s" and t = "60 * 60" and ps = "s_Participants (ended t r s)"]
  have eq: "x = (case fst ?y of Inl e \<Rightarrow> (Inl (Wrap ''end session'' e), snd ?y)
        | Inr _ \<Rightarrow> (Inr (ended t r s), snd ?y))"
    unfolding x ended_def t using g(1)
    by (simp add: Store_EndSession_def Let_def split_beta cong: sum.case_cong)
  have "fst ?y = Inr ()" using w(1) a(1) by (simp add: svc_simps)
  then have "x = (Inr (ended t r s), snd ?y)" unfolding eq by simp
  then show "fst x = Inr (ended t r s)" "calm (snd x)"
    "sessions (view (snd x)) = (sessions (view w))(c \<mapsto> ended t r s)"
    "user_busy (view (snd x)) v \<longleftrightarrow> user_busy (view w) v \<and> v \<notin> p_UserID ` set (s_Participants s)"
    "published (snd x) = published w"
    using a w(1) by (simp_all add: svc_simps)
qed

lemma RemoveParticipant_calm:
  assumes w: "calm w" "sessions (view w) c = Some s" "members_ok (view w) c" "FindParticipant s u \<noteq> None"
    and x: "x = Store_RemoveParticipant E c u w" and t: "t = fst (time_now E (snd (Store_Get E c w)))"
  shows "fst x = Inr (departed t u s)" "calm (snd x)"
    "sessions (view (snd x)) = (sessions (view w))(c \<mapsto> departed t u s)"
    "user_busy (view (snd x)) v \<longleftrightarrow> user_busy (view w) v \<and> v \<noteq> u"
    "published (snd x) = published w"
proof -
  note g = Get_session[OF w(1,2)]
  let ?y = "r_exec E (put c (departed t u s) SessionTTL
     [CDel (UserActiveCallKey u), CSRem (SessionParticipantsKey c) u]) (snd (time_now E (snd (Store_Get E c w))))"
  note a = remove_cmds[OF g(2) w(3) refl, where s = "departed t u s" and t = SessionTTL and u = u]
  have eq: "x = (case fst ?y of Inl e \<Rightarrow> (Inl (Wrap ''remove participant'' e), snd ?y)
        | Inr _ \<Rightarrow> (Inr (departed t u s), snd ?y))"
    unfolding x departed_def t using g(1) w(4)
    by (simp del: not_None_eq add: Store_RemoveParticipant_def Let_def split_beta cong: sum.case_cong)
  have "fst ?y = Inr ()" using w(1) a(1) by (simp add: svc_simps)
  then have "x = (Inr (departed t u s), snd ?y)" unfolding eq by simp
  then show "fst x = Inr (departed t u s)" "calm (snd x)"
    "sessions (view (snd x)) = (sessions (view w))(c \<mapsto> departed t u s)"
    "user_busy (view (snd x)) v \<longleftrightarrow> user_busy (view w) v \<and> v \<noteq> u"
    "published (snd x) = published w"
    using a w(1) by (simp_all add: svc_simps)
qed

lemma as_store: "session_store E (\<lambda>w. sessions (view w)) calm"
  by (rule store.session_store_axioms)

lemma publish_laws [svc_simps]: "view (publish E orc subj ev w) = view w"
  "calm w \<Longrightarrow> calm (publish E orc subj ev w)"
  "calm w \<Longrightarrow> seen (published (publish E orc subj ev w)) = seen (published w) @ [(subj, event_json ev)]"
  by (simp_all add: publish_def svc_simps)

lemma EndSession_result:
  assumes w: "calm w" "sessions (view w) c = Some s" "s_CallID s = c"
  shows "let (r, w') = Orchestrator_EndSession E orc c reason w;
      e = ended (fst (time_now E (snd (Store_Get E c w)))) reason s in
    r = Inr () \<and> sessions (view w') = (sessions (view w))(c \<mapsto> e) \<and>
    (\<forall>v. user_busy (view w') v \<longleftrightarrow> user_busy (view w) v \<and> v \<notin> p_UserID ` set (s_Participants s)) \<and>
    seen (published w') = seen (published w) @ [call_ended e, call_ended e]"
proof -
  note x = EndSession_calm[OF w(1,2) refl refl, of reason]
  then show ?thesis using w(3)
    by (simp add: Orchestrator_EndSession_def Let_def split_beta svc_simps call_ended_def ended_def)
qed

lemma LeaveSession_result:
  assumes w: "calm w" "sessions (view w) c = Some s" "members_ok (view w) c" "FindParticipant s u \<noteq> None"
  shows "\<exists>t t'. 0 < t \<and> 0 < t' \<and> (let (r, w') = Orchestrator_LeaveSession E orc c u w; d = departed t u s;
      n = length (ActiveParticipants d) in
    r = Inr () \<and>
    (if n = 0 \<or> s_CallType s = ''1:1'' \<and> n \<le> 1
     then sessions (view w') c = Some (ended t' ''normal'' d) \<and>
          (\<forall>p\<in>set (s_Participants s). \<not> user_busy (view w') (p_UserID p))
     else sessions (view w') c = Some d \<and>
          (\<forall>v. user_busy (view w') v \<longleftrightarrow> user_busy (view w) v \<and> v \<noteq> u)))"
proof -
  define t where "t = fst (time_now E (snd (Store_Get E c w)))"
  define w1 where "w1 = snd (Store_RemoveParticipant E c u w)"
  note x = RemoveParticipant_calm[OF w refl t_def, folded w1_def]
  define t' where "t' = fst (time_now E (snd (Store_Get E c w1)))"
  let ?d = "departed t u s"
  have d: "sessions (view w1) c = Some ?d" using x(3) by simp
  note y = EndSession_calm[OF x(2) d refl t'_def, of "''normal''"]
  have users: "p_UserID ` set (s_Participants ?d) = p_UserID ` set (s_Participants s)"
    by (rule departed_users)
  have "s_CallType ?d = s_CallType s" by (simp add: departed_def)
  then have "let (r, w') = Orchestrator_LeaveSession E orc c u w; n = length (ActiveParticipants ?d) in
    r = Inr () \<and>
    (if n = 0 \<or> s_CallType s = ''1:1'' \<and> n \<le> 1
     then sessions (view w') c = Some (ended t' ''normal'' ?d) \<and>
          (\<forall>p\<in>set (s_Participants s). \<not> user_busy (view w') (p_UserID p))
     else sessions (view w') c = Some ?d \<and>
          (\<forall>v. user_busy (view w') v \<longleftrightarrow> user_busy (view w) v \<and> v \<noteq> u))"
    using x y users
    by (auto simp: Orchestrator_LeaveSession_def Orchestrator_EndSession_def Let_def split_beta
        w1_def[symmetric] svc_simps)
  moreover have "0 < t" "0 < t'" by (simp_all add: t_def t'_def now_pos)
  ultimately show ?thesis by (intro exI[of _ t] exI[of _ t']) (simp add: Let_def)
qed

lemma JoinGroup_listed:
  assumes w: "calm w" "sessions (view w) c = Some s" "members_ok (view w) c"
    and s: "s_CallType s = ''group''" "FindParticipant s u = Some p" "\<not> IsZero (p_LeftAt p)"
  shows "fst (Orchestrator_JoinGroupSession E orc c u w) = Inl (Wrap ''join group session'' ErrAlreadyInCall) \<and>
    sessions (view (snd (Orchestrator_JoinGroupSession E orc c u w))) = sessions (view w)"
proof -
  let ?w2 = "snd (time_now E (snd (Store_Get E c w)))"
  let ?p = "joining u RoleParticipant (s_HasVideo s) (fst (time_now E (snd (Store_Get E c w))))"
  have "calm ?w2" "view ?w2 = view w" using w by (simp_all add: svc_simps)
  then have "fst (Store_AddParticipant E c ?p (maxP orc) ?w2) = Inl ErrAlreadyInCall"
    "sessions (view (snd (Store_AddParticipant E c ?p (maxP orc) ?w2))) = sessions (view w)"
    using AddParticipant_calm[of ?w2 c s _ ?p "maxP orc", OF _ _ _ refl] w s
    by (simp_all add: admit_def joining_def)
  then show ?thesis
    using Get_session[OF w(1,2)] s
    by (simp add: Orchestrator_JoinGroupSession_def Let_def split_beta active_in_def)
qed

end

section \<open>Properties\<close>

text \<open>A sample deployment and a sample room with a host and one participant.\<close>

definition sample_orc :: Orchestrator where
  "sample_orc = \<lparr>o_source = ''session'', o_turnSvc = NewTurnService ''key'' 0 [], o_lkSvc = \<lparr>lk_apiKey = ''k'', lk_apiSecret = ''s''\<rparr>,
     o_MaxParticipants = 0, o_LiveKitHost = ''lk'', o_resolver = False\<rparr>"

definition sample_room :: Session where
  "sample_room = \<lparr>s_CallID = ''r1'', s_CallType = ''group'', s_Topology = TopologySFU, s_InitiatorID = ''ann'',
     s_Region = [], s_HasVideo = True,
     s_Participants = [joining ''ann'' RoleCaller True 5, joining ''bob'' RoleParticipant True 6],
     s_CreatedAt = 5, s_EndedAt = zero_time, s_EndReason = []\<rparr>"

definition sample_pair :: Session where
  "sample_pair = \<lparr>s_CallID = ''c1'', s_CallType = ''1:1'', s_Topology = TopologyP2P, s_InitiatorID = ''cat'',
     s_Region = [], s_HasVideo = False,
     s_Participants = [joining ''cat'' RoleCaller False 7, joining ''dan'' RoleCallee False 7],
     s_CreatedAt = 7, s_EndedAt = zero_time, s_EndReason = []\<rparr>"

definition sample_world :: world where
  "sample_world = world0\<lparr>w_db := [SessionKey ''r1'' \<mapsto> (RStr (PJson (marshal_Session sample_room)), Some 9),
     SessionKey ''c1'' \<mapsto> (RStr (PJson (marshal_Session sample_pair)), Some 9)]\<rparr>"

lemma sample_stored: "stored (w_db sample_world) c =
    (if c = ''r1'' then Some sample_room else if c = ''c1'' then Some sample_pair else None)"
  by (simp add: sample_world_def stored_def)

lemma sample_sessions: "sessions (w_db sample_world) c =
    (if c = ''r1'' then Some sample_room else if c = ''c1'' then Some sample_pair else None)"
  by (simp add: sessions_def sample_stored plain_def)

lemma sample_active: "length (ActiveParticipants sample_room) = 2" "length (ActiveParticipants sample_pair) = 2"
  by (simp_all add: ActiveParticipants_def sample_room_def sample_pair_def joining_def)

lemma sample_ok: "sess_ok (maxP sample_orc) (sessions (w_db sample_world))"
  by (auto simp: sess_ok_def sample_sessions sample_active plain_def)
    (simp_all add: sample_room_def sample_pair_def)

lemma sample_facts: "s_CallType sample_pair = ''1:1''" "s_CallID sample_pair = ''c1''"
  "FindParticipant sample_pair ''dan'' \<noteq> None"
  by (simp_all add: sample_pair_def FindParticipant_def joining_def)

lemma sample_calm [simp]: "mem_calm sample_world" "members_ok (w_db sample_world) ''r1''"
  "members_ok (w_db sample_world) ''c1''"
  by (simp_all add: mem_calm_def sample_world_def world0_def members_ok_def SessionKey_def SessionParticipantsKey_def)

lemma sample_users [simp]: "\<not> user_busy (w_db sample_world) u"
  by (simp add: user_busy_def sample_world_def world0_def)



text \<open>C8: no run of the orchestrator, with or without faults, takes a session over capacity: at
  most the configured number of participants (8 when it is not set) are active at any time, or
  two where fewer than two are configured.\<close>

theorem capacity_never_exceeded:
  assumes "services E view fate published calm"
    and "orch_run E orc (\<lambda>w. sessions (view w)) w w'"
    and "sess_ok (maxP orc) (sessions (view w))"
    and "sessions (view w') c = Some t"
  shows "int (length (ActiveParticipants t)) \<le> max 2 (maxP orc)"
proof -
  from assms(1) have "session_store E (\<lambda>w. sessions (view w)) calm" by (rule services.as_store)
  from session_store.run_advances[OF this assms(2)] have "sess_ok (maxP orc) (sessions (view w'))"
    using assms(3) by (simp add: advances_def)
  then show ?thesis using assms(4) by (simp add: sess_ok_def)
qed

theorem capacity_never_exceeded_witness:
  "int (length (ActiveParticipants sample_room)) \<le> max 2 (maxP sample_orc)"
proof (rule capacity_never_exceeded[OF mem.services_axioms, where orc = sample_orc and w = sample_world])
  show "orch_run mem_env sample_orc (\<lambda>w. sessions (w_db w)) sample_world
      (snd (Orchestrator_InviteToRoom mem_env sample_orc ''r1'' ''ann'' [''eve''] sample_world))"
    by (rule orch_run.go[OF orch_step.invite orch_run.stop]) (simp add: plain_def)
  show "sess_ok (maxP sample_orc) (sessions (w_db sample_world))" by (rule sample_ok)
  show "sessions (w_db (snd (Orchestrator_InviteToRoom mem_env sample_orc ''r1'' ''ann'' [''eve''] sample_world))) ''r1'' = Some sample_room"
    by (simp add: mem.store.InviteToRoom_reads sample_sessions)
qed

text \<open>C9: admission to a session.  The store refuses a user who is already listed in the session,
  then a full session, then a user marked as busy, with the matching error and without any
  effect; otherwise the participant is appended and marked busy, and nothing else changes.  In
  particular a user who has left is still listed and can never be admitted again.\<close>

theorem AddParticipant_admission:
  assumes "services E view fate published calm"
    and "calm w" "sessions (view w) c = Some s" "members_ok (view w) c"
  shows "let (r, w') = Store_AddParticipant E c p m w in
    r = (if FindParticipant s (p_UserID p) \<noteq> None then Inl ErrAlreadyInCall
         else if m \<le> int (length (ActiveParticipants s)) then Inl ErrMaxParticipants
         else if user_busy (view w) (p_UserID p) then Inl ErrUserBusy else Inr ()) \<and>
    sessions (view w') = (if r = Inr () then (sessions (view w))(c \<mapsto> appended p s) else sessions (view w)) \<and>
    (\<forall>v. user_busy (view w') v \<longleftrightarrow> user_busy (view w) v \<or> r = Inr () \<and> v = p_UserID p)"
  using services.AddParticipant_calm[OF assms refl, of p m]
  by (simp add: split_beta admit_def)

theorem AddParticipant_admission_witness:
  "let (r, w') = Store_AddParticipant mem_env ''r1'' (joining ''eve'' RoleParticipant False 9) 8 sample_world in
    r = Inr () \<and> sessions (w_db w') ''r1'' = Some (appended (joining ''eve'' RoleParticipant False 9) sample_room)"
  using AddParticipant_admission[OF mem.services_axioms, of sample_world "''r1''" sample_room "joining ''eve'' RoleParticipant False 9" 8]
    sample_active
  by (simp add: sample_sessions split_beta FindParticipant_def sample_room_def joining_def)

text \<open>C10: ending a session in a fault-free world always succeeds: the session is stored as ended
  with everyone marked as left, exactly its participants stop being busy, and the end is published
  with the duration of the call detail record.  (It is published twice: once by the record writer
  and once by the orchestrator itself.)\<close>

theorem EndSession_spec:
  assumes "services E view fate published calm"
    and "calm w" "sessions (view w) c = Some s" "s_CallID s = c"
  shows "\<exists>t > 0. let (r, w') = Orchestrator_EndSession E orc c reason w; e = ended t reason s in
    r = Inr () \<and> sessions (view w') = (sessions (view w))(c \<mapsto> e) \<and> ActiveParticipants e = [] \<and>
    (\<forall>v. user_busy (view w') v \<longleftrightarrow> user_busy (view w) v \<and> v \<notin> p_UserID ` set (s_Participants s)) \<and>
    seen (published w') = seen (published w) @ [call_ended e, call_ended e]"
  using services.EndSession_result[OF assms] services.now_pos[OF assms(1)] active_ended
  by (force simp: split_beta Let_def)

theorem EndSession_spec_witness:
  "\<exists>t > 0. sessions (w_db (snd (Orchestrator_EndSession mem_env sample_orc ''c1'' ''normal'' sample_world))) ''c1'' =
     Some (ended t ''normal'' sample_pair)"
  using EndSession_spec[OF mem.services_axioms, of sample_world "''c1''" sample_pair sample_orc "''normal''"]
  by (auto simp: sample_sessions split_beta Let_def sample_pair_def)

text \<open>Leaving.  When a listed user leaves in a fault-free world, the call ends if nobody is
  left or if it is a 1:1 call with at most one user left, which frees everyone; otherwise the
  session goes on with that user marked as left and free, and everyone else as before.\<close>

theorem LeaveSession_spec:
  assumes "services E view fate published calm"
    and "calm w" "sessions (view w) c = Some s" "members_ok (view w) c" "FindParticipant s u \<noteq> None"
  shows "\<exists>t t'. 0 < t \<and> 0 < t' \<and> (let (r, w') = Orchestrator_LeaveSession E orc c u w; d = departed t u s;
      n = length (ActiveParticipants d) in
    r = Inr () \<and>
    (if n = 0 \<or> s_CallType s = ''1:1'' \<and> n \<le> 1
     then sessions (view w') c = Some (ended t' ''normal'' d) \<and>
          (\<forall>p\<in>set (s_Participants s). \<not> user_busy (view w') (p_UserID p))
     else sessions (view w') c = Some d \<and>
          (\<forall>v. user_busy (view w') v \<longleftrightarrow> user_busy (view w) v \<and> v \<noteq> u)))"
  using services.LeaveSession_result[OF assms] .

theorem LeaveSession_spec_witness:
  "\<exists>t t'. sessions (w_db (snd (Orchestrator_LeaveSession mem_env sample_orc ''c1'' ''dan'' sample_world))) ''c1'' =
     Some (ended t' ''normal'' (departed t ''dan'' sample_pair))"
proof -
  have one: "length (ActiveParticipants (departed t ''dan'' sample_pair)) = 1" if "0 < t" for t
    using that by (simp add: departed_def UpdateFound_def ActiveParticipants_def sample_pair_def joining_def)
  have "sessions (w_db sample_world) ''c1'' = Some sample_pair" by (simp add: sample_sessions)
  from LeaveSession_spec[OF mem.services_axioms sample_calm(1) this sample_calm(3) sample_facts(3), of sample_orc]
  obtain t t' where "0 < t" "sessions (w_db (snd (Orchestrator_LeaveSession mem_env sample_orc ''c1'' ''dan'' sample_world))) ''c1'' =
     Some (ended t' ''normal'' (departed t ''dan'' sample_pair))"
    using one by (auto simp: split_beta Let_def sample_facts(1))
  then show ?thesis by blast
qed

text \<open>A user who leaves a group room and comes back is turned away for ever: the join passes the
  orchestrator's own check, which only looks for active participants, and is then refused by the
  store, whatever the capacity and however often it is retried.\<close>

theorem group_rejoin_refused:
  assumes "services E view fate published calm"
    and "calm w" "sessions (view w) c = Some s" "members_ok (view w) c"
    and "s_CallType s = ''group''" "FindParticipant s u = Some p" "\<not> IsZero (p_LeftAt p)"
  shows "fst (Orchestrator_JoinGroupSession E orc c u w) = Inl (Wrap ''join group session'' ErrAlreadyInCall) \<and>
    sessions (view (snd (Orchestrator_JoinGroupSession E orc c u w))) = sessions (view w)"
  using services.JoinGroup_listed[OF assms] .

theorem group_rejoin_refused_witness:
  "let room = departed 7 ''bob'' sample_room;
       w = world0\<lparr>w_db := [SessionKey ''r1'' \<mapsto> (RStr (PJson (marshal_Session room)), Some 9)]\<rparr> in
   fst (Orchestrator_JoinGroupSession mem_env sample_orc ''r1'' ''bob'' w) =
     Inl (Wrap ''join group session'' ErrAlreadyInCall)"
proof -
  let ?room = "departed 7 ''bob'' sample_room"
  let ?w = "world0\<lparr>w_db := [SessionKey ''r1'' \<mapsto> (RStr (PJson (marshal_Session ?room)), Some 9)]\<rparr>"
  have "sessions (w_db ?w) ''r1'' = Some ?room" "members_ok (w_db ?w) ''r1''" "mem_calm ?w"
    by (simp_all add: sessions_def stored_def plain_def members_ok_def SessionKey_def
        SessionParticipantsKey_def mem_calm_def world0_def)
  moreover have "s_CallType ?room = ''group''"
    "FindParticipant ?room ''bob'' = Some ((joining ''bob'' RoleParticipant True 6)\<lparr>p_LeftAt := 7\<rparr>)"
    by (simp_all add: departed_def UpdateFound_def sample_room_def FindParticipant_def joining_def)
  ultimately show ?thesis
    using group_rejoin_refused[OF mem.services_axioms, of ?w "''r1''" ?room "''bob''"] by simp
qed

end
