(* ===== verification/Orchestration_Rooms.thy ===== *)
theory Orchestration_Rooms
  imports Orchestration "HOL-Library.Multiset"
begin

text \<open>
  Results of joining, inviting, transferring and ending in a fault-free world, and of the
  optimistic retry loop under conflicts.
\<close>

section \<open>The retry loop\<close>

text \<open>The world after \<open>j\<close> attempts.\<close>

primrec after :: "('w \<Rightarrow> unit result \<times> 'w) \<Rightarrow> nat \<Rightarrow> 'w \<Rightarrow> 'w" where
  "after attempt 0 w = w"
| "after attempt (Suc j) w = after attempt j (snd (attempt w))"

lemma retry_settles:
  assumes "j < n" "\<forall>i<j. fst (a (after a i w)) = Inl TxFailedErr"
    and "fst (a (after a j w)) \<noteq> Inl TxFailedErr"
  shows "retry n g a w = a (after a j w)"
  using assms
proof (induction n arbitrary: j w)
  case (Suc n)
  show ?case
  proof (cases j)
    case 0
    then show ?thesis using Suc.prems by (auto simp: Let_def split_beta)
  next
    case (Suc k)
    have "fst (a w) = Inl TxFailedErr" using Suc.prems(2) Suc by (metis after.simps(1) zero_less_Suc)
    moreover have "retry n g a (snd (a w)) = a (after a k (snd (a w)))"
      using Suc.prems Suc by (intro Suc.IH) auto
    ultimately show ?thesis using Suc by (simp add: Let_def split_beta)
  qed
qed simp

lemma retry_gives_up:
  "\<forall>i<n. fst (a (after a i w)) = Inl TxFailedErr \<Longrightarrow> retry n g a w = (Inl g, after a n w)"
proof (induction n arbitrary: w)
  case (Suc n)
  then have "fst (a w) = Inl TxFailedErr" by (metis after.simps(1) zero_less_Suc)
  moreover have "retry n g a (snd (a w)) = (Inl g, after a n (snd (a w)))"
    using Suc.prems by (intro Suc.IH) auto
  ultimately show ?case by (simp add: Let_def split_beta)
qed simp

section \<open>The invitation loop\<close>

lemma invite_loop_spec:
  "ir_Invited (invite_loop cap s n r ids) =
     ir_Invited r @ take (nat (cap - n)) (filter (\<lambda>i. \<not> active_in s i) ids)"
  "mset (ir_Invited (invite_loop cap s n r ids)) + mset (ir_Skipped (invite_loop cap s n r ids)) =
     mset (ir_Invited r) + mset (ir_Skipped r) + mset ids"
proof (induction ids arbitrary: n r)
  case (Cons i ids)
  { case 1
    have "nat (cap - n) = Suc (nat (cap - (n + 1)))" if "n < cap" using that by simp
    then show ?case using Cons(1) by (simp add: not_le)
  next
    case 2
    show ?case using Cons(2) by simp }
qed simp_all

section \<open>Results\<close>

lemma joining_simps [simp]: "p_UserID (joining u r v t) = u" "p_Role (joining u r v t) = r"
  "IsZero (p_LeftAt (joining u r v t))"
  by (simp_all add: joining_def)

lemma active_appended [simp]:
  "length (ActiveParticipants (appended (joining u r v t) s)) = Suc (length (ActiveParticipants s))"
  by (simp add: appended_def)

context services
begin

lemma resolve_list_laws [svc_simps]: "view (snd (resolve_list E orc us w)) = view w"
  "published (snd (resolve_list E orc us w)) = published w"
  "calm w \<Longrightarrow> calm (snd (resolve_list E orc us w))"
  by (simp_all add: resolve_list_def svc_simps)

lemma cred_laws [svc_simps]: "view (snd (turn_creds E orc tp u w)) = view w"
  "view (snd (room_token E orc c u w)) = view w" "view (snd (sfu_token E orc tp c u w)) = view w"
  by (simp_all add: turn_creds_def room_token_def sfu_token_def svc_simps Let_def split_beta split: sum.splits)

lemma InviteToRoom_result:
  assumes w: "calm w" "sessions (view w) c = Some s" "fst (resolve_list E orc us w) = Inr ids"
  shows "fst (Orchestrator_InviteToRoom E orc c u us w) =
    (if s_CallType s \<noteq> ''group'' then Inl (not_group c)
     else if \<not> active_in s u then Inl (Errorf (''inviter '' @ u @ '' is not an active participant''))
     else if (\<exists>p. FindParticipant s u = Some p \<and> p_Role p \<noteq> RoleCaller)
     then Inl (Errorf ''only the host can invite participants'')
     else Inr (invite_loop (maxP orc) s (int (length (ActiveParticipants s))) \<lparr>ir_Invited = [], ir_Skipped = []\<rparr> ids))"
proof -
  have "fst (Store_Get E c (snd (resolve_list E orc us w))) = Inr s"
    using Get_session(1)[of "snd (resolve_list E orc us w)" c s] w by (simp add: svc_simps)
  then show ?thesis
    using w(3) by (simp add: Orchestrator_InviteToRoom_def Let_def split_beta active_in_def split: option.splits)
qed

lemma watch_update_calm:
  assumes w: "calm w" "sessions (view w) c = Some s" "change s = Inr s'"
    and x: "x = watch_update E (SessionKey c) change w"
  shows "fst x = Inr ()" "calm (snd x)" "sessions (view (snd x)) = (sessions (view w))(c \<mapsto> s')"
    "user_busy (view (snd x)) v = user_busy (view w) v" "published (snd x) = published w"
proof -
  note g = Get_session[OF w(1,2)]
  obtain p t where p: "view w (SessionKey c) = Some (RStr p, t)" "decode_Session p = Inr s"
    using g(3) by (auto simp: stored_def split: option.splits rval.splits sum.splits)
  have x': "x = r_watch_exec E (SessionKey c) (put c s' (24 * 60 * 60) []) (snd (r_get E (SessionKey c) w))"
    unfolding x watch_update_def using w p by (auto simp: Let_def split_beta svc_simps)
  show "fst x = Inr ()" "calm (snd x)" "published (snd x) = published w"
    "user_busy (view (snd x)) v = user_busy (view w) v"
    unfolding x' using w(1) by (simp_all add: svc_simps user_busy_def)
  show "sessions (view (snd x)) = (sessions (view w))(c \<mapsto> s')"
    unfolding x' using w(1) g(2) sessions_write[of "[]" c s' "24 * 60 * 60" "view w"] by (simp add: svc_simps)
qed

lemma retry_calm:
  assumes "calm w" "sessions (view w) c = Some s" "change s = Inr s'" "0 < n"
  shows "retry n g (watch_update E (SessionKey c) change) w = watch_update E (SessionKey c) change w"
  using retry_settles[of 0 n "watch_update E (SessionKey c) change" w g]
    watch_update_calm(1)[where change = change, OF assms(1-3) refl] assms(4) by simp

lemma TransferHost_result:
  assumes w: "calm w" "sessions (view w) c = Some s"
    and s: "s_CallType s = ''group''" "active_in s u"
  shows "let (r, w') = Orchestrator_TransferHost E c u w in
    r = Inr () \<and> published w' = published w \<and> (\<forall>v. user_busy (view w') v = user_busy (view w) v) \<and>
    sessions (view w') = (sessions (view w))(c \<mapsto> (role_set u RoleCaller s)\<lparr>s_InitiatorID := u\<rparr>)"
proof -
  define w1 where "w1 = snd (Store_Get E c w)"
  have w1: "calm w1" "sessions (view w1) c = Some s" "published w1 = published w" "view w1 = view w"
    using w by (simp_all add: w1_def svc_simps)
  have ch: "set_role c u RoleCaller s = Inr (role_set u RoleCaller s)"
    using s(2) by (auto simp: set_role_def role_set_def active_in_def split: option.splits)
  define x where "x = watch_update E (SessionKey c) (set_role c u RoleCaller) w1"
  note a = watch_update_calm[where change = "set_role c u RoleCaller", OF w1(1,2) ch x_def]
  have x2: "sessions (view (snd x)) c = Some (role_set u RoleCaller s)" using a(3) by simp
  define y where "y = watch_update E (SessionKey c) (\<lambda>s. Inr (s\<lparr>s_InitiatorID := u\<rparr>)) (snd x)"
  note b = watch_update_calm[where change = "\<lambda>s. Inr (s\<lparr>s_InitiatorID := u\<rparr>)", OF a(2) x2 refl y_def]
  have "Store_UpdateParticipantRole E c u RoleCaller w1 = x"
    unfolding Store_UpdateParticipantRole_def x_def by (rule retry_calm[where change = "set_role c u RoleCaller", OF w1(1,2) ch]) simp
  moreover have "Store_UpdateInitiator E c u (snd x) = y"
    unfolding Store_UpdateInitiator_def y_def by (rule retry_calm[where change = "\<lambda>s. Inr (s\<lparr>s_InitiatorID := u\<rparr>)", OF a(2) x2 refl]) simp
  ultimately have "Orchestrator_TransferHost E c u w = (Inr (), snd y)"
    using Get_session(1)[OF w] s a(1)
    by (simp add: Orchestrator_TransferHost_def Let_def split_beta w1_def[symmetric])
  then show ?thesis using a b w1 by simp
qed

lemma CloseRoom_result:
  assumes w: "calm w" "sessions (view w) c = Some s"
  shows "let x = Orchestrator_CloseRoom E orc c reason w;
      e = ended (fst (time_now E (snd (Store_Get E c w)))) reason s in
    fst x = Inr () \<and> sessions (view (snd x)) = (sessions (view w))(c \<mapsto> e) \<and>
    (\<forall>v. user_busy (view (snd x)) v \<longleftrightarrow> user_busy (view w) v \<and> v \<notin> p_UserID ` set (s_Participants s))"
  using EndSession_calm[OF w refl refl, of reason]
  by (simp add: Orchestrator_CloseRoom_def Let_def split_beta svc_simps)

lemma JoinSession_result:
  assumes w: "calm w" "sessions (view w) (jq_CallID req) = Some s" "members_ok (view w) (jq_CallID req)"
    and s: "s_CallID s = jq_CallID req"
    and role: "jq_Role req = RoleCallee \<or> jq_Role req = RoleParticipant"
    and adm: "admit (view w) s (joining (jq_UserID req) (jq_Role req) (jq_HasVideo req) (fst (time_now E w))) (maxP orc) = Inr ()"
  shows "\<exists>t resp w'. let s' = appended (joining (jq_UserID req) (jq_Role req) (jq_HasVideo req) t) s;
       up = (s_Topology s \<noteq> TopologySFU \<and> 2 \<le> length (ActiveParticipants s)) in
     Orchestrator_JoinSession E orc req w = (Inr resp, w') \<and>
     sessions (view w') (jq_CallID req) = Some (if up then s'\<lparr>s_Topology := TopologySFU\<rparr> else s') \<and>
     jp_Topology resp = (if up then TopologySFU else s_Topology s) \<and> jp_Escalated resp = up"
proof -
  let ?c = "jq_CallID req"
  define t where "t = fst (time_now E w)"
  define p where "p = joining (jq_UserID req) (jq_Role req) (jq_HasVideo req) t"
  define x where "x = Store_AddParticipant E ?c p (maxP orc) (snd (time_now E w))"
  have w1: "calm (snd (time_now E w))" "sessions (view (snd (time_now E w))) ?c = Some s"
    "members_ok (view (snd (time_now E w))) ?c" using w by (simp_all add: svc_simps)
  note a = AddParticipant_calm[OF w1 x_def]
  have ok: "fst x = Inr ()" using a(1) adm by (simp add: p_def t_def svc_simps)
  define s' where "s' = appended p s"
  have x: "calm (snd x)" "sessions (view (snd x)) ?c = Some s'" using a(2,3) ok by (simp_all add: s'_def)
  note g = Get_session[OF x]
  have n: "length (ActiveParticipants s') = Suc (length (ActiveParticipants s))"
    by (simp add: s'_def p_def)
  have top: "s_Topology s' = s_Topology s" "s_CallID s' = ?c" by (simp_all add: s'_def appended_def s)
  have perm: "CheckPermission (jq_Role req) PermAcceptCall = Inr ()"
    using role by (auto simp: CheckPermission_def HasPermission_permitted)
  have upd: "fst (Store_Update E z (snd (Store_Get E ?c (snd x)))) = Inr ()"
     "sessions (view (snd (Store_Update E z (snd (Store_Get E ?c (snd x)))))) ?c = Some z"
    if "s_CallID z = ?c" for z
    using x(1) g(2) that sessions_write[of "[]" ?c z SessionTTL "view (snd x)"]
    by (simp_all add: Store_Update_def svc_simps)
  show ?thesis
    using perm ok g(1) n top upd x(2)
    by (intro exI[of _ t])
      (simp add: Orchestrator_JoinSession_def Let_def split_beta ShouldEscalateToSFU_def
        p_def[symmetric] t_def[symmetric] x_def[symmetric] s'_def[symmetric] publish_def svc_simps)
qed

lemma EndRoomForAll_result:
  assumes w: "calm w" "sessions (view w) c = Some s" "s_CallType s = ''group''"
  shows "let (r, w') = Orchestrator_EndRoomForAll E orc c u w in
    (if \<exists>p. FindParticipant s u = Some p \<and> p_Role p = RoleCaller
     then r = Inr () \<and> (\<exists>t > 0. sessions (view w') = (sessions (view w))(c \<mapsto> ended t ''host_ended'' s)) \<and>
       (\<forall>p\<in>set (s_Participants s). \<not> user_busy (view w') (p_UserID p))
     else \<not> is_ok r \<and> view w' = view w \<and> published w' = published w)"
proof (cases "\<exists>p. FindParticipant s u = Some p \<and> p_Role p = RoleCaller")
  case True
  define w1 where "w1 = snd (Store_Get E c w)"
  have w1: "calm w1" "sessions (view w1) c = Some s" "view w1 = view w"
    using w by (simp_all add: w1_def svc_simps)
  have "Orchestrator_EndRoomForAll E orc c u w = Orchestrator_CloseRoom E orc c ''host_ended'' w1"
    using True Get_session(1)[OF w(1,2)] w(3)
    by (auto simp: Orchestrator_EndRoomForAll_def Let_def split_beta w1_def)
  then show ?thesis
    using True CloseRoom_result[OF w1(1,2), of orc "''host_ended''"] now_pos w1(3)
    by (auto simp: split_beta Let_def)
next
  case False
  then show ?thesis
    using Get_session(1)[OF w(1,2)] w(3)
    by (auto simp: Orchestrator_EndRoomForAll_def Let_def split_beta svc_simps split: option.splits)
qed

end

section \<open>Properties\<close>

lemma sample_r1: "sessions (w_db sample_world) ''r1'' = Some sample_room"
  "sessions (w_db sample_world) ''c1'' = Some sample_pair"
  by (simp_all add: sample_sessions)

lemma sample_room_facts: "s_CallType sample_room = ''group''" "active_in sample_room ''ann''"
  "active_in sample_room ''bob''" "FindParticipant sample_room ''ann'' = Some (joining ''ann'' RoleCaller True 5)"
  by (simp_all add: sample_room_def active_in_def FindParticipant_def joining_def)

text \<open>C11: joining a session.  In a fault-free world an admitted user always gets in, and the
  session is afterwards stored with the user appended; it is moved to the SFU exactly when it was
  not there and the user is the third active participant or later, and the response reports the
  topology and the escalation that were stored.\<close>

theorem JoinSession_escalates:
  assumes "services E view fate published calm"
    and "calm w" "sessions (view w) (jq_CallID req) = Some s" "members_ok (view w) (jq_CallID req)"
    and "s_CallID s = jq_CallID req"
    and "jq_Role req = RoleCallee \<or> jq_Role req = RoleParticipant"
    and "admit (view w) s (joining (jq_UserID req) (jq_Role req) (jq_HasVideo req) (fst (time_now E w))) (maxP orc) = Inr ()"
  shows "\<exists>t resp w'. let s' = appended (joining (jq_UserID req) (jq_Role req) (jq_HasVideo req) t) s;
       up = (s_Topology s \<noteq> TopologySFU \<and> 2 \<le> length (ActiveParticipants s)) in
     Orchestrator_JoinSession E orc req w = (Inr resp, w') \<and>
     sessions (view w') (jq_CallID req) = Some (if up then s'\<lparr>s_Topology := TopologySFU\<rparr> else s') \<and>
     jp_Topology resp = (if up then TopologySFU else s_Topology s) \<and> jp_Escalated resp = up"
  by (rule services.JoinSession_result[OF assms])

theorem JoinSession_escalates_witness:
  "\<exists>resp w'. Orchestrator_JoinSession mem_env sample_orc
       \<lparr>jq_CallID = ''c1'', jq_UserID = ''eve'', jq_Role = RoleParticipant, jq_HasVideo = False\<rparr> sample_world = (Inr resp, w') \<and>
     jp_Topology resp = TopologySFU \<and> jp_Escalated resp"
proof -
  let ?req = "\<lparr>jq_CallID = ''c1'', jq_UserID = ''eve'', jq_Role = RoleParticipant, jq_HasVideo = False\<rparr>"
  have "FindParticipant sample_pair ''eve'' = None"
    by (simp add: sample_pair_def FindParticipant_def joining_def)
  then have adm: "admit (w_db sample_world) sample_pair (joining (jq_UserID ?req) (jq_Role ?req) (jq_HasVideo ?req)
      (fst (time_now mem_env sample_world))) (maxP sample_orc) = Inr ()"
    by (simp add: admit_def sample_active) (simp add: maxP_def sample_orc_def)
  have top: "s_Topology sample_pair = TopologyP2P" by (simp add: sample_pair_def)
  have "\<exists>t resp w'. let s' = appended (joining (jq_UserID ?req) (jq_Role ?req) (jq_HasVideo ?req) t) sample_pair;
       up = (s_Topology sample_pair \<noteq> TopologySFU \<and> 2 \<le> length (ActiveParticipants sample_pair)) in
     Orchestrator_JoinSession mem_env sample_orc ?req sample_world = (Inr resp, w') \<and>
     sessions (w_db w') (jq_CallID ?req) = Some (if up then s'\<lparr>s_Topology := TopologySFU\<rparr> else s') \<and>
     jp_Topology resp = (if up then TopologySFU else s_Topology sample_pair) \<and> jp_Escalated resp = up"
    by (rule JoinSession_escalates[OF mem.services_axioms sample_calm(1) _ _ _ _ adm])
      (simp_all add: sample_r1 sample_facts)
  then show ?thesis by (auto simp: Let_def top sample_active)
qed



text \<open>C13: transferring the host role to an active participant of a room succeeds in a fault-free
  world: that participant holds the host role and is recorded as the initiator, nothing is
  published and nobody's busy mark changes.  No other participant's role changes, so the previous
  host keeps the host role as well.\<close>

theorem TransferHost_spec:
  assumes "services E view fate published calm"
    and "calm w" "sessions (view w) c = Some s"
    and "s_CallType s = ''group''" "active_in s u"
  shows "let (r, w') = Orchestrator_TransferHost E c u w; s' = (role_set u RoleCaller s)\<lparr>s_InitiatorID := u\<rparr> in
    r = Inr () \<and> published w' = published w \<and> (\<forall>v. user_busy (view w') v = user_busy (view w) v) \<and>
    sessions (view w') = (sessions (view w))(c \<mapsto> s') \<and>
    (\<exists>p. FindParticipant s' u = Some p \<and> p_Role p = RoleCaller) \<and>
    (\<forall>v. v \<noteq> u \<longrightarrow> FindParticipant s' v = FindParticipant s v)"
proof -
  let ?s' = "(role_set u RoleCaller s)\<lparr>s_InitiatorID := u\<rparr>"
  obtain p where p: "FindParticipant s u = Some p" using assms(5) by (auto simp: active_in_def split: option.splits)
  have "FindParticipant ?s' u = Some (p\<lparr>p_Role := RoleCaller\<rparr>)"
    using p by (simp add: role_set_def UpdateFound_def FindParticipant_def find_upd_first)
  moreover have "FindParticipant ?s' v = FindParticipant s v" if "v \<noteq> u" for v
    using that by (simp add: role_set_def UpdateFound_def FindParticipant_def find_upd_first_other)
  ultimately show ?thesis
    using services.TransferHost_result[OF assms] by (auto simp: split_beta Let_def)
qed

theorem TransferHost_spec_witness:
  "let (r, w') = Orchestrator_TransferHost mem_env ''r1'' ''bob'' sample_world in
    r = Inr () \<and> sessions (w_db w') ''r1'' = Some ((role_set ''bob'' RoleCaller sample_room)\<lparr>s_InitiatorID := ''bob''\<rparr>)"
  using TransferHost_spec[OF mem.services_axioms sample_calm(1) sample_r1(1) sample_room_facts(1,3)]
  by (simp add: split_beta Let_def)

text \<open>C14: ending a room for all.  In a fault-free world the room is ended, with everyone marked as
  left and freed, exactly when the caller is listed with the host role (also after having left);
  anyone else gets an error, and neither the sessions, nor the busy marks, nor the published events
  change.\<close>

theorem EndRoomForAll_spec:
  assumes "services E view fate published calm"
    and "calm w" "sessions (view w) c = Some s" "s_CallType s = ''group''"
  shows "let (r, w') = Orchestrator_EndRoomForAll E orc c u w in
    (if \<exists>p. FindParticipant s u = Some p \<and> p_Role p = RoleCaller
     then r = Inr () \<and> (\<exists>t > 0. sessions (view w') = (sessions (view w))(c \<mapsto> ended t ''host_ended'' s)) \<and>
       (\<forall>p\<in>set (s_Participants s). \<not> user_busy (view w') (p_UserID p))
     else \<not> is_ok r \<and> view w' = view w \<and> published w' = published w)"
  using services.EndRoomForAll_result[OF assms] .

theorem EndRoomForAll_spec_witness:
  "fst (Orchestrator_EndRoomForAll mem_env sample_orc ''r1'' ''ann'' sample_world) = Inr ()"
  using EndRoomForAll_spec[OF mem.services_axioms sample_calm(1) sample_r1(1) sample_room_facts(1), of sample_orc "''ann''"]
  by (simp add: split_beta sample_room_facts)

text \<open>C15: the optimistic retry loop of the store's role and initiator updates.  If the transaction
  loses the race fewer than three times, the loop returns what the first attempt that did not lose
  it returned, in that attempt's world; if it loses three times, the loop gives up with its own
  error after exactly three attempts.\<close>

theorem UpdateParticipantRole_retries:
  assumes "a = watch_update E (SessionKey c) (set_role c u ro)"
    and "\<forall>i<j. fst (a (after a i w)) = Inl TxFailedErr"
    and "j = 3 \<or> j < 3 \<and> fst (a (after a j w)) \<noteq> Inl TxFailedErr"
  shows "Store_UpdateParticipantRole E c u ro w =
    (if j < 3 then a (after a j w)
     else (Inl (Errorf ''UpdateParticipantRole: optimistic lock failed after 3 retries''), after a 3 w))"
  using assms(2,3) retry_settles[of j 3 a w] retry_gives_up[of 3 a w]
  by (auto simp: Store_UpdateParticipantRole_def assms(1))

theorem UpdateParticipantRole_retries_witness:
  "Store_UpdateParticipantRole mem_env ''r1'' ''bob'' RoleCaller (sample_world\<lparr>w_fates := [Fine, Conflict]\<rparr>) =
     watch_update mem_env (SessionKey ''r1'') (set_role ''r1'' ''bob'' RoleCaller) (sample_world\<lparr>w_fates := []\<rparr>)"
proof -
  let ?a = "watch_update mem_env (SessionKey ''r1'') (set_role ''r1'' ''bob'' RoleCaller)"
  let ?w = "sample_world\<lparr>w_fates := [Fine, Conflict]\<rparr>"
  let ?w' = "sample_world\<lparr>w_fates := []\<rparr>"
  have role: "\<exists>s'. set_role ''r1'' ''bob'' RoleCaller sample_room = Inr s'"
    by (simp add: set_role_def sample_room_def FindParticipant_def joining_def)
  have db: "w_db sample_world (SessionKey ''r1'') = Some (RStr (PJson (marshal_Session sample_room)), Some 9)"
    by (simp add: sample_world_def)
  have lost: "?a ?w = (Inl TxFailedErr, ?w')"
    using role db by (auto simp: watch_update_def mem_env_def mem_fate_def spend_def Let_def)
  have won: "fst (?a ?w') \<noteq> Inl TxFailedErr"
    using role db by (auto simp: watch_update_def mem_env_def mem_fate_def spend_def Let_def)
  have "Store_UpdateParticipantRole mem_env ''r1'' ''bob'' RoleCaller ?w =
    (if (1::nat) < 3 then ?a (after ?a 1 ?w)
     else (Inl (Errorf ''UpdateParticipantRole: optimistic lock failed after 3 retries''), after ?a 3 ?w))"
    by (rule UpdateParticipantRole_retries[OF refl]) (use lost won in auto)
  then show ?thesis using lost by simp
qed

end
