(* ===== verification/Hub_Invariant.thy ===== *)
theory Hub_Invariant
  imports Hub_Loop
begin

text \<open>
  The invariant of the hub's own state: bounded buffers, a consistent table of devices, rooms
  without repeated members, and sequence numbers that increase along every connected device's
  queue.  Every primitive keeps it, so every handler, timer and run does.
\<close>

section \<open>The invariant\<close>

definition clients_of :: "Hub \<Rightarrow> string \<Rightarrow> Client set" where
  "clients_of h u = snd ` set (devices h u)"

definition bufs_ok :: "Hub \<Rightarrow> bool" where
  "bufs_ok h \<longleftrightarrow> (\<forall>i cn. h_conns h i = Some cn \<longrightarrow> length (cn_send cn) \<le> sendBufSize)"

definition ice_ok :: "Hub \<Rightarrow> bool" where
  "ice_ok h \<longleftrightarrow> (\<forall>c b. h_iceBuf h c = Some b \<longrightarrow> length b \<le> 50)"

definition rooms_ok :: "Hub \<Rightarrow> bool" where
  "rooms_ok h \<longleftrightarrow> distinct (map fst (h_rooms h)) \<and> (\<forall>(r, ms) \<in> set (h_rooms h). distinct ms)"

definition clients_ok :: "Hub \<Rightarrow> bool" where
  "clients_ok h \<longleftrightarrow> distinct (map fst (h_clients h)) \<and>
     (\<forall>(u, ds) \<in> set (h_clients h). ds \<noteq> [] \<and> distinct (map fst ds)) \<and>
     (\<forall>u d c. (d, c) \<in> set (devices h u) \<longrightarrow> c_userID c = u \<and> c_deviceID c = d \<and> h_conns h (c_id c) \<noteq> None) \<and>
     (\<forall>u v c d. c \<in> clients_of h u \<longrightarrow> d \<in> clients_of h v \<longrightarrow> c_id c = c_id d \<longrightarrow> c = d)"

text \<open>The sequence numbers waiting in a queue (0 means that there is none).\<close>

definition seqs :: "packet list \<Rightarrow> int list" where
  "seqs ps = filter (\<lambda>n. n \<noteq> 0) (map pk_Seq ps)"

definition ascending :: "int \<Rightarrow> int list \<Rightarrow> bool" where
  "ascending m ns \<longleftrightarrow> sorted_wrt (<) ns \<and> (\<forall>n\<in>set ns. 0 < n \<and> n \<le> m)"

definition seqs_ok :: "Hub \<Rightarrow> bool" where
  "seqs_ok h \<longleftrightarrow> (\<forall>u c cn. c \<in> clients_of h u \<longrightarrow> h_conns h (c_id c) = Some cn \<longrightarrow>
     int (h_seqCounters h u) \<le> max_int64 \<longrightarrow> ascending (int (h_seqCounters h u)) (seqs (cn_send cn)))"

definition hub_ok :: "Hub \<Rightarrow> bool" where
  "hub_ok h \<longleftrightarrow> bufs_ok h \<and> ice_ok h \<and> rooms_ok h \<and> clients_ok h \<and> seqs_ok h"

lemma hub_okI: "bufs_ok h \<Longrightarrow> ice_ok h \<Longrightarrow> rooms_ok h \<Longrightarrow> clients_ok h \<Longrightarrow> seqs_ok h \<Longrightarrow> hub_ok h"
  by (simp add: hub_ok_def)

lemma seqs_simps [simp]: "seqs [] = []" "seqs (ps @ qs) = seqs ps @ seqs qs"
  "seqs [p] = (if pk_Seq p = 0 then [] else [pk_Seq p])"
  "seqs (p # ps) = (if pk_Seq p = 0 then seqs ps else pk_Seq p # seqs ps)"
  by (simp_all add: seqs_def)

lemma ascending_Nil [simp]: "ascending m []"
  by (simp add: ascending_def)

lemma ascending_snoc: "ascending m ns \<Longrightarrow> m < n \<Longrightarrow> 0 < n \<Longrightarrow> ascending n (ns @ [n])"
  by (auto simp: ascending_def sorted_wrt_append)

lemma ascending_mono: "ascending m ns \<Longrightarrow> m \<le> m' \<Longrightarrow> ascending m' ns"
  by (auto simp: ascending_def)

lemma ascending_tl: "ascending m (n # ns) \<Longrightarrow> ascending m ns"
  by (auto simp: ascending_def)

lemma wrap64_small: "0 \<le> n \<Longrightarrow> n \<le> max_int64 \<Longrightarrow> wrap64 n = n"
  by (simp add: wrap64_def max_int64_def)

section \<open>Frames\<close>

text \<open>Delivery touches queues and counters only.\<close>

definition same_frame :: "Hub \<Rightarrow> Hub \<Rightarrow> bool" where
  "same_frame h h' \<longleftrightarrow> h_clients h' = h_clients h \<and> h_rooms h' = h_rooms h \<and>
     h_roomHosts h' = h_roomHosts h \<and> h_timers h' = h_timers h \<and> h_iceBuf h' = h_iceBuf h \<and>
     h_orchestrator h' = h_orchestrator h \<and> h_bus h' = h_bus h \<and> h_done h' = h_done h \<and>
     (\<forall>i. (h_conns h' i = None) = (h_conns h i = None))"

lemma same_frame_refl [simp]: "same_frame h h"
  by (simp add: same_frame_def)

lemma same_frame_trans: "same_frame h h' \<Longrightarrow> same_frame h' h'' \<Longrightarrow> same_frame h h''"
  by (auto simp: same_frame_def)

lemma frame_SendJSONWithSeq: "same_frame h (SendJSONWithSeq c t d n h)"
  by (auto simp: SendJSONWithSeq_def same_frame_def split: option.splits)

lemma frame_SendJSON: "same_frame h (SendJSON c t d h)"
  by (simp add: SendJSON_def frame_SendJSONWithSeq)

lemma frame_SendError: "same_frame h (SendError c e m i h)"
  by (simp add: SendError_def frame_SendJSON)

lemma frame_send_all: "same_frame h (send_all cs t d n h)"
  by (induction cs arbitrary: h) (auto intro: same_frame_trans frame_SendJSONWithSeq)

lemma frame_nextSeq: "same_frame h (snd (nextSeq u h))"
  by (simp add: nextSeq_def same_frame_def Let_def)

lemma frame_toUser: "same_frame h (toUser u t d h)"
  by (auto simp: toUser_def sendToUser_def Let_def split_beta
      intro: same_frame_trans[OF frame_nextSeq frame_send_all])

lemma frame_sendToUserExcept: "same_frame h (sendToUserExcept u x t d h)"
  by (auto simp: sendToUserExcept_def Let_def split_beta
      intro: same_frame_trans[OF frame_nextSeq frame_send_all])

lemma frame_send_users: "same_frame h (send_users us t d h)"
  by (induction us arbitrary: h) (auto intro: same_frame_trans frame_toUser)

lemma frame_send_candidates: "same_frame h (send_candidates c ms h)"
  by (induction ms arbitrary: h) (auto intro: same_frame_trans frame_SendJSON)

lemmas frames = frame_SendJSONWithSeq frame_SendJSON frame_SendError frame_send_all frame_toUser
  frame_sendToUserExcept frame_send_users frame_send_candidates

lemma frame_fields [simp]:
  "h_rooms (SendJSON c t d h) = h_rooms h" "h_rooms (SendError c e m i h) = h_rooms h"
  "h_rooms (toUser u t d h) = h_rooms h" "h_rooms (sendToUserExcept u x t d h) = h_rooms h"
  "h_rooms (send_users us t d h) = h_rooms h"
  "h_timers (SendJSON c t d h) = h_timers h" "h_timers (SendError c e m i h) = h_timers h"
  "h_timers (toUser u t d h) = h_timers h" "h_timers (sendToUserExcept u x t d h) = h_timers h"
  "h_roomHosts (SendJSON c t d h) = h_roomHosts h" "h_roomHosts (SendError c e m i h) = h_roomHosts h"
  "h_roomHosts (toUser u t d h) = h_roomHosts h" "h_roomHosts (send_users us t d h) = h_roomHosts h"
  "h_iceBuf (SendJSON c t d h) = h_iceBuf h" "h_iceBuf (toUser u t d h) = h_iceBuf h"
  "h_clients (SendJSON c t d h) = h_clients h" "h_clients (toUser u t d h) = h_clients h"
  "h_orchestrator (toUser u t d h) = h_orchestrator h" "h_orchestrator (send_users us t d h) = h_orchestrator h"
  "h_bus (toUser u t d h) = h_bus h"
  using frames by (auto simp: same_frame_def)

lemma devices_frame: "same_frame h h' \<Longrightarrow> devices h' u = devices h u"
  by (simp add: same_frame_def devices_def)

lemma frame_ok:
  assumes "same_frame h h'" "hub_ok h"
  shows "ice_ok h'" "rooms_ok h'" "clients_ok h'"
  using assms devices_frame[OF assms(1)]
  by (auto simp: hub_ok_def same_frame_def ice_ok_def rooms_ok_def clients_ok_def clients_of_def)

section \<open>Delivery keeps the invariant\<close>

lemma bufs_SendJSONWithSeq: "bufs_ok h \<Longrightarrow> bufs_ok (SendJSONWithSeq c t d n h)"
  by (auto simp: bufs_ok_def SendJSONWithSeq_def split: option.splits)

lemma seqs_SendJSON:
  assumes "seqs_ok h"
  shows "seqs_ok (SendJSON c t d h)"
proof -
  have "clients_of (SendJSON c t d h) = clients_of h"
    by (simp add: clients_of_def fun_eq_iff devices_frame[OF frame_SendJSON])
  moreover have "h_seqCounters (SendJSON c t d h) = h_seqCounters h"
    by (simp add: SendJSON_def SendJSONWithSeq_def split: option.splits)
  moreover have "\<exists>cn'. h_conns h i = Some cn' \<and> seqs (cn_send cn) = seqs (cn_send cn')"
    if "h_conns (SendJSON c t d h) i = Some cn" for i cn
    using that by (auto simp: SendJSON_def SendJSONWithSeq_def split: option.splits if_splits)
  ultimately show ?thesis using assms unfolding seqs_ok_def by metis
qed

lemma ok_SendJSON [simp]: "hub_ok h \<Longrightarrow> hub_ok (SendJSON c t d h)"
  using frame_ok[OF frame_SendJSON] seqs_SendJSON bufs_SendJSONWithSeq
  by (auto simp: hub_ok_def SendJSON_def)

lemma ok_SendError [simp]: "hub_ok h \<Longrightarrow> hub_ok (SendError c e m i h)"
  by (simp add: SendError_def)

lemma ok_send_candidates [simp]: "hub_ok h \<Longrightarrow> hub_ok (send_candidates c ms h)"
  by (induction ms arbitrary: h) auto

text \<open>A numbered message for one user: the number is above all that wait on the user's devices.\<close>

lemma send_all_conns:
  assumes "distinct (map c_id cs)" "h_conns (send_all cs t d n h) i = Some cn"
  shows "\<exists>cn'. h_conns h i = Some cn' \<and> (cn_send cn = cn_send cn' \<or> i \<in> c_id ` set cs \<and>
        cn_send cn = cn_send cn' @ [\<lparr>pk_Type = t, pk_Data = d, pk_Seq = n\<rparr>])"
  using assms
proof (induction cs arbitrary: h)
  case (Cons c cs)
  from Cons.IH[of "SendJSONWithSeq c t d n h"] Cons.prems obtain cn' where
    cn': "h_conns (SendJSONWithSeq c t d n h) i = Some cn'"
      "cn_send cn = cn_send cn' \<or> i \<in> c_id ` set cs \<and> cn_send cn = cn_send cn' @ [\<lparr>pk_Type = t, pk_Data = d, pk_Seq = n\<rparr>]"
    by auto
  have "\<exists>cn''. h_conns h i = Some cn'' \<and> (cn_send cn' = cn_send cn'' \<or>
      i = c_id c \<and> cn_send cn' = cn_send cn'' @ [\<lparr>pk_Type = t, pk_Data = d, pk_Seq = n\<rparr>])"
    using cn'(1) by (auto simp: SendJSONWithSeq_def split: option.splits if_splits)
  then obtain cn'' where cn'': "h_conns h i = Some cn''" "cn_send cn' = cn_send cn'' \<or>
      i = c_id c \<and> cn_send cn' = cn_send cn'' @ [\<lparr>pk_Type = t, pk_Data = d, pk_Seq = n\<rparr>]"
    by blast
  have "i = c_id c \<Longrightarrow> i \<notin> c_id ` set cs" using Cons.prems(1) by auto
  then show ?case using cn'' cn'(2) by (intro exI[of _ cn'']) auto
qed simp

lemma bufs_send_all: "bufs_ok h \<Longrightarrow> bufs_ok (send_all cs t d n h)"
  by (induction cs arbitrary: h) (simp_all add: bufs_SendJSONWithSeq)

lemma send_all_counters: "h_seqCounters (send_all cs t d n h) = h_seqCounters h"
proof (induction cs arbitrary: h)
  case (Cons c cs)
  have "h_seqCounters (SendJSONWithSeq c t d n h) = h_seqCounters h"
    by (simp add: SendJSONWithSeq_def split: option.splits)
  then show ?case using Cons by simp
qed simp

lemma device_entry:
  assumes "clients_ok h" "(d, c) \<in> set (devices h u)"
  shows "c_userID c = u" "c_deviceID c = d" "h_conns h (c_id c) \<noteq> None"
  using assms unfolding clients_ok_def by blast+

lemma client_entry: "clients_ok h \<Longrightarrow> c \<in> clients_of h u \<Longrightarrow> c_userID c = u"
  unfolding clients_of_def using device_entry(1) by fastforce

lemma clients_unique:
  "clients_ok h \<Longrightarrow> c \<in> clients_of h u \<Longrightarrow> d \<in> clients_of h v \<Longrightarrow> c_id c = c_id d \<Longrightarrow> c = d"
  unfolding clients_ok_def by blast

lemma distinct_ids:
  assumes "clients_ok h"
  shows "distinct (map c_id (map snd (devices h u)))"
proof -
  have dist: "distinct (map fst (devices h u))"
    using assms by (auto simp: clients_ok_def devices_def split: option.splits dest: map_of_SomeD)
  have "inj_on (\<lambda>x. c_id (snd x)) (set (devices h u))"
  proof (rule inj_onI)
    fix x y assume xy: "x \<in> set (devices h u)" "y \<in> set (devices h u)" "c_id (snd x) = c_id (snd y)"
    then have "snd x = snd y" using clients_unique[OF assms, of "snd x" u "snd y" u] by (simp add: clients_of_def)
    moreover have "fst x = c_deviceID (snd x)" "fst y = c_deviceID (snd y)"
      using xy device_entry[OF assms, of "fst x" "snd x" u] device_entry[OF assms, of "fst y" "snd y" u] by auto
    ultimately show "x = y" by (simp add: prod_eq_iff)
  qed
  moreover have "distinct (devices h u)" using dist by (simp add: distinct_map)
  ultimately show ?thesis by (simp add: distinct_map comp_def)
qed

text \<open>Numbered delivery to some of a user's devices.\<close>

lemma ok_numbered:
  assumes ok: "hub_ok h" and sub: "set cs \<subseteq> clients_of h u" and ids: "distinct (map c_id cs)"
  shows "hub_ok (send_all cs t d (fst (nextSeq u h)) (snd (nextSeq u h)))" (is "hub_ok ?h'")
proof (rule hub_okI)
  have fr: "same_frame h ?h'" by (rule same_frame_trans[OF frame_nextSeq frame_send_all])
  show "ice_ok ?h'" "rooms_ok ?h'" "clients_ok ?h'" using frame_ok[OF fr ok] by simp_all
  have "bufs_ok (snd (nextSeq u h))"
    using ok by (simp add: hub_ok_def bufs_ok_def nextSeq_def Let_def)
  then show "bufs_ok ?h'" by (rule bufs_send_all)
  have cl: "clients_of ?h' v = clients_of h v" for v
    by (simp add: clients_of_def devices_frame[OF fr])
  let ?n = "Suc (h_seqCounters h u)"
  have ctr: "h_seqCounters ?h' = (h_seqCounters h)(u := ?n)"
    by (simp add: send_all_counters) (simp add: nextSeq_def Let_def)
  show "seqs_ok ?h'"
    unfolding seqs_ok_def cl ctr
  proof (intro allI impI)
    fix v c cn
    assume c: "c \<in> clients_of h v" "h_conns ?h' (c_id c) = Some cn"
      and small: "int (((h_seqCounters h)(u := ?n)) v) \<le> max_int64"
    obtain cn' where cn': "h_conns h (c_id c) = Some cn'" "cn_send cn = cn_send cn' \<or> c_id c \<in> c_id ` set cs \<and>
        cn_send cn = cn_send cn' @ [\<lparr>pk_Type = t, pk_Data = d, pk_Seq = fst (nextSeq u h)\<rparr>]"
      using send_all_conns[OF ids c(2)] by (auto simp: nextSeq_def Let_def)
    have old: "ascending (int (h_seqCounters h v)) (seqs (cn_send cn'))"
      using ok c(1) cn'(1) small by (auto simp: hub_ok_def seqs_ok_def split: if_splits)
    show "ascending (int (((h_seqCounters h)(u := ?n)) v)) (seqs (cn_send cn))"
    proof (cases "cn_send cn = cn_send cn'")
      case True
      then show ?thesis using old by (auto elim: ascending_mono)
    next
      case False
      then obtain c' where c': "c' \<in> set cs" "c_id c' = c_id c" using cn'(2) by auto
      have "c' \<in> clients_of h u" using c'(1) sub by auto
      then have "c' = c" "c_userID c' = u" using c' c(1) ok clients_unique client_entry
        by (auto simp: hub_ok_def)
      moreover have "c_userID c = v" using c(1) ok client_entry by (auto simp: hub_ok_def)
      ultimately have "v = u" by simp
      then have "fst (nextSeq u h) = int ?n"
        using small by (simp add: nextSeq_def Let_def wrap64_small)
      then show ?thesis
        using False cn'(2) old \<open>v = u\<close> ascending_snoc[of "int (h_seqCounters h u)" "seqs (cn_send cn')" "int ?n"]
        by auto
    qed
  qed
qed

lemma ok_toUser [simp]: "hub_ok h \<Longrightarrow> hub_ok (toUser u t d h)"
  using ok_numbered[of h "map snd (devices h u)" u t d] distinct_ids[of h u]
  by (auto simp: toUser_def sendToUser_def Let_def split_beta clients_of_def hub_ok_def)

lemma ok_sendToUserExcept [simp]:
  assumes "hub_ok h"
  shows "hub_ok (sendToUserExcept u x t d h)"
proof -
  let ?cs = "map snd (filter (\<lambda>(did, _). did \<noteq> x) (devices h u))"
  have "distinct (map c_id (map snd (devices h u)))" using assms distinct_ids by (simp add: hub_ok_def)
  then have "distinct (map c_id ?cs)" by (simp add: distinct_map_filter)
  moreover have "set ?cs \<subseteq> clients_of h u" by (auto simp: clients_of_def)
  ultimately show ?thesis
    using ok_numbered[OF assms, of ?cs u t d] assms by (auto simp: sendToUserExcept_def Let_def split_beta)
qed

lemma ok_send_users [simp]: "hub_ok h \<Longrightarrow> hub_ok (send_users us t d h)"
  by (induction us arbitrary: h) auto

section \<open>The other primitives\<close>

lemma ok_fields:
  "hub_ok (h\<lparr>h_timers := ts\<rparr>) = hub_ok h" "hub_ok (h\<lparr>h_roomHosts := rh\<rparr>) = hub_ok h"
  "hub_ok (h\<lparr>h_done := b\<rparr>) = hub_ok h"
  by (simp_all add: hub_ok_def bufs_ok_def ice_ok_def rooms_ok_def clients_ok_def seqs_ok_def
      clients_of_def devices_def)

lemma ok_timer_ops [simp]: "hub_ok (go t h) = hub_ok h"
  "hub_ok (snd (cancelGracePeriod u h)) = hub_ok h"
  "hub_ok (snd (cancelRoomGracePeriod u h)) = hub_ok h"
  "hub_ok (setRoomHost r u h) = hub_ok h" "hub_ok (clearRoomHost r h) = hub_ok h"
  by (simp_all add: go_def cancelGracePeriod_def cancelRoomGracePeriod_def setRoomHost_def
      clearRoomHost_def ok_fields)

lemma ok_iceBuf:
  assumes "hub_ok h" "ice_ok (h\<lparr>h_iceBuf := ib\<rparr>)"
  shows "hub_ok (h\<lparr>h_iceBuf := ib\<rparr>)"
  using assms by (simp add: hub_ok_def bufs_ok_def rooms_ok_def clients_ok_def seqs_ok_def
      clients_of_def devices_def)

lemma ok_bufferICECandidate [simp]: "hub_ok h \<Longrightarrow> hub_ok (bufferICECandidate c m h)"
  unfolding bufferICECandidate_def Let_def
  by (rule ok_iceBuf) (auto simp: hub_ok_def ice_ok_def)

lemma ok_clearICEBuffer [simp]: "hub_ok h \<Longrightarrow> hub_ok (clearICEBuffer c h)"
  unfolding clearICEBuffer_def by (rule ok_iceBuf) (auto simp: hub_ok_def ice_ok_def)

lemma ok_flushICEBuffer [simp]: "hub_ok h \<Longrightarrow> hub_ok (flushICEBuffer i c h)"
  unfolding flushICEBuffer_def Let_def
  by (intro ok_send_candidates ok_iceBuf) (auto simp: hub_ok_def ice_ok_def)

lemma ok_rooms:
  assumes "hub_ok h" "rooms_ok (h\<lparr>h_rooms := rs\<rparr>)"
  shows "hub_ok (h\<lparr>h_rooms := rs\<rparr>)"
  using assms by (simp add: hub_ok_def bufs_ok_def ice_ok_def clients_ok_def seqs_ok_def
      clients_of_def devices_def)

lemma rooms_ok_aput: "rooms_ok h \<Longrightarrow> distinct ms \<Longrightarrow> rooms_ok (h\<lparr>h_rooms := aput r ms (h_rooms h)\<rparr>)"
  by (auto simp: rooms_ok_def aput_distinct dest: aput_set)

lemma rooms_ok_members: "rooms_ok h \<Longrightarrow> distinct (members h r)"
  by (auto simp: rooms_ok_def members_def split: option.splits dest: map_of_SomeD)

lemma ok_addToRoom [simp]: "hub_ok h \<Longrightarrow> hub_ok (addToRoom r u h)"
  unfolding addToRoom_def
  by (intro ok_rooms rooms_ok_aput) (auto simp: hub_ok_def rooms_ok_members)

lemma ok_removeFromRoom [simp]:
  assumes "hub_ok h"
  shows "hub_ok (removeFromRoom r u h)"
proof (cases "map_of (h_rooms h) r")
  case (Some ms)
  then have "distinct ms" using assms rooms_ok_members[of h r] by (simp add: hub_ok_def members_def)
  moreover have "rooms_ok h" using assms by (simp add: hub_ok_def)
  ultimately show ?thesis using assms Some
    by (simp add: removeFromRoom_def ok_rooms rooms_ok_aput)
qed (simp add: removeFromRoom_def assms)

lemma ok_deleteRoom [simp]: "hub_ok h \<Longrightarrow> hub_ok (deleteRoom r h)"
  unfolding deleteRoom_def
  by (rule ok_rooms) (auto simp: hub_ok_def rooms_ok_def adel_distinct adel_set)

lemma ok_drop_user [simp]: "hub_ok h \<Longrightarrow> hub_ok (snd (drop_user rs u h))"
  by (induction rs u h rule: drop_user.induct) (auto simp: Let_def split_beta)

lemma ok_broadcast [simp]: "hub_ok h \<Longrightarrow> hub_ok (fst (broadcastToRoom E r x t d h w))"
  by (simp add: broadcastToRoom_def split_beta)

lemma ok_leave_rooms [simp]: "hub_ok h \<Longrightarrow> hub_ok (fst (leave_rooms E rs u h w))"
  by (induction E rs u h w rule: leave_rooms.induct) (auto simp: Let_def split_beta)

lemma ok_removeFromAllRooms [simp]: "hub_ok h \<Longrightarrow> hub_ok (fst (removeFromAllRooms E u h w))"
  by (simp add: removeFromAllRooms_def Let_def split_beta)

lemma ok_startRoomGracePeriod [simp]:
  "hub_ok h \<Longrightarrow> hub_ok (fst (snd (startRoomGracePeriod E u h w)))"
  by (simp add: startRoomGracePeriod_def Let_def split_beta)

section \<open>Connections\<close>

text \<open>Changing the queue of one connection to a part of it, or its closed flag.\<close>

lemma ok_conn:
  assumes "hub_ok h" "h_conns h i = Some cn" "length (cn_send cn') \<le> length (cn_send cn)"
    and "\<And>m. ascending m (seqs (cn_send cn)) \<Longrightarrow> ascending m (seqs (cn_send cn'))"
  shows "hub_ok (h\<lparr>h_conns := (h_conns h)(i \<mapsto> cn')\<rparr>)" (is "hub_ok ?h'")
proof (rule hub_okI)
  have dev: "devices ?h' = devices h" "clients_of ?h' = clients_of h"
    by (simp_all add: devices_def clients_of_def fun_eq_iff)
  show "bufs_ok ?h'" using assms(1-3) by (fastforce simp: hub_ok_def bufs_ok_def)
  show "ice_ok ?h'" "rooms_ok ?h'" using assms(1) by (simp_all add: hub_ok_def ice_ok_def rooms_ok_def)
  show "clients_ok ?h'" using assms(1) by (simp add: hub_ok_def clients_ok_def dev)
  show "seqs_ok ?h'" using assms unfolding hub_ok_def seqs_ok_def dev by auto
qed

lemma ok_Client_Close [simp]: "hub_ok h \<Longrightarrow> hub_ok (Client_Close c h)"
  by (auto simp: Client_Close_def intro!: ok_conn split: option.splits)

lemma ok_WritePump [simp]: "hub_ok h \<Longrightarrow> hub_ok (snd (WritePump_take c h))"
  by (auto simp: WritePump_take_def intro!: ok_conn split: option.splits list.splits if_splits dest: ascending_tl)

lemma ok_close_all [simp]: "hub_ok h \<Longrightarrow> hub_ok (close_all cs h)"
  by (induction cs arbitrary: h) auto

lemma ok_no_clients [simp]: "hub_ok h \<Longrightarrow> hub_ok (h\<lparr>h_clients := []\<rparr>)"
  by (simp add: hub_ok_def bufs_ok_def ice_ok_def rooms_ok_def clients_ok_def seqs_ok_def
      clients_of_def devices_def)

lemma ok_Stop: "hub_ok h \<Longrightarrow> hub_ok (Hub_Stop h)"
  by (simp add: Hub_Stop_def Let_def ok_fields)

text \<open>A table of devices whose entries are old ones, or the new client with an empty queue.\<close>

lemma ok_clients:
  assumes ok: "hub_ok h" and dist: "distinct (map fst cl)"
    and ne: "\<forall>(u, ds) \<in> set cl. ds \<noteq> [] \<and> distinct (map fst ds)"
    and old: "\<And>u d c. (d, c) \<in> set (devices (h\<lparr>h_clients := cl\<rparr>) u) \<Longrightarrow>
       (d, c) \<in> set (devices h u) \<or> c = n \<and> u = c_userID n \<and> d = c_deviceID n"
    and new: "\<And>cn. h_conns h (c_id n) = Some cn \<Longrightarrow> seqs (cn_send cn) = []"
      "h_conns h (c_id n) \<noteq> None" "\<And>u c. c \<in> clients_of h u \<Longrightarrow> c_id c = c_id n \<Longrightarrow> c = n"
  shows "hub_ok (h\<lparr>h_clients := cl\<rparr>)" (is "hub_ok ?h'")
proof (rule hub_okI)
  show "bufs_ok ?h'" "ice_ok ?h'" "rooms_ok ?h'" using ok by (simp_all add: hub_ok_def bufs_ok_def ice_ok_def rooms_ok_def)
  have c: "c \<in> clients_of h u \<or> c = n \<and> u = c_userID n" if "c \<in> clients_of ?h' u" for c u
    using that old by (fastforce simp: clients_of_def)
  have cok: "clients_ok h" "seqs_ok h" using ok by (simp_all add: hub_ok_def)
  show "clients_ok ?h'"
    unfolding clients_ok_def
  proof (intro conjI allI impI)
    show "distinct (map fst (h_clients ?h'))" "\<forall>(u, ds)\<in>set (h_clients ?h'). ds \<noteq> [] \<and> distinct (map fst ds)"
      using dist ne by simp_all
  next
    fix u d e assume "(d, e) \<in> set (devices ?h' u)"
    from old[OF this] show "c_userID e = u" "c_deviceID e = d" "h_conns ?h' (c_id e) \<noteq> None"
      using device_entry[OF cok(1)] new(2) by auto
  next
    fix u v e f assume "e \<in> clients_of ?h' u" "f \<in> clients_of ?h' v" "c_id e = c_id f"
    then show "e = f" using c[of e u] c[of f v] new(3) clients_unique[OF cok(1)] by metis
  qed
  show "seqs_ok ?h'"
    unfolding seqs_ok_def
  proof (intro allI impI)
    fix u e cn assume e: "e \<in> clients_of ?h' u" "h_conns ?h' (c_id e) = Some cn"
      "int (h_seqCounters ?h' u) \<le> max_int64"
    from c[OF e(1)] show "ascending (int (h_seqCounters ?h' u)) (seqs (cn_send cn))"
      using e cok(2) new(1) by (auto simp: seqs_ok_def)
  qed
qed

lemma devices_aput:
  "devices (h\<lparr>h_clients := aput u ds (h_clients h)\<rparr>) v = (if v = u then ds else devices h v)"
  by (simp add: devices_def)

lemma devices_adel:
  "devices (h\<lparr>h_clients := adel u (h_clients h)\<rparr>) v = (if v = u then [] else devices h v)"
  by (simp add: devices_def)

lemma client_table:
  assumes "clients_ok h"
  shows "distinct (map fst (h_clients h))" "(u, ds) \<in> set (h_clients h) \<Longrightarrow> ds \<noteq> [] \<and> distinct (map fst ds)"
    "distinct (map fst (devices h u))"
  using assms by (auto simp: clients_ok_def devices_def split: option.splits dest: map_of_SomeD)

lemma Client_Close_frame:
  "h_clients (Client_Close c h) = h_clients h"
  "h_conns (Client_Close c h) i = None \<longleftrightarrow> h_conns h i = None"
  "h_conns (Client_Close c h) i = Some cn \<Longrightarrow> \<exists>cn'. h_conns h i = Some cn' \<and> cn_send cn = cn_send cn'"
  by (auto simp: Client_Close_def split: option.splits if_splits)

lemma ok_register:
  assumes ok: "hub_ok h" and new: "h_conns h (c_id c) = Some cn" "cn_send cn = []"
    and fresh: "\<And>u e. e \<in> clients_of h u \<Longrightarrow> c_id e \<noteq> c_id c"
  shows "hub_ok (h\<lparr>h_clients := aput (c_userID c) (aput (c_deviceID c) c (devices h (c_userID c))) (h_clients h)\<rparr>)"
proof (rule ok_clients[OF ok, where n = c])
  have cok: "clients_ok h" using ok by (simp add: hub_ok_def)
  let ?ds = "aput (c_deviceID c) c (devices h (c_userID c))"
  show "distinct (map fst (aput (c_userID c) ?ds (h_clients h)))"
    using client_table(1)[OF cok] by (rule aput_distinct)
  have ds: "?ds \<noteq> [] \<and> distinct (map fst ?ds)"
    using aput_distinct[OF client_table(3)[OF cok]] by (metis aput_keys image_is_empty insert_not_empty set_empty)
  show "\<forall>(u, ds)\<in>set (aput (c_userID c) ?ds (h_clients h)). ds \<noteq> [] \<and> distinct (map fst ds)"
    using ds client_table(2)[OF cok] by (fastforce dest: aput_set)
  show "(d, e) \<in> set (devices h u) \<or> e = c \<and> u = c_userID c \<and> d = c_deviceID c"
    if "(d, e) \<in> set (devices (h\<lparr>h_clients := aput (c_userID c) ?ds (h_clients h)\<rparr>) u)" for u d e
    using that by (auto simp: devices_aput split: if_splits dest: aput_set)
  show "h_conns h (c_id c) \<noteq> None" "\<And>cn. h_conns h (c_id c) = Some cn \<Longrightarrow> seqs (cn_send cn) = []"
    using new by simp_all
  show "e = c" if "e \<in> clients_of h u" "c_id e = c_id c" for u e
    using fresh[OF that(1)] that(2) by simp
qed

lemma ok_drop_device [simp]:
  assumes ok: "hub_ok h"
  shows "hub_ok (drop_device c h)"
proof (cases "map_of (h_clients h) (c_userID c)")
  case (Some ds)
  have cok: "clients_ok h" using ok by (simp add: hub_ok_def)
  have dev: "devices h (c_userID c) = ds" using Some by (simp add: devices_def)
  show ?thesis
  proof (cases "map_of ds (c_deviceID c) = Some c")
    case True
    define ds' where "ds' = adel (c_deviceID c) ds"
    define cl where "cl = (if ds' = [] then adel (c_userID c) (h_clients h) else aput (c_userID c) ds' (h_clients h))"
    have dsd: "distinct (map fst ds')"
      using client_table(3)[OF cok, of "c_userID c"] by (simp add: ds'_def dev adel_distinct)
    have c: "c \<in> clients_of h (c_userID c)"
      using True by (force simp: clients_of_def dev dest: map_of_SomeD)
    have "hub_ok (h\<lparr>h_clients := cl\<rparr>)"
    proof -
      have sub: "(d, e) \<in> set (devices h u)" if "(d, e) \<in> set (devices (h\<lparr>h_clients := cl\<rparr>) u)" for u d e
        using that by (auto simp: cl_def ds'_def devices_aput devices_adel adel_set dev split: if_splits)
      then have cl_sub: "clients_of (h\<lparr>h_clients := cl\<rparr>) u \<subseteq> clients_of h u" for u
        by (auto simp: clients_of_def)
      have "distinct (map fst cl)"
        using client_table(1)[OF cok] by (simp add: cl_def adel_distinct aput_distinct)
      moreover have "\<forall>(u, ds)\<in>set cl. ds \<noteq> [] \<and> distinct (map fst ds)"
        using client_table(2)[OF cok] dsd by (auto simp: cl_def adel_set dest: aput_set)
      moreover have "c_userID e = u \<and> c_deviceID e = d \<and> h_conns h (c_id e) \<noteq> None"
        if "(d, e) \<in> set (devices (h\<lparr>h_clients := cl\<rparr>) u)" for u d e
        using device_entry[OF cok sub[OF that]] by simp
      moreover have "e = f" if "e \<in> clients_of (h\<lparr>h_clients := cl\<rparr>) u"
        "f \<in> clients_of (h\<lparr>h_clients := cl\<rparr>) v" "c_id e = c_id f" for u v e f
        using clients_unique[OF cok] cl_sub that by blast
      ultimately have "clients_ok (h\<lparr>h_clients := cl\<rparr>)"
        unfolding clients_ok_def by simp
      moreover have "seqs_ok (h\<lparr>h_clients := cl\<rparr>)"
        unfolding seqs_ok_def
      proof (intro allI impI)
        fix u e cn assume e: "e \<in> clients_of (h\<lparr>h_clients := cl\<rparr>) u"
          "h_conns (h\<lparr>h_clients := cl\<rparr>) (c_id e) = Some cn"
          "int (h_seqCounters (h\<lparr>h_clients := cl\<rparr>) u) \<le> max_int64"
        then show "ascending (int (h_seqCounters (h\<lparr>h_clients := cl\<rparr>) u)) (seqs (cn_send cn))"
          using ok subsetD[OF cl_sub e(1)] by (simp add: hub_ok_def seqs_ok_def)
      qed
      ultimately show ?thesis using ok by (simp add: hub_ok_def bufs_ok_def ice_ok_def rooms_ok_def)
    qed
    then show ?thesis using True Some unfolding cl_def ds'_def by (simp add: drop_device_def Let_def split: if_splits)
  qed (simp add: drop_device_def Some ok)
qed (simp add: drop_device_def ok)

section \<open>Handlers\<close>

lemma ok_sendStateSync [simp]: "hub_ok h \<Longrightarrow> hub_ok (fst (sendStateSync E c h w))"
  by (simp add: sendStateSync_def Let_def split_beta split: sum.splits)

lemma ok_startGracePeriod [simp]: "hub_ok h \<Longrightarrow> hub_ok (fst (snd (startGracePeriod E u h w)))"
  by (simp add: startGracePeriod_def Let_def split_beta split: sum.splits)

lemma ok_resolveGlare [simp]: "hub_ok h \<Longrightarrow> hub_ok (fst (resolveGlare E c g m h w))"
  by (simp add: resolveGlare_def Let_def split_beta split: sum.splits)

lemma ok_call_handlers [simp]:
  "hub_ok h \<Longrightarrow> hub_ok (fst (handleCallInitiate E c d h w))"
  "hub_ok h \<Longrightarrow> hub_ok (fst (handleCallAccept E c d h w))"
  "hub_ok h \<Longrightarrow> hub_ok (fst (handleCallReject E c d h w))"
  "hub_ok h \<Longrightarrow> hub_ok (fst (handleCallEnd E c d h w))"
  "hub_ok h \<Longrightarrow> hub_ok (fst (handleCallCancel E c d h w))"
  "hub_ok h \<Longrightarrow> hub_ok (fst (handleICECandidate E c d h w))"
  "hub_ok h \<Longrightarrow> hub_ok (fst (handleQualityMetrics E c d h w))"
  "hub_ok h \<Longrightarrow> hub_ok (fst (handleReconnect E c d h w))"
  by (simp_all add: handleCallInitiate_def handleCallAccept_def handleCallReject_def handleCallEnd_def
      handleCallCancel_def handleICECandidate_def handleQualityMetrics_def handleReconnect_def
      Let_def split_beta split: sum.splits option.splits)

lemma ok_timeouts [simp]:
  "hub_ok h \<Longrightarrow> hub_ok (fst (ringTimeout E i h w))"
  "hub_ok h \<Longrightarrow> hub_ok (fst (iceTimeout E i h w))"
  "hub_ok h \<Longrightarrow> hub_ok (fst (reconnectGraceTimeout E u i p h w))"
  "hub_ok h \<Longrightarrow> hub_ok (fst (roomGraceTimeout E u h w))"
  by (simp_all add: ringTimeout_def iceTimeout_def endBoth_def reconnectGraceTimeout_def
      roomGraceTimeout_def Let_def split_beta split: sum.splits)

lemma ok_room_handlers [simp]:
  "hub_ok h \<Longrightarrow> hub_ok (fst (handleRoomCreate E c d h w))"
  "hub_ok h \<Longrightarrow> hub_ok (fst (handleRoomInvite E c d h w))"
  "hub_ok h \<Longrightarrow> hub_ok (fst (handleRoomJoin E c d h w))"
  "hub_ok h \<Longrightarrow> hub_ok (fst (handleRoomEndAll E c d h w))"
  "hub_ok h \<Longrightarrow> hub_ok (fst (handleMediaChange E c d h w))"
  by (simp_all add: handleRoomCreate_def handleRoomInvite_def handleRoomJoin_def
      handleRoomEndAll_def handleMediaChange_def no_groups_def Let_def split_beta
      split: sum.splits option.splits)

lemma ok_handleRoomLeave [simp]: "hub_ok h \<Longrightarrow> hub_ok (fst (handleRoomLeave E c d h w))"
  by (simp add: handleRoomLeave_def no_groups_def Let_def split_beta split: sum.splits option.splits)

lemma ok_handleMessage: "hub_ok h \<Longrightarrow> hub_ok (fst (handleMessage E c p h w))"
  unfolding handleMessage_def by (simp add: Let_def split_beta split: sum.splits)

lemma ok_fire: "hub_ok h \<Longrightarrow> hub_ok (fst (fire E t h w))"
  by (simp add: fire_def Let_def ok_fields split: timer.splits)

lemma ok_unregister: "hub_ok h \<Longrightarrow> hub_ok (fst (ReadPump_exit E c h w))"
  by (simp add: ReadPump_exit_def Run_unregister_def Let_def split_beta)

lemma ok_recover_members [simp]: "hub_ok h \<Longrightarrow> hub_ok (recover_members r ps h)"
  by (induction ps arbitrary: h) auto

lemma ok_recover_rooms [simp]: "hub_ok h \<Longrightarrow> hub_ok (fst (recover_rooms E orc ss h w))"
  by (induction E orc ss h w rule: recover_rooms.induct) (auto simp: Let_def)

lemma ok_RecoverSessions: "RecoverSessions E h w = Some s \<Longrightarrow> hub_ok h \<Longrightarrow> hub_ok (fst s)"
  by (auto simp: RecoverSessions_def Let_def split: option.splits prod.splits sum.splits)

lemma ok_connect:
  assumes ok: "hub_ok h" and i: "h_conns h i = None" and c: "NewClient i u d h = (c, h1)"
  shows "hub_ok (fst (Run_register E c h1 w))"
proof -
  have cid: "c_id c = i" using c by (auto simp: NewClient_def)
  have h1: "h1 = h\<lparr>h_conns := (h_conns h)(i \<mapsto> \<lparr>cn_closed = False, cn_send = []\<rparr>)\<rparr>"
    using c by (simp add: NewClient_def)
  have cok: "clients_ok h" using ok by (simp add: hub_ok_def)
  have fresh: "c_id e \<noteq> i" if e: "e \<in> clients_of h u" for u e
  proof -
    obtain d where "(d, e) \<in> set (devices h u)" using e by (force simp: clients_of_def)
    then show ?thesis using device_entry(3)[OF cok] i by metis
  qed
  have dev: "devices h1 = devices h" "clients_of h1 = clients_of h"
    by (simp_all add: h1 devices_def clients_of_def fun_eq_iff)
  have ok1: "hub_ok h1"
  proof (rule hub_okI)
    show "bufs_ok h1" using ok by (simp add: hub_ok_def bufs_ok_def h1)
    show "ice_ok h1" "rooms_ok h1" using ok by (simp_all add: hub_ok_def ice_ok_def rooms_ok_def h1)
    show "clients_ok h1" using cok by (simp add: clients_ok_def dev) (simp add: h1)
    have "h_conns h1 (c_id e) = h_conns h (c_id e)" if "e \<in> clients_of h v" for v e
      using fresh[OF that] by (simp add: h1)
    moreover have "h_seqCounters h1 = h_seqCounters h" by (simp add: h1)
    ultimately show "seqs_ok h1" using ok by (simp add: hub_ok_def seqs_ok_def dev)
  qed
  define h2 where "h2 = (case map_of (devices h1 (c_userID c)) (c_deviceID c) of
      None \<Rightarrow> h1 | Some old \<Rightarrow> Client_Close old h1)"
  have ok2: "hub_ok h2" using ok1 by (simp add: h2_def split: option.splits)
  have dev2: "devices h2 = devices h" "clients_of h2 = clients_of h"
    by (simp_all add: h2_def clients_of_def devices_def Client_Close_frame(1) fun_eq_iff h1 split: option.splits)
  have "\<exists>cn. h_conns h2 i = Some cn \<and> cn_send cn = []"
  proof -
    have "h_conns h1 i \<noteq> None" by (simp add: h1)
    then have "h_conns h2 i \<noteq> None"
      by (simp del: not_None_eq add: h2_def Client_Close_frame(2) split: option.splits)
    then obtain cn where "h_conns h2 i = Some cn" by blast
    moreover from this have "cn_send cn = []"
      by (auto simp: h2_def h1 split: option.splits dest!: Client_Close_frame(3))
    ultimately show ?thesis by blast
  qed
  then have "hub_ok (h2\<lparr>h_clients := aput (c_userID c) (aput (c_deviceID c) c (devices h2 (c_userID c))) (h_clients h2)\<rparr>)"
    using ok_register[OF ok2, of c] fresh cid dev2(2) by auto
  then show ?thesis
    unfolding Run_register_def Let_def h2_def[symmetric] dev2(1)[folded dev(1)] by simp
qed

lemma ok_step: "hub_step E s t \<Longrightarrow> hub_ok (fst s) \<Longrightarrow> hub_ok (fst t)"
  by (induction rule: hub_step.induct)
    (auto simp: ok_handleMessage ok_fire ok_unregister ok_Stop ok_connect intro: ok_RecoverSessions)

lemma ok_run: "hub_run E s t \<Longrightarrow> hub_ok (fst s) \<Longrightarrow> hub_ok (fst t)"
  by (induction rule: hub_run.induct) (auto dest: ok_step)

lemma ok_NewHub: "hub_ok (NewHub bus r i orc)"
  by (simp add: NewHub_def hub_ok_def bufs_ok_def ice_ok_def rooms_ok_def clients_ok_def seqs_ok_def
      clients_of_def devices_def)

end
