(* ===== verification/Hub_Registry.thy ===== *)
theory Hub_Registry
  imports Hub_Invariant Call_Registry
begin

text \<open>
  The 1:1 half of the hub against the call registry: what every handler, timer and disconnect does
  to Redis keeps the registry invariant, under every fault of the connection, so the hub never
  puts a user into two live calls; and the outcome of each handler in a fault-free world.
\<close>

section \<open>The registry is kept\<close>

text \<open>The identifier drawn in a world names no stored session.\<close>

definition fresh_draw :: "('w, 'z) env_scheme \<Rightarrow> ('w \<Rightarrow> keyspace) \<Rightarrow> 'w \<Rightarrow> bool" where
  "fresh_draw E view w \<longleftrightarrow> view w (sessionKey (fst (uuid_new E w))) = None"

text \<open>The (at most two) identifiers that starting a call draws: for the call itself, and for the
  call that wins a glare.\<close>

definition initiate_fresh ::
  "('w, 'z) env_scheme \<Rightarrow> ('w \<Rightarrow> keyspace) \<Rightarrow> Client \<Rightarrow> CallInitiateMsg \<Rightarrow> 'w \<Rightarrow> bool" where
  "initiate_fresh E view caller msg w \<longleftrightarrow> fresh_draw E view w \<and>
    (let (callID, w1) = uuid_new E w;
         (now, w2) = time_now E w1;
         w3 = snd (SessionStore_Create E (ringing callID (c_userID caller) msg now) w2);
         (g, w4) = SessionStore_FindGlareCall E (c_userID caller) (ini_CalleeID msg) w3
     in case g of
          Inr (Some gs) \<Rightarrow> fresh_draw E view (snd (SessionStore_End E (cs_CallID gs) ''glare'' w4))
        | _ \<Rightarrow> True)"

definition message_fresh ::
  "('w, 'z) env_scheme \<Rightarrow> ('w \<Rightarrow> keyspace) \<Rightarrow> Client \<Rightarrow> json option \<Rightarrow> 'w \<Rightarrow> bool" where
  "message_fresh E view client payload w \<longleftrightarrow>
    (case payload of None \<Rightarrow> True | Some j \<Rightarrow>
    (case unmarshal_SigEnvelope j of Inl _ \<Rightarrow> True | Inr env \<Rightarrow>
    (case unmarshal_raw dec_CallInitiateMsg (e_Data env) of Inl _ \<Rightarrow> True | Inr msg \<Rightarrow>
       initiate_fresh E view client msg
         (if e_MsgID env \<noteq> [] then snd (SessionStore_CheckMsgDedup E (e_MsgID env) w) else w))))"

lemma call_at_other: "k \<notin> range sessionKey \<Longrightarrow> call_at (db(k := e)) = call_at db"
  by (rule ext) (auto simp: call_at_def)

lemma run_inv_other:
  assumes "k \<notin> range sessionKey" "k \<notin> range userActiveCallKey"
  shows "run_inv (db(k := e)) = run_inv db"
proof -
  have s: "sessionKey c \<noteq> k" "userActiveCallKey u \<noteq> k" for c u using assms by auto
  have "only_calls (db(k := e)) = only_calls db"
    using assms(1) s by (simp add: only_calls_def call_at_other)
  moreover have "marker (db(k := e)) = marker db" using s by (auto simp: marker_def)
  ultimately show ?thesis using assms(1) by (simp add: run_inv_def call_owned_def call_at_other)
qed

text \<open>The world a glare resolution leaves.\<close>

lemma resolveGlare_world:
  "snd (resolveGlare E c gs msg h w) =
    (if str_gt (c_userID c) (ini_CalleeID msg) then w
     else let w1 = snd (SessionStore_End E (cs_CallID gs) ''glare'' w)
          in snd (SessionStore_Create E (ringing (fst (uuid_new E w1)) (c_userID c) msg
               (fst (time_now E (snd (uuid_new E w1))))) (snd (time_now E (snd (uuid_new E w1))))))"
  by (simp add: resolveGlare_def Let_def split_beta split: sum.splits)

context services
begin

lemma dedup_inv: "run_inv (view w) \<Longrightarrow> run_inv (view (snd (SessionStore_CheckMsgDedup E m w)))"
proof -
  have "(''msgdedup:'' @ m) \<notin> range sessionKey" "(''msgdedup:'' @ m) \<notin> range userActiveCallKey"
    by (auto simp: sessionKey_def userActiveCallKey_def)
  then show "run_inv (view w) \<Longrightarrow> run_inv (view (snd (SessionStore_CheckMsgDedup E m w)))"
    by (simp add: SessionStore_CheckMsgDedup_def Let_def split_beta svc_simps run_inv_other split: sum.splits)
qed

lemma End_inv: "run_inv (view w) \<Longrightarrow> run_inv (view (snd (SessionStore_End E c r w)))"
  by (rule store_step_inv[OF store_step.finish])

lemma Create_inv:
  "view w (sessionKey (cs_CallID s)) = None \<Longrightarrow> run_inv (view w) \<Longrightarrow> run_inv (view (snd (SessionStore_Create E s w)))"
  by (rule store_step_inv[OF store_step.create])

lemma Transition_inv:
  "tgt \<in> {StateConnecting, StateActive, StateReconnecting} \<Longrightarrow> keeps_parties f \<Longrightarrow>
   (\<And>x v. view (snd (f x v)) = view v) \<Longrightarrow> run_inv (view w) \<Longrightarrow>
   run_inv (view (snd (SessionStore_TransitionState E c tgt f w)))"
  by (rule store_step_inv[OF store_step.transition])

lemma accept_mutate_laws [simp]: "keeps_parties (accept_mutate E a)"
  "view (snd (accept_mutate E a s w)) = view w"
  by (simp_all add: keeps_parties_def accept_mutate_def Let_def split_beta svc_simps)

lemma no_mutate_view [simp]: "view (snd (no_mutate s w)) = view w"
  by (simp add: no_mutate_def)

lemma hub_publish_view [svc_simps]: "view (hub_publish E h subj ev w) = view w"
  by (simp add: hub_publish_def svc_simps split: option.splits)

lemma GetUserActiveCall_view [svc_simps]: "view (snd (SessionStore_GetUserActiveCall E u w)) = view w"
  by (simp add: SessionStore_GetUserActiveCall_def Let_def split_beta svc_simps split: sum.splits)

lemma FindGlareCall_view [svc_simps]: "view (snd (SessionStore_FindGlareCall E u v w)) = view w"
  by (simp add: SessionStore_FindGlareCall_def Let_def split_beta svc_simps split: sum.splits)

lemma getClient_view [svc_simps]: "view (snd (getClient E u h w)) = view w"
  by (simp add: getClient_def Let_def split_beta svc_simps split: list.splits)

lemma broadcast_view [svc_simps]: "view (snd (broadcastToRoom E r x t d h w)) = view w"
  by (simp add: broadcastToRoom_def getRoomMembers_def Let_def split_beta svc_simps)

lemma getUserRooms_view [svc_simps]: "view (snd (getUserRooms E u h w)) = view w"
  by (simp add: getUserRooms_def Let_def split_beta svc_simps)

text \<open>Without an orchestrator the hub does not write group sessions.\<close>

lemma leave_rooms_view:
  "h_orchestrator h = None \<Longrightarrow> view (snd (leave_rooms E rs u h w)) = view w"
proof (induction rs arbitrary: h w)
  case (Cons r rs)
  have "h_orchestrator (fst (broadcastToRoom E r [] t d h w)) = None" for t d w
    using Cons.prems by (simp add: broadcastToRoom_def split_beta)
  then show ?case using Cons by (simp add: Let_def split_beta svc_simps)
qed simp

lemma drop_user_orch [simp]: "h_orchestrator (snd (drop_user rs u h)) = h_orchestrator h"
proof (induction rs u h rule: drop_user.induct)
  case (2 r rs u h)
  have "h_orchestrator (removeFromRoom r u h) = h_orchestrator h"
    by (simp add: removeFromRoom_def split: option.splits)
  then show ?case using 2 by (auto simp: Let_def split_beta clearRoomHost_def deleteRoom_def)
qed simp

lemma removeFromAllRooms_view:
  "h_orchestrator h = None \<Longrightarrow> view (snd (removeFromAllRooms E u h w)) = view w"
  by (simp add: removeFromAllRooms_def Let_def split_beta leave_rooms_view svc_simps)

lemma initiate_inv:
  assumes inv: "run_inv (view w)" and f: "\<And>msg. unmarshal_raw dec_CallInitiateMsg d = Inr msg \<Longrightarrow> initiate_fresh E view c msg w"
  shows "run_inv (view (snd (handleCallInitiate E c d h w)))"
proof (cases "unmarshal_raw dec_CallInitiateMsg d")
  case (Inr msg)
  define w2 where "w2 = snd (time_now E (snd (uuid_new E w)))"
  define s where "s = ringing (fst (uuid_new E w)) (c_userID c) msg (fst (time_now E (snd (uuid_new E w))))"
  define w3 where "w3 = snd (SessionStore_Create E s w2)"
  have v2: "view w2 = view w" by (simp add: w2_def svc_simps)
  have id: "cs_CallID s = fst (uuid_new E w)" by (simp add: s_def ringing_def)
  have fr: "fresh_draw E view w" using f[OF Inr] by (simp add: initiate_fresh_def)
  have i3: "run_inv (view w3)"
    unfolding w3_def using fr inv by (intro Create_inv) (simp_all add: id v2 fresh_draw_def)
  define g where "g = SessionStore_FindGlareCall E (c_userID c) (ini_CalleeID msg) w3"
  have glare: "run_inv (view (snd (resolveGlare E c gs msg h (snd g))))" if gs: "fst g = Inr (Some gs)" for gs
  proof -
    define w5 where "w5 = snd (SessionStore_End E (cs_CallID gs) ''glare'' (snd g))"
    have i5: "run_inv (view w5)" unfolding w5_def using i3 by (intro End_inv) (simp add: g_def svc_simps)
    have fr5: "fresh_draw E view w5"
      using f[OF Inr] gs unfolding initiate_fresh_def w5_def g_def w3_def s_def w2_def
      by (simp add: Let_def split_beta)
    define s' where "s' = ringing (fst (uuid_new E w5)) (c_userID c) msg (fst (time_now E (snd (uuid_new E w5))))"
    have "run_inv (view (snd (SessionStore_Create E s' (snd (time_now E (snd (uuid_new E w5)))))))"
      using i5 fr5 by (intro Create_inv) (simp_all add: s'_def ringing_def fresh_draw_def svc_simps)
    then have "run_inv (view (snd (SessionStore_Create E s' (snd (time_now E (snd (uuid_new E w5)))))))"
      by simp
    moreover have "view (snd g) = view w3" by (simp add: g_def svc_simps)
    ultimately show ?thesis
      using i3 unfolding resolveGlare_world by (simp add: Let_def w5_def s'_def)
  qed
  show ?thesis
    using inv i3 glare Inr
    by (simp add: handleCallInitiate_def Let_def split_beta svc_simps s_def[symmetric] w2_def[symmetric]
        w3_def[symmetric] g_def[symmetric] split: sum.splits option.splits)
      (simp add: g_def svc_simps)
qed (simp add: handleCallInitiate_def inv)

lemma accept_inv: "run_inv (view w) \<Longrightarrow> run_inv (view (snd (handleCallAccept E c d h w)))"
  by (simp add: handleCallAccept_def Let_def split_beta svc_simps Transition_inv split: sum.splits)

lemma other_handlers_inv:
  "run_inv (view w) \<Longrightarrow> run_inv (view (snd (handleCallReject E c d h w)))"
  "run_inv (view w) \<Longrightarrow> run_inv (view (snd (handleCallEnd E c d h w)))"
  "run_inv (view w) \<Longrightarrow> run_inv (view (snd (handleCallCancel E c d h w)))"
  "run_inv (view w) \<Longrightarrow> run_inv (view (snd (handleReconnect E c d h w)))"
  by (simp_all add: handleCallReject_def handleCallEnd_def handleCallCancel_def handleReconnect_def
      Let_def split_beta svc_simps End_inv Transition_inv split: sum.splits)

lemma reading_handlers:
  "view (snd (handleICECandidate E c d h w)) = view w"
  "view (snd (handleQualityMetrics E c d h w)) = view w"
  "view (snd (sendStateSync E c h w)) = view w"
  by (simp_all add: handleICECandidate_def handleQualityMetrics_def sendStateSync_def Let_def
      split_beta svc_simps split: sum.splits option.splits)

text \<open>Every other message is refused when there is no orchestrator.\<close>

lemma room_handlers_view:
  assumes "h_orchestrator h = None"
  shows "view (snd (handleRoomCreate E c d h w)) = view w" "view (snd (handleRoomInvite E c d h w)) = view w"
    "view (snd (handleRoomJoin E c d h w)) = view w" "view (snd (handleRoomLeave E c d h w)) = view w"
    "view (snd (handleRoomEndAll E c d h w)) = view w" "view (snd (handleMediaChange E c d h w)) = view w"
  using assms by (simp_all add: handleRoomCreate_def handleRoomInvite_def handleRoomJoin_def
      handleRoomLeave_def handleRoomEndAll_def handleMediaChange_def)

lemma message_inv:
  assumes "h_orchestrator h = None" "message_fresh E view c p w" "run_inv (view w)"
  shows "run_inv (view (snd (handleMessage E c p h w)))"
proof (cases "case p of None \<Rightarrow> Inl json_err | Some j \<Rightarrow> unmarshal_SigEnvelope j")
  case (Inr env)
  then obtain j where p: "p = Some j" "unmarshal_SigEnvelope j = Inr env" by (cases p) auto
  define w1 where "w1 = (if e_MsgID env \<noteq> [] then snd (SessionStore_CheckMsgDedup E (e_MsgID env) w) else w)"
  have i1: "run_inv (view w1)" using assms(3) by (simp add: w1_def dedup_inv)
  have init: "run_inv (view (snd (handleCallInitiate E c (e_Data env) h w1)))"
    using assms(2) p by (intro initiate_inv[OF i1]) (simp add: message_fresh_def w1_def)
  define dup where "dup = (if e_MsgID env \<noteq> [] then fst (SessionStore_CheckMsgDedup E (e_MsgID env) w) else Inr False)"
  have "(if e_MsgID env \<noteq> [] then SessionStore_CheckMsgDedup E (e_MsgID env) w else (Inr False, w)) = (dup, w1)"
    by (simp add: dup_def w1_def)
  then show ?thesis
    using Inr init i1 accept_inv other_handlers_inv
    by (simp add: handleMessage_def Let_def reading_handlers room_handlers_view[OF assms(1)])
qed (simp add: handleMessage_def assms(3))

lemma timeouts_inv:
  "run_inv (view w) \<Longrightarrow> run_inv (view (snd (ringTimeout E i h w)))"
  "run_inv (view w) \<Longrightarrow> run_inv (view (snd (iceTimeout E i h w)))"
  by (simp_all add: ringTimeout_def iceTimeout_def endBoth_def Let_def split_beta svc_simps End_inv
      split: sum.splits)

lemma fire_inv:
  assumes "h_orchestrator h = None" "run_inv (view w)"
  shows "run_inv (view (snd (fire E t h w)))"
proof -
  have "h_orchestrator (toUser u ty d (clearICEBuffer x (snd (cancelGracePeriod u' h)))) = None"
    "h_orchestrator (snd (cancelRoomGracePeriod u' h)) = None"
    "h_orchestrator (toUser u ty d (clearICEBuffer x (snd (cancelGracePeriod u' (h\<lparr>h_timers := ts\<rparr>))))) = None"
    "h_orchestrator (snd (cancelRoomGracePeriod u' (h\<lparr>h_timers := ts\<rparr>))) = None" for u u' ty d x ts
    using assms(1) by (simp_all add: clearICEBuffer_def cancelGracePeriod_def cancelRoomGracePeriod_def)
  then show ?thesis
    using assms(2)
    by (simp add: fire_def Let_def timeouts_inv reconnectGraceTimeout_def roomGraceTimeout_def split_beta
        removeFromAllRooms_view svc_simps End_inv split: timer.splits sum.splits)
qed

lemma startGracePeriod_inv: "run_inv (view w) \<Longrightarrow> run_inv (view (snd (snd (startGracePeriod E u h w))))"
  by (simp add: startGracePeriod_def Let_def split_beta svc_simps Transition_inv split: sum.splits)

lemma startGracePeriod_orch: "h_orchestrator (fst (snd (startGracePeriod E u h w))) = h_orchestrator h"
  by (simp add: startGracePeriod_def Let_def split_beta go_def cancelGracePeriod_def split: sum.splits)

lemma unregister_inv:
  assumes "h_orchestrator h = None" "run_inv (view w)"
  shows "run_inv (view (snd (ReadPump_exit E c h w)))"
proof -
  have d: "h_orchestrator (drop_device c h) = None"
    using assms(1) by (simp add: drop_device_def Let_def split: option.splits)
  have r: "h_orchestrator (fst (snd (startRoomGracePeriod E u h' w'))) = h_orchestrator h'"
    "view (snd (snd (startRoomGracePeriod E u h' w'))) = view w'" for u h' w'
    by (simp_all add: startRoomGracePeriod_def Let_def split_beta go_def cancelRoomGracePeriod_def svc_simps)
  show ?thesis
    using assms(2) d
    by (simp add: ReadPump_exit_def Run_unregister_def Let_def split_beta startGracePeriod_inv
        startGracePeriod_orch r removeFromAllRooms_view)
qed

lemma register_view: "view (snd (Run_register E c h w)) = view w"
  by (simp add: Run_register_def Let_def reading_handlers)

lemma promote_inv: "run_inv (view w) \<Longrightarrow> run_inv (view (snd (PromoteToActive E c w)))"
  by (simp add: PromoteToActive_def Transition_inv)

end

section \<open>Runs\<close>

text \<open>The steps of a hub without an orchestrator (the group messages are then refused), each
  drawing fresh identifiers.\<close>

inductive call_step ::
  "('w, 'z) env_scheme \<Rightarrow> ('w \<Rightarrow> keyspace) \<Rightarrow> Hub \<times> 'w \<Rightarrow> Hub \<times> 'w \<Rightarrow> bool" for E view where
  connect: "h_conns h i = None \<Longrightarrow> NewClient i u d h = (c, h1) \<Longrightarrow>
     call_step E view (h, w) (Run_register E c h1 w)"
| message: "message_fresh E view c p w \<Longrightarrow> call_step E view (h, w) (handleMessage E c p h w)"
| disconnect: "call_step E view (h, w) (ReadPump_exit E c h w)"
| timeout: "t \<in> set (h_timers h) \<Longrightarrow> call_step E view (h, w) (fire E t h w)"
| promote: "call_step E view (h, w) (h, snd (PromoteToActive E callID w))"

inductive call_run ::
  "('w, 'z) env_scheme \<Rightarrow> ('w \<Rightarrow> keyspace) \<Rightarrow> Hub \<times> 'w \<Rightarrow> Hub \<times> 'w \<Rightarrow> bool" for E view where
  start: "call_run E view s s"
| more: "call_run E view s t \<Longrightarrow> h_orchestrator (fst t) = None \<Longrightarrow> call_step E view t u \<Longrightarrow> call_run E view s u"

context services
begin

lemma call_step_inv:
  assumes "call_step E view t u" "h_orchestrator (fst t) = None" "run_inv (view (snd t))"
  shows "run_inv (view (snd u))"
  using assms
  by cases (simp_all add: register_view message_inv unregister_inv fire_inv promote_inv)

lemma call_run_inv: "call_run E view s t \<Longrightarrow> run_inv (view (snd s)) \<Longrightarrow> run_inv (view (snd t))"
  by (induction rule: call_run.induct) (auto dest: call_step_inv)

end

end
