(* ===== verification/Hub_Outcomes.thy ===== *)
theory Hub_Outcomes
  imports Hub_Registry Cdr
begin

text \<open>
  Outcomes of the 1:1 handlers: who may do what, what a successful message does to the stored call,
  to the queues of the devices and to the timers, how races between messages come out, and how a
  call survives a lost connection.
\<close>

section \<open>Successful transitions\<close>

lemma edge_facts: "edge StateRinging StateConnecting" "edge StateRinging StateEnded" "edge StateConnecting StateEnded"
  "edge StateActive StateReconnecting" "edge StateReconnecting StateActive" "edge StateReconnecting StateEnded"
  "edge StateConnecting StateActive" "\<not> edge StateConnecting StateReconnecting"
  by (auto simp: edge.simps)

context services
begin

lemma Transition_success:
  assumes "calm w" "call_at (view w) c = Some s" "edge (cs_State s) tgt"
    and f: "\<And>x v. view (snd (f x v)) = view v" "\<And>x v. calm v \<Longrightarrow> calm (snd (f x v))"
    and x: "x = SessionStore_TransitionState E c tgt f w"
  shows "fst x = Inr ()" "calm (snd x)" "\<exists>v. view (snd x) = stored c (fst (f (s\<lparr>cs_State := tgt\<rparr>) v)) (view w)"
proof -
  show "fst x = Inr ()"
    unfolding x by (rule TransitionState_calm(2)[OF assms(1,2)]) (auto intro: f assms(3))
  show "calm (snd x)"
    unfolding x by (rule TransitionState_calm(1)[OF assms(1,2)]) (auto intro: f)
  from \<open>fst x = Inr ()\<close> show "\<exists>v. view (snd x) = stored c (fst (f (s\<lparr>cs_State := tgt\<rparr>) v)) (view w)"
    using TransitionState_cases[OF assms(2), where f = f and tgt = tgt, OF f(1)] by (auto simp: x)
qed

lemma no_mutate_laws: "view (snd (no_mutate s v)) = view v" "calm v \<Longrightarrow> calm (snd (no_mutate s v))"
  "fst (no_mutate s v) = s"
  by (simp_all add: no_mutate_def)

lemma Transition_plain:
  assumes "calm w" "call_at (view w) c = Some s" "edge (cs_State s) tgt"
    and x: "x = SessionStore_TransitionState E c tgt no_mutate w"
  shows "fst x = Inr ()" "calm (snd x)" "view (snd x) = stored c (s\<lparr>cs_State := tgt\<rparr>) (view w)"
  using Transition_success[where f = no_mutate, OF assms(1-3) _ _ x]
  by (simp_all add: no_mutate_laws)

lemma accept_mutate_calm: "calm v \<Longrightarrow> calm (snd (accept_mutate E a s v))"
  by (simp add: accept_mutate_def Let_def split_beta svc_simps)

lemma accept_mutate_fst: "\<exists>t>0. fst (accept_mutate E a s v) = s\<lparr>cs_SDPAnswer := a, cs_AnsweredAt := t\<rparr>"
  using now_pos by (auto simp: accept_mutate_def Let_def split_beta)

lemma hub_publish_calm [svc_simps]: "calm w \<Longrightarrow> calm (hub_publish E h subj ev w)"
  by (simp add: hub_publish_def svc_simps split: option.splits)

lemma seen_hub_publish:
  "calm w \<Longrightarrow> seen (published (hub_publish E h subj ev w)) =
     seen (published w) @ (case h_bus h of None \<Rightarrow> [] | Some _ \<Rightarrow> [(subj, event_json ev)])"
  by (simp add: hub_publish_def Bus_Publish_log Bus_Publish_calm split: option.splits)

lemma GetUserActiveCall_calm:
  assumes "calm w"
  shows "fst (SessionStore_GetUserActiveCall E u w) =
     (case view w (userActiveCallKey u) of None \<Rightarrow> Inr [] | Some (RStr p, _) \<Rightarrow> Inr (payload_text p) | Some (RSet _, _) \<Rightarrow> Inl WrongType)"
    and "calm (snd (SessionStore_GetUserActiveCall E u w))"
  using assms
  by (auto simp: SessionStore_GetUserActiveCall_def Let_def split_beta svc_simps WrongType_def redis_Nil_def
      split: option.splits rval.splits sum.splits)

lemma GetUserActiveCall_marker:
  "calm w \<Longrightarrow> marker (view w) u = Some c \<Longrightarrow> fst (SessionStore_GetUserActiveCall E u w) = Inr c"
  by (auto simp: GetUserActiveCall_calm marker_def split: option.splits rval.splits payload.splits)

end

section \<open>Calling\<close>

definition valid_offer :: "CallInitiateMsg \<Rightarrow> bool" where
  "valid_offer m \<longleftrightarrow> ini_CalleeID m \<noteq> [] \<and> ini_SDPOffer m \<noteq> [] \<and>
     (ini_CallType m = ''audio'' \<or> ini_CallType m = ''video'') \<and> isValidSDP (ini_SDPOffer m)"

lemma initiate_invalid:
  "unmarshal_raw dec_CallInitiateMsg d = Inr m \<Longrightarrow> \<not> valid_offer m \<Longrightarrow>
   \<exists>code text. handleCallInitiate E c d h w = (SendError c code text [] h, w)"
  by (auto simp: handleCallInitiate_def valid_offer_def)

text \<open>What a message that is refused does: an error to its sender, nothing in Redis.\<close>

definition refused :: "('w \<Rightarrow> keyspace) \<Rightarrow> Client \<Rightarrow> Hub \<Rightarrow> 'w \<Rightarrow> Hub \<times> 'w \<Rightarrow> bool" where
  "refused view c h w r \<longleftrightarrow> view (snd r) = view w \<and>
     (\<exists>code text i. code \<in> {ErrCodeUnauthorized, ErrCodeNotFound} \<and> fst r = SendError c code text i h)"

lemma refusedI: "view w' = view w \<Longrightarrow> refused view c h w (SendError c ErrCodeUnauthorized t i h, w')"
  "view w' = view w \<Longrightarrow> refused view c h w (SendError c ErrCodeNotFound t i h, w')"
  by (auto simp: refused_def)

context services
begin

lemma initiate_result:
  assumes "calm w" "store_inv (view w)" "unmarshal_raw dec_CallInitiateMsg d = Inr m" "valid_offer m"
    and free: "\<not> busy (call_at (view w)) (c_userID c)" "\<not> busy (call_at (view w)) (ini_CalleeID m)"
    and i: "i = fst (uuid_new E w)" and now: "now = fst (time_now E (snd (uuid_new E w)))"
  shows "\<exists>w'. handleCallInitiate E c d h w = (go (RingTimeout i) (toUser (ini_CalleeID m) MsgIncomingCall
      (IncomingCallMsg i (c_userID c) [] (ini_SDPOffer m) (ini_CallType m)) h), w') \<and>
    view w' = created (ringing i (c_userID c) m now) (view w)"
proof -
  define w2 where "w2 = snd (time_now E (snd (uuid_new E w)))"
  define s where "s = ringing i (c_userID c) m now"
  have w2: "calm w2" "store_inv (view w2)" "view w2 = view w" using assms(1,2) by (simp_all add: w2_def svc_simps)
  have parties: "cs_CallerID s = c_userID c" "cs_CalleeID s = ini_CalleeID m" by (simp_all add: s_def ringing_def)
  have "fst (SessionStore_Create E s w2) = Inr ()" "view (snd (SessionStore_Create E s w2)) = created s (view w)"
    using Create_calm[OF w2(1,2), of s] free by (simp_all add: w2(3) parties reg_create_def)
  then show ?thesis
    using assms(3,4)
    by (auto simp: handleCallInitiate_def valid_offer_def Let_def split_beta i[symmetric] now[symmetric]
        w2_def[symmetric] s_def[symmetric] svc_simps)
qed

lemma accept_result:
  assumes "calm w" "unmarshal_raw dec_CallAcceptMsg d = Inr m"
    and s: "call_at (view w) (acc_CallID m) = Some s" "cs_State s = StateRinging" "cs_CalleeID s = c_userID c"
    and sdp: "acc_SDPAnswer m = [] \<or> isValidSDP (acc_SDPAnswer m)"
  shows "\<exists>w' t. 0 < t \<and> handleCallAccept E c d h w = (go (IceTimeout (acc_CallID m))
      (sendToUserExcept (c_userID c) (c_deviceID c) MsgCallAcceptedElsewhere
         (CallAcceptedElsewhereMsg (acc_CallID m) (c_deviceID c))
         (toUser (cs_CallerID s) MsgCallAccepted (CallAcceptedMsg (acc_CallID m) (acc_SDPAnswer m)) h)), w') \<and> calm w' \<and>
    view w' = stored (acc_CallID m) (s\<lparr>cs_State := StateConnecting, cs_SDPAnswer := acc_SDPAnswer m, cs_AnsweredAt := t\<rparr>) (view w)"
proof -
  define w1 where "w1 = snd (SessionStore_Get E (acc_CallID m) w)"
  have g: "fst (SessionStore_Get E (acc_CallID m) w) = Inr s" by (rule Get_calm[OF assms(1) s(1)])
  have w1: "calm w1" "call_at (view w1) (acc_CallID m) = Some s" "view w1 = view w"
    using assms(1) s(1) by (simp_all add: w1_def svc_simps)
  define x where "x = SessionStore_TransitionState E (acc_CallID m) StateConnecting (accept_mutate E (acc_SDPAnswer m)) w1"
  have ed: "edge (cs_State s) StateConnecting" using s(2) edge_facts by simp
  note X = Transition_success[where f = "accept_mutate E (acc_SDPAnswer m)", OF w1(1,2) ed _ _ x_def]
  have x: "fst x = Inr ()" "calm (snd x)" "\<exists>v. view (snd x) = stored (acc_CallID m) (fst (accept_mutate E (acc_SDPAnswer m) (s\<lparr>cs_State := StateConnecting\<rparr>) v)) (view w1)"
    using X accept_mutate_calm by auto
  have over: "\<not> is_over s" using s(2) by (simp add: is_over_def)
  show ?thesis
    using assms(2) g s(3) over sdp x accept_mutate_fst[of "acc_SDPAnswer m" "s\<lparr>cs_State := StateConnecting\<rparr>"]
    by (auto simp: handleCallAccept_def Let_def split_beta w1_def[symmetric] x_def[symmetric] svc_simps w1(3))
      (metis update_convs(5) update_convs(7) update_convs(9))+
qed

lemma accept_over:
  assumes "calm w" "unmarshal_raw dec_CallAcceptMsg d = Inr m"
    and s: "call_at (view w) (acc_CallID m) = Some s" "is_over s" "cs_CalleeID s = c_userID c"
  shows "\<exists>w'. handleCallAccept E c d h w =
      (SendError c ErrCodeCallCancelled ''call was cancelled'' (acc_CallID m) h, w') \<and> view w' = view w"
  using Get_calm[OF assms(1) s(1)] assms(2) s
  by (auto simp: handleCallAccept_def Let_def split_beta svc_simps)

lemma accept_bad_state:
  assumes "calm w" "unmarshal_raw dec_CallAcceptMsg d = Inr m"
    and s: "call_at (view w) (acc_CallID m) = Some s" "cs_State s \<noteq> StateRinging" "\<not> is_over s" "cs_CalleeID s = c_userID c"
    and sdp: "acc_SDPAnswer m = [] \<or> isValidSDP (acc_SDPAnswer m)"
  shows "\<exists>w' text. handleCallAccept E c d h w = (SendError c ErrCodeInvalidState text (acc_CallID m) h, w') \<and> view w' = view w"
proof -
  define w1 where "w1 = snd (SessionStore_Get E (acc_CallID m) w)"
  have w1: "calm w1" "call_at (view w1) (acc_CallID m) = Some s" "view w1 = view w"
    using assms(1) s(1) by (simp_all add: w1_def svc_simps)
  define x where "x = SessionStore_TransitionState E (acc_CallID m) StateConnecting (accept_mutate E (acc_SDPAnswer m)) w1"
  have ed: "\<not> edge (cs_State s) StateConnecting" using s(2) by (auto simp: edge.simps)
  have x: "calm (snd x)" "fst x \<noteq> Inr ()" "view (snd x) = view w1"
    using TransitionState_calm(1,3)[OF w1(1,2), where f = "accept_mutate E (acc_SDPAnswer m)" and tgt = StateConnecting]
      ed accept_mutate_calm by (auto simp: x_def)
  then obtain e where e: "fst x = Inl e" by (cases "fst x") auto
  have g: "fst (SessionStore_Get E (acc_CallID m) w) = Inr s" "fst (SessionStore_Get E (acc_CallID m) (snd x)) = Inr s"
    using Get_calm[OF assms(1) s(1)] Get_calm[OF x(1), of "acc_CallID m" s] w1(2) x(3) by simp_all
  show ?thesis
    using assms(2) g s(3,4) sdp e x(3) w1(3)
    by (auto simp: handleCallAccept_def Let_def split_beta w1_def[symmetric] x_def[symmetric] svc_simps)
qed

lemma cancel_result:
  assumes "calm w" "unmarshal_raw dec_call_id d = Inr i"
    and s: "call_at (view w) i = Some s" "edge (cs_State s) StateEnded" "cs_CallerID s = c_userID c"
  shows "\<exists>w' t. 0 < t \<and> handleCallCancel E c d h w =
      (toUser (cs_CalleeID s) MsgCallCancelled (CallCancelledMsg i) h, w') \<and> calm w' \<and>
      view w' = released s (stored i (ended t ''cancelled'' s) (view w))"
proof -
  define w1 where "w1 = snd (SessionStore_Get E i w)"
  have w1: "calm w1" "call_at (view w1) i = Some s" "view w1 = view w"
    using assms(1) s(1) by (simp_all add: w1_def svc_simps)
  obtain t where t: "fst (SessionStore_End E i ''cancelled'' w1) = Inr ()" "0 < t"
     "view (snd (SessionStore_End E i ''cancelled'' w1)) = released s (stored i (ended t ''cancelled'' s) (view w1))"
    using End_calm(1)[OF w1(1,2) s(2)] by blast
  have "calm (snd (SessionStore_End E i ''cancelled'' w1))" by (rule End_keeps_calm[OF w1(1)])
  then show ?thesis
    using Get_calm[OF assms(1) s(1)] assms(2) s t w1(3)
    by (auto simp: handleCallCancel_def Let_def split_beta w1_def[symmetric])
qed

lemma endBoth_result:
  assumes "calm w" "call_at (view w) i = Some s" "edge exp StateEnded"
  shows "\<exists>t>0. let x = endBoth E i exp reason shown h w in
    if cs_State s = exp
    then fst x = toUser (cs_CalleeID s) MsgCallEnded (CallEndedMsg i shown)
                   (toUser (cs_CallerID s) MsgCallEnded (CallEndedMsg i shown) h) \<and>
         view (snd x) = released s (stored i (ended t reason s) (view w))
    else fst x = h \<and> view (snd x) = view w"
proof -
  define w1 where "w1 = snd (SessionStore_Get E i w)"
  have w1: "calm w1" "call_at (view w1) i = Some s" "view w1 = view w"
    using assms(1,2) by (simp_all add: w1_def svc_simps)
  have g: "fst (SessionStore_Get E i w) = Inr s" by (rule Get_calm[OF assms(1,2)])
  show ?thesis
  proof (cases "cs_State s = exp")
    case True
    then obtain t where "fst (SessionStore_End E i reason w1) = Inr ()" "0 < t"
       "view (snd (SessionStore_End E i reason w1)) = released s (stored i (ended t reason s) (view w1))"
      using End_calm(1)[OF w1(1,2)] assms(3) by blast
    then show ?thesis using g True w1(3)
      by (auto simp: endBoth_def Let_def split_beta w1_def[symmetric])
  next
    case False
    then show ?thesis using g
      by (auto simp: endBoth_def Let_def split_beta svc_simps intro: exI[of _ 1])
  qed
qed

section \<open>Who may do what\<close>

lemma refused_accept:
  assumes "call_at (view w) (acc_CallID m) = Some s" "unmarshal_raw dec_CallAcceptMsg d = Inr m" "c_userID c \<noteq> cs_CalleeID s"
  shows "refused view c h w (handleCallAccept E c d h w)"
  using Get_ok[OF assms(1)] assms(2,3)
  by (auto simp: handleCallAccept_def Let_def split_beta svc_simps intro!: refusedI)

lemma refused_reject:
  assumes "call_at (view w) (rej_CallID m) = Some s" "unmarshal_raw dec_CallRejectMsg d = Inr m" "c_userID c \<noteq> cs_CalleeID s"
  shows "refused view c h w (handleCallReject E c d h w)"
  using Get_ok[OF assms(1)] assms(2,3)
  by (auto simp: handleCallReject_def Let_def split_beta svc_simps intro!: refusedI)

lemma refused_cancel:
  assumes "call_at (view w) i = Some s" "unmarshal_raw dec_call_id d = Inr i" "c_userID c \<noteq> cs_CallerID s"
  shows "refused view c h w (handleCallCancel E c d h w)"
  using Get_ok[OF assms(1)] assms(2,3)
  by (auto simp: handleCallCancel_def Let_def split_beta svc_simps intro!: refusedI)

lemma refused_end:
  assumes "call_at (view w) i = Some s" "unmarshal_raw dec_call_id d = Inr i" "\<not> party s (c_userID c)"
  shows "refused view c h w (handleCallEnd E c d h w)"
  using Get_ok[OF assms(1)] assms(2-3)
  by (auto simp: handleCallEnd_def party_def Let_def split_beta svc_simps intro!: refusedI)

lemma refused_reconnect:
  assumes "call_at (view w) i = Some s" "unmarshal_raw dec_call_id d = Inr i" "\<not> party s (c_userID c)" "i \<noteq> []"
  shows "refused view c h w (handleReconnect E c d h w)"
  using Get_ok[OF assms(1)] assms(2-4)
  by (auto simp: handleReconnect_def party_def Let_def split_beta svc_simps intro!: refusedI)

section \<open>Lost connections\<close>

text \<open>Only an ACTIVE call can become RECONNECTING, so no other call starts a grace period.\<close>

lemma grace_refused:
  assumes "call_at (view w) i = Some s" "cs_State s \<noteq> StateActive" "marker (view w) u = Some i" "i \<noteq> []"
  shows "startGracePeriod E u h w = (False, h, snd (snd (startGracePeriod E u h w)))"
    "view (snd (snd (startGracePeriod E u h w))) = view w"
proof -
  let ?w2 = "snd (SessionStore_Get E i (snd (SessionStore_GetUserActiveCall E u w)))"
  have at: "call_at (view ?w2) i = Some s" "call_at (view (snd (SessionStore_GetUserActiveCall E u w))) i = Some s"
    using assms(1) by (simp_all add: svc_simps)
  have ed: "\<not> edge (cs_State s) StateReconnecting" using assms(2) by (auto simp: edge.simps)
  have T: "view (snd (SessionStore_TransitionState E i StateReconnecting no_mutate ?w2)) = view w"
    "\<exists>e. fst (SessionStore_TransitionState E i StateReconnecting no_mutate ?w2) = Inl e"
    using TransitionState_cases[OF at(1), where f = no_mutate and tgt = StateReconnecting] ed
    by (cases "fst (SessionStore_TransitionState E i StateReconnecting no_mutate ?w2)"; simp add: no_mutate_laws svc_simps)+
  have m: "fst (SessionStore_GetUserActiveCall E u w) = Inr i \<or> (\<exists>e. fst (SessionStore_GetUserActiveCall E u w) = Inl e)"
    using assms(3)
    by (cases "fate w") (auto simp: SessionStore_GetUserActiveCall_def Let_def split_beta svc_simps marker_def
        split: option.splits rval.splits payload.splits)
  show "startGracePeriod E u h w = (False, h, snd (snd (startGracePeriod E u h w)))"
    "view (snd (snd (startGracePeriod E u h w))) = view w"
    using m T Get_ok[OF at(2)] assms(4)
    by (auto simp: startGracePeriod_def Let_def split_beta svc_simps)
qed

lemma grace_active:
  assumes "calm w" "call_at (view w) i = Some s" "cs_State s = StateActive" "marker (view w) u = Some i" "i \<noteq> []"
  shows "\<exists>w'. startGracePeriod E u h w = (True, go (GraceTimeout u i (peer_of s u)) (snd (cancelGracePeriod u
       (toUser (peer_of s u) MsgPeerReconnecting (PeerReconnectingMsg i u) h))), w') \<and> calm w' \<and>
     view w' = stored i (s\<lparr>cs_State := StateReconnecting\<rparr>) (view w)"
proof -
  define w1 where "w1 = snd (SessionStore_GetUserActiveCall E u w)"
  define w2 where "w2 = snd (SessionStore_Get E i w1)"
  have w1: "calm w1" "view w1 = view w" using GetUserActiveCall_calm(2)[OF assms(1)] by (simp_all add: w1_def svc_simps)
  have w2: "calm w2" "view w2 = view w" using w1 by (simp_all add: w2_def svc_simps)
  have g: "fst (SessionStore_Get E i w1) = Inr s" by (rule Get_calm[OF w1(1)]) (simp add: w1(2) assms(2))
  have at: "call_at (view w2) i = Some s" by (simp add: w2(2) assms(2))
  have ed: "edge (cs_State s) StateReconnecting" using assms(3) edge_facts by simp
  note T = Transition_plain[OF w2(1) at ed refl]
  show ?thesis
    using GetUserActiveCall_marker[OF assms(1,4)] g T assms(3,5)
    by (simp add: startGracePeriod_def Let_def split_beta w1_def[symmetric] w2_def[symmetric] w2(2))
qed

lemma reconnect_result:
  assumes "calm w" "call_at (view w) i = Some s" "cs_State s = StateReconnecting" "party s (c_userID c)" "i \<noteq> []"
    and "unmarshal_raw dec_call_id d = Inr i"
  shows "\<exists>w'. handleReconnect E c d h w = (flushICEBuffer i c (toUser (peer_of s (c_userID c)) MsgPeerReconnected
       (PeerReconnectedMsg i (c_userID c)) (SendJSON c MsgSessionResumed (SessionResumedMsg i StateActive (peer_of s (c_userID c)) [])
          (snd (cancelGracePeriod (c_userID c) h)))), w') \<and> calm w' \<and>
     view w' = stored i (s\<lparr>cs_State := StateActive\<rparr>) (view w)"
proof -
  define w1 where "w1 = snd (SessionStore_Get E i w)"
  have w1: "calm w1" "call_at (view w1) i = Some s" "view w1 = view w"
    using assms(1,2) by (simp_all add: w1_def svc_simps)
  have g: "fst (SessionStore_Get E i w) = Inr s" by (rule Get_calm[OF assms(1,2)])
  have ed: "edge (cs_State s) StateActive" using assms(3) edge_facts by simp
  note T = Transition_plain[OF w1(1,2) ed refl]
  show ?thesis
    using g T assms(3-6)
    by (auto simp: handleReconnect_def Let_def split_beta w1_def[symmetric] w1(3) party_def)
qed

section \<open>Glare\<close>

lemma FindGlare_found:
  assumes "calm w" "marker (view w) v = Some i" "i \<noteq> []" "call_at (view w) i = Some g"
    and "cs_CallerID g = v" "cs_CalleeID g = u" "cs_State g = StateRinging"
  shows "fst (SessionStore_FindGlareCall E u v w) = Inr (Some g)" "calm (snd (SessionStore_FindGlareCall E u v w))"
proof -
  let ?w1 = "snd (SessionStore_GetUserActiveCall E v w)"
  have w1: "calm ?w1" "call_at (view ?w1) i = Some g"
    using GetUserActiveCall_calm(2)[OF assms(1)] assms(4) by (simp_all add: svc_simps)
  show "fst (SessionStore_FindGlareCall E u v w) = Inr (Some g)" "calm (snd (SessionStore_FindGlareCall E u v w))"
    using GetUserActiveCall_marker[OF assms(1,2)] Get_calm[OF w1] Get_calm_calm[OF w1(1)] assms(3-7)
    by (simp_all add: SessionStore_FindGlareCall_def Let_def split_beta)
qed

lemma glare_found:
  assumes w: "calm w" "store_inv (view w)" "unmarshal_raw dec_CallInitiateMsg d = Inr m" "valid_offer m"
    and g: "call_at (view w) i = Some g" "i \<noteq> []" "cs_CallID g = i" "cs_CallerID g = ini_CalleeID m"
      "cs_CalleeID g = c_userID c" "cs_State g = StateRinging"
  shows "\<exists>w'. handleCallInitiate E c d h w = resolveGlare E c g m h w' \<and> calm w' \<and> view w' = view w"
proof -
  let ?w2 = "snd (time_now E (snd (uuid_new E w)))"
  define s where "s = ringing (fst (uuid_new E w)) (c_userID c) m (fst (time_now E (snd (uuid_new E w))))"
  define w3 where "w3 = snd (SessionStore_Create E s ?w2)"
  have lv: "live g" using g(6) by (simp add: live_def)
  have b: "busy (call_at (view w)) (ini_CalleeID m)" unfolding busy_def using g(1,4) lv by (metis party_def)
  have w2: "calm ?w2" "store_inv (view ?w2)" "view ?w2 = view w" using w(1,2) by (simp_all add: svc_simps)
  have cr: "fst (SessionStore_Create E s ?w2) = Inl Call_Store.ErrUserBusy" "view w3 = view w"
    using Create_calm[OF w2(1,2), of s] b by (simp_all add: w2(3) w3_def reg_create_def s_def ringing_def)
  have c3: "calm w3" unfolding w3_def by (rule Create_keeps_calm[OF w2(1)])
  have mk: "marker (view w3) (ini_CalleeID m) = Some i"
    using call_ownedD[OF _ g(1) lv] w(2) g(4) cr(2) by (simp add: store_inv_def party_def)
  have at: "call_at (view w3) i = Some g" using g(1) cr(2) by simp
  note F = FindGlare_found[OF c3 mk g(2) at g(4,5,6)]
  have "handleCallInitiate E c d h w = resolveGlare E c g m h (snd (SessionStore_FindGlareCall E (c_userID c) (ini_CalleeID m) w3))"
    using w(3,4) cr(1) F(1)
    by (auto simp: handleCallInitiate_def valid_offer_def Let_def split_beta s_def[symmetric] w3_def[symmetric])
  then show ?thesis using F(2) cr(2) by (auto simp: svc_simps)
qed

lemma FindGlare_none:
  assumes "calm w" "marker (view w) v = Some i" "call_at (view w) i = Some g" "\<not> (cs_CallerID g = v \<and> cs_CalleeID g = u)"
  shows "fst (SessionStore_FindGlareCall E u v w) = Inr None"
proof -
  let ?w1 = "snd (SessionStore_GetUserActiveCall E v w)"
  have w1: "calm ?w1" "call_at (view ?w1) i = Some g"
    using GetUserActiveCall_calm(2)[OF assms(1)] assms(3) by (simp_all add: svc_simps)
  show ?thesis
    using GetUserActiveCall_marker[OF assms(1,2)] Get_calm[OF w1] assms(4)
    by (auto simp: SessionStore_FindGlareCall_def Let_def split_beta)
qed

lemma initiate_busy:
  assumes w: "calm w" "store_inv (view w)" "unmarshal_raw dec_CallInitiateMsg d = Inr m" "valid_offer m"
    and g: "call_at (view w) i = Some g" "live g" "party g (ini_CalleeID m)"
      "\<not> (cs_CallerID g = ini_CalleeID m \<and> cs_CalleeID g = c_userID c)"
  shows "\<exists>w'. handleCallInitiate E c d h w = (SendError c ErrCodeBusy ''user is busy'' [] h, w') \<and> view w' = view w"
proof -
  let ?w2 = "snd (time_now E (snd (uuid_new E w)))"
  define s where "s = ringing (fst (uuid_new E w)) (c_userID c) m (fst (time_now E (snd (uuid_new E w))))"
  define w3 where "w3 = snd (SessionStore_Create E s ?w2)"
  have b: "busy (call_at (view w)) (ini_CalleeID m)" unfolding busy_def using g(1-3) by blast
  have w2: "calm ?w2" "store_inv (view ?w2)" "view ?w2 = view w" using w(1,2) by (simp_all add: svc_simps)
  have cr: "fst (SessionStore_Create E s ?w2) = Inl Call_Store.ErrUserBusy" "view w3 = view w"
    using Create_calm[OF w2(1,2), of s] b by (simp_all add: w2(3) w3_def reg_create_def s_def ringing_def)
  have c3: "calm w3" unfolding w3_def by (rule Create_keeps_calm[OF w2(1)])
  have mk: "marker (view w3) (ini_CalleeID m) = Some i"
    using call_ownedD[OF _ g(1,2,3)] w(2) cr(2) by (simp add: store_inv_def)
  have at: "call_at (view w3) i = Some g" using g(1) cr(2) by simp
  note F = FindGlare_none[OF c3 mk at g(4)]
  show ?thesis
    using w(3,4) cr F
    by (auto simp: handleCallInitiate_def valid_offer_def Let_def split_beta s_def[symmetric] w3_def[symmetric] svc_simps)
qed

lemma resolveGlare_new_wins:
  assumes w: "calm w" "store_inv (view w)" and g: "call_at (view w) i = Some g" "cs_CallID g = i"
      "cs_CallerID g = ini_CalleeID m" "cs_CalleeID g = c_userID c" "cs_State g = StateRinging"
    and low: "c_userID c < ini_CalleeID m"
  shows "\<exists>n now t w'. resolveGlare E c g m h w =
      (toUser (ini_CalleeID m) MsgCallGlare (CallGlareMsg i n (c_userID c)) (go (RingTimeout n)
         (toUser (ini_CalleeID m) MsgIncomingCall (IncomingCallMsg n (c_userID c) [] (ini_SDPOffer m) (ini_CallType m)) h)), w') \<and>
      call_at (view w') = (call_at (view w))(i \<mapsto> ended t ''glare'' g, n \<mapsto> ringing n (c_userID c) m now)"
proof -
  define w1 where "w1 = snd (SessionStore_End E i ''glare'' w)"
  obtain t where t: "view w1 = released g (stored i (ended t ''glare'' g) (view w))"
    using End_calm(1)[OF w(1) g(1)] edge_facts g(5) by (auto simp: w1_def)
  have inv1: "store_inv (view w1)" unfolding t using w(2) g(1) edge_facts g(5) by (intro store_inv_ended) simp_all
  have c1: "calm w1" unfolding w1_def by (rule End_keeps_calm[OF w(1)])
  let ?w3 = "snd (time_now E (snd (uuid_new E w1)))"
  let ?n = "fst (uuid_new E w1)" and ?now = "fst (time_now E (snd (uuid_new E w1)))"
  define s where "s = ringing ?n (c_userID c) m ?now"
  have w3: "calm ?w3" "store_inv (view ?w3)" "view ?w3 = view w1" using c1 inv1 by (simp_all add: svc_simps)
  have "\<not> busy (call_at (view w1)) u" if "party g u" for u
    using store_inv_busy_iff[OF inv1, of u] that by (simp add: t user_key_released)
  then have free: "\<not> busy (call_at (view w1)) (c_userID c)" "\<not> busy (call_at (view w1)) (ini_CalleeID m)"
    using g(3,4) by (simp_all add: party_def)
  have cr: "fst (SessionStore_Create E s ?w3) = Inr ()" "view (snd (SessionStore_Create E s ?w3)) = created s (view w1)"
    using Create_calm[OF w3(1,2), of s] free by (simp_all add: w3(3) reg_create_def s_def ringing_def)
  have "\<not> str_gt (c_userID c) (ini_CalleeID m)" "c_userID c \<noteq> ini_CalleeID m" using low by (auto simp: str_gt_def)
  then have "resolveGlare E c g m h w = (toUser (ini_CalleeID m) MsgCallGlare (CallGlareMsg i ?n (c_userID c)) (go (RingTimeout ?n)
         (toUser (ini_CalleeID m) MsgIncomingCall (IncomingCallMsg ?n (c_userID c) [] (ini_SDPOffer m) (ini_CallType m)) h)),
      snd (SessionStore_Create E s ?w3))"
    using cr(1) g(2) by (simp add: resolveGlare_def Let_def split_beta w1_def[symmetric] s_def[symmetric])
  moreover have "call_at (view (snd (SessionStore_Create E s ?w3))) = (call_at (view w))(i \<mapsto> ended t ''glare'' g, ?n \<mapsto> s)"
    unfolding cr(2) t by (simp add: s_def ringing_def)
  ultimately show ?thesis unfolding s_def by blast
qed

end

section \<open>The ICE buffer\<close>

definition last50 :: "'a list \<Rightarrow> 'a list" where
  "last50 xs = drop (length xs - 50) xs"

definition buffered :: "Hub \<Rightarrow> string \<Rightarrow> ICECandidateMsg list" where
  "buffered h i = (case h_iceBuf h i of None \<Rightarrow> [] | Some b \<Rightarrow> b)"

lemma last50_snoc: "last50 (last50 xs @ [x]) = last50 (xs @ [x])"
proof (cases "length xs \<le> 49")
  case False
  then have "Suc (length xs - 50) = length xs - 49" by simp
  with False show ?thesis by (simp add: last50_def)
qed (simp add: last50_def)

lemma buffered_buffer: "buffered (bufferICECandidate i m h) i = last50 (buffered h i @ [m])"
  by (simp add: buffered_def bufferICECandidate_def last50_def Let_def)

lemma buffered_other: "j \<noteq> i \<Longrightarrow> buffered (bufferICECandidate i m h) j = buffered h j"
  by (simp add: buffered_def bufferICECandidate_def Let_def)

lemma buffered_fold:
  "ms \<noteq> [] \<Longrightarrow> buffered (fold (bufferICECandidate i) ms h) i = last50 (buffered h i @ ms)"
proof (induction ms rule: rev_induct)
  case (snoc m ms)
  show ?case
  proof (cases "ms = []")
    case False
    then show ?thesis using snoc.IH last50_snoc[of "buffered h i @ ms" m] by (simp add: buffered_buffer)
  qed (simp add: buffered_buffer)
qed simp

definition queue :: "Hub \<Rightarrow> Client \<Rightarrow> packet list" where
  "queue h c = (case h_conns h (c_id c) of None \<Rightarrow> [] | Some cn \<Rightarrow> cn_send cn)"

definition open_conn :: "Hub \<Rightarrow> Client \<Rightarrow> bool" where
  "open_conn h c = (case h_conns h (c_id c) of None \<Rightarrow> False | Some cn \<Rightarrow> \<not> cn_closed cn)"

definition packet_of :: "string \<Rightarrow> out \<Rightarrow> int \<Rightarrow> packet" where
  "packet_of t d n = \<lparr>pk_Type = t, pk_Data = d, pk_Seq = n\<rparr>"

lemma queue_SendJSON:
  "open_conn h c \<Longrightarrow> length (queue h c) < sendBufSize \<Longrightarrow>
     queue (SendJSON c t d h) c = queue h c @ [packet_of t d 0] \<and> open_conn (SendJSON c t d h) c"
  by (auto simp: queue_def open_conn_def SendJSON_def SendJSONWithSeq_def packet_of_def split: option.splits)

lemma queue_send_candidates:
  "open_conn h c \<Longrightarrow> length (queue h c) + length ms \<le> sendBufSize \<Longrightarrow>
     queue (send_candidates c ms h) c = queue h c @ map (\<lambda>m. packet_of MsgICECandidate (IceOut m) 0) ms"
proof (induction ms arbitrary: h)
  case (Cons m ms)
  then show ?case using queue_SendJSON[of h c MsgICECandidate "IceOut m"] by simp
qed simp

end
