(* ===== verification/Hub_Samples.thy ===== *)
theory Hub_Samples
  imports Hub_Outcomes
begin

text \<open>
  Concrete states of the hub over the in-memory services, used to instantiate the theorems: Alice's
  \<open>call_initiate\<close> in an empty system, and a run in which Alice and Bob connect and Bob calls.
\<close>

definition sample_hub :: Hub where
  "sample_hub = NewHub None 0 0 None"

definition sample_client :: Client where
  "sample_client = \<lparr>c_id = 1, c_userID = ''alice'', c_deviceID = ''phone''\<rparr>"

definition sample_offer :: CallInitiateMsg where
  "sample_offer = \<lparr>ini_CalleeID = ''bob'', ini_SDPOffer = ''v=0 o=- s=-'', ini_CallType = ''audio''\<rparr>"

definition sample_data :: json where
  "sample_data = JObj [(''callee_id'', JStr ''bob''), (''sdp_offer'', JStr ''v=0 o=- s=-''), (''call_type'', JStr ''audio'')]"

definition sample_message :: json where
  "sample_message = JObj [(''type'', JStr ''call_initiate''), (''data'', sample_data)]"

lemma sample_decodes:
  "unmarshal_SigEnvelope sample_message = Inr \<lparr>e_Type = MsgCallInitiate, e_Data = Some sample_data, e_Seq = 0, e_MsgID = []\<rparr>"
  "unmarshal_raw dec_CallInitiateMsg (Some sample_data) = Inr sample_offer"
  by (simp_all add: sample_message_def sample_data_def sample_offer_def unmarshal_SigEnvelope_def
      unmarshal_raw_def dec_CallInitiateMsg_def MsgCallInitiate_def)

lemma sample_dispatch:
  "handleMessage E c (Some sample_message) h w = handleCallInitiate E c (Some sample_data) h w"
  by (simp add: handleMessage_def sample_decodes Let_def)

text \<open>The state after Alice's \<open>call_initiate\<close>.\<close>

definition sample_ringing :: "Hub \<times> world" where
  "sample_ringing = handleMessage mem_env sample_client (Some sample_message) sample_hub world0"


lemma sample_draw: "fst (uuid_new mem_env world0) = ''id0''"
proof -
  have "digit_char 0 = CHR ''0''" by code_simp
  then show ?thesis by (simp add: mem_env_def world0_def itoa.simps)
qed

lemma sample_now: "fst (time_now mem_env (snd (uuid_new mem_env world0))) = 1"
  by (simp add: mem_env_def world0_def)

lemma sample_ringing_db:
  "w_db (snd sample_ringing) = created (ringing ''id0'' ''alice'' sample_offer 1) Map.empty"
proof -
  have a: "mem_calm world0" "store_inv (w_db world0)" by (simp_all add: mem_calm_def world0_def)
  have v: "valid_offer sample_offer" by (simp add: valid_offer_def sample_offer_def isValidSDP_def HasPrefix_def)
  have free: "\<not> busy (call_at (w_db world0)) u" for u by (simp add: busy_def call_at_def world0_def)
  have i: "''id0'' = fst (uuid_new mem_env world0)" by (simp add: sample_draw)
  have n: "1 = fst (time_now mem_env (snd (uuid_new mem_env world0)))" by (simp add: mem_env_def world0_def)
  show ?thesis
    using mem.initiate_result[OF a sample_decodes(2) v free free i n, of sample_client sample_hub]
    by (auto simp: sample_ringing_def sample_dispatch sample_client_def world0_def)
qed

lemma sample_ringing_run: "call_run mem_env w_db (sample_hub, world0) sample_ringing"
proof -
  let ?s = "ringing ''id0'' ''alice'' sample_offer 1"
  have e: "\<forall>c. w_db world0 (sessionKey c) = None" by (simp add: world0_def)
  let ?w2 = "snd (time_now mem_env (snd (uuid_new mem_env world0)))"
  let ?w3 = "snd (SessionStore_Create mem_env ?s ?w2)"
  have w2: "mem_calm ?w2" "store_inv (w_db ?w2)" "w_db ?w2 = Map.empty"
    by (simp_all add: mem_env_def mem_calm_def world0_def)
  have w3: "w_db ?w3 = created ?s Map.empty" "mem_calm ?w3"
    using mem.Create_calm(2)[OF w2(1,2), of ?s] mem.Create_keeps_calm[OF w2(1), of ?s]
    by (simp_all add: w2(3) busy_def call_at_def)
  have mk: "marker (w_db ?w3) ''bob'' = Some ''id0''" "call_at (w_db ?w3) ''id0'' = Some ?s"
    by (simp_all add: w3) (simp_all add: ringing_def sample_offer_def)
  have "fst (SessionStore_FindGlareCall mem_env ''alice'' ''bob'' ?w3) = Inr None"
    using mem.GetUserActiveCall_marker[OF w3(2) mk(1)] mem.GetUserActiveCall_calm(2)[OF w3(2), of "''bob''"]
      mem.Get_calm[of "snd (SessionStore_GetUserActiveCall mem_env ''bob'' ?w3)" "''id0''" ?s] mk(2)
    by (simp add: SessionStore_FindGlareCall_def Let_def split_beta mem.GetUserActiveCall_view ringing_def)
  then have f: "message_fresh mem_env w_db sample_client (Some sample_message) world0"
    by (simp add: message_fresh_def sample_decodes initiate_fresh_def fresh_draw_def sample_client_def
        Let_def split_beta sample_draw sample_now e) (simp add: sample_offer_def)
  show ?thesis
    unfolding sample_ringing_def
    by (rule call_run.more[OF call_run.start _ call_step.message[OF f]]) (simp add: sample_hub_def NewHub_def)
qed

lemma sample_ringing_hub: "h_orchestrator (fst sample_ringing) = None"
proof -
  have a: "mem_calm world0" "store_inv (w_db world0)" by (simp_all add: mem_calm_def world0_def)
  have v: "valid_offer sample_offer" by (simp add: valid_offer_def sample_offer_def isValidSDP_def HasPrefix_def)
  have free: "\<not> busy (call_at (w_db world0)) u" for u by (simp add: busy_def call_at_def world0_def)
  show ?thesis
    using mem.initiate_result[OF a sample_decodes(2) v free free refl refl, of sample_client sample_hub]
    by (auto simp: sample_ringing_def sample_dispatch go_def sample_hub_def NewHub_def)
qed

text \<open>Alice's phone connects.\<close>

definition sample_online :: "Hub \<times> world" where
  "sample_online = Run_register mem_env sample_client (snd (NewClient 1 ''alice'' ''phone'' sample_hub)) world0"

lemma sample_online_hub:
  "fst sample_online = sample_hub\<lparr>h_conns := [1 \<mapsto> \<lparr>cn_closed = False, cn_send = []\<rparr>],
     h_clients := [(''alice'', [(''phone'', sample_client)])]\<rparr>"
  by (simp add: sample_online_def Run_register_def sendStateSync_def SessionStore_GetUserActiveCall_def
      NewClient_def sample_hub_def NewHub_def sample_client_def cancelRoomGracePeriod_def devices_def
      mem_env_def mem_fate_def world0_def Let_def)

lemma sample_online_step: "hub_step mem_env (sample_hub, world0) sample_online"
  unfolding sample_online_def
  by (rule hub_step.connect[of _ 1 "''alice''" "''phone''"])
    (simp_all add: sample_hub_def NewHub_def NewClient_def sample_client_def)

lemma sample_online_run: "hub_run mem_env (sample_hub, world0) sample_online"
  using sample_online_step by (rule hub_run.go) (rule hub_run.stop)

text \<open>Then Bob connects and calls her.\<close>

definition sample_bob :: Client where
  "sample_bob = \<lparr>c_id = 2, c_userID = ''bob'', c_deviceID = ''laptop''\<rparr>"

definition sample_both :: "Hub \<times> world" where
  "sample_both = Run_register mem_env sample_bob (snd (NewClient 2 ''bob'' ''laptop'' (fst sample_online))) world0"

definition bob_data :: json where
  "bob_data = JObj [(''callee_id'', JStr ''alice''), (''sdp_offer'', JStr ''v=0 o=- s=-''), (''call_type'', JStr ''audio'')]"

definition bob_calls :: "Hub \<times> world" where
  "bob_calls = handleMessage mem_env sample_bob (Some (JObj [(''type'', JStr ''call_initiate''), (''data'', bob_data)]))
     (fst sample_both) world0"

lemma sample_both_hub:
  "fst sample_both = sample_hub\<lparr>h_conns := [1 \<mapsto> \<lparr>cn_closed = False, cn_send = []\<rparr>, 2 \<mapsto> \<lparr>cn_closed = False, cn_send = []\<rparr>],
     h_clients := [(''alice'', [(''phone'', sample_client)]), (''bob'', [(''laptop'', sample_bob)])]\<rparr>"
  "snd sample_both = world0"
  by (simp_all add: sample_both_def sample_online_hub Run_register_def sendStateSync_def SessionStore_GetUserActiveCall_def
      NewClient_def sample_hub_def NewHub_def sample_bob_def cancelRoomGracePeriod_def devices_def
      mem_env_def mem_fate_def spend_def world0_def Let_def)

lemma snd_sample_online: "snd sample_online = world0"
  by (simp add: sample_online_def Run_register_def sendStateSync_def SessionStore_GetUserActiveCall_def
      mem_env_def mem_fate_def spend_def world0_def Let_def)

lemma bob_calls_run: "hub_run mem_env (sample_hub, world0) bob_calls"
proof -
  have "hub_step mem_env (fst sample_online, world0) sample_both"
    unfolding sample_both_def
    by (rule hub_step.connect[of _ 2 "''bob''" "''laptop''"])
      (simp_all add: sample_online_hub sample_hub_def NewHub_def NewClient_def sample_bob_def)
  moreover have "hub_step mem_env (fst sample_both, world0) bob_calls"
    unfolding bob_calls_def
    by (rule hub_step.message) (simp_all add: sample_both_hub(1) sample_hub_def NewHub_def sample_bob_def)
  ultimately have "hub_run mem_env (fst sample_online, world0) bob_calls"
    using sample_both_hub(2) by (metis hub_run.go hub_run.stop prod.collapse)
  moreover have "hub_step mem_env (sample_hub, world0) (fst sample_online, world0)"
    using sample_online_step snd_sample_online by (metis prod.collapse)
  ultimately show ?thesis by (metis hub_run.go)
qed

lemma bob_calls_hub:
  "h_conns (fst bob_calls) 1 = Some \<lparr>cn_closed = False, cn_send =
     [packet_of MsgIncomingCall (IncomingCallMsg ''id0'' ''bob'' [] ''v=0 o=- s=-'' ''audio'') 1]\<rparr>"
  "h_seqCounters (fst bob_calls) ''alice'' = 1" "devices (fst bob_calls) ''alice'' = [(''phone'', sample_client)]"
proof -
  let ?m = "\<lparr>ini_CalleeID = ''alice'', ini_SDPOffer = ''v=0 o=- s=-'', ini_CallType = ''audio''\<rparr>"
  have a: "mem_calm world0" "store_inv (w_db world0)" by (simp_all add: mem_calm_def world0_def)
  have d: "unmarshal_raw dec_CallInitiateMsg (Some bob_data) = Inr ?m"
    by (simp add: bob_data_def unmarshal_raw_def dec_CallInitiateMsg_def)
  have v: "valid_offer ?m" by (simp add: valid_offer_def isValidSDP_def HasPrefix_def)
  have free: "\<not> busy (call_at (w_db world0)) u" for u by (simp add: busy_def call_at_def world0_def)
  obtain w' where "handleCallInitiate mem_env sample_bob (Some bob_data) (fst sample_both) world0 =
     (go (RingTimeout ''id0'') (toUser ''alice'' MsgIncomingCall
       (IncomingCallMsg ''id0'' ''bob'' [] ''v=0 o=- s=-'' ''audio'') (fst sample_both)), w')"
    using mem.initiate_result[OF a d v free free sample_draw[symmetric] refl, of sample_bob "fst sample_both"]
    by (auto simp: sample_bob_def)
  then have b: "fst bob_calls = go (RingTimeout ''id0'') (toUser ''alice'' MsgIncomingCall
       (IncomingCallMsg ''id0'' ''bob'' [] ''v=0 o=- s=-'' ''audio'') (fst sample_both))"
    by (simp add: bob_calls_def handleMessage_def unmarshal_SigEnvelope_def Let_def MsgCallInitiate_def)
  show "h_conns (fst bob_calls) 1 = Some \<lparr>cn_closed = False, cn_send =
     [packet_of MsgIncomingCall (IncomingCallMsg ''id0'' ''bob'' [] ''v=0 o=- s=-'' ''audio'') 1]\<rparr>"
   "h_seqCounters (fst bob_calls) ''alice'' = 1" "devices (fst bob_calls) ''alice'' = [(''phone'', sample_client)]"
    by (simp_all add: b go_def toUser_def sendToUser_def devices_def sample_both_hub sample_client_def nextSeq_def
        SendJSONWithSeq_def sendBufSize_def packet_of_def wrap64_def sample_hub_def NewHub_def Let_def)
qed

end
