(* ===== verification/Hub_Properties.thy ===== *)
theory Hub_Properties
  imports Hub_Samples
begin

text \<open>
  The theorems about the signaling hub: the registry of calls and the hub's own state along every
  run, delivery, the life of a 1:1 call from ringing to its end, races and lost connections.  Each
  is followed by an instance at a concrete state of the in-memory services.
\<close>

section \<open>Invariants of runs\<close>



lemma run_ok: "hub_run E (NewHub bus ring ice orc, w0) (h, w) \<Longrightarrow> hub_ok h"
  using ok_run[of E "(NewHub bus ring ice orc, w0)" "(h, w)"] ok_NewHub by simp

text \<open>C18: memory stays bounded.  In every state a hub can reach from its start, whatever clients
  and services do, no connection has more than 64 queued messages and no call more than 50 buffered
  ICE candidates.\<close>

theorem hub_buffers_bounded:
  assumes "hub_run E (NewHub bus ring ice orc, w0) (h, w)"
  shows "(\<forall>i cn. h_conns h i = Some cn \<longrightarrow> length (cn_send cn) \<le> 64) \<and>
         (\<forall>c b. h_iceBuf h c = Some b \<longrightarrow> length b \<le> 50)"
  using run_ok[OF assms] by (simp add: hub_ok_def bufs_ok_def ice_ok_def sendBufSize_def)

theorem hub_buffers_bounded_witness:
  "hub_run mem_env (sample_hub, world0) sample_online \<and>
   (\<exists>cn. h_conns (fst sample_online) 1 = Some cn \<and> length (cn_send cn) \<le> 64)"
proof -
  obtain h w where p: "sample_online = (h, w)" by (cases sample_online)
  have "\<exists>cn. h_conns h 1 = Some cn" using sample_online_hub by (simp add: p)
  then show ?thesis
    using hub_buffers_bounded[of mem_env None 0 0 None world0 h w] sample_online_run
    by (auto simp: p sample_hub_def)
qed



section \<open>Delivery\<close>

text \<open>What a connection does with a message that is handed to it: it is queued once, unless the
  connection is closed or its queue is full.\<close>

definition offered :: "packet \<Rightarrow> Conn \<Rightarrow> Conn" where
  "offered p cn = (if cn_closed cn \<or> 64 \<le> length (cn_send cn) then cn
     else cn\<lparr>cn_send := cn_send cn @ [p]\<rparr>)"

lemma SendJSONWithSeq_conns:
  "h_conns (SendJSONWithSeq c t d n h) i =
     (if i = c_id c then map_option (offered (packet_of t d n)) (h_conns h i) else h_conns h i)"
  by (auto simp: SendJSONWithSeq_def offered_def packet_of_def sendBufSize_def split: option.splits)

lemma send_all_offered:
  "distinct (map c_id cs) \<Longrightarrow> h_conns (send_all cs t d n h) i =
     (if i \<in> c_id ` set cs then map_option (offered (packet_of t d n)) (h_conns h i) else h_conns h i)"
  by (induction cs arbitrary: h) (auto simp: SendJSONWithSeq_conns)

text \<open>A message to a user reaches each of the user's registered devices exactly once, all with
  the same, next sequence number; no other connection changes.  It reports whether the user is
  online, and only a message that is sent takes a number.\<close>

theorem sendToUser_delivers:
  assumes "hub_run E (NewHub bus ring ice orc, w0) (h, w)"
    and "n = wrap64 (int (h_seqCounters h u) + 1)"
  shows "fst (sendToUser u t d h) = isUserOnline u h \<and>
    (\<forall>i. h_conns (snd (sendToUser u t d h)) i =
      (if i \<in> c_id ` snd ` set (devices h u)
       then map_option (offered \<lparr>pk_Type = t, pk_Data = d, pk_Seq = n\<rparr>) (h_conns h i) else h_conns h i)) \<and>
    h_seqCounters (snd (sendToUser u t d h)) =
      (if isUserOnline u h then (h_seqCounters h)(u := h_seqCounters h u + 1) else h_seqCounters h)"
proof -
  have d: "distinct (map c_id (map snd (devices h u)))"
    using run_ok[OF assms(1)] distinct_ids by (simp add: hub_ok_def)
  let ?h1 = "snd (nextSeq u h)"
  have n: "fst (nextSeq u h) = n" using assms(2) by (simp add: nextSeq_def Let_def add.commute)
  have c: "h_conns ?h1 = h_conns h" "h_seqCounters ?h1 = (h_seqCounters h)(u := h_seqCounters h u + 1)"
    by (simp_all add: nextSeq_def Let_def)
  show ?thesis
  proof (cases "devices h u = []")
    case True
    then show ?thesis by (simp add: sendToUser_def isUserOnline_def Let_def)
  next
    case False
    then have s: "sendToUser u t d h = (True, send_all (map snd (devices h u)) t d n ?h1)"
      by (simp add: sendToUser_def Let_def split_beta n)
    show ?thesis
      using send_all_offered[OF d, of t d n ?h1] False c
      by (simp add: s send_all_counters isUserOnline_def packet_of_def image_image)
  qed
qed

theorem sendToUser_delivers_witness:
  "fst (sendToUser ''alice'' MsgPong NoData (fst bob_calls)) \<and>
   map_option (map pk_Seq \<circ> cn_send) (h_conns (snd (sendToUser ''alice'' MsgPong NoData (fst bob_calls))) 1) = Some [1, 2]"
proof -
  obtain h w where p: "bob_calls = (h, w)" by (cases bob_calls)
  have r: "hub_run mem_env (NewHub None 0 0 None, world0) (h, w)" using bob_calls_run by (simp add: p sample_hub_def)
  show ?thesis
    using sendToUser_delivers[OF r refl, of "''alice''" MsgPong NoData] bob_calls_hub
    by (simp add: p isUserOnline_def sample_client_def offered_def packet_of_def wrap64_def)
qed

section \<open>The life of a call\<close>

text \<open>A system whose only call is \<open>s\<close>.\<close>

definition call_world :: "CallSession \<Rightarrow> world" where
  "call_world s = world0\<lparr>w_db := created s Map.empty\<rparr>"

lemma call_world_facts: "mem_calm (call_world s)" "call_at (w_db (call_world s)) = [cs_CallID s \<mapsto> s]"
  "marker (w_db (call_world s)) = [cs_CallerID s \<mapsto> cs_CallID s, cs_CalleeID s \<mapsto> cs_CallID s]"
  by (simp_all add: call_world_def mem_calm_def world0_def fun_eq_iff call_at_def marker_def)

lemma call_world_inv: "live s \<Longrightarrow> store_inv (w_db (call_world s))"
  using store_inv_created[OF store_inv_empty, of s] by (simp add: call_world_def call_at_def)

text \<open>C20: \<open>call_initiate\<close>.  A message without a callee, a known call type or a plausible SDP offer
  is answered with an error and nothing else happens.  A valid one between users who are both free
  stores a ringing call in the name of the sender, sends \<open>incoming_call\<close> to the callee and starts
  the ring timer.  If the callee is in a live call the sender is told \<open>busy\<close>, unless that call is
  the callee ringing the sender, and nothing is stored.\<close>

theorem call_initiate_spec:
  assumes svc: "services E view fate published calm"
    and "calm w" "store_inv (view w)" "unmarshal_raw dec_CallInitiateMsg d = Inr m"
    and i: "i = fst (uuid_new E w)" and now: "now = fst (time_now E (snd (uuid_new E w)))"
  shows "(\<not> valid_offer m \<longrightarrow> (\<exists>code text. handleCallInitiate E c d h w = (SendError c code text [] h, w))) \<and>
    (valid_offer m \<and> \<not> busy (call_at (view w)) (c_userID c) \<and> \<not> busy (call_at (view w)) (ini_CalleeID m) \<longrightarrow>
      (\<exists>w'. handleCallInitiate E c d h w = (go (RingTimeout i) (toUser (ini_CalleeID m) MsgIncomingCall
         (IncomingCallMsg i (c_userID c) [] (ini_SDPOffer m) (ini_CallType m)) h), w') \<and>
       call_at (view w') = (call_at (view w))(i \<mapsto> ringing i (c_userID c) m now))) \<and>
    (valid_offer m \<and> busy (call_at (view w)) (ini_CalleeID m) \<and>
       \<not> (\<exists>g. g \<in> ran (call_at (view w)) \<and> live g \<and> cs_CallerID g = ini_CalleeID m \<and> cs_CalleeID g = c_userID c) \<longrightarrow>
      (\<exists>w'. handleCallInitiate E c d h w = (SendError c ErrCodeBusy ''user is busy'' [] h, w') \<and> view w' = view w))"
proof (intro conjI impI)
  show "\<exists>code text. handleCallInitiate E c d h w = (SendError c code text [] h, w)" if "\<not> valid_offer m"
    by (rule initiate_invalid[OF assms(4) that])
next
  assume a: "valid_offer m \<and> \<not> busy (call_at (view w)) (c_userID c) \<and> \<not> busy (call_at (view w)) (ini_CalleeID m)"
  then obtain w' where "handleCallInitiate E c d h w = (go (RingTimeout i) (toUser (ini_CalleeID m) MsgIncomingCall
      (IncomingCallMsg i (c_userID c) [] (ini_SDPOffer m) (ini_CallType m)) h), w')"
    "view w' = created (ringing i (c_userID c) m now) (view w)"
    using services.initiate_result[OF svc assms(2,3,4) _ _ _ i now] by blast
  then show "\<exists>w'. handleCallInitiate E c d h w = (go (RingTimeout i) (toUser (ini_CalleeID m) MsgIncomingCall
      (IncomingCallMsg i (c_userID c) [] (ini_SDPOffer m) (ini_CallType m)) h), w') \<and>
      call_at (view w') = (call_at (view w))(i \<mapsto> ringing i (c_userID c) m now)"
    by (auto simp: ringing_def)
next
  assume a: "valid_offer m \<and> busy (call_at (view w)) (ini_CalleeID m) \<and>
       \<not> (\<exists>g. g \<in> ran (call_at (view w)) \<and> live g \<and> cs_CallerID g = ini_CalleeID m \<and> cs_CalleeID g = c_userID c)"
  then obtain j g where g: "call_at (view w) j = Some g" "live g" "party g (ini_CalleeID m)" by (auto simp: busy_def)
  then have "\<not> (cs_CallerID g = ini_CalleeID m \<and> cs_CalleeID g = c_userID c)" using a by (metis ranI)
  then show "\<exists>w'. handleCallInitiate E c d h w = (SendError c ErrCodeBusy ''user is busy'' [] h, w') \<and> view w' = view w"
    using services.initiate_busy[OF svc assms(2,3,4) _ g] a by blast
qed

theorem call_initiate_spec_witness:
  "\<exists>w'. handleCallInitiate mem_env sample_client (Some sample_data) sample_hub world0 =
      (go (RingTimeout ''id0'') (toUser ''bob'' MsgIncomingCall
         (IncomingCallMsg ''id0'' ''alice'' [] ''v=0 o=- s=-'' ''audio'') sample_hub), w') \<and>
     call_at (w_db w') = [''id0'' \<mapsto> ringing ''id0'' ''alice'' sample_offer 1]"
proof -
  have a: "mem_calm world0" "store_inv (w_db world0)" "call_at (w_db world0) = Map.empty"
    by (simp_all add: mem_calm_def world0_def fun_eq_iff call_at_def)
  have v: "valid_offer sample_offer" by (simp add: valid_offer_def sample_offer_def isValidSDP_def HasPrefix_def)
  show ?thesis
    using call_initiate_spec[OF mem.services_axioms a(1,2) sample_decodes(2) sample_draw[symmetric] sample_now[symmetric],
        of sample_client sample_hub] v
    by (simp add: a(3) busy_def sample_client_def) (simp add: sample_offer_def)
qed

text \<open>Messages that name the call \<open>c1\<close> between Alice and Bob.\<close>

definition c1_data :: json where
  "c1_data = JObj [(''call_id'', JStr ''c1'')]"

lemma c1_decodes: "unmarshal_raw dec_call_id (Some c1_data) = Inr ''c1''"
  "unmarshal_raw dec_CallAcceptMsg (Some c1_data) = Inr \<lparr>acc_CallID = ''c1'', acc_SDPAnswer = []\<rparr>"
  "unmarshal_raw dec_CallRejectMsg (Some c1_data) = Inr \<lparr>rej_CallID = ''c1'', rej_Reason = []\<rparr>"
  by (simp_all add: c1_data_def unmarshal_raw_def dec_call_id_def dec_CallAcceptMsg_def dec_CallRejectMsg_def)

lemma c1_facts: "call_at (w_db (call_world sample_call)) ''c1'' = Some sample_call"
  "cs_State sample_call = StateRinging" "cs_CallerID sample_call = ''alice''" "cs_CalleeID sample_call = ''bob''"
  "cs_CallID sample_call = ''c1''"
  by (simp_all add: call_world_facts) (simp_all add: sample_call_def)

text \<open>C21: \<open>call_accept\<close> by the callee, with no or a plausible SDP answer.  A ringing call becomes
  CONNECTING with the answer and the time recorded; the caller gets \<open>call_accepted\<close>, the callee's
  other devices \<open>call_accepted_elsewhere\<close>, and the ICE timer starts.  A call that is over is
  answered \<open>call_cancelled\<close>, one accepted before \<open>invalid_state\<close>; neither changes anything.\<close>

theorem call_accept_spec:
  assumes svc: "services E view fate published calm"
    and w: "calm w" "unmarshal_raw dec_CallAcceptMsg d = Inr m" "call_at (view w) (acc_CallID m) = Some s"
    and c: "cs_CalleeID s = c_userID c" and sdp: "acc_SDPAnswer m = [] \<or> isValidSDP (acc_SDPAnswer m)"
  shows "(cs_State s = StateRinging \<longrightarrow> (\<exists>w' t. 0 < t \<and>
      handleCallAccept E c d h w = (go (IceTimeout (acc_CallID m))
        (sendToUserExcept (c_userID c) (c_deviceID c) MsgCallAcceptedElsewhere
           (CallAcceptedElsewhereMsg (acc_CallID m) (c_deviceID c))
           (toUser (cs_CallerID s) MsgCallAccepted (CallAcceptedMsg (acc_CallID m) (acc_SDPAnswer m)) h)), w') \<and>
      call_at (view w') = (call_at (view w))(acc_CallID m \<mapsto>
        s\<lparr>cs_State := StateConnecting, cs_SDPAnswer := acc_SDPAnswer m, cs_AnsweredAt := t\<rparr>))) \<and>
    (is_over s \<longrightarrow> (\<exists>w'. handleCallAccept E c d h w =
        (SendError c ErrCodeCallCancelled ''call was cancelled'' (acc_CallID m) h, w') \<and> view w' = view w)) \<and>
    (cs_State s \<noteq> StateRinging \<and> \<not> is_over s \<longrightarrow> (\<exists>w' text. handleCallAccept E c d h w =
        (SendError c ErrCodeInvalidState text (acc_CallID m) h, w') \<and> view w' = view w))"
proof (intro conjI impI)
  assume r: "cs_State s = StateRinging"
  show "\<exists>w' t. 0 < t \<and>
      handleCallAccept E c d h w = (go (IceTimeout (acc_CallID m))
        (sendToUserExcept (c_userID c) (c_deviceID c) MsgCallAcceptedElsewhere
           (CallAcceptedElsewhereMsg (acc_CallID m) (c_deviceID c))
           (toUser (cs_CallerID s) MsgCallAccepted (CallAcceptedMsg (acc_CallID m) (acc_SDPAnswer m)) h)), w') \<and>
      call_at (view w') = (call_at (view w))(acc_CallID m \<mapsto>
        s\<lparr>cs_State := StateConnecting, cs_SDPAnswer := acc_SDPAnswer m, cs_AnsweredAt := t\<rparr>)"
    using services.accept_result[OF svc w r c sdp, of h] by (metis call_at_stored)
qed (use services.accept_over[OF svc w _ c] services.accept_bad_state[OF svc w _ _ c sdp] in blast)+

theorem call_accept_spec_witness:
  "\<exists>w' t. 0 < t \<and> call_at (w_db w') ''c1'' =
     Some (sample_call\<lparr>cs_State := StateConnecting, cs_SDPAnswer := [], cs_AnsweredAt := t\<rparr>) \<and>
     w' = snd (handleCallAccept mem_env sample_bob (Some c1_data) sample_hub (call_world sample_call))"
proof -
  have "cs_CalleeID sample_call = c_userID sample_bob" by (simp add: c1_facts sample_bob_def)
  from call_accept_spec[OF mem.services_axioms call_world_facts(1) c1_decodes(2) _ this, where h = sample_hub]
  obtain w' t where "0 < t" "snd (handleCallAccept mem_env sample_bob (Some c1_data) sample_hub (call_world sample_call)) = w'"
    "call_at (w_db w') ''c1'' = Some (sample_call\<lparr>cs_State := StateConnecting, cs_SDPAnswer := [], cs_AnsweredAt := t\<rparr>)"
    using c1_facts by fastforce
  then show ?thesis by blast
qed



text \<open>C23: who may do what.  Whatever the connection to Redis does, a client that is not the callee
  cannot accept or reject a call, one that is not the caller cannot cancel it, and one that is not a
  party can neither end it nor reconnect to it: nothing is written, no other client gets a message
  and the sender is answered \<open>unauthorized\<close> (or \<open>not_found\<close>, when the lookup fails).\<close>

theorem strangers_refused:
  assumes svc: "services E view fate published calm" and at: "call_at (view w) i = Some s" and i: "i \<noteq> []"
    and d: "unmarshal_raw dec_call_id d = Inr i"
    and da: "unmarshal_raw dec_CallAcceptMsg da = Inr \<lparr>acc_CallID = i, acc_SDPAnswer = sdp\<rparr>"
    and dr: "unmarshal_raw dec_CallRejectMsg dr = Inr \<lparr>rej_CallID = i, rej_Reason = why\<rparr>"
  shows "(c_userID c \<noteq> cs_CalleeID s \<longrightarrow> refused view c h w (handleCallAccept E c da h w) \<and>
            refused view c h w (handleCallReject E c dr h w)) \<and>
    (c_userID c \<noteq> cs_CallerID s \<longrightarrow> refused view c h w (handleCallCancel E c d h w)) \<and>
    (\<not> party s (c_userID c) \<longrightarrow> refused view c h w (handleCallEnd E c d h w) \<and>
            refused view c h w (handleReconnect E c d h w))"
  using services.refused_accept[OF svc _ da, of w s c h] services.refused_reject[OF svc _ dr, of w s c h]
    services.refused_cancel[OF svc at d, of c h] services.refused_end[OF svc at d, of c h]
    services.refused_reconnect[OF svc at d _ i, of c h] at by simp

definition sample_eve :: Client where
  "sample_eve = \<lparr>c_id = 3, c_userID = ''eve'', c_deviceID = ''tablet''\<rparr>"

theorem strangers_refused_witness:
  "refused w_db sample_eve sample_hub (call_world sample_call)
     (handleCallEnd mem_env sample_eve (Some c1_data) sample_hub (call_world sample_call))"
  using strangers_refused[OF mem.services_axioms c1_facts(1) _ c1_decodes(1,2,3), of sample_eve sample_hub] c1_facts(3,4)
  by (simp add: party_def sample_eve_def)

section \<open>Timeouts\<close>

text \<open>C24: the ring and ICE timers.  When a ring timer fires, a call that still rings ends with
  \<open>ring_timeout\<close>; when an ICE timer fires, a call that still is CONNECTING ends with
  \<open>ice_timeout\<close>.  Both users are told and are free again.  A call in any other state is left
  alone and nobody is told anything.\<close>

theorem call_timers_spec:
  assumes svc: "services E view fate published calm" and w: "calm w" "call_at (view w) i = Some s"
    and T: "(T, waits, reason, shown) \<in> {(RingTimeout i, StateRinging, ''ring_timeout'', ''timeout''),
              (IceTimeout i, StateConnecting, ''ice_timeout'', ''ice_timeout'')}"
    and r: "(h', w') = fire E T h w" and h1: "h1 = h\<lparr>h_timers := remove1 T (h_timers h)\<rparr>"
  shows "(cs_State s = waits \<longrightarrow>
      h' = toUser (cs_CalleeID s) MsgCallEnded (CallEndedMsg i shown) (toUser (cs_CallerID s) MsgCallEnded (CallEndedMsg i shown) h1) \<and>
      (\<exists>t>0. call_at (view w') = (call_at (view w))(i \<mapsto> ended t reason s)) \<and>
      marker (view w') (cs_CallerID s) = None \<and> marker (view w') (cs_CalleeID s) = None) \<and>
    (cs_State s \<noteq> waits \<longrightarrow> h' = h1 \<and> view w' = view w)"
proof -
  have f: "fire E T h w = endBoth E i waits reason shown h1 w" and ed: "edge waits StateEnded"
    using T edge_facts by (auto simp: fire_def h1 ringTimeout_def iceTimeout_def)
  have x: "endBoth E i waits reason shown h1 w = (h', w')" using r f by simp
  show ?thesis
    using services.endBoth_result[OF svc w ed, where reason = reason and shown = shown and h = h1]
    by (auto simp: Let_def x)
qed

theorem call_timers_spec_witness:
  "(\<exists>t>0. call_at (w_db (snd (fire mem_env (RingTimeout ''c1'') sample_hub (call_world sample_call)))) ''c1'' =
      Some (ended t ''ring_timeout'' sample_call)) \<and>
   w_db (snd (fire mem_env (IceTimeout ''c1'') sample_hub (call_world sample_call))) = w_db (call_world sample_call)"
proof -
  obtain h' w' where x: "(h', w') = fire mem_env (RingTimeout ''c1'') sample_hub (call_world sample_call)" by (metis prod.collapse)
  obtain k' v' where y: "(k', v') = fire mem_env (IceTimeout ''c1'') sample_hub (call_world sample_call)" by (metis prod.collapse)
  have ne: "cs_State sample_call \<noteq> StateConnecting" by (simp add: c1_facts(2) StateRinging_def StateConnecting_def)
  have "\<exists>t>0. call_at (w_db w') ''c1'' = Some (ended t ''ring_timeout'' sample_call)"
    using call_timers_spec[OF mem.services_axioms call_world_facts(1) c1_facts(1), where T = "RingTimeout ''c1''", OF insertI1 x refl]
      c1_facts(2) by auto
  moreover have "w_db v' = w_db (call_world sample_call)"
    using call_timers_spec[OF mem.services_axioms call_world_facts(1) c1_facts(1), where T = "IceTimeout ''c1''", OF insertI2[OF insertI1] y refl]
      ne by blast
  ultimately show ?thesis using x y by (metis snd_conv)
qed

section \<open>Lost connections\<close>

text \<open>C25: a lost connection and its return.  When the last device of a party of an ACTIVE call goes
  away the call becomes RECONNECTING, the other party is told and a grace timer starts; when the user
  sends \<open>reconnect\<close> before it fires the call is ACTIVE again exactly as before, the timer is gone,
  the user gets \<open>session_resumed\<close> and the other party \<open>peer_reconnected\<close>.\<close>

theorem reconnect_roundtrip:
  assumes svc: "services E view fate published calm"
    and w: "calm w" "call_at (view w) i = Some s" "cs_State s = StateActive" "marker (view w) u = Some i" "i \<noteq> []"
    and u: "party s u" "c_userID c = u" and d: "unmarshal_raw dec_call_id d = Inr i"
    and lost: "(started, h1, w1) = startGracePeriod E u h w" and again: "(h2, w2) = handleReconnect E c d h1 w1"
  shows "started \<and> GraceTimeout u i (peer_of s u) \<in> set (h_timers h1) \<and>
     call_at (view w1) = (call_at (view w))(i \<mapsto> s\<lparr>cs_State := StateReconnecting\<rparr>) \<and>
     call_at (view w2) = call_at (view w) \<and> list_all (\<lambda>t. \<not> is_grace u t) (h_timers h2) \<and>
     h2 = flushICEBuffer i c (toUser (peer_of s u) MsgPeerReconnected (PeerReconnectedMsg i u)
       (SendJSON c MsgSessionResumed (SessionResumedMsg i StateActive (peer_of s u) []) (snd (cancelGracePeriod u h1))))"
proof -
  have g: "started" "h1 = go (GraceTimeout u i (peer_of s u)) (snd (cancelGracePeriod u
       (toUser (peer_of s u) MsgPeerReconnecting (PeerReconnectingMsg i u) h)))" "calm w1"
     "view w1 = stored i (s\<lparr>cs_State := StateReconnecting\<rparr>) (view w)"
    using services.grace_active[OF svc w, of h] lost by auto
  let ?s = "s\<lparr>cs_State := StateReconnecting\<rparr>"
  have at: "call_at (view w1) i = Some ?s" by (simp add: g)
  have pr: "peer_of ?s u = peer_of s u" by (simp add: peer_of_def)
  have r: "h2 = flushICEBuffer i c (toUser (peer_of s u) MsgPeerReconnected (PeerReconnectedMsg i u)
       (SendJSON c MsgSessionResumed (SessionResumedMsg i StateActive (peer_of s u) []) (snd (cancelGracePeriod u h1))))"
     "view w2 = stored i (?s\<lparr>cs_State := StateActive\<rparr>) (view w1)"
    using services.reconnect_result[OF svc g(3) at _ _ w(5) d, of c h1] u again pr by (auto simp: party_def)
  have "?s\<lparr>cs_State := StateActive\<rparr> = s" using w(3) by simp
  then have "call_at (view w2) = call_at (view w)" using w(2) by (simp add: r(2) g(4) fun_upd_idem)
  moreover have "h_timers (flushICEBuffer i c k) = h_timers k" for k
    using frame_send_candidates by (simp add: flushICEBuffer_def same_frame_def)
  then have "list_all (\<lambda>t. \<not> is_grace u t) (h_timers h2)"
    by (simp add: r(1) cancelGracePeriod_def list_all_iff)
  moreover have "GraceTimeout u i (peer_of s u) \<in> set (h_timers h1)" by (simp add: g(2) go_def)
  ultimately show ?thesis using g(1,4) r(1) by simp
qed

definition active_call :: CallSession where
  "active_call = sample_call\<lparr>cs_State := StateActive\<rparr>"

lemma active_facts: "call_at (w_db (call_world active_call)) ''c1'' = Some active_call"
  "cs_State active_call = StateActive" "marker (w_db (call_world active_call)) ''alice'' = Some ''c1''"
  "party active_call ''alice''"
  by (simp_all add: call_world_facts) (simp_all add: active_call_def sample_call_def party_def)

theorem reconnect_roundtrip_witness:
  "\<exists>h1 w1. (True, h1, w1) = startGracePeriod mem_env ''alice'' sample_hub (call_world active_call) \<and>
     map_option cs_State (call_at (w_db w1) ''c1'') = Some StateReconnecting \<and>
     call_at (w_db (snd (handleReconnect mem_env sample_client (Some c1_data) h1 w1))) ''c1'' = Some active_call"
proof -
  obtain b h1 w1 where l: "(b, h1, w1) = startGracePeriod mem_env ''alice'' sample_hub (call_world active_call)"
    by (metis prod.collapse)
  obtain h2 w2 where k: "(h2, w2) = handleReconnect mem_env sample_client (Some c1_data) h1 w1" by (metis prod.collapse)
  have n: "''c1'' \<noteq> []" by simp
  have u: "c_userID sample_client = ''alice''" by (simp add: sample_client_def)
  note R = reconnect_roundtrip[OF mem.services_axioms call_world_facts(1) active_facts(1,2,3) n active_facts(4) u c1_decodes(1) l k]
  then have "map_option cs_State (call_at (w_db w1) ''c1'') = Some StateReconnecting" "b"
     "call_at (w_db w2) ''c1'' = Some active_call" using active_facts(1) by simp_all
  then show ?thesis using l k by (metis snd_conv)
qed

text \<open>C26: the grace timer.  When it fires for a user in no room, the call ends with
  \<open>reconnect_timeout\<close>, both parties are free, the peer is told \<open>call_ended\<close>, and neither a
  grace timer of the user nor buffered candidates of the call remain.  This holds for every call that
  may still end, also one that became ACTIVE again because the other party sent \<open>reconnect\<close>.\<close>

theorem grace_expiry_ends_call:
  assumes svc: "services E view fate published calm"
    and w: "calm w" "call_at (view w) i = Some s" and ed: "edge (cs_State s) StateEnded"
    and alone: "\<forall>r. \<not> isInRoom r u h" and r: "(h', w') = fire E (GraceTimeout u i v) h w"
  shows "(\<exists>t>0. call_at (view w') = (call_at (view w))(i \<mapsto> ended t ''reconnect_timeout'' s)) \<and>
     marker (view w') (cs_CallerID s) = None \<and> marker (view w') (cs_CalleeID s) = None \<and>
     (\<exists>h1. h' = toUser v MsgCallEnded (CallEndedMsg i ''reconnect_timeout'') h1 \<and> h_conns h1 = h_conns h) \<and>
     list_all (\<lambda>t. \<not> is_grace u t) (h_timers h') \<and> h_iceBuf h' i = None"
proof -
  define h1 where "h1 = clearICEBuffer i (snd (cancelGracePeriod u (h\<lparr>h_timers := remove1 (GraceTimeout u i v) (h_timers h)\<rparr>)))"
  define h2 where "h2 = toUser v MsgCallEnded (CallEndedMsg i ''reconnect_timeout'') h1"
  have rooms: "h_rooms h2 = h_rooms h" by (simp add: h2_def h1_def clearICEBuffer_def cancelGracePeriod_def)
  then have alone2: "\<forall>r. \<not> isInRoom r u h2" using alone by (simp add: isInRoom_def members_def)
  define x where "x = SessionStore_End E i ''reconnect_timeout'' w"
  obtain t where t: "fst x = Inr ()" "0 < t" "view (snd x) = released s (stored i (ended t ''reconnect_timeout'' s) (view w))"
    using services.End_calm(1)[OF svc w(1,2) ed, of "''reconnect_timeout''"] unfolding x_def by blast
  have drop: "drop_user rs u h2 = ([], h2)" for rs using alone2 by (induction rs) auto
  have f: "h' = h2" "view w' = view (snd x)"
    using r t(1) by (simp_all add: fire_def reconnectGraceTimeout_def h1_def[symmetric] x_def[symmetric] h2_def[symmetric]
        Let_def split_beta removeFromAllRooms_def drop services.order_view[OF svc] services.hub_publish_view[OF svc])
  have c: "h_conns h1 = h_conns h" by (simp add: h1_def clearICEBuffer_def cancelGracePeriod_def)
  have "list_all (\<lambda>t. \<not> is_grace u t) (h_timers h2)" "h_iceBuf h2 i = None"
    by (simp_all add: h2_def h1_def clearICEBuffer_def cancelGracePeriod_def list_all_iff)
  moreover have "call_at (view w') = (call_at (view w))(i \<mapsto> ended t ''reconnect_timeout'' s)"
    "marker (view w') (cs_CallerID s) = None" "marker (view w') (cs_CalleeID s) = None"
    by (simp_all add: f(2) t(3))
  moreover have "h' = toUser v MsgCallEnded (CallEndedMsg i ''reconnect_timeout'') h1" by (simp add: f(1) h2_def)
  ultimately show ?thesis using t(2) c f(1) by metis
qed

theorem grace_expiry_ends_call_witness:
  "map_option cs_EndReason (call_at (w_db (snd (fire mem_env (GraceTimeout ''alice'' ''c1'' ''bob'') sample_hub
     (call_world (sample_call\<lparr>cs_State := StateReconnecting\<rparr>))))) ''c1'') = Some ''reconnect_timeout''"
proof -
  let ?s = "sample_call\<lparr>cs_State := StateReconnecting\<rparr>"
  obtain h' w' where x: "(h', w') = fire mem_env (GraceTimeout ''alice'' ''c1'' ''bob'') sample_hub (call_world ?s)"
    by (metis prod.collapse)
  have s: "call_at (w_db (call_world ?s)) ''c1'' = Some ?s" "edge (cs_State ?s) StateEnded"
    using call_world_facts(2)[of ?s] edge_facts by (simp_all add: c1_facts(5))
  have a: "\<forall>r. \<not> isInRoom r ''alice'' sample_hub" by (simp add: isInRoom_def members_def sample_hub_def NewHub_def)
  obtain t where "call_at (w_db w') ''c1'' = Some (ended t ''reconnect_timeout'' ?s)"
    using grace_expiry_ends_call[OF mem.services_axioms call_world_facts(1) s a x] by auto
  then have "map_option cs_EndReason (call_at (w_db w') ''c1'') = Some ''reconnect_timeout''" by (simp add: ended_def)
  then show ?thesis using x by (metis snd_conv)
qed

text \<open>Only an ACTIVE call gets a grace period.  The hub also asks for one when the call is
  CONNECTING, but the transition to RECONNECTING is refused; and a user who loses the connection while
  the other party is reconnecting gets none either.  In all these cases no timer starts, nobody is told
  and the call stays as it was, whatever the connection to Redis does.\<close>

theorem grace_only_when_active:
  assumes "services E view fate published calm"
    and "call_at (view w) i = Some s" "cs_State s \<noteq> StateActive" "marker (view w) u = Some i" "i \<noteq> []"
    and "(started, h', w') = startGracePeriod E u h w"
  shows "\<not> started \<and> h' = h \<and> view w' = view w"
  using services.grace_refused[OF assms(1-5), of h] assms(6) by (metis prod.inject snd_conv)

theorem grace_only_when_active_witness:
  "\<exists>w'. startGracePeriod mem_env ''alice'' sample_hub (call_world (sample_call\<lparr>cs_State := StateConnecting\<rparr>)) = (False, sample_hub, w')"
proof -
  let ?s = "sample_call\<lparr>cs_State := StateConnecting\<rparr>"
  obtain b h' w' where x: "(b, h', w') = startGracePeriod mem_env ''alice'' sample_hub (call_world ?s)" by (metis prod.collapse)
  have s: "call_at (w_db (call_world ?s)) ''c1'' = Some ?s" "cs_State ?s \<noteq> StateActive"
    "marker (w_db (call_world ?s)) ''alice'' = Some ''c1''" "''c1'' \<noteq> []"
    by (simp_all add: call_world_facts) (simp_all add: sample_call_def StateConnecting_def StateActive_def)
  show ?thesis using grace_only_when_active[OF mem.services_axioms s x] x by metis
qed

section \<open>ICE candidates\<close>

text \<open>C27: candidates sent while the call is RECONNECTING are buffered, and the device that reconnects
  gets the newest 50 of them, in the order they were sent, after which the buffer is empty.\<close>

theorem ice_buffer_flush:
  assumes svc: "services E view fate published calm"
    and w: "calm w" "call_at (view w) i = Some s" "cs_State s = StateReconnecting"
    and d: "unmarshal_raw dec_ICECandidateMsg d = Inr m" "ice_CallID m = i"
    and h1: "h1 = fold (bufferICECandidate i) ms h" and e: "h_iceBuf h i = None"
    and q: "open_conn h c" "length (queue h c) + 50 \<le> sendBufSize"
  shows "fst (handleICECandidate E sender d h w) = bufferICECandidate i m h \<and>
     queue (flushICEBuffer i c h1) c =
       queue h c @ map (\<lambda>m. \<lparr>pk_Type = MsgICECandidate, pk_Data = IceOut m, pk_Seq = 0\<rparr>) (drop (length ms - 50) ms) \<and>
     h_iceBuf (flushICEBuffer i c h1) i = None"
proof -
  have f: "fst (handleICECandidate E sender d h w) = bufferICECandidate i m h"
    using services.Get_calm[OF svc w(1,2)] w(3) d by (simp add: handleICECandidate_def Let_def split_beta)
  have conns: "h_conns (fold (bufferICECandidate i) ms k) = h_conns k" for k
    by (induction ms arbitrary: k) (simp_all add: bufferICECandidate_def Let_def)
  have b: "buffered h1 i = last50 ms"
    using buffered_fold[of ms i h] e by (cases "ms = []") (simp_all add: h1 buffered_def last50_def)
  let ?h2 = "h1\<lparr>h_iceBuf := (h_iceBuf h1)(i := None)\<rparr>"
  have q2: "queue ?h2 c = queue h c" "open_conn ?h2 c = open_conn h c"
    by (simp_all add: queue_def open_conn_def h1 conns)
  have fl: "flushICEBuffer i c h1 = send_candidates c (last50 ms) ?h2"
    using b by (simp add: flushICEBuffer_def buffered_def Let_def)
  have "h_iceBuf (flushICEBuffer i c h1) i = None"
    using frame_send_candidates[of ?h2 c "last50 ms"] by (simp add: fl same_frame_def)
  moreover have "queue (flushICEBuffer i c h1) c = queue h c @ map (\<lambda>m. packet_of MsgICECandidate (IceOut m) 0) (last50 ms)"
    unfolding fl using queue_send_candidates[of ?h2 c "last50 ms"] q by (simp add: q2 last50_def)
  ultimately show ?thesis using f by (simp add: packet_of_def last50_def)
qed

definition sample_ice :: ICECandidateMsg where
  "sample_ice = \<lparr>ice_CallID = ''c1'', ice_Candidate = ''udp''\<rparr>"

definition ice_data :: json where
  "ice_data = JObj [(''call_id'', JStr ''c1''), (''candidate'', JStr ''udp'')]"

lemma ice_decodes: "unmarshal_raw dec_ICECandidateMsg (Some ice_data) = Inr sample_ice" "ice_CallID sample_ice = ''c1''"
  by (simp_all add: ice_data_def sample_ice_def unmarshal_raw_def dec_ICECandidateMsg_def)

theorem ice_buffer_flush_witness:
  "map pk_Data (queue (flushICEBuffer ''c1'' sample_client (fold (bufferICECandidate ''c1'') [sample_ice, sample_ice]
     (fst sample_both))) sample_client) = [IceOut sample_ice, IceOut sample_ice]"
proof -
  let ?s = "sample_call\<lparr>cs_State := StateReconnecting\<rparr>"
  have s: "call_at (w_db (call_world ?s)) ''c1'' = Some ?s" "cs_State ?s = StateReconnecting"
    using call_world_facts(2)[of ?s] by (simp_all add: c1_facts(5))
  have q: "queue (fst sample_both) sample_client = []" "open_conn (fst sample_both) sample_client"
    "h_iceBuf (fst sample_both) ''c1'' = None"
    by (simp_all add: sample_both_hub queue_def open_conn_def sample_client_def sample_hub_def NewHub_def)
  then have n: "length (queue (fst sample_both) sample_client) + 50 \<le> sendBufSize" by (simp add: sendBufSize_def)
  show ?thesis
    using ice_buffer_flush[OF mem.services_axioms call_world_facts(1) s ice_decodes refl q(3,2) n, where ms = "[sample_ice, sample_ice]"] q(1)
    by simp
qed

text \<open>Candidates are relayed without a check of who sent them: while a call is not RECONNECTING, a
  candidate from someone who is not a party goes to the caller.\<close>

theorem stranger_candidate_forwarded:
  assumes svc: "services E view fate published calm"
    and w: "calm w" "call_at (view w) i = Some s" "cs_State s \<noteq> StateReconnecting" "\<not> party s (c_userID c)"
    and d: "unmarshal_raw dec_ICECandidateMsg d = Inr m" "ice_CallID m = i"
    and one: "devices h (cs_CallerID s) = [(dev, p)]"
  shows "fst (handleICECandidate E c d h w) = SendJSON p MsgICECandidate (IceOut m) h"
proof -
  have g: "fst (SessionStore_Get E i w) = Inr s" by (rule services.Get_calm[OF svc w(1,2)])
  have peer: "peer_of s (c_userID c) = cs_CallerID s" using w(4) by (simp add: peer_of_def party_def)
  have "set (fst (map_order E [dev] v)) = {dev}" for v using services.order_set[OF svc] by simp
  then have "\<exists>ks. fst (map_order E [dev] v) = dev # ks" for v
    by (metis insertI1 insert_not_empty list.exhaust list.set_intros(1) list.set(1) singletonD)
  then obtain ks where "fst (map_order E [dev] v) = dev # ks v" for v by metis
  then have "fst (getClient E (cs_CallerID s) h v) = Some p" for v
    using one by (simp add: getClient_def Let_def split_beta)
  then show ?thesis using g d w(3) by (simp add: handleICECandidate_def Let_def split_beta peer)
qed

section \<open>Glare\<close>

text \<open>C28: glare.  When two users call each other, the call of the user with the lower identifier
  survives, whichever message came second.  If the callee of the second message has the lower
  identifier, its ringing call stays, the sender is told \<open>call_glare\<close> and nothing changes in Redis;
  otherwise the earlier call ends with reason \<open>glare\<close>, a new ringing call takes its place with a ring
  timer, and the other user gets \<open>incoming_call\<close> and \<open>call_glare\<close>.\<close>

theorem glare_lower_id_wins:
  assumes svc: "services E view fate published calm"
    and w: "calm w" "store_inv (view w)" "unmarshal_raw dec_CallInitiateMsg d = Inr m" "valid_offer m"
    and g: "call_at (view w) i = Some g" "i \<noteq> []" "cs_CallID g = i" "cs_CallerID g = ini_CalleeID m"
      "cs_CalleeID g = c_userID c" "cs_State g = StateRinging"
  shows "(ini_CalleeID m < c_userID c \<longrightarrow> (\<exists>w'. handleCallInitiate E c d h w =
        (toUser (c_userID c) MsgCallGlare (CallGlareMsg [] i (ini_CalleeID m)) h, w') \<and> view w' = view w)) \<and>
    (c_userID c < ini_CalleeID m \<longrightarrow> (\<exists>n now t w'. handleCallInitiate E c d h w =
        (toUser (ini_CalleeID m) MsgCallGlare (CallGlareMsg i n (c_userID c)) (go (RingTimeout n)
           (toUser (ini_CalleeID m) MsgIncomingCall (IncomingCallMsg n (c_userID c) [] (ini_SDPOffer m) (ini_CallType m)) h)), w') \<and>
        call_at (view w') = (call_at (view w))(i \<mapsto> ended t ''glare'' g, n \<mapsto> ringing n (c_userID c) m now)))"
proof -
  obtain v where v: "handleCallInitiate E c d h w = resolveGlare E c g m h v" "calm v" "view v = view w"
    using services.glare_found[OF svc w g] by blast
  have old: "handleCallInitiate E c d h w = (toUser (c_userID c) MsgCallGlare (CallGlareMsg [] i (ini_CalleeID m)) h, v)"
    if "ini_CalleeID m < c_userID c" using that g(3) by (simp add: v(1) resolveGlare_def str_gt_def)
  have gv: "call_at (view v) i = Some g" "store_inv (view v)" using g(1) w(2) v(3) by simp_all
  show ?thesis
    using old v(3) services.resolveGlare_new_wins[OF svc v(2) gv(2,1) g(3-6), of h]
    unfolding v(1)[symmetric] v(3)[symmetric] by blast
qed

definition bob_rings :: CallSession where
  "bob_rings = sample_call\<lparr>cs_CallerID := ''bob'', cs_CalleeID := ''alice''\<rparr>"

theorem glare_lower_id_wins_witness:
  "\<exists>n now t w'. snd (handleCallInitiate mem_env sample_client (Some sample_data) sample_hub (call_world bob_rings)) = w' \<and>
     call_at (w_db w') = [''c1'' \<mapsto> ended t ''glare'' bob_rings, n \<mapsto> ringing n ''alice'' sample_offer now]"
proof -
  have b: "cs_CallID bob_rings = ''c1''" "cs_CallerID bob_rings = ini_CalleeID sample_offer"
    "cs_CalleeID bob_rings = c_userID sample_client" "cs_State bob_rings = StateRinging" "live bob_rings"
    "call_at (w_db (call_world bob_rings)) ''c1'' = Some bob_rings"
    by (simp_all add: call_world_facts) (simp_all add: bob_rings_def sample_call_def sample_offer_def sample_client_def live_def)
  have v: "valid_offer sample_offer" by (simp add: valid_offer_def sample_offer_def isValidSDP_def HasPrefix_def)
  have l: "c_userID sample_client < ini_CalleeID sample_offer" by (simp add: sample_client_def sample_offer_def)
  have n: "''c1'' \<noteq> []" by simp
  have at: "call_at (w_db (call_world bob_rings)) = [''c1'' \<mapsto> bob_rings]" by (simp add: call_world_facts b(1))
  from glare_lower_id_wins[OF mem.services_axioms call_world_facts(1) call_world_inv[OF b(5)] sample_decodes(2) v b(6) n b(1-4), of sample_hub] l
  show ?thesis unfolding at by (fastforce simp: sample_client_def)
qed

end
