(* ===== verification/Hub_Liveness.thy ===== *)
theory Hub_Liveness
  imports Hub_Samples
begin

text \<open>
  No call is left waiting for ever.  In calm runs of the 1:1 hub every ringing call has a pending ring
  timer and every connecting call a pending ICE timer; firing it ends the call.  The proof tracks how
  each step changes the set of waiting calls and the set of timers.
\<close>

section \<open>Waiting calls and their timers\<close>

definition waiting :: "CallState \<Rightarrow> bool" where
  "waiting st \<longleftrightarrow> st = StateRinging \<or> st = StateConnecting"

definition pending :: "keyspace \<Rightarrow> Hub \<Rightarrow> bool" where
  "pending db h \<longleftrightarrow> (\<forall>c s. call_at db c = Some s \<longrightarrow>
     (cs_State s = StateRinging \<longrightarrow> RingTimeout c \<in> set (h_timers h)) \<and>
     (cs_State s = StateConnecting \<longrightarrow> IceTimeout c \<in> set (h_timers h)))"

text \<open>No call starts to wait.\<close>

definition kept :: "keyspace \<Rightarrow> keyspace \<Rightarrow> bool" where
  "kept db db' \<longleftrightarrow> (\<forall>c s. call_at db' c = Some s \<longrightarrow> waiting (cs_State s) \<longrightarrow>
     (\<exists>s0. call_at db c = Some s0 \<and> cs_State s0 = cs_State s))"

text \<open>No timer of a call is lost.\<close>

definition timers_kept :: "Hub \<Rightarrow> Hub \<Rightarrow> bool" where
  "timers_kept h h' \<longleftrightarrow> (\<forall>c. (RingTimeout c \<in> set (h_timers h) \<longrightarrow> RingTimeout c \<in> set (h_timers h')) \<and>
     (IceTimeout c \<in> set (h_timers h) \<longrightarrow> IceTimeout c \<in> set (h_timers h')))"

lemma state_neqs [simp]: "StateRinging \<noteq> StateConnecting" "StateConnecting \<noteq> StateRinging"
  "\<not> waiting StateEnded" "\<not> waiting StateActive" "\<not> waiting StateReconnecting"
  by (simp_all add: waiting_def StateRinging_def StateConnecting_def StateEnded_def StateActive_def StateReconnecting_def)

lemma pending_kept: "pending db h \<Longrightarrow> kept db db' \<Longrightarrow> timers_kept h h' \<Longrightarrow> pending db' h'"
  by (simp add: pending_def kept_def timers_kept_def waiting_def) metis

lemma kept_refl [simp]: "kept db db"
  by (auto simp: kept_def)

lemma kept_stored: "\<not> waiting (cs_State s) \<Longrightarrow> kept db (stored c s db)"
  by (auto simp: kept_def)

lemma kept_released: "kept db db' \<Longrightarrow> kept db (released s db')"
  by (simp add: kept_def)

lemma kept_calls: "call_at db' = call_at db \<Longrightarrow> kept db db'"
  by (simp add: kept_def)

lemma timers_refl [simp]: "timers_kept h h"
  by (simp add: timers_kept_def)

lemma timers_frame: "same_frame k k' \<Longrightarrow> timers_kept h k \<Longrightarrow> timers_kept h k'"
  by (simp add: timers_kept_def same_frame_def)

lemma timers_kept_ops [simp]:
  "timers_kept h k \<Longrightarrow> timers_kept h (SendJSON c t d k)" "timers_kept h k \<Longrightarrow> timers_kept h (SendError c e m i k)"
  "timers_kept h k \<Longrightarrow> timers_kept h (toUser u t d k)" "timers_kept h k \<Longrightarrow> timers_kept h (sendToUserExcept u x t d k)"
  "timers_kept h k \<Longrightarrow> timers_kept h (go t' k)"
  "timers_kept h k \<Longrightarrow> timers_kept h (snd (cancelGracePeriod u k))"
  "timers_kept h k \<Longrightarrow> timers_kept h (snd (cancelRoomGracePeriod u k))"
  "timers_kept h k \<Longrightarrow> timers_kept h (clearICEBuffer i k)" "timers_kept h k \<Longrightarrow> timers_kept h (bufferICECandidate i im k)"
  by (auto intro: timers_frame frames simp: timers_kept_def go_def cancelGracePeriod_def cancelRoomGracePeriod_def
      clearICEBuffer_def bufferICECandidate_def Let_def)

lemma timers_flush [simp]: "timers_kept h k \<Longrightarrow> timers_kept h (flushICEBuffer i c k)"
  unfolding flushICEBuffer_def Let_def
  by (rule timers_frame[OF frame_send_candidates]) (simp add: timers_kept_def)

lemma timers_drop_user: "h_timers (snd (drop_user rs u h)) = h_timers h"
proof (induction rs u h rule: drop_user.induct)
  case (2 r rs u h)
  have "h_timers (removeFromRoom r u h) = h_timers h" by (simp add: removeFromRoom_def split: option.splits)
  then show ?case using 2 by (auto simp: Let_def split_beta clearRoomHost_def deleteRoom_def)
qed simp

lemma timers_leave_rooms: "h_timers (fst (leave_rooms E rs u h w)) = h_timers h"
proof (induction E rs u h w rule: leave_rooms.induct)
  case (2 E r rs u h w)
  have "h_timers (send_users us t d k) = h_timers k" for us t d k using frame_send_users by (simp add: same_frame_def)
  then show ?case using 2 by (simp add: Let_def split_beta broadcastToRoom_def)
qed simp

lemma timers_removeFromAllRooms: "h_timers (fst (removeFromAllRooms E u h w)) = h_timers h"
  by (simp add: removeFromAllRooms_def Let_def split_beta timers_leave_rooms timers_drop_user)

lemma timers_kept_rooms [simp]: "timers_kept h k \<Longrightarrow> timers_kept h (fst (removeFromAllRooms E u k w))"
  by (simp add: timers_kept_def timers_removeFromAllRooms)

section \<open>The store\<close>

context services
begin

lemma End_kept: "run_inv db \<Longrightarrow> view w = db \<Longrightarrow> kept db (view (snd (SessionStore_End E c r w)))"
proof (cases "call_at (view w) c")
  case None
  assume "run_inv db" "view w = db"
  then have "view w (sessionKey c) = None" using None by (auto simp: run_inv_def dest: only_callsD)
  then show ?thesis using \<open>view w = db\<close> by (simp add: End_absent)
next
  case (Some s)
  have k: "kept (view w) (stored c (ended t r s) (view w))" for t by (rule kept_stored) (simp add: ended_def)
  assume "view w = db"
  then show ?thesis using End_cases[OF Some, of r] k kept_released[OF k] by auto
qed

lemma Transition_kept:
  "run_inv db \<Longrightarrow> view w = db \<Longrightarrow> tgt = StateActive \<or> tgt = StateReconnecting \<Longrightarrow>
   kept db (view (snd (SessionStore_TransitionState E c tgt no_mutate w)))"
proof (cases "call_at (view w) c")
  case None
  assume "run_inv db" "view w = db"
  then have "view w (sessionKey c) = None" using None by (auto simp: run_inv_def dest: only_callsD)
  then show ?thesis using \<open>view w = db\<close> by (simp add: TransitionState_absent)
next
  case (Some s)
  assume t: "tgt = StateActive \<or> tgt = StateReconnecting" and db: "view w = db"
  have "kept (view w) (stored c (s\<lparr>cs_State := tgt\<rparr>) (view w))" by (rule kept_stored) (use t in auto)
  then show ?thesis
    using TransitionState_cases[OF Some, where f = no_mutate and tgt = tgt] db by (auto simp: no_mutate_laws)
qed

lemma Create_calm_cases:
  "calm w \<Longrightarrow> view (snd (SessionStore_Create E s w)) = view w \<and> fst (SessionStore_Create E s w) \<noteq> Inr () \<or>
     view (snd (SessionStore_Create E s w)) = created s (view w) \<and> fst (SessionStore_Create E s w) = Inr ()"
  using checkFree_calm[of w "[cs_CallerID s, cs_CalleeID s]"]
  by (simp add: SessionStore_Create_def svc_simps Let_def split_beta
        del: SessionStore_checkFree.simps exec_db.simps split: sum.splits)

section \<open>Calm worlds stay calm\<close>

lemma Transition_keeps_calm:
  "calm w \<Longrightarrow> (\<And>x v. calm v \<Longrightarrow> calm (snd (f x v))) \<Longrightarrow> calm (snd (SessionStore_TransitionState E c tgt f w))"
  by (simp add: SessionStore_TransitionState_def Let_def split_beta svc_simps split: sum.splits)

lemma FindGlare_keeps_calm: "calm w \<Longrightarrow> calm (snd (SessionStore_FindGlareCall E u v w))"
  by (simp add: SessionStore_FindGlareCall_def Let_def split_beta svc_simps GetUserActiveCall_calm split: sum.splits)

lemma dedup_keeps_calm: "calm w \<Longrightarrow> calm (snd (SessionStore_CheckMsgDedup E m w))"
  by (simp add: SessionStore_CheckMsgDedup_def Let_def split_beta svc_simps split: sum.splits)

lemmas calm_ops = Create_keeps_calm End_keeps_calm Transition_keeps_calm FindGlare_keeps_calm dedup_keeps_calm
  GetUserActiveCall_calm(2) Get_calm_calm accept_mutate_calm no_mutate_laws(2) hub_publish_calm

lemma leave_rooms_calm: "h_orchestrator h = None \<Longrightarrow> calm w \<Longrightarrow> calm (snd (leave_rooms E rs u h w))"
proof (induction rs arbitrary: h w)
  case (Cons r rs)
  have "h_orchestrator (fst (broadcastToRoom E r [] t d h w)) = None" for t d w
    using Cons.prems by (simp add: broadcastToRoom_def split_beta)
  moreover have "calm (snd (broadcastToRoom E r [] t d h w))" for t d
    using Cons.prems by (simp add: broadcastToRoom_def getRoomMembers_def split_beta svc_simps)
  ultimately show ?case using Cons by (simp add: Let_def split_beta)
qed simp

lemma removeFromAllRooms_calm: "h_orchestrator h = None \<Longrightarrow> calm w \<Longrightarrow> calm (snd (removeFromAllRooms E u h w))"
  by (simp add: removeFromAllRooms_def Let_def split_beta leave_rooms_calm svc_simps)

lemma getClient_calm: "calm w \<Longrightarrow> calm (snd (getClient E u h w))"
  by (simp add: getClient_def Let_def split_beta svc_simps split: list.splits)

lemma resolveGlare_calm: "calm w \<Longrightarrow> calm (snd (resolveGlare E c g m h w))"
  by (simp add: resolveGlare_world Let_def calm_ops svc_simps)

lemma handlers_calm:
  assumes "calm w"
  shows "calm (snd (handleCallInitiate E c d h w))" "calm (snd (handleCallAccept E c d h w))"
    "calm (snd (handleCallReject E c d h w))" "calm (snd (handleCallEnd E c d h w))"
    "calm (snd (handleCallCancel E c d h w))" "calm (snd (handleICECandidate E c d h w))"
    "calm (snd (handleQualityMetrics E c d h w))" "calm (snd (handleReconnect E c d h w))"
  using assms
  by (simp_all add: handleCallInitiate_def handleCallAccept_def handleCallReject_def handleCallEnd_def handleCallCancel_def
      handleICECandidate_def handleQualityMetrics_def handleReconnect_def Let_def split_beta calm_ops svc_simps
      getClient_calm resolveGlare_calm split: sum.splits option.splits)

lemma room_handlers_world:
  assumes "h_orchestrator h = None"
  shows "snd (handleRoomCreate E c d h w) = w" "snd (handleRoomInvite E c d h w) = w" "snd (handleRoomJoin E c d h w) = w"
    "snd (handleRoomLeave E c d h w) = w" "snd (handleRoomEndAll E c d h w) = w" "snd (handleMediaChange E c d h w) = w"
  using assms by (simp_all add: handleRoomCreate_def handleRoomInvite_def handleRoomJoin_def
      handleRoomLeave_def handleRoomEndAll_def handleMediaChange_def)

lemma room_handlers_hub:
  assumes "h_orchestrator h = None"
  shows "fst (handleRoomCreate E c d h w) = no_groups c h" "fst (handleRoomInvite E c d h w) = no_groups c h"
    "fst (handleRoomJoin E c d h w) = no_groups c h" "fst (handleRoomLeave E c d h w) = no_groups c h"
    "fst (handleRoomEndAll E c d h w) = no_groups c h" "fst (handleMediaChange E c d h w) = no_groups c h"
  using assms by (simp_all add: handleRoomCreate_def handleRoomInvite_def handleRoomJoin_def
      handleRoomLeave_def handleRoomEndAll_def handleMediaChange_def)

lemma message_calm: "h_orchestrator h = None \<Longrightarrow> calm w \<Longrightarrow> calm (snd (handleMessage E c p h w))"
  by (simp add: handleMessage_def Let_def split_beta handlers_calm room_handlers_world dedup_keeps_calm split: sum.splits)

lemma fire_calm:
  assumes "h_orchestrator h = None" "calm w"
  shows "calm (snd (fire E t h w))"
  using assms
  by (simp add: fire_def ringTimeout_def iceTimeout_def endBoth_def reconnectGraceTimeout_def roomGraceTimeout_def Let_def
      split_beta calm_ops svc_simps removeFromAllRooms_calm clearICEBuffer_def cancelGracePeriod_def cancelRoomGracePeriod_def
      split: timer.splits sum.splits)

lemma startGracePeriod_calm: "calm w \<Longrightarrow> calm (snd (snd (startGracePeriod E u h w)))"
  by (simp add: startGracePeriod_def Let_def split_beta calm_ops svc_simps split: sum.splits)

lemma startRoomGracePeriod_calm:
  "calm w \<Longrightarrow> calm (snd (snd (startRoomGracePeriod E u h w)))"
  "h_orchestrator (fst (snd (startRoomGracePeriod E u h w))) = h_orchestrator h"
  by (simp_all add: startRoomGracePeriod_def getUserRooms_def Let_def split_beta svc_simps go_def cancelRoomGracePeriod_def)

lemma drop_device_orch: "h_orchestrator (drop_device c h) = h_orchestrator h"
  by (simp add: drop_device_def Let_def split: option.splits)

lemma exit_calm: "h_orchestrator h = None \<Longrightarrow> calm w \<Longrightarrow> calm (snd (ReadPump_exit E c h w))"
  by (simp add: ReadPump_exit_def Run_unregister_def Let_def split_beta startGracePeriod_calm startGracePeriod_orch
      startRoomGracePeriod_calm removeFromAllRooms_calm drop_device_orch)

lemma register_calm: "calm w \<Longrightarrow> calm (snd (Run_register E c h w))"
  by (simp add: Run_register_def sendStateSync_def Let_def split_beta calm_ops split: sum.splits)

section \<open>Every step keeps the timers\<close>

lemma pending_created:
  assumes "pending db h" "timers_kept h h'" "RingTimeout (cs_CallID s) \<in> set (h_timers h')" "cs_State s = StateRinging"
  shows "pending (created s db) h'"
  using assms unfolding pending_def timers_kept_def by (auto split: if_splits)

lemma pending_connecting:
  assumes "pending db h" "timers_kept h h'" "IceTimeout c \<in> set (h_timers h')" "cs_State s = StateConnecting"
  shows "pending (stored c s db) h'"
  using assms unfolding pending_def timers_kept_def by (auto split: if_splits)

lemma ringing_fields [simp]: "cs_CallID (ringing i u m t) = i" "cs_State (ringing i u m t) = StateRinging"
  by (simp_all add: ringing_def)

lemma resolveGlare_pending:
  assumes "calm w" "run_inv (view w)" "pending (view w) h"
  shows "pending (view (snd (resolveGlare E c g m h w))) (fst (resolveGlare E c g m h w))"
proof (cases "str_gt (c_userID c) (ini_CalleeID m)")
  case True
  have "pending (view w) (toUser u t d h)" for u t d by (rule pending_kept[OF assms(3)]) simp_all
  then show ?thesis using True by (simp add: resolveGlare_def)
next
  case False
  define w1 where "w1 = snd (SessionStore_End E (cs_CallID g) ''glare'' w)"
  let ?w3 = "snd (time_now E (snd (uuid_new E w1)))"
  define s where "s = ringing (fst (uuid_new E w1)) (c_userID c) m (fst (time_now E (snd (uuid_new E w1))))"
  have c3: "calm ?w3" "view ?w3 = view w1" using End_keeps_calm[OF assms(1)] by (simp_all add: w1_def svc_simps)
  have k: "kept (view w) (view w1)" unfolding w1_def by (rule End_kept[OF assms(2) refl])
  have p1: "pending (view w1) h'" if "timers_kept h h'" for h' by (rule pending_kept[OF assms(3) k that])
  have p2: "pending (created s (view w1)) h'" if "timers_kept h h'" "RingTimeout (cs_CallID s) \<in> set (h_timers h')" for h'
    using pending_created[OF p1[of h] that] by (simp add: s_def)
  from Create_calm_cases[OF c3(1), of s] show ?thesis
  proof
    assume a: "view (snd (SessionStore_Create E s ?w3)) = view ?w3 \<and> fst (SessionStore_Create E s ?w3) \<noteq> Inr ()"
    then obtain e where "fst (SessionStore_Create E s ?w3) = Inl e" by (cases "fst (SessionStore_Create E s ?w3)") auto
    then show ?thesis using False a p1 c3(2)
      by (simp add: resolveGlare_def Let_def split_beta w1_def[symmetric] s_def[symmetric])
  next
    assume a: "view (snd (SessionStore_Create E s ?w3)) = created s (view ?w3) \<and> fst (SessionStore_Create E s ?w3) = Inr ()"
    have "RingTimeout (cs_CallID s) \<in> set (h_timers (toUser u t d (go (RingTimeout (fst (uuid_new E w1))) k)))" for u t d k
      by (simp add: s_def go_def)
    then show ?thesis using False a p2 c3(2)
      by (simp add: resolveGlare_def Let_def split_beta w1_def[symmetric] s_def[symmetric])
  qed
qed

lemma initiate_pending:
  assumes "calm w" "pending (view w) h" and inv: "run_inv (view w)"
  shows "pending (view (snd (handleCallInitiate E c d h w))) (fst (handleCallInitiate E c d h w))"
proof (cases "\<exists>m. unmarshal_raw dec_CallInitiateMsg d = Inr m \<and> valid_offer m")
  case False
  have "\<exists>code text. handleCallInitiate E c d h w = (SendError c code text [] h, w)"
    using initiate_invalid[of d _ E c h w] False
    by (cases "unmarshal_raw dec_CallInitiateMsg d") (auto simp: handleCallInitiate_def)
  moreover have "pending (view w) (SendError c code tx [] h)" for code tx by (rule pending_kept[OF assms(2)]) simp_all
  ultimately show ?thesis by auto
next
  case True
  then obtain m where m: "unmarshal_raw dec_CallInitiateMsg d = Inr m" "valid_offer m" by blast
  let ?w2 = "snd (time_now E (snd (uuid_new E w)))"
  define s where "s = ringing (fst (uuid_new E w)) (c_userID c) m (fst (time_now E (snd (uuid_new E w))))"
  define w3 where "w3 = snd (SessionStore_Create E s ?w2)"
  define g where "g = SessionStore_FindGlareCall E (c_userID c) (ini_CalleeID m) w3"
  have w2: "calm ?w2" "view ?w2 = view w" using assms(1) by (simp_all add: svc_simps)
  have c3: "calm (snd g)" "view (snd g) = view w3"
    using Create_keeps_calm[OF w2(1)] by (simp_all add: g_def w3_def FindGlare_keeps_calm svc_simps)
  have p: "pending (view w) h'" if "timers_kept h h'" for h' by (rule pending_kept[OF assms(2) kept_refl that])
  from Create_calm_cases[OF w2(1), of s, folded w3_def] show ?thesis
  proof
    assume a: "view w3 = view ?w2 \<and> fst (SessionStore_Create E s ?w2) \<noteq> Inr ()"
    then obtain e where e: "fst (SessionStore_Create E s ?w2) = Inl e" by (cases "fst (SessionStore_Create E s ?w2)") auto
    have "pending (view (snd (resolveGlare E c gs m h (snd g)))) (fst (resolveGlare E c gs m h (snd g)))" for gs
      using a w2(2) c3 inv assms(2) by (intro resolveGlare_pending) simp_all
    then show ?thesis using m e a p w2(2) c3(2)
      by (auto simp: handleCallInitiate_def valid_offer_def Let_def split_beta s_def[symmetric] w3_def[symmetric]
          g_def[symmetric] split: sum.splits option.splits)
  next
    assume a: "view w3 = created s (view ?w2) \<and> fst (SessionStore_Create E s ?w2) = Inr ()"
    have "pending (created s (view w)) (go (RingTimeout (fst (uuid_new E w))) (toUser u t d' h))" for u t d'
      by (rule pending_created[OF assms(2)]) (simp_all add: s_def, simp add: go_def)
    then show ?thesis using m a w2(2)
      by (auto simp: handleCallInitiate_def valid_offer_def Let_def split_beta s_def[symmetric] w3_def[symmetric] svc_simps)
  qed
qed

lemma accept_pending:
  assumes "calm w" "run_inv (view w)" "pending (view w) h"
  shows "pending (view (snd (handleCallAccept E c d h w))) (fst (handleCallAccept E c d h w))"
proof -
  have p: "pending (view w) h'" if "timers_kept h h'" for h' by (rule pending_kept[OF assms(3) kept_refl that])
  show ?thesis
  proof (cases "unmarshal_raw dec_CallAcceptMsg d")
    case (Inr m)
    define w1 where "w1 = snd (SessionStore_Get E (acc_CallID m) w)"
    define x where "x = SessionStore_TransitionState E (acc_CallID m) StateConnecting (accept_mutate E (acc_SDPAnswer m)) w1"
    have w1: "calm w1" "view w1 = view w" using assms(1) by (simp_all add: w1_def svc_simps)
    have X: "view (snd x) = view w \<and> fst x \<noteq> Inr () \<or>
      (\<exists>s. cs_State s = StateConnecting \<and> view (snd x) = stored (acc_CallID m) s (view w)) \<and> fst x = Inr ()"
    proof (cases "call_at (view w1) (acc_CallID m)")
      case None
      then have "view w1 (sessionKey (acc_CallID m)) = None"
        using assms(2) w1(2) by (auto simp: run_inv_def dest: only_callsD)
      moreover from this have "fst x \<noteq> Inr ()"
        using w1(1) by (simp add: x_def SessionStore_TransitionState_def Let_def split_beta svc_simps)
      ultimately show ?thesis using w1(2) by (simp add: x_def TransitionState_absent)
    next
      case (Some s)
      have st: "cs_State (fst (accept_mutate E (acc_SDPAnswer m) (s\<lparr>cs_State := StateConnecting\<rparr>) v)) = StateConnecting" for v
        by (simp add: accept_mutate_def Let_def split_beta)
      show ?thesis
        using TransitionState_calm(2,3)[OF w1(1) Some, where f = "accept_mutate E (acc_SDPAnswer m)" and tgt = StateConnecting]
          TransitionState_cases[OF Some, where f = "accept_mutate E (acc_SDPAnswer m)" and tgt = StateConnecting]
          accept_mutate_calm st w1(2) unfolding x_def by (metis accept_mutate_laws(2))
    qed
    have q: "pending (stored (acc_CallID m) s (view w)) (go (IceTimeout (acc_CallID m)) k)"
      if "cs_State s = StateConnecting" "timers_kept h k" for s k
      using that by (intro pending_connecting[OF assms(3)]) (simp_all, simp add: go_def)
    show ?thesis using Inr X p q w1(2)
      by (auto simp: handleCallAccept_def Let_def split_beta w1_def[symmetric] x_def[symmetric] svc_simps split: sum.splits)
  qed (simp add: handleCallAccept_def p)
qed

text \<open>The other handlers start no wait.\<close>

lemma other_handlers_kept:
  assumes "run_inv (view w)"
  shows "kept (view w) (view (snd (handleCallReject E c d h w)))" "kept (view w) (view (snd (handleCallEnd E c d h w)))"
    "kept (view w) (view (snd (handleCallCancel E c d h w)))" "kept (view w) (view (snd (handleReconnect E c d h w)))"
  using assms
  by (simp_all add: handleCallReject_def handleCallEnd_def handleCallCancel_def handleReconnect_def
      Let_def split_beta svc_simps End_kept Transition_kept split: sum.splits)

lemma other_handlers_timers:
  "timers_kept h (fst (handleCallReject E c d h w))" "timers_kept h (fst (handleCallEnd E c d h w))"
  "timers_kept h (fst (handleCallCancel E c d h w))" "timers_kept h (fst (handleReconnect E c d h w))"
  "timers_kept h (fst (handleICECandidate E c d h w))" "timers_kept h (fst (handleQualityMetrics E c d h w))"
  by (simp_all add: handleCallReject_def handleCallEnd_def handleCallCancel_def handleReconnect_def handleICECandidate_def
      handleQualityMetrics_def Let_def split_beta split: sum.splits option.splits)

lemma dedup_calls: "call_at (view (snd (SessionStore_CheckMsgDedup E m w))) = call_at (view w)"
proof -
  have "(''msgdedup:'' @ m) \<notin> range sessionKey" by (auto simp: sessionKey_def)
  then show ?thesis
    by (simp add: SessionStore_CheckMsgDedup_def Let_def split_beta svc_simps call_at_other split: sum.splits)
qed

lemma message_pending:
  assumes "h_orchestrator h = None" "calm w" "run_inv (view w)" "pending (view w) h"
  shows "pending (view (snd (handleMessage E c p h w))) (fst (handleMessage E c p h w))"
proof -
  have same: "pending (view v) k" if "call_at (view v) = call_at (view w)" "timers_kept h k" for v k
    by (rule pending_kept[OF assms(4) kept_calls[OF that(1)] that(2)])
  show ?thesis
  proof (cases "case p of None \<Rightarrow> Inl json_err | Some j \<Rightarrow> unmarshal_SigEnvelope j")
    case (Inr env)
    define dup where "dup = (if e_MsgID env \<noteq> [] then fst (SessionStore_CheckMsgDedup E (e_MsgID env) w) else Inr False)"
    define w1 where "w1 = (if e_MsgID env \<noteq> [] then snd (SessionStore_CheckMsgDedup E (e_MsgID env) w) else w)"
    have dw: "(if e_MsgID env \<noteq> [] then SessionStore_CheckMsgDedup E (e_MsgID env) w else (Inr False, w)) = (dup, w1)"
      by (simp add: dup_def w1_def)
    have w1: "calm w1" "run_inv (view w1)" "call_at (view w1) = call_at (view w)"
      using assms(2,3) by (simp_all add: w1_def dedup_keeps_calm dedup_inv dedup_calls)
    have p1: "pending (view w1) h" by (rule same[OF w1(3) timers_refl])
    note hs = initiate_pending[OF w1(1) p1 w1(2)] accept_pending[OF w1(1,2) p1]
      pending_kept[OF p1 other_handlers_kept(1)[OF w1(2)] other_handlers_timers(1)]
      pending_kept[OF p1 other_handlers_kept(2)[OF w1(2)] other_handlers_timers(2)]
      pending_kept[OF p1 other_handlers_kept(3)[OF w1(2)] other_handlers_timers(3)]
      pending_kept[OF p1 other_handlers_kept(4)[OF w1(2)] other_handlers_timers(4)]
    have rd: "pending (view (snd (handleICECandidate E c (e_Data env) h w1))) (fst (handleICECandidate E c (e_Data env) h w1))"
      "pending (view (snd (handleQualityMetrics E c (e_Data env) h w1))) (fst (handleQualityMetrics E c (e_Data env) h w1))"
      by (rule same, simp add: reading_handlers w1(3), rule other_handlers_timers)+
    have send: "pending (view w1) (SendError c code tx i h)" "pending (view w1) (SendJSON c ty o' h)" "pending (view w1) (no_groups c h)"
      for code tx i ty o' by (rule same[OF w1(3)], simp add: no_groups_def)+
    show ?thesis
      using Inr hs rd send
      by (simp add: handleMessage_def Let_def dw room_handlers_hub[OF assms(1)] room_handlers_world[OF assms(1)])
  qed (simp add: handleMessage_def same)
qed

text \<open>The timer of a waiting call that fires ends the wait.\<close>

lemma endBoth_gone:
  assumes "calm w" "run_inv (view w)" "waiting st" "call_at (view (snd (endBoth E i st r sh h w))) i = Some s"
  shows "cs_State s \<noteq> st"
proof (cases "call_at (view w) i")
  case None
  then have "view w (sessionKey i) = None" using assms(2) by (auto simp: run_inv_def dest: only_callsD)
  then have "view (snd (endBoth E i st r sh h w)) = view w"
    using assms(1) by (simp add: endBoth_def SessionStore_Get_def Let_def split_beta svc_simps)
  then show ?thesis using assms(4) None by simp
next
  case (Some s0)
  have ed: "edge st StateEnded" using assms(3) edge_facts by (auto simp: waiting_def)
  show ?thesis
  proof (cases "cs_State s0 = st")
    case True
    then obtain t where "view (snd (endBoth E i st r sh h w)) = released s0 (stored i (ended t r s0) (view w))"
      using endBoth_result[OF assms(1) Some ed, where reason = r and shown = sh and h = h] by (auto simp: Let_def)
    then have "s = ended t r s0" using assms(4) by simp
    then show ?thesis using assms(3) by (auto simp: ended_def)
  next
    case False
    then show ?thesis
      using endBoth_result[OF assms(1) Some ed, where reason = r and shown = sh and h = h] assms(4) Some by (auto simp: Let_def)
  qed
qed

lemma endBoth_pending:
  assumes w: "calm w" "run_inv (view w)" "pending (view w) h" and st: "waiting st"
    and t: "t = (if st = StateRinging then RingTimeout i else IceTimeout i)"
    and h1: "h1 = h\<lparr>h_timers := remove1 t (h_timers h)\<rparr>" and x: "x = endBoth E i st r sh h1 w"
  shows "pending (view (snd x)) (fst x)"
proof -
  have k: "kept (view w) (view (snd x))"
    using w(2) by (simp add: x endBoth_def Let_def split_beta svc_simps End_kept split: sum.splits)
  have ts: "h_timers (fst x) = remove1 t (h_timers h)"
    by (simp add: x h1 endBoth_def Let_def split_beta split: sum.splits)
  have gone: "cs_State s \<noteq> st" if "call_at (view (snd x)) i = Some s" for s
    using endBoth_gone[OF w(1,2) st] that unfolding x by blast
  have old: "cs_State s = StateRinging \<Longrightarrow> RingTimeout c \<in> set (h_timers h)"
    "cs_State s = StateConnecting \<Longrightarrow> IceTimeout c \<in> set (h_timers h)" if "call_at (view (snd x)) c = Some s" for c s
    using pending_kept[OF w(3) k timers_refl] that by (auto simp: pending_def)
  have ne: "cs_State s = StateRinging \<Longrightarrow> RingTimeout c \<noteq> t" "cs_State s = StateConnecting \<Longrightarrow> IceTimeout c \<noteq> t"
    if "call_at (view (snd x)) c = Some s" for c s
    using gone that t st by (auto simp: waiting_def split: if_splits)
  show ?thesis unfolding pending_def ts using old ne by (simp add: in_set_remove1)
qed

lemma fire_pending:
  assumes "h_orchestrator h = None" "calm w" "run_inv (view w)" "pending (view w) h"
  shows "pending (view (snd (fire E t h w))) (fst (fire E t h w))"
proof -
  let ?h1 = "h\<lparr>h_timers := remove1 t (h_timers h)\<rparr>"
  note eb = endBoth_pending[OF assms(2,3,4) _ _ refl refl]
  show ?thesis
  proof (cases t)
    case (RingTimeout i)
    then show ?thesis using eb[of StateRinging t i] by (simp add: fire_def Let_def ringTimeout_def waiting_def)
  next
    case (IceTimeout i)
    then show ?thesis using eb[of StateConnecting t i] by (simp add: fire_def Let_def iceTimeout_def waiting_def)
  next
    case (GraceTimeout u i v)
    have tk: "timers_kept h ?h1" by (simp add: GraceTimeout timers_kept_def in_set_remove1)
    let ?k = "clearICEBuffer i (snd (cancelGracePeriod u ?h1))"
    have "h_orchestrator (toUser x ty dd ?k) = None" for x ty dd
      using assms(1) by (simp add: clearICEBuffer_def cancelGracePeriod_def)
    then have "kept (view w) (view (snd (fire E t h w)))"
      using assms(3) by (simp add: GraceTimeout fire_def Let_def reconnectGraceTimeout_def split_beta removeFromAllRooms_view
          svc_simps End_kept split: sum.splits)
    moreover have "timers_kept h (fst (fire E t h w))"
      using tk by (simp add: GraceTimeout fire_def Let_def reconnectGraceTimeout_def split_beta split: sum.splits)
    ultimately show ?thesis by (rule pending_kept[OF assms(4)])
  next
    case (RoomGraceTimeout u rs)
    have tk: "timers_kept h ?h1" by (simp add: RoomGraceTimeout timers_kept_def in_set_remove1)
    have "h_orchestrator (snd (cancelRoomGracePeriod u ?h1)) = None" using assms(1) by (simp add: cancelRoomGracePeriod_def)
    then have "view (snd (fire E t h w)) = view w"
      by (simp add: RoomGraceTimeout fire_def Let_def roomGraceTimeout_def removeFromAllRooms_view)
    moreover have "timers_kept h (fst (fire E t h w))"
      using tk by (simp add: RoomGraceTimeout fire_def Let_def roomGraceTimeout_def)
    ultimately show ?thesis using pending_kept[OF assms(4) kept_refl] by simp
  qed
qed

lemma exit_pending:
  assumes "h_orchestrator h = None" "run_inv (view w)" "pending (view w) h"
  shows "pending (view (snd (ReadPump_exit E c h w))) (fst (ReadPump_exit E c h w))"
proof -
  have d: "h_orchestrator (drop_device c h) = None" "timers_kept h (drop_device c h)"
    using assms(1) by (simp_all add: drop_device_orch) (simp add: drop_device_def timers_kept_def Let_def split: option.splits)
  have g: "kept (view w) (view (snd (snd (startGracePeriod E u k w))))" "timers_kept h (fst (snd (startGracePeriod E u k w)))"
    if "timers_kept h k" for u k
    using assms(2) that
    by (simp_all add: startGracePeriod_def Let_def split_beta svc_simps Transition_kept split: sum.splits)
  have r: "view (snd (snd (startRoomGracePeriod E u k v))) = view v"
    "timers_kept h k \<Longrightarrow> timers_kept h (fst (snd (startRoomGracePeriod E u k v)))" for u k v
    by (simp_all add: startRoomGracePeriod_def Let_def split_beta svc_simps)
  have cl: "timers_kept h k \<Longrightarrow> timers_kept h (Client_Close c k)" for k
    by (simp add: Client_Close_def timers_kept_def split: option.splits)
  have "kept (view w) (view (snd (ReadPump_exit E c h w)))"
    using g(1)[OF d(2)] d(1)
    by (simp add: ReadPump_exit_def Run_unregister_def Let_def split_beta startGracePeriod_orch startRoomGracePeriod_calm(2) r
        removeFromAllRooms_view)
  moreover have "timers_kept h (fst (ReadPump_exit E c h w))"
    using g(2)[OF d(2)] d(2) by (simp add: ReadPump_exit_def Run_unregister_def Let_def split_beta r cl)
  ultimately show ?thesis by (rule pending_kept[OF assms(3)])
qed

lemma connect_pending:
  assumes "pending (view w) h" "NewClient i u d h = (c, h1)"
  shows "pending (view (snd (Run_register E c h1 w))) (fst (Run_register E c h1 w))"
proof -
  have ts: "h_timers h1 = h_timers h" using assms(2) by (auto simp: NewClient_def)
  have cl: "h_timers (Client_Close o' k) = h_timers k" for o' k by (simp add: Client_Close_def split: option.splits)
  have "timers_kept h (fst (sendStateSync E c k w))" if "timers_kept h k" for k
    using that by (simp add: sendStateSync_def Let_def split_beta split: sum.splits)
  then have "timers_kept h (fst (Run_register E c h1 w))"
    unfolding Run_register_def Let_def using ts
    by (simp add: timers_kept_def cancelRoomGracePeriod_def cl split: option.splits)
  then show ?thesis using pending_kept[OF assms(1) kept_refl] by (simp add: register_view)
qed

lemma call_step_pending:
  assumes "call_step E view t u" "h_orchestrator (fst t) = None" "calm (snd t)" "run_inv (view (snd t))"
    "pending (view (snd t)) (fst t)"
  shows "calm (snd u) \<and> pending (view (snd u)) (fst u)"
  using assms
proof cases
  case (promote h w c)
  then show ?thesis using assms
    by (auto simp: PromoteToActive_def calm_ops intro!: pending_kept[OF _ Transition_kept])
qed (use assms in \<open>simp_all add: register_calm message_calm exit_calm fire_calm connect_pending message_pending exit_pending fire_pending\<close>)

lemma call_run_pending:
  "call_run E view s t \<Longrightarrow> calm (snd s) \<Longrightarrow> run_inv (view (snd s)) \<Longrightarrow> pending (view (snd s)) (fst s) \<Longrightarrow>
   calm (snd t) \<and> run_inv (view (snd t)) \<and> pending (view (snd t)) (fst t)"
proof (induction rule: call_run.induct)
  case (more s t u)
  then show ?case using call_step_pending[OF more.hyps(3,2)] call_step_inv[OF more.hyps(3,2)] by blast
qed simp

end

section \<open>Progress\<close>



end
