(* ===== verification/Livekit.thy ===== *)
theory Livekit
  imports Events "HOL-Library.Word"
begin

text \<open>
  \<open>internal/livekit\<close>: the room service, which wraps the LiveKit server SDK, and the handler of
  LiveKit webhooks, which publishes SFU events and calls an optional notifier.  The SDK client and the
  validation of a webhook request (\<open>webhook.ReceiveWebhookEvent\<close>) are parameters.
\<close>

section \<open>The SDK\<close>

record LkRoom =
  lr_Sid :: string
  lr_Name :: string
  lr_NumParticipants :: "32 word"
  lr_MaxParticipants :: "32 word"
  lr_EmptyTimeout :: "32 word"
  lr_CreationTime :: int
  lr_Metadata :: string

record LkParticipant =
  lp_Sid :: string
  lp_Identity :: string
  lp_JoinedAt :: int

record LkTrack =
  lt_Sid :: string
  lt_Type :: string
  lt_Simulcast :: bool

text \<open>What is asked of the server when data is sent.\<close>

record LkData =
  ld_Room :: string
  ld_Data :: json
  ld_Reliable :: bool
  ld_DestinationIdentities :: "string list"

record 'w lksdk =
  sdk_CreateRoom :: "string \<Rightarrow> 32 word \<Rightarrow> 32 word \<Rightarrow> string \<Rightarrow> 'w \<Rightarrow> LkRoom result \<times> 'w"
  sdk_UpdateSubscriptions :: "string \<Rightarrow> string \<Rightarrow> string list \<Rightarrow> bool \<Rightarrow> 'w \<Rightarrow> unit result \<times> 'w"
  sdk_SendData :: "LkData \<Rightarrow> 'w \<Rightarrow> unit result \<times> 'w"
  sdk_DeleteRoom :: "string \<Rightarrow> 'w \<Rightarrow> unit result \<times> 'w"
  sdk_ListRooms :: "string list \<Rightarrow> 'w \<Rightarrow> LkRoom list result \<times> 'w"
  sdk_ListParticipants :: "string \<Rightarrow> 'w \<Rightarrow> LkParticipant list result \<times> 'w"
  sdk_RemoveParticipant :: "string \<Rightarrow> string \<Rightarrow> 'w \<Rightarrow> unit result \<times> 'w"
  sdk_MutePublishedTrack :: "string \<Rightarrow> string \<Rightarrow> string \<Rightarrow> bool \<Rightarrow> 'w \<Rightarrow> unit result \<times> 'w"

text \<open>\<open>fmt.Errorf("...: %w", err)\<close> around the error of a call.\<close>

definition wrapped :: "string \<Rightarrow> 'a result \<times> 'w \<Rightarrow> 'a result \<times> 'w" where
  "wrapped pre x = (case fst x of Inl e \<Rightarrow> (Inl (Wrap pre e), snd x) | Inr r \<Rightarrow> (Inr r, snd x))"

section \<open>Room service\<close>

record CreateRoomRequest =
  rq_RoomName :: string
  rq_MaxParticipants :: "32 word"
  rq_EmptyTimeout :: "32 word"
  rq_Metadata :: string

definition RoomService_CreateRoom :: "'w lksdk \<Rightarrow> CreateRoomRequest \<Rightarrow> 'w \<Rightarrow> LkRoom result \<times> 'w" where
  "RoomService_CreateRoom K req w =
    (let maxP = (if rq_MaxParticipants req = 0 then 8 else rq_MaxParticipants req);
         emptyTimeout = (if rq_EmptyTimeout req = 0 then 300 else rq_EmptyTimeout req)
     in wrapped (''livekit create room '' @ rq_RoomName req)
          (sdk_CreateRoom K (rq_RoomName req) maxP emptyTimeout (rq_Metadata req) w))"

record UpdateSubscriptionRequest =
  us_RoomName :: string
  us_Identity :: string
  us_TrackSIDs :: "string list"
  us_Subscribe :: bool

definition RoomService_UpdateSubscription :: "'w lksdk \<Rightarrow> UpdateSubscriptionRequest \<Rightarrow> 'w \<Rightarrow> unit result \<times> 'w" where
  "RoomService_UpdateSubscription K req w =
    (if us_TrackSIDs req = [] then (Inr (), w)
     else wrapped (''livekit update subscription for '' @ us_Identity req)
       (sdk_UpdateSubscriptions K (us_RoomName req) (us_Identity req) (us_TrackSIDs req) (us_Subscribe req) w))"

record SendDataRequest =
  sr_RoomName :: string
  sr_Payload :: json
  sr_DestinationIdentities :: "string list"
  sr_Reliable :: bool

definition RoomService_SendData :: "'w lksdk \<Rightarrow> SendDataRequest \<Rightarrow> 'w \<Rightarrow> unit result \<times> 'w" where
  "RoomService_SendData K req w = wrapped (''livekit send data to '' @ sr_RoomName req)
     (sdk_SendData K \<lparr>ld_Room = sr_RoomName req, ld_Data = sr_Payload req, ld_Reliable = sr_Reliable req,
        ld_DestinationIdentities = sr_DestinationIdentities req\<rparr> w)"

definition RoomService_DeleteRoom :: "'w lksdk \<Rightarrow> string \<Rightarrow> 'w \<Rightarrow> unit result \<times> 'w" where
  "RoomService_DeleteRoom K roomName w = wrapped (''livekit delete room '' @ roomName) (sdk_DeleteRoom K roomName w)"

definition RoomService_ListRooms :: "'w lksdk \<Rightarrow> string list \<Rightarrow> 'w \<Rightarrow> LkRoom list result \<times> 'w" where
  "RoomService_ListRooms K names w = wrapped ''livekit list rooms'' (sdk_ListRooms K names w)"

definition RoomService_GetRoom :: "'w lksdk \<Rightarrow> string \<Rightarrow> 'w \<Rightarrow> LkRoom option result \<times> 'w" where
  "RoomService_GetRoom K roomName w =
    (let (r, w1) = RoomService_ListRooms K [roomName] w in
     case r of
       Inl e \<Rightarrow> (Inl e, w1)
     | Inr rooms \<Rightarrow> (Inr (case rooms of [] \<Rightarrow> None | room # _ \<Rightarrow> Some room), w1))"

definition RoomService_ListParticipants :: "'w lksdk \<Rightarrow> string \<Rightarrow> 'w \<Rightarrow> LkParticipant list result \<times> 'w" where
  "RoomService_ListParticipants K roomName w =
     wrapped (''livekit list participants '' @ roomName) (sdk_ListParticipants K roomName w)"

definition RoomService_RemoveParticipant :: "'w lksdk \<Rightarrow> string \<Rightarrow> string \<Rightarrow> 'w \<Rightarrow> unit result \<times> 'w" where
  "RoomService_RemoveParticipant K roomName identity w =
     wrapped (''livekit remove participant '' @ identity @ '' from '' @ roomName) (sdk_RemoveParticipant K roomName identity w)"

definition RoomService_MuteTrack ::
  "'w lksdk \<Rightarrow> string \<Rightarrow> string \<Rightarrow> string \<Rightarrow> bool \<Rightarrow> 'w \<Rightarrow> unit result \<times> 'w" where
  "RoomService_MuteTrack K roomName identity trackSID muted w =
     wrapped (''livekit mute track '' @ trackSID) (sdk_MutePublishedTrack K roomName identity trackSID muted w)"

record RoomStats =
  st_Name :: string
  st_NumParticipants :: int
  st_CreatedAt :: time
  st_Metadata :: string

text \<open>\<open>time.Unix(sec, 0)\<close>: 1970 is 62135596800 seconds after Go's zero time.\<close>

definition time_Unix :: "int \<Rightarrow> time" where
  "time_Unix sec = (sec + 62135596800) * Second"

definition RoomService_GetRoomStats :: "'w lksdk \<Rightarrow> string \<Rightarrow> 'w \<Rightarrow> RoomStats result \<times> 'w" where
  "RoomService_GetRoomStats K roomName w =
    (let (r, w1) = RoomService_GetRoom K roomName w in
     case r of
       Inl e \<Rightarrow> (Inl e, w1)
     | Inr None \<Rightarrow> (Inl (Errorf (''room '' @ roomName @ '' not found'')), w1)
     | Inr (Some room) \<Rightarrow> (Inr \<lparr>st_Name = lr_Name room, st_NumParticipants = int (unat (lr_NumParticipants room)),
          st_CreatedAt = time_Unix (lr_CreationTime room), st_Metadata = lr_Metadata room\<rparr>, w1))"

section \<open>Webhooks\<close>

record WebhookEvent =
  we_Event :: string
  we_Room :: "LkRoom option"
  we_Participant :: "LkParticipant option"
  we_Track :: "LkTrack option"

text \<open>\<open>WebhookNotifier\<close>: four callbacks.\<close>

record 'w notifier =
  OnParticipantJoined :: "string \<Rightarrow> string \<Rightarrow> 'w \<Rightarrow> 'w"
  OnParticipantLeft :: "string \<Rightarrow> string \<Rightarrow> 'w \<Rightarrow> 'w"
  OnRoomFinished :: "string \<Rightarrow> 'w \<Rightarrow> 'w"
  OnTrackPublished :: "string \<Rightarrow> string \<Rightarrow> LkTrack \<Rightarrow> 'w \<Rightarrow> 'w"

record 'w WebhookHandler =
  wh_bus :: "string option"
  wh_notifier :: "'w notifier option"

definition participant_event_json :: "string \<Rightarrow> string \<Rightarrow> string \<Rightarrow> int \<Rightarrow> json" where
  "participant_event_json room identity sid joinedAt = JObj ([(''room_name'', JStr room), (''identity'', JStr identity),
     (''participant_sid'', JStr sid)] @ (if joinedAt = 0 then [] else [(''joined_at'', JNum joinedAt)]))"

definition room_event_json :: "string \<Rightarrow> string \<Rightarrow> json" where
  "room_event_json room sid = JObj [(''room_name'', JStr room), (''room_sid'', JStr sid)]"

definition track_event_json :: "string \<Rightarrow> string \<Rightarrow> LkTrack \<Rightarrow> json" where
  "track_event_json room identity track = JObj [(''room_name'', JStr room), (''identity'', JStr identity),
     (''track_sid'', JStr (lt_Sid track)), (''track_type'', JStr (lt_Type track)), (''simulcast'', JBool (lt_Simulcast track))]"

definition wh_publish :: "('w, 'z) env_scheme \<Rightarrow> 'w WebhookHandler \<Rightarrow> string \<Rightarrow> json \<Rightarrow> 'w \<Rightarrow> 'w" where
  "wh_publish E h subject payload w = (case wh_bus h of
      None \<Rightarrow> w | Some src \<Rightarrow> snd (Bus_PublishJson E src subject payload w))"

definition wh_notify :: "'w WebhookHandler \<Rightarrow> ('w notifier \<Rightarrow> 'w \<Rightarrow> 'w) \<Rightarrow> 'w \<Rightarrow> 'w" where
  "wh_notify h f w = (case wh_notifier h of None \<Rightarrow> w | Some n \<Rightarrow> f n w)"

definition handleParticipantJoined :: "('w, 'z) env_scheme \<Rightarrow> 'w WebhookHandler \<Rightarrow> WebhookEvent \<Rightarrow> 'w \<Rightarrow> 'w" where
  "handleParticipantJoined E h ev w = (case (we_Room ev, we_Participant ev) of
      (Some room, Some p) \<Rightarrow>
        wh_notify h (\<lambda>n. OnParticipantJoined n (lr_Name room) (lp_Identity p))
          (wh_publish E h SubjectSFUParticipantJoined
             (participant_event_json (lr_Name room) (lp_Identity p) (lp_Sid p) (lp_JoinedAt p)) w)
    | _ \<Rightarrow> w)"

definition handleParticipantLeft :: "('w, 'z) env_scheme \<Rightarrow> 'w WebhookHandler \<Rightarrow> WebhookEvent \<Rightarrow> 'w \<Rightarrow> 'w" where
  "handleParticipantLeft E h ev w = (case (we_Room ev, we_Participant ev) of
      (Some room, Some p) \<Rightarrow>
        wh_notify h (\<lambda>n. OnParticipantLeft n (lr_Name room) (lp_Identity p))
          (wh_publish E h SubjectSFUParticipantLeft
             (participant_event_json (lr_Name room) (lp_Identity p) (lp_Sid p) 0) w)
    | _ \<Rightarrow> w)"

definition handleRoomFinished :: "('w, 'z) env_scheme \<Rightarrow> 'w WebhookHandler \<Rightarrow> WebhookEvent \<Rightarrow> 'w \<Rightarrow> 'w" where
  "handleRoomFinished E h ev w = (case we_Room ev of
      Some room \<Rightarrow> wh_notify h (\<lambda>n. OnRoomFinished n (lr_Name room))
        (wh_publish E h SubjectSFURoomFinished (room_event_json (lr_Name room) (lr_Sid room)) w)
    | None \<Rightarrow> w)"

definition handleTrackPublished :: "('w, 'z) env_scheme \<Rightarrow> 'w WebhookHandler \<Rightarrow> WebhookEvent \<Rightarrow> 'w \<Rightarrow> 'w" where
  "handleTrackPublished E h ev w = (case (we_Room ev, we_Participant ev, we_Track ev) of
      (Some room, Some p, Some track) \<Rightarrow>
        wh_notify h (\<lambda>n. OnTrackPublished n (lr_Name room) (lp_Identity p) track)
          (wh_publish E h SubjectSFUTrackPublished (track_event_json (lr_Name room) (lp_Identity p) track) w)
    | _ \<Rightarrow> w)"

text \<open>The names of the events are those of the webhook package.  The response is its status code.\<close>

definition WebhookHandler_ServeHTTP ::
  "('w, 'z) env_scheme \<Rightarrow> 'w WebhookHandler \<Rightarrow> ('req \<Rightarrow> WebhookEvent result) \<Rightarrow> string \<Rightarrow> 'req \<Rightarrow> 'w \<Rightarrow> nat \<times> 'w" where
  "WebhookHandler_ServeHTTP E h receive meth req w =
    (if meth \<noteq> ''POST'' then (405, w)
     else case receive req of
       Inl _ \<Rightarrow> (401, w)
     | Inr ev \<Rightarrow>
        (200, if we_Event ev = ''participant_joined'' then handleParticipantJoined E h ev w
              else if we_Event ev = ''participant_left'' then handleParticipantLeft E h ev w
              else if we_Event ev = ''room_finished'' then handleRoomFinished E h ev w
              else if we_Event ev = ''track_published'' then handleTrackPublished E h ev w
              else w))"

section \<open>Media configuration\<close>

record MediaConfig =
  mc_AudioCodec :: string
  mc_VideoCodecs :: "string list"
  mc_SimulcastLayers :: int
  mc_MaxResolution :: string
  mc_MaxFramerate :: int

definition DefaultMediaConfig :: MediaConfig where
  "DefaultMediaConfig = \<lparr>mc_AudioCodec = ''opus'', mc_VideoCodecs = [''vp8'', ''h264''], mc_SimulcastLayers = 3,
     mc_MaxResolution = ''720p'', mc_MaxFramerate = 30\<rparr>"

section \<open>Properties\<close>

lemma wrapped_fst: "is_ok (fst (wrapped pre x)) = is_ok (fst x)" "snd (wrapped pre x) = snd x"
  by (simp_all add: wrapped_def split: sum.splits)

lemma wrapped_Inr: "fst (wrapped pre x) = Inr r \<longleftrightarrow> fst x = Inr r"
  by (simp add: wrapped_def split: sum.splits)

text \<open>A room is created with capacity and timeout that are never 0.\<close>

lemma CreateRoom_defaults:
  "\<exists>m t. m \<noteq> 0 \<and> t \<noteq> 0 \<and> (rq_MaxParticipants req \<noteq> 0 \<longrightarrow> m = rq_MaxParticipants req) \<and>
     (rq_EmptyTimeout req \<noteq> 0 \<longrightarrow> t = rq_EmptyTimeout req) \<and>
     snd (RoomService_CreateRoom K req w) = snd (sdk_CreateRoom K (rq_RoomName req) m t (rq_Metadata req) w)"
  by (rule exI[of _ "if rq_MaxParticipants req = 0 then 8 else rq_MaxParticipants req"],
      rule exI[of _ "if rq_EmptyTimeout req = 0 then 300 else rq_EmptyTimeout req"])
    (simp add: RoomService_CreateRoom_def wrapped_fst)

context services
begin

lemma wh_publish_log:
  "calm w \<Longrightarrow> seen (published (wh_publish E h subj p w)) =
     seen (published w) @ (case wh_bus h of None \<Rightarrow> [] | Some _ \<Rightarrow> [(subj, p)])"
  by (simp add: wh_publish_def Bus_PublishJson_log Bus_PublishJson_calm split: option.splits)

lemma wh_publish_view: "view (wh_publish E h subj p w) = view w"
  by (simp add: wh_publish_def svc_simps split: option.splits)

end

end
