(* ===== verification/Float64.thy ===== *)
theory Float64
  imports Json
begin

text \<open>
  The arithmetic of Go's \<open>float64\<close> (IEEE 754 binary64, round to nearest, ties to even) on bit
  patterns: addition, division, conversion of an integer and \<open><\<close>.  A finite value is kept as its
  sign and its magnitude in units of \<open>2 ^ -1074\<close>, the smallest positive number, so that addition is
  exact before rounding.  The payload of a NaN is not modelled.
\<close>

section \<open>Values\<close>

datatype f64 = Fin (f_neg: bool) (f_mag: nat) | Inf bool | NaN

definition f64_decode :: "float64 \<Rightarrow> f64" where
  "f64_decode w = (let n = unat w; neg = 2 ^ 63 \<le> n; ex = n div 2 ^ 52 mod 2 ^ 11; fr = n mod 2 ^ 52 in
     if ex = 2047 then (if fr = 0 then Inf neg else NaN)
     else if ex = 0 then Fin neg fr else Fin neg ((2 ^ 52 + fr) * 2 ^ (ex - 1)))"

definition f64_encode :: "f64 \<Rightarrow> float64" where
  "f64_encode v = (case v of
      NaN \<Rightarrow> of_nat (2047 * 2 ^ 52 + 2 ^ 51)
    | Inf neg \<Rightarrow> of_nat ((if neg then 2 ^ 63 else 0) + 2047 * 2 ^ 52)
    | Fin neg m \<Rightarrow> of_nat ((if neg then 2 ^ 63 else 0) +
        (if m < 2 ^ 52 then m else let e = bit_count m - 53 in e * 2 ^ 52 + m div 2 ^ e)))"

text \<open>The magnitude of 1, and the least magnitude that is rounded to infinity.\<close>

definition f64_one :: nat where "f64_one = 2 ^ 1074"
definition f64_limit :: nat where "f64_limit = 2 ^ 2098"

text \<open>The magnitude \<open>num / den\<close> rounded to 53 significant bits.\<close>

definition f64_round :: "bool \<Rightarrow> nat \<Rightarrow> nat \<Rightarrow> f64" where
  "f64_round neg num den = (let q = num div den; e = bit_count q - 53; m = round_quot num (den * 2 ^ e) * 2 ^ e in
     if f64_limit \<le> m then Inf neg else Fin neg m)"

section \<open>Operations\<close>

definition signed :: "bool \<Rightarrow> nat \<Rightarrow> int" where
  "signed neg m = (if neg then - int m else int m)"

fun v_add :: "f64 \<Rightarrow> f64 \<Rightarrow> f64" where
  "v_add (Fin a m) (Fin b n) = (let s = signed a m + signed b n in
     if s = 0 then Fin (a \<and> b) 0 else f64_round (s < 0) (nat \<bar>s\<bar>) 1)"
| "v_add (Inf a) (Inf b) = (if a = b then Inf a else NaN)"
| "v_add (Inf a) (Fin _ _) = Inf a"
| "v_add (Fin _ _) (Inf b) = Inf b"
| "v_add _ _ = NaN"

fun v_div :: "f64 \<Rightarrow> f64 \<Rightarrow> f64" where
  "v_div (Fin a m) (Fin b n) = (if n = 0 then (if m = 0 then NaN else Inf (a \<noteq> b))
     else f64_round (a \<noteq> b) (m * f64_one) n)"
| "v_div (Inf a) (Fin b _) = Inf (a \<noteq> b)"
| "v_div (Fin a _) (Inf b) = Fin (a \<noteq> b) 0"
| "v_div _ _ = NaN"

fun v_lt :: "f64 \<Rightarrow> f64 \<Rightarrow> bool" where
  "v_lt (Fin a m) (Fin b n) \<longleftrightarrow> signed a m < signed b n"
| "v_lt (Fin _ _) (Inf b) \<longleftrightarrow> \<not> b"
| "v_lt (Inf a) (Fin _ _) \<longleftrightarrow> a"
| "v_lt (Inf a) (Inf b) \<longleftrightarrow> a \<and> \<not> b"
| "v_lt _ _ \<longleftrightarrow> False"

definition f64_add :: "float64 \<Rightarrow> float64 \<Rightarrow> float64" where
  "f64_add x y = f64_encode (v_add (f64_decode x) (f64_decode y))"

definition f64_div :: "float64 \<Rightarrow> float64 \<Rightarrow> float64" where
  "f64_div x y = f64_encode (v_div (f64_decode x) (f64_decode y))"

definition f64_lt :: "float64 \<Rightarrow> float64 \<Rightarrow> bool" where
  "f64_lt x y = v_lt (f64_decode x) (f64_decode y)"

text \<open>Conversion to an integer truncates; \<open>time.Duration.Seconds\<close> adds whole seconds and a fraction.\<close>

definition f64_trunc :: "float64 \<Rightarrow> int" where
  "f64_trunc x = (case f64_decode x of Fin neg m \<Rightarrow> signed neg (m div f64_one) | _ \<Rightarrow> min_int64)"

definition Duration_Seconds :: "duration \<Rightarrow> float64" where
  "Duration_Seconds d = f64_add (float_of_int (go_quot d Second))
     (f64_div (float_of_int (d - Second * go_quot d Second)) (float_of_int Second))"

section \<open>Laws\<close>

lemma v_lt_irrefl [simp]: "\<not> v_lt x x"
  by (cases x) auto

lemma v_lt_trans: "v_lt x y \<Longrightarrow> v_lt y z \<Longrightarrow> v_lt x z"
  by (cases x; cases y; cases z) auto

lemma f64_lt_irrefl [simp]: "\<not> f64_lt x x"
  by (simp add: f64_lt_def)

lemma f64_lt_trans: "f64_lt x y \<Longrightarrow> f64_lt y z \<Longrightarrow> f64_lt x z"
  unfolding f64_lt_def by (rule v_lt_trans)

lemma f64_lt_asym: "f64_lt x y \<Longrightarrow> \<not> f64_lt y x"
  using f64_lt_trans f64_lt_irrefl by blast

text \<open>A NaN compares with nothing.\<close>

lemma f64_lt_nan: "f64_decode x = NaN \<Longrightarrow> \<not> f64_lt x y \<and> \<not> f64_lt y x"
  by (cases "f64_decode y") (simp_all add: f64_lt_def)

lemma bit_count_bounds: "0 < n \<Longrightarrow> 2 ^ (bit_count n - 1) \<le> n \<and> n < 2 ^ bit_count n"
proof (induction n rule: bit_count.induct)
  case (1 n)
  show ?case
  proof (cases "n div 2 = 0")
    case True
    then have "n = 1" using 1(2) by simp
    then show ?thesis by (simp add: bit_count.simps)
  next
    case False
    let ?k = "bit_count (n div 2)"
    have ih: "2 ^ (?k - 1) \<le> n div 2" "n div 2 < 2 ^ ?k" using 1 False by auto
    have k: "?k \<noteq> 0" using False by (simp add: bit_count.simps)
    have b: "bit_count n = Suc ?k" using 1(2) by (subst bit_count.simps) simp
    have "2 * 2 ^ (?k - 1) \<le> n" using ih(1) by linarith
    moreover have "n < 2 * 2 ^ ?k" using ih(2) by linarith
    moreover have "2 * 2 ^ (?k - 1) = (2::nat) ^ ?k" using k by (simp add: power_eq_if)
    ultimately show ?thesis by (simp add: b)
  qed
qed

section \<open>Integers\<close>

text \<open>Integers of at most 53 bits are represented exactly: their sums, multiples and comparisons
  agree with those of \<open>int\<close>.\<close>

lemma bit_count_le:
  assumes "0 < n" "n < 2 ^ k"
  shows "0 < bit_count n \<and> bit_count n \<le> k"
proof -
  have "(2::nat) ^ (bit_count n - 1) < 2 ^ k" using bit_count_bounds[OF assms(1)] assms(2) by linarith
  then have "bit_count n - 1 < k" by simp
  moreover have "bit_count n \<noteq> 0" using assms(1) by (simp add: bit_count.simps)
  ultimately show ?thesis by simp
qed

lemma bit_count_shift: "0 < m \<Longrightarrow> bit_count (m * 2 ^ k) = bit_count m + k"
proof (induction k)
  case (Suc k)
  have "bit_count (m * 2 ^ Suc k) = Suc (bit_count (m * 2 ^ Suc k div 2))"
    using Suc.prems by (subst bit_count.simps) simp
  also have "m * 2 ^ Suc k div 2 = m * 2 ^ k" by simp
  finally show ?case using Suc by simp
qed simp

lemma f64_round_exact:
  assumes m: "0 < m" "m < 2 ^ 53" and d: "0 < d" and k: "k \<le> 2045"
  shows "f64_round neg (m * 2 ^ k * d) d = Fin neg (m * 2 ^ k)"
proof -
  define e where "e = bit_count m + k - 53"
  have "e \<le> k" using bit_count_le[OF m] by (auto simp: e_def)
  then obtain j where j: "k = e + j" using le_Suc_ex by blast
  have q: "m * 2 ^ k = m * 2 ^ j * 2 ^ e" by (simp add: j power_add)
  have "m * 2 ^ k < 2 ^ 53 * 2 ^ k" using m(2) by (intro mult_strict_right_mono) simp_all
  also have "\<dots> = (2::nat) ^ (53 + k)" by (simp only: power_add)
  also have "\<dots> \<le> f64_limit" unfolding f64_limit_def using k by (intro power_increasing) simp_all
  finally have big: "\<not> f64_limit \<le> m * 2 ^ j * 2 ^ e" by (simp add: q)
  have "m * 2 ^ k * d = (m * 2 ^ j) * (d * 2 ^ e)" by (simp add: q)
  then have r: "round_quot (m * 2 ^ k * d) (d * 2 ^ e) = m * 2 ^ j"
    using d by (simp only: round_quot_def Let_def) simp
  have "m * 2 ^ k * d div d = m * 2 ^ k" using d by simp
  then show ?thesis
    unfolding f64_round_def Let_def
    by (simp only: bit_count_shift[OF m(1)] e_def[symmetric] r big if_False) (simp only: q)
qed

lemma f64_round_whole:
  "0 < m \<Longrightarrow> m < 2 ^ 53 \<Longrightarrow> 0 < d \<Longrightarrow> f64_round neg (m * f64_one * d) d = Fin neg (m * f64_one)"
  unfolding f64_one_def by (rule f64_round_exact) simp_all

lemma f64_one_pos [simp]: "0 < f64_one"
  by (simp only: f64_one_def zero_less_power zero_less_numeral)

lemma f64_decode_int:
  assumes "0 \<le> n" "n < 2 ^ 53"
  shows "f64_decode (float_of_int n) = Fin False (nat n * f64_one)"
proof (cases "n = 0")
  case True
  then show ?thesis by (simp add: float_of_int_def f64_decode_def)
next
  case False
  define m where "m = nat n"
  define e where "e = bit_count m - 1"
  have m: "0 < m" "m < 2 ^ 53" using assms False by (auto simp: m_def nat_less_iff)
  have e: "bit_count m = Suc e" "e \<le> 52" using bit_count_le[OF m] by (auto simp: e_def)
  have "2 ^ e * 2 ^ (52 - e) \<le> m * 2 ^ (52 - e)" "m * 2 ^ (52 - e) < 2 ^ Suc e * 2 ^ (52 - e)"
    using bit_count_bounds[OF m(1)] by (simp_all add: e)
  then have s: "2 ^ 52 \<le> m * 2 ^ (52 - e)" "m * 2 ^ (52 - e) < 2 ^ 53"
    using e(2) by (simp_all only: power_add[symmetric]) simp_all
  define f where "f = m * 2 ^ (52 - e) - 2 ^ 52"
  have f: "m * 2 ^ (52 - e) = 2 ^ 52 + f" "f < 2 ^ 52" using s by (simp_all add: f_def)
  define x where "x = e + 1023"
  have x: "x < 2047" "x \<noteq> 0" using e(2) by (simp_all add: x_def)
  have "(e + 1022) * 2 ^ 52 + m * 2 ^ (52 - e) = x * 2 ^ 52 + f" by (simp add: f(1) x_def)
  then have w: "float_of_int n = of_nat (x * 2 ^ 52 + f)"
    using assms False e unfolding float_of_int_def Let_def by (simp flip: m_def)
  have "x * 2 ^ 52 + f < 2 ^ 64" using x f(2) by simp
  then have u: "unat (float_of_int n) = x * 2 ^ 52 + f" unfolding w by (simp only: unat_of_nat len_of_numeral_defs take_bit_eq_mod) simp
  have "52 - e + (x - 1) = 1074" using e(2) by (simp add: x_def)
  then have "(2 ^ 52 + f) * 2 ^ (x - 1) = m * f64_one"
    by (simp only: f(1)[symmetric] mult.assoc power_add[symmetric] f64_one_def)
  then show ?thesis using x f(2) unfolding f64_decode_def Let_def u m_def by simp
qed

lemma f64_encode_int:
  assumes "0 \<le> n" "n < 2 ^ 53"
  shows "f64_encode (Fin False (nat n * f64_one)) = float_of_int n"
proof (cases "n = 0")
  case True
  then show ?thesis by (simp add: float_of_int_def f64_encode_def)
next
  case False
  define m where "m = nat n"
  define e where "e = bit_count m - 1"
  have m: "0 < m" "m < 2 ^ 53" using assms False by (auto simp: m_def nat_less_iff)
  have e: "bit_count m = Suc e" "e \<le> 52" using bit_count_le[OF m] by (auto simp: e_def)
  have "(2::nat) ^ 52 \<le> 1 * f64_one" unfolding f64_one_def mult_1 by (rule power_increasing) simp_all
  also have "\<dots> \<le> m * f64_one" using m(1) by (intro mult_le_mono1) simp
  finally have l: "\<not> m * f64_one < 2 ^ 52" by simp
  have "52 - e + (e + 1022) = 1074" using e(2) by simp
  then have "m * f64_one = m * 2 ^ (52 - e) * 2 ^ (e + 1022)"
    by (simp only: mult.assoc power_add[symmetric] f64_one_def)
  then have dv: "m * f64_one div 2 ^ (e + 1022) = m * 2 ^ (52 - e)"
    by (simp only:) (rule nonzero_mult_div_cancel_right, simp)
  have "bit_count (m * f64_one) = bit_count m + 1074" unfolding f64_one_def by (rule bit_count_shift[OF m(1)])
  then have "bit_count (m * f64_one) - 53 = e + 1022" by (simp add: e)
  then have "f64_encode (Fin False (m * f64_one)) = of_nat ((e + 1022) * 2 ^ 52 + m * 2 ^ (52 - e))"
    unfolding f64_encode_def Let_def f64.case by (simp only: l dv if_False) simp
  moreover have "float_of_int n = of_nat ((e + 1022) * 2 ^ 52 + m * 2 ^ (52 - e))"
    using assms False e unfolding float_of_int_def Let_def by (simp flip: m_def)
  ultimately show ?thesis by (simp only: m_def)
qed

lemma f64_lt_int: "0 \<le> a \<Longrightarrow> a < 2 ^ 53 \<Longrightarrow> 0 \<le> b \<Longrightarrow> b < 2 ^ 53 \<Longrightarrow> f64_lt (float_of_int a) (float_of_int b) \<longleftrightarrow> a < b"
  by (simp add: f64_lt_def f64_decode_int signed_def)

lemma f64_add_int:
  assumes "0 \<le> a" "0 \<le> b" "a + b < 2 ^ 53"
  shows "f64_add (float_of_int a) (float_of_int b) = float_of_int (a + b)"
proof -
  define m where "m = nat (a + b)"
  have s: "signed False (nat a * f64_one) + signed False (nat b * f64_one) = int (m * f64_one)"
    using assms by (simp add: signed_def distrib_right nat_add_distrib m_def)
  have "v_add (Fin False (nat a * f64_one)) (Fin False (nat b * f64_one)) = Fin False (m * f64_one)"
  proof (cases "m = 0")
    case True
    then show ?thesis unfolding v_add.simps s by simp
  next
    case False
    then have "0 < m" "m < 2 ^ 53" using assms by (auto simp: nat_less_iff m_def)
    from f64_round_whole[OF this, of 1 False] this(1) show ?thesis
      unfolding v_add.simps s Let_def by (simp del: of_nat_mult)
  qed
  then show ?thesis using f64_encode_int[of "a + b"] assms by (simp add: f64_add_def f64_decode_int m_def)
qed

lemma f64_div_int:
  assumes "0 \<le> a" "0 < b" "a * b < 2 ^ 53" "b < 2 ^ 53"
  shows "f64_div (float_of_int (a * b)) (float_of_int b) = float_of_int a"
proof -
  have ab: "0 \<le> a * b" "a \<le> a * b" using assms by (simp_all add: mult_le_cancel_left1)
  have q: "nat (a * b) * f64_one * f64_one = nat a * f64_one * (nat b * f64_one)" using assms by (simp add: nat_mult_distrib)
  have "f64_round False (nat a * f64_one * (nat b * f64_one)) (nat b * f64_one) = Fin False (nat a * f64_one)"
  proof (cases "a = 0")
    case True
    have "\<not> f64_limit \<le> 0" by (simp only: f64_limit_def) (simp only: not_le zero_less_power zero_less_numeral)
    then show ?thesis using True assms(2) by (simp add: f64_round_def round_quot_def bit_count.simps[of 0])
  next
    case False
    have "a < 2 ^ 53" using ab(2) assms(3) by linarith
    then show ?thesis using assms False by (intro f64_round_whole) (auto simp: nat_less_iff)
  qed
  then have "v_div (Fin False (nat (a * b) * f64_one)) (Fin False (nat b * f64_one)) = Fin False (nat a * f64_one)"
    using assms by (simp add: q)
  then show ?thesis
    using f64_encode_int[of a] assms ab by (simp add: f64_div_def f64_decode_int)
qed

lemma Duration_Seconds_whole:
  assumes "0 \<le> n" "n < 2 ^ 53"
  shows "f64_trunc (Duration_Seconds (n * Second)) = n"
proof -
  have q: "go_quot (n * Second) Second = n" using assms by (simp add: go_quot_nonneg Second_def)
  have "f64_div (float_of_int 0) (float_of_int Second) = float_of_int 0"
    using f64_div_int[of 0 Second] by (simp add: Second_def)
  then have "Duration_Seconds (n * Second) = float_of_int n"
    using f64_add_int[of n 0] assms by (simp add: Duration_Seconds_def q)
  then show ?thesis using assms by (simp add: f64_trunc_def f64_decode_int signed_def)
qed

end
