(* ===== verification/Abr.thy ===== *)
theory Abr
  imports Livekit Float64
begin

text \<open>
  \<open>internal/abr/policy_engine.go\<close>: the adaptive-bitrate policy engine.  It keeps recent quality
  samples per participant, evaluates a list of threshold rules on their averages, and pushes the
  resulting caps to the participant over LiveKit.  Averages are computed in \<open>float64\<close> as the code
  does; the map of participants is an association list.
\<close>

section \<open>Data\<close>

type_synonym QualityTier = string

definition TierGood :: QualityTier where "TierGood = ''good''"
definition TierFair :: QualityTier where "TierFair = ''fair''"
definition TierPoor :: QualityTier where "TierPoor = ''poor''"

record MetricSample =
  ms_Timestamp :: time
  ms_RTTMs :: float64
  ms_LossPercent :: float64
  ms_JitterMs :: float64
  ms_BandwidthKbps :: float64
  ms_Tier :: QualityTier
  ms_AudioLevel :: float64
  ms_FrameWidth :: int
  ms_FrameHeight :: int
  ms_FPS :: float64

record ParticipantMetrics =
  pm_Identity :: string
  pm_RoomName :: string
  pm_Samples :: "MetricSample list"
  pm_UpdatedAt :: time

record PolicyDecision =
  pd_MaxTier :: "QualityTier option"
  pd_ForceAudioOnly :: "bool option"
  pd_MaxBitrateKbps :: "int option"
  pd_ForceCodec :: "string option"
  pd_Reason :: string

record PolicyRule =
  ru_Name :: string
  ru_Condition :: string
  ru_Threshold :: float64
  ru_Action :: string
  ru_ActionValue :: string

record PolicyConfig =
  pc_EvalIntervalSeconds :: int
  pc_MetricWindowSeconds :: int
  pc_Rules :: "PolicyRule list"

definition DefaultPolicyConfig :: PolicyConfig where
  "DefaultPolicyConfig = \<lparr>pc_EvalIntervalSeconds = 10, pc_MetricWindowSeconds = 30, pc_Rules = [
     \<lparr>ru_Name = ''high_loss_cap_fair'', ru_Condition = ''avg_loss_above'', ru_Threshold = float_of_int 8,
      ru_Action = ''cap_tier'', ru_ActionValue = ''fair''\<rparr>,
     \<lparr>ru_Name = ''very_high_loss_cap_poor'', ru_Condition = ''avg_loss_above'', ru_Threshold = float_of_int 15,
      ru_Action = ''cap_tier'', ru_ActionValue = ''poor''\<rparr>,
     \<lparr>ru_Name = ''high_rtt_cap_fair'', ru_Condition = ''avg_rtt_above'', ru_Threshold = float_of_int 300,
      ru_Action = ''cap_tier'', ru_ActionValue = ''fair''\<rparr>,
     \<lparr>ru_Name = ''low_bandwidth_audio_only'', ru_Condition = ''bandwidth_below'', ru_Threshold = float_of_int 80,
      ru_Action = ''force_audio_only'', ru_ActionValue = ''true''\<rparr>]\<rparr>"

text \<open>\<open>pe_stopClosed\<close> is the state of the channel \<open>stop\<close>; \<open>pe_looping\<close> says whether the
  goroutine of the evaluation loop is alive.\<close>

record PolicyEngine =
  pe_cfg :: PolicyConfig
  pe_metrics :: "(string \<times> ParticipantMetrics) list"
  pe_running :: bool
  pe_stopClosed :: bool
  pe_looping :: bool

definition NewPolicyEngine :: "PolicyConfig \<Rightarrow> PolicyEngine" where
  "NewPolicyEngine cfg = \<lparr>pe_cfg = cfg, pe_metrics = [], pe_running = False, pe_stopClosed = False, pe_looping = False\<rparr>"

section \<open>Life cycle\<close>

definition eval_interval :: "PolicyConfig \<Rightarrow> duration" where
  "eval_interval cfg = (let i = wrap64 (pc_EvalIntervalSeconds cfg * Second) in if i \<le> 0 then 10 * Second else i)"

text \<open>A loop that is started on a closed channel returns before its first tick.\<close>

definition PolicyEngine_Start :: "PolicyEngine \<Rightarrow> PolicyEngine" where
  "PolicyEngine_Start e = (if pe_running e then e
     else e\<lparr>pe_running := True, pe_looping := pe_looping e \<or> \<not> pe_stopClosed e\<rparr>)"

text \<open>Closing a closed channel panics.\<close>

definition close_panic :: goerr where
  "close_panic = Errorf ''panic: close of closed channel''"

definition PolicyEngine_Stop :: "PolicyEngine \<Rightarrow> PolicyEngine result" where
  "PolicyEngine_Stop e = (if \<not> pe_running e then Inr e
     else if pe_stopClosed e then Inl close_panic
     else Inr (e\<lparr>pe_running := False, pe_stopClosed := True, pe_looping := False\<rparr>))"

section \<open>Metrics\<close>

definition metrics_key :: "string \<Rightarrow> string \<Rightarrow> string" where
  "metrics_key roomName identity = roomName @ '':'' @ identity"

fun mput :: "'k \<Rightarrow> 'v \<Rightarrow> ('k \<times> 'v) list \<Rightarrow> ('k \<times> 'v) list" where
  "mput k v [] = [(k, v)]"
| "mput k v ((k', v') # xs) = (if k = k' then (k, v) # xs else (k', v') # mput k v xs)"

definition metrics_cutoff :: "PolicyConfig \<Rightarrow> time \<Rightarrow> time" where
  "metrics_cutoff cfg now = now + wrap64 (- pc_MetricWindowSeconds cfg * Second)"

definition IngestMetrics ::
  "('w, 'z) env_scheme \<Rightarrow> string \<Rightarrow> string \<Rightarrow> MetricSample list \<Rightarrow> PolicyEngine \<Rightarrow> 'w \<Rightarrow> PolicyEngine \<times> 'w" where
  "IngestMetrics E roomName identity samples e w =
    (let key = metrics_key roomName identity;
         (now, w1) = time_now E w;
         pm = (case map_of (pe_metrics e) key of
            Some pm \<Rightarrow> pm
          | None \<Rightarrow> \<lparr>pm_Identity = identity, pm_RoomName = roomName, pm_Samples = [], pm_UpdatedAt = zero_time\<rparr>);
         cutoff = metrics_cutoff (pe_cfg e) now;
         trimmed = filter (\<lambda>s. cutoff < ms_Timestamp s) (pm_Samples pm @ samples)
     in (e\<lparr>pe_metrics := mput key (pm\<lparr>pm_Samples := trimmed, pm_UpdatedAt := now\<rparr>) (pe_metrics e)\<rparr>, w1))"

definition PolicyEngine_RemoveParticipant :: "string \<Rightarrow> string \<Rightarrow> PolicyEngine \<Rightarrow> PolicyEngine" where
  "PolicyEngine_RemoveParticipant roomName identity e =
     e\<lparr>pe_metrics := filter (\<lambda>(k, _). k \<noteq> metrics_key roomName identity) (pe_metrics e)\<rparr>"

definition UpdateConfig :: "PolicyConfig \<Rightarrow> PolicyEngine \<Rightarrow> PolicyEngine" where
  "UpdateConfig cfg e = e\<lparr>pe_cfg := cfg\<rparr>"

section \<open>Evaluation\<close>

definition tierRank :: "QualityTier \<Rightarrow> int" where
  "tierRank t = (if t = TierGood then 0 else if t = TierFair then 1 else if t = TierPoor then 2 else 0)"

definition appendReason :: "string \<Rightarrow> string \<Rightarrow> string" where
  "appendReason existing rule = (if existing = [] then rule else existing @ ''; '' @ rule)"

text \<open>\<open>fmt.Sscanf(s, "%d", &kbps)\<close> into a variable that holds 0.\<close>

definition Sscanf_d :: "string \<Rightarrow> int" where
  "Sscanf_d s = (case Sscanf_int s of None \<Rightarrow> 0 | Some n \<Rightarrow> n)"

definition total :: "(MetricSample \<Rightarrow> float64) \<Rightarrow> MetricSample list \<Rightarrow> float64" where
  "total f ss = foldl (\<lambda>acc s. f64_add acc (f s)) (float_of_int 0) ss"

definition average :: "(MetricSample \<Rightarrow> float64) \<Rightarrow> MetricSample list \<Rightarrow> float64" where
  "average f ss = f64_div (total f ss) (float_of_int (int (length ss)))"

definition rule_triggered :: "float64 \<Rightarrow> float64 \<Rightarrow> float64 \<Rightarrow> PolicyRule \<Rightarrow> bool" where
  "rule_triggered avgRTT avgLoss avgBW rule \<longleftrightarrow>
    (if ru_Condition rule = ''avg_loss_above'' then f64_lt (ru_Threshold rule) avgLoss
     else if ru_Condition rule = ''avg_rtt_above'' then f64_lt (ru_Threshold rule) avgRTT
     else if ru_Condition rule = ''bandwidth_below'' then f64_lt (float_of_int 0) avgBW \<and> f64_lt avgBW (ru_Threshold rule)
     else False)"

definition apply_rule :: "PolicyRule \<Rightarrow> PolicyDecision \<Rightarrow> PolicyDecision" where
  "apply_rule rule d =
    (if ru_Action rule = ''cap_tier'' then
       (let tier = ru_ActionValue rule;
            d1 = (if (case pd_MaxTier d of None \<Rightarrow> True | Some t \<Rightarrow> tierRank t < tierRank tier)
                  then d\<lparr>pd_MaxTier := Some tier\<rparr> else d)
        in d1\<lparr>pd_Reason := appendReason (pd_Reason d1) (ru_Name rule)\<rparr>)
     else if ru_Action rule = ''force_audio_only'' then
       d\<lparr>pd_ForceAudioOnly := Some True, pd_Reason := appendReason (pd_Reason d) (ru_Name rule)\<rparr>
     else if ru_Action rule = ''cap_bitrate'' then
       (let kbps = Sscanf_d (ru_ActionValue rule);
            d1 = (if 0 < kbps \<and> (case pd_MaxBitrateKbps d of None \<Rightarrow> True | Some b \<Rightarrow> kbps < b)
                  then d\<lparr>pd_MaxBitrateKbps := Some kbps\<rparr> else d)
        in d1\<lparr>pd_Reason := appendReason (pd_Reason d1) (ru_Name rule)\<rparr>)
     else d)"

definition no_decision :: PolicyDecision where
  "no_decision = \<lparr>pd_MaxTier = None, pd_ForceAudioOnly = None, pd_MaxBitrateKbps = None, pd_ForceCodec = None, pd_Reason = []\<rparr>"

fun eval_rules :: "float64 \<Rightarrow> float64 \<Rightarrow> float64 \<Rightarrow> PolicyRule list \<Rightarrow> PolicyDecision \<times> bool \<Rightarrow> PolicyDecision \<times> bool" where
  "eval_rules avgRTT avgLoss avgBW [] acc = acc"
| "eval_rules avgRTT avgLoss avgBW (rule # rules) (d, matched) =
    (if rule_triggered avgRTT avgLoss avgBW rule
     then eval_rules avgRTT avgLoss avgBW rules (apply_rule rule d, True)
     else eval_rules avgRTT avgLoss avgBW rules (d, matched))"

definition EvaluateParticipant :: "PolicyConfig \<Rightarrow> ParticipantMetrics \<Rightarrow> PolicyDecision option" where
  "EvaluateParticipant cfg pm =
    (let ss = pm_Samples pm in
     if ss = [] then None
     else (let (d, matched) = eval_rules (average ms_RTTMs ss) (average ms_LossPercent ss) (average ms_BandwidthKbps ss)
                (pc_Rules cfg) (no_decision, False)
           in if matched then Some d else None))"

definition GetParticipantPolicy :: "string \<Rightarrow> string \<Rightarrow> PolicyEngine \<Rightarrow> PolicyDecision option" where
  "GetParticipantPolicy roomName identity e = (case map_of (pe_metrics e) (metrics_key roomName identity) of
      None \<Rightarrow> None | Some pm \<Rightarrow> EvaluateParticipant (pe_cfg e) pm)"

section \<open>Pushing\<close>

definition opt_fld :: "string \<Rightarrow> ('a \<Rightarrow> json) \<Rightarrow> 'a option \<Rightarrow> (string \<times> json) list" where
  "opt_fld k f x = (case x of None \<Rightarrow> [] | Some a \<Rightarrow> [(k, f a)])"

text \<open>Go writes the keys of a map in sorted order.\<close>

definition policy_json :: "string \<Rightarrow> PolicyDecision \<Rightarrow> json" where
  "policy_json roomName d = JObj [(''data'', JObj (opt_fld ''force_audio_only'' JBool (pd_ForceAudioOnly d) @
       opt_fld ''force_codec'' JStr (pd_ForceCodec d) @ opt_fld ''max_bitrate_kbps'' JNum (pd_MaxBitrateKbps d) @
       opt_fld ''max_tier'' JStr (pd_MaxTier d) @ omit_str ''reason'' (pd_Reason d) @ [(''room_id'', JStr roomName)])),
     (''type'', JStr ''policy_update'')]"

definition pushPolicyUpdate :: "'w lksdk \<Rightarrow> string \<Rightarrow> string \<Rightarrow> PolicyDecision \<Rightarrow> 'w \<Rightarrow> 'w" where
  "pushPolicyUpdate K roomName identity d w = snd (RoomService_SendData K \<lparr>sr_RoomName = roomName,
     sr_Payload = policy_json roomName d, sr_DestinationIdentities = [identity], sr_Reliable = True\<rparr> w)"

fun push_all :: "'w lksdk \<Rightarrow> PolicyConfig \<Rightarrow> ParticipantMetrics list \<Rightarrow> 'w \<Rightarrow> 'w" where
  "push_all K cfg [] w = w"
| "push_all K cfg (pm # pms) w = push_all K cfg pms (case EvaluateParticipant cfg pm of
      None \<Rightarrow> w | Some d \<Rightarrow> pushPolicyUpdate K (pm_RoomName pm) (pm_Identity pm) d w)"

definition evaluateAll :: "('w, 'z) env_scheme \<Rightarrow> 'w lksdk \<Rightarrow> PolicyEngine \<Rightarrow> 'w \<Rightarrow> 'w" where
  "evaluateAll E K e w =
    (let (ks, w1) = map_order E (map fst (pe_metrics e)) w
     in push_all K (pe_cfg e) (List.map_filter (map_of (pe_metrics e)) ks) w1)"

end
