(* ===== verification/Abr_Properties.thy ===== *)
theory Abr_Properties
  imports Abr
begin

text \<open>
  What the policy engine decides: the fold over the rules is compared with a declarative reading of
  the triggered ones, the default configuration is classified completely, and the samples that a
  decision rests on are those of the window.
\<close>

section \<open>The rules\<close>

text \<open>The caps that a list of triggered rules asks for.\<close>

definition tier_caps :: "PolicyRule list \<Rightarrow> QualityTier list" where
  "tier_caps rs = map ru_ActionValue (filter (\<lambda>r. ru_Action r = ''cap_tier'') rs)"

definition bitrate_caps :: "PolicyRule list \<Rightarrow> int list" where
  "bitrate_caps rs = filter (\<lambda>k. 0 < k)
     (map (\<lambda>r. Sscanf_d (ru_ActionValue r)) (filter (\<lambda>r. ru_Action r = ''cap_bitrate'') rs))"

definition known_action :: "PolicyRule \<Rightarrow> bool" where
  "known_action r \<longleftrightarrow> ru_Action r \<in> {''cap_tier'', ''force_audio_only'', ''cap_bitrate''}"

text \<open>The first of the strictest tiers.\<close>

definition strictest :: "QualityTier list \<Rightarrow> QualityTier option" where
  "strictest ts = find (\<lambda>t. \<forall>t'\<in>set ts. tierRank t' \<le> tierRank t) ts"

definition lowest :: "int list \<Rightarrow> int option" where
  "lowest ks = (if ks = [] then None else Some (Min (set ks)))"

fun join_reasons :: "string list \<Rightarrow> string" where
  "join_reasons [] = []"
| "join_reasons (x # xs) = x @ concat (map (\<lambda>n. ''; '' @ n) xs)"

definition decision_of :: "PolicyRule list \<Rightarrow> PolicyDecision" where
  "decision_of rs = \<lparr>pd_MaxTier = strictest (tier_caps rs),
     pd_ForceAudioOnly = (if \<exists>r\<in>set rs. ru_Action r = ''force_audio_only'' then Some True else None),
     pd_MaxBitrateKbps = lowest (bitrate_caps rs),
     pd_ForceCodec = None,
     pd_Reason = join_reasons (dropWhile (\<lambda>n. n = []) (map ru_Name (filter known_action rs)))\<rparr>"

lemma eval_rules_fold:
  "eval_rules r l b rules (d, m) =
    (fold apply_rule (filter (rule_triggered r l b) rules) d, m \<or> filter (rule_triggered r l b) rules \<noteq> [])"
  by (induction rules arbitrary: d m) auto

lemma find_append: "find P (xs @ ys) = (case find P xs of None \<Rightarrow> find P ys | Some x \<Rightarrow> Some x)"
  by (induction xs) auto

lemma find_cong_set: "(\<And>x. x \<in> set xs \<Longrightarrow> P x = Q x) \<Longrightarrow> find P xs = find Q xs"
  by (induction xs) auto

lemma strictest_None: "strictest ts = None \<longleftrightarrow> ts = []"
proof
  assume a: "strictest ts = None"
  show "ts = []"
  proof (rule ccontr)
    assume "ts \<noteq> []"
    then obtain t where "t \<in> set ts" "\<forall>t'\<in>set ts. tierRank t' \<le> tierRank t"
      using Max_in[of "tierRank ` set ts"] Max_ge[of "tierRank ` set ts"] by fastforce
    then show False using a by (auto simp: strictest_def find_None_set)
  qed
qed (simp add: strictest_def)

lemma strictest_max: "strictest ts = Some t \<Longrightarrow> t \<in> set ts \<and> (\<forall>t'\<in>set ts. tierRank t' \<le> tierRank t)"
  by (auto simp: strictest_def dest: find_Some_set)

lemma strictest_snoc:
  "strictest (ts @ [t]) = (case strictest ts of
      None \<Rightarrow> Some t | Some u \<Rightarrow> if tierRank u < tierRank t then Some t else Some u)"
proof (cases "strictest ts")
  case None
  then show ?thesis by (simp add: strictest_None) (simp add: strictest_def)
next
  case (Some u)
  note m = strictest_max[OF Some]
  show ?thesis
  proof (cases "tierRank u < tierRank t")
    case True
    then have "find (\<lambda>x. \<forall>t'\<in>set (ts @ [t]). tierRank t' \<le> tierRank x) ts = None"
      using m by (fastforce simp: find_None_set)
    then show ?thesis using True m Some by (auto simp: strictest_def find_append)
  next
    case False
    then have "find (\<lambda>x. \<forall>t'\<in>set (ts @ [t]). tierRank t' \<le> tierRank x) ts =
      find (\<lambda>x. \<forall>t'\<in>set ts. tierRank t' \<le> tierRank x) ts"
      using m by (intro find_cong_set) fastforce
    then show ?thesis using False Some by (simp add: strictest_def find_append)
  qed
qed

lemma lowest_snoc:
  "lowest (ks @ [k]) = (if (case lowest ks of None \<Rightarrow> True | Some b \<Rightarrow> k < b) then Some k else lowest ks)"
  by (cases "ks = []") (simp_all add: lowest_def min_def del: Min_gr_iff Min_ge_iff)

lemma join_snoc: "xs \<noteq> [] \<Longrightarrow> join_reasons (xs @ [x]) = join_reasons xs @ ''; '' @ x"
  by (cases xs) auto

lemma join_empty: "dropWhile (\<lambda>n. n = []) xs = [] \<longleftrightarrow> join_reasons (dropWhile (\<lambda>n. n = []) xs) = []"
  by (induction xs) auto

lemma join_append:
  "join_reasons (dropWhile (\<lambda>n. n = []) (xs @ [x])) = appendReason (join_reasons (dropWhile (\<lambda>n. n = []) xs)) x"
proof (cases "dropWhile (\<lambda>n. n = []) xs = []")
  case True
  then have "\<forall>n\<in>set xs. n = []" by (simp add: dropWhile_eq_Nil_conv)
  then have "dropWhile (\<lambda>n. n = []) (xs @ [x]) = dropWhile (\<lambda>n. n = []) [x]" by (intro dropWhile_append2) simp
  then show ?thesis by (simp only: True) (simp add: appendReason_def)
next
  case False
  then obtain y where "y \<in> set xs" "y \<noteq> []" by (auto simp: dropWhile_eq_Nil_conv)
  then have "dropWhile (\<lambda>n. n = []) (xs @ [x]) = dropWhile (\<lambda>n. n = []) xs @ [x]"
    by (rule dropWhile_append1)
  then show ?thesis using False join_empty[of xs] by (simp del: dropWhile_eq_Nil_conv add: join_snoc appendReason_def)
qed

lemma apply_rule_decision: "apply_rule r (decision_of rs) = decision_of (rs @ [r])"
proof -
  consider "ru_Action r = ''cap_tier''" | "ru_Action r = ''force_audio_only''" | "ru_Action r = ''cap_bitrate''"
    | "\<not> known_action r" by (auto simp: known_action_def)
  then show ?thesis
  proof cases
    case 1
    then show ?thesis
      by (auto simp: apply_rule_def decision_of_def tier_caps_def bitrate_caps_def known_action_def Let_def join_append
          strictest_snoc split: option.splits)
  next
    case 2
    then show ?thesis
      by (auto simp: apply_rule_def decision_of_def tier_caps_def bitrate_caps_def known_action_def join_append)
  next
    case 3
    then have t: "tier_caps (rs @ [r]) = tier_caps rs" "bitrate_caps (rs @ [r]) = bitrate_caps rs @
        (if 0 < Sscanf_d (ru_ActionValue r) then [Sscanf_d (ru_ActionValue r)] else [])"
      by (auto simp: tier_caps_def bitrate_caps_def)
    show ?thesis
      using 3 by (auto simp: apply_rule_def decision_of_def t known_action_def Let_def join_append lowest_snoc)
  next
    case 4
    then show ?thesis
      by (auto simp: apply_rule_def decision_of_def tier_caps_def bitrate_caps_def known_action_def)
  qed
qed

lemma fold_decision: "fold apply_rule rs no_decision = decision_of rs"
proof (induction rs rule: rev_induct)
  case Nil
  then show ?case by (simp add: no_decision_def decision_of_def tier_caps_def bitrate_caps_def strictest_def lowest_def)
next
  case (snoc r rs)
  then show ?case by (simp add: apply_rule_decision)
qed

definition triggered_rules :: "PolicyConfig \<Rightarrow> MetricSample list \<Rightarrow> PolicyRule list" where
  "triggered_rules cfg ss =
     filter (rule_triggered (average ms_RTTMs ss) (average ms_LossPercent ss) (average ms_BandwidthKbps ss)) (pc_Rules cfg)"

lemma EvaluateParticipant_fold:
  "EvaluateParticipant cfg pm = (let rs = triggered_rules cfg (pm_Samples pm)
     in if pm_Samples pm = [] \<or> rs = [] then None else Some (decision_of rs))"
  by (simp add: EvaluateParticipant_def triggered_rules_def Let_def eval_rules_fold fold_decision)

text \<open>C30: \<open>EvaluateParticipant\<close> decides what its rules ask for.  There is a decision exactly when there
  are samples and some rule is triggered; its tier is a strictest tier that a triggered rule caps, its
  bitrate the smallest positive cap, video is off exactly when a triggered rule asks for it, no codec
  is forced, and the reason lists the triggered rules with a known action in the order of the
  configuration.\<close>

theorem EvaluateParticipant_spec:
  "EvaluateParticipant cfg pm = (let rs = triggered_rules cfg (pm_Samples pm)
     in if pm_Samples pm = [] \<or> rs = [] then None
        else Some \<lparr>pd_MaxTier = strictest (tier_caps rs),
           pd_ForceAudioOnly = (if \<exists>r\<in>set rs. ru_Action r = ''force_audio_only'' then Some True else None),
           pd_MaxBitrateKbps = lowest (bitrate_caps rs),
           pd_ForceCodec = None,
           pd_Reason = join_reasons (dropWhile (\<lambda>n. n = []) (map ru_Name (filter known_action rs)))\<rparr>)"
  by (simp add: EvaluateParticipant_fold decision_of_def Let_def)

section \<open>The default configuration\<close>

lemma thresholds: "f64_lt (float_of_int 8) (float_of_int 15)"
  by (simp add: f64_lt_int)

text \<open>The default rules of which those flagged are triggered, and what they ask for.\<close>

definition default_rules :: "bool \<Rightarrow> bool \<Rightarrow> bool \<Rightarrow> bool \<Rightarrow> PolicyRule list" where
  "default_rules a b c d = map snd (filter fst (zip [a, b, c, d] (pc_Rules DefaultPolicyConfig)))"

lemma default_triggered:
  "triggered_rules DefaultPolicyConfig ss = default_rules
    (f64_lt (float_of_int 8) (average ms_LossPercent ss)) (f64_lt (float_of_int 15) (average ms_LossPercent ss))
    (f64_lt (float_of_int 300) (average ms_RTTMs ss))
    (f64_lt (float_of_int 0) (average ms_BandwidthKbps ss) \<and> f64_lt (average ms_BandwidthKbps ss) (float_of_int 80))"
  by (simp add: triggered_rules_def default_rules_def DefaultPolicyConfig_def rule_triggered_def)

lemma default_decision:
  "default_rules a b c d = [] \<longleftrightarrow> \<not> a \<and> \<not> b \<and> \<not> c \<and> \<not> d"
  "strictest (tier_caps (default_rules a b c d)) = (if b then Some TierPoor else if a \<or> c then Some TierFair else None)"
  "bitrate_caps (default_rules a b c d) = []"
  "(\<exists>r\<in>set (default_rules a b c d). ru_Action r = ''force_audio_only'') = d"
  by (cases a; cases b; cases c; cases d;
      simp add: default_rules_def tier_caps_def bitrate_caps_def strictest_def tierRank_def TierGood_def TierFair_def
        TierPoor_def DefaultPolicyConfig_def)+

text \<open>The default configuration.  With at least one sample, the tier is capped to \<open>poor\<close> exactly
  when the average loss is above 15 percent, to \<open>fair\<close> exactly when it is not but exceeds 8 percent or
  the average round trip exceeds 300 ms; video is switched off exactly when the average bandwidth is
  positive and below 80 kbit/s; no bitrate is capped, and there is no decision otherwise.\<close>

theorem default_policy:
  assumes "pm_Samples pm \<noteq> []"
    and "loss = average ms_LossPercent (pm_Samples pm)" and "rtt = average ms_RTTMs (pm_Samples pm)"
    and "bw = average ms_BandwidthKbps (pm_Samples pm)"
    and "low \<longleftrightarrow> f64_lt (float_of_int 0) bw \<and> f64_lt bw (float_of_int 80)"
    and "tier = (if f64_lt (float_of_int 15) loss then Some TierPoor
       else if f64_lt (float_of_int 8) loss \<or> f64_lt (float_of_int 300) rtt then Some TierFair else None)"
  shows "case EvaluateParticipant DefaultPolicyConfig pm of
      None \<Rightarrow> tier = None \<and> \<not> low
    | Some d \<Rightarrow> (tier \<noteq> None \<or> low) \<and> pd_MaxTier d = tier \<and>
        pd_ForceAudioOnly d = (if low then Some True else None) \<and> pd_MaxBitrateKbps d = None"
proof -
  have l: "f64_lt (float_of_int 15) loss \<Longrightarrow> f64_lt (float_of_int 8) loss"
    using f64_lt_trans[OF thresholds] .
  show ?thesis
    using assms l unfolding EvaluateParticipant_fold Let_def default_triggered decision_of_def
    by (simp add: default_decision lowest_def)
qed

definition sample_metrics :: ParticipantMetrics where
  "sample_metrics = \<lparr>pm_Identity = ''alice'', pm_RoomName = ''room'', pm_Samples = [
     \<lparr>ms_Timestamp = 1, ms_RTTMs = float_of_int 100, ms_LossPercent = float_of_int 9, ms_JitterMs = 0,
      ms_BandwidthKbps = float_of_int 50, ms_Tier = TierGood, ms_AudioLevel = 0, ms_FrameWidth = 0,
      ms_FrameHeight = 0, ms_FPS = 0\<rparr>], pm_UpdatedAt = 1\<rparr>"

lemma sample_averages:
  "f64_lt (float_of_int 8) (average ms_LossPercent (pm_Samples sample_metrics)) \<and>
   \<not> f64_lt (float_of_int 15) (average ms_LossPercent (pm_Samples sample_metrics)) \<and>
   f64_lt (float_of_int 0) (average ms_BandwidthKbps (pm_Samples sample_metrics)) \<and>
   f64_lt (average ms_BandwidthKbps (pm_Samples sample_metrics)) (float_of_int 80)"
  using f64_div_int[of 9 1] f64_div_int[of 50 1]
  by (simp add: sample_metrics_def average_def total_def f64_add_int f64_lt_int)

theorem default_policy_witness:
  "case EvaluateParticipant DefaultPolicyConfig sample_metrics of
     None \<Rightarrow> False | Some d \<Rightarrow> pd_MaxTier d = Some TierFair \<and> pd_ForceAudioOnly d = Some True"
  using default_policy[OF _ refl refl refl refl refl, of sample_metrics] sample_averages
  by (simp add: sample_metrics_def split: option.splits)

section \<open>Samples\<close>

definition stored_samples :: "string \<Rightarrow> PolicyEngine \<Rightarrow> MetricSample list" where
  "stored_samples key e = (case map_of (pe_metrics e) key of None \<Rightarrow> [] | Some pm \<Rightarrow> pm_Samples pm)"

lemma map_of_mput [simp]: "map_of (mput k v xs) k' = (if k = k' then Some v else map_of xs k')"
  by (induction xs) auto

lemma GetParticipantPolicy_samples:
  "GetParticipantPolicy r i e = (let ss = stored_samples (metrics_key r i) e; rs = triggered_rules (pe_cfg e) ss
     in if ss = [] \<or> rs = [] then None else Some (decision_of rs))"
  by (simp add: GetParticipantPolicy_def EvaluateParticipant_fold stored_samples_def Let_def split: option.splits)

text \<open>Ingestion keeps a sliding window.  After \<open>IngestMetrics\<close> at time \<open>now\<close> the policy of that
  participant is the decision on exactly the old and the new samples that are younger than the window;
  under every other key the policy is what it was.\<close>

theorem ingest_window:
  assumes "now = fst (time_now E w)" "e' = fst (IngestMetrics E r i samples e w)"
  shows "GetParticipantPolicy r' i' e' =
    (if metrics_key r' i' = metrics_key r i
     then (let ss = filter (\<lambda>s. metrics_cutoff (pe_cfg e) now < ms_Timestamp s) (stored_samples (metrics_key r i) e @ samples);
               rs = triggered_rules (pe_cfg e) ss
           in if ss = [] \<or> rs = [] then None else Some (decision_of rs))
     else GetParticipantPolicy r' i' e)"
  using assms by (simp add: IngestMetrics_def GetParticipantPolicy_samples stored_samples_def Let_def split_beta
      split: option.splits)

theorem ingest_window_witness:
  "GetParticipantPolicy ''room'' ''alice''
     (fst (IngestMetrics mem_env ''room'' ''alice'' (pm_Samples sample_metrics) (NewPolicyEngine DefaultPolicyConfig) world0))
   = Some (decision_of (default_rules True False False True))"
proof -
  let ?e = "NewPolicyEngine DefaultPolicyConfig"
  have "filter (\<lambda>s. metrics_cutoff (pe_cfg ?e) (fst (time_now mem_env world0)) < ms_Timestamp s)
      (stored_samples (metrics_key ''room'' ''alice'') ?e @ pm_Samples sample_metrics) = pm_Samples sample_metrics"
    by (simp add: metrics_cutoff_def NewPolicyEngine_def DefaultPolicyConfig_def wrap64_def Second_def mem_env_def world0_def
        stored_samples_def sample_metrics_def)
  moreover have "\<not> f64_lt (float_of_int 300) (average ms_RTTMs (pm_Samples sample_metrics))"
    using f64_div_int[of 100 1] by (simp add: sample_metrics_def average_def total_def f64_add_int f64_lt_int)
  then have "triggered_rules (pe_cfg ?e) (pm_Samples sample_metrics) = default_rules True False False True"
    using sample_averages by (simp add: NewPolicyEngine_def default_triggered)
  ultimately show ?thesis
    using ingest_window[OF refl refl, where E = mem_env and w = world0 and r = "''room''" and i = "''alice''" and
        r' = "''room''" and i' = "''alice''" and e = ?e and samples = "pm_Samples sample_metrics"]
    by (simp add: Let_def sample_metrics_def default_decision)
qed

text \<open>Room and identity are not recovered from a key: two participants can share one.\<close>

lemma metrics_key_collision:
  "metrics_key ''a:b'' ''c'' = metrics_key ''a'' ''b:c''"
  by (simp add: metrics_key_def)

lemma metrics_key_inj:
  "CHR '':'' \<notin> set r \<Longrightarrow> CHR '':'' \<notin> set r' \<Longrightarrow> metrics_key r i = metrics_key r' i' \<Longrightarrow> r = r' \<and> i = i'"
  by (induction r arbitrary: r') (auto simp: metrics_key_def Cons_eq_append_conv append_eq_Cons_conv)

section \<open>Pushing\<close>

text \<open>The update that a participant is sent.\<close>

definition update_for :: "PolicyConfig \<Rightarrow> ParticipantMetrics \<Rightarrow> LkData option" where
  "update_for cfg pm = map_option (\<lambda>d. \<lparr>ld_Room = pm_RoomName pm, ld_Data = policy_json (pm_RoomName pm) d,
     ld_Reliable = True, ld_DestinationIdentities = [pm_Identity pm]\<rparr>) (EvaluateParticipant cfg pm)"

lemma push_all_fold:
  "push_all K cfg pms w = fold (\<lambda>r w. snd (sdk_SendData K r w)) (List.map_filter (update_for cfg) pms) w"
  by (induction pms arbitrary: w)
    (auto simp: map_filter_simps update_for_def pushPolicyUpdate_def RoomService_SendData_def wrapped_fst split: option.splits)

section \<open>Life cycle\<close>

text \<open>The channel is closed once and for all: an engine that was stopped and started again evaluates
  nothing, and stopping it a second time panics.\<close>

theorem restarted_engine:
  assumes "\<not> pe_running e" "\<not> pe_stopClosed e"
  shows "\<exists>e1. PolicyEngine_Stop (PolicyEngine_Start e) = Inr e1 \<and> pe_running (PolicyEngine_Start e1) \<and>
    \<not> pe_looping (PolicyEngine_Start e1) \<and> PolicyEngine_Stop (PolicyEngine_Start e1) = Inl close_panic"
  using assms by (simp add: PolicyEngine_Start_def PolicyEngine_Stop_def)

end
