(* ===== verification/Http.thy ===== *)
theory Http
  imports Events
begin

text \<open>
  The vocabulary of the HTTP handlers: requests as the handlers read them and responses as they write
  them.  A body is \<open>None\<close> when it is not a JSON document; routing, headers that no handler reads and
  the connection itself belong to \<open>net/http\<close>.
\<close>

record Claims =
  cl_UserID :: string
  cl_DeviceID :: string
  cl_Permissions :: "string list"
  cl_TokenType :: string
  cl_ID :: string
  cl_ExpiresAt :: "time option"
  cl_IssuedAt :: "time option"
  cl_Issuer :: string

record request =
  rq_Method :: string
  rq_Path :: string
  rq_Authorization :: string
  rq_TokenParam :: string
  rq_Body :: "json option"
  rq_Claims :: "Claims option"

record response =
  rs_Status :: nat
  rs_Body :: json

definition reply :: "nat \<Rightarrow> json \<Rightarrow> response" where
  "reply status body = \<lparr>rs_Status = status, rs_Body = body\<rparr>"

definition reply_error :: "nat \<Rightarrow> string \<Rightarrow> response" where
  "reply_error status msg = reply status (JObj [(''error'', JStr msg)])"

lemma reply_Status [simp]: "rs_Status (reply n j) = n" "rs_Status (reply_error n m) = n"
  by (simp_all add: reply_def reply_error_def)

text \<open>\<open>json.NewDecoder(r.Body).Decode(&v)\<close>.\<close>

definition decode_body :: "(json \<Rightarrow> 'a result) \<Rightarrow> request \<Rightarrow> 'a result" where
  "decode_body dec req = (case rq_Body req of None \<Rightarrow> Inl json_err | Some j \<Rightarrow> dec j)"

text \<open>The status codes that a handler may answer with, by name.\<close>

definition StatusOK :: nat where "StatusOK = 200"
definition StatusCreated :: nat where "StatusCreated = 201"
definition StatusBadRequest :: nat where "StatusBadRequest = 400"
definition StatusUnauthorized :: nat where "StatusUnauthorized = 401"
definition StatusForbidden :: nat where "StatusForbidden = 403"
definition StatusNotFound :: nat where "StatusNotFound = 404"
definition StatusMethodNotAllowed :: nat where "StatusMethodNotAllowed = 405"
definition StatusConflict :: nat where "StatusConflict = 409"
definition StatusTooManyRequests :: nat where "StatusTooManyRequests = 429"
definition StatusInternalServerError :: nat where "StatusInternalServerError = 500"

lemmas status_defs = StatusOK_def StatusCreated_def StatusBadRequest_def StatusUnauthorized_def StatusForbidden_def
  StatusNotFound_def StatusMethodNotAllowed_def StatusConflict_def StatusTooManyRequests_def StatusInternalServerError_def

section \<open>Paths\<close>

text \<open>\<open>strings.Split\<close> at a character and \<open>strings.Join\<close>.\<close>

fun split_on :: "char \<Rightarrow> string \<Rightarrow> string list" where
  "split_on c [] = [[]]"
| "split_on c (x # xs) = (if x = c then [] # split_on c xs else (x # hd (split_on c xs)) # tl (split_on c xs))"

fun join_with :: "char \<Rightarrow> string list \<Rightarrow> string" where
  "join_with c [] = []"
| "join_with c [p] = p"
| "join_with c (p # ps) = p @ c # join_with c ps"

lemma split_on_nonempty [simp]: "split_on c s \<noteq> []"
  by (cases s) simp_all

lemma join_with_Cons: "ps \<noteq> [] \<Longrightarrow> join_with c (p # ps) = p @ c # join_with c ps"
  by (cases ps) simp_all

lemma join_split: "join_with c (split_on c s) = s"
proof (induction s)
  case (Cons x xs)
  obtain q qs where "split_on c xs = q # qs" by (cases "split_on c xs") simp_all
  with Cons show ?case by (cases qs) (auto simp: join_with_Cons)
qed simp

lemma split_on_plain: "c \<notin> set p \<Longrightarrow> split_on c p = [p]"
  by (induction p) auto

lemma split_on_append: "c \<notin> set p \<Longrightarrow> split_on c (p @ c # s) = p # split_on c s"
  by (induction p) auto

lemma split_parts: "p \<in> set (split_on c s) \<Longrightarrow> c \<notin> set p"
proof (induction s arbitrary: p)
  case (Cons x xs)
  have "hd (split_on c xs) \<in> set (split_on c xs)" by simp
  with Cons show ?case by (auto split: if_splits dest: list.set_sel(2)[rotated])
qed simp

text \<open>\<open>path.Clean\<close> of a rooted path, and the \<open>cleanPath\<close> of \<open>net/http\<close>.\<close>

fun clean_parts :: "string list \<Rightarrow> string list \<Rightarrow> string list" where
  "clean_parts acc [] = rev acc"
| "clean_parts acc (p # ps) =
    (if p = [] \<or> p = ''.'' then clean_parts acc ps
     else if p = ''..'' then clean_parts (tl acc) ps
     else clean_parts (p # acc) ps)"

definition cleanPath :: "string \<Rightarrow> string" where
  "cleanPath p = (if p = [] then ''/''
     else let q = (if hd p = CHR ''/'' then p else CHR ''/'' # p);
              np = CHR ''/'' # join_with (CHR ''/'') (clean_parts [] (split_on (CHR ''/'') q))
       in if last q = CHR ''/'' \<and> np \<noteq> ''/'' then np @ ''/'' else np)"

section \<open>Routing\<close>

type_synonym 'w handler = "request \<Rightarrow> 'w \<Rightarrow> response \<times> 'w"

text \<open>\<open>http.ServeMux\<close> with patterns that name no method and no host: a pattern that ends in a slash
  stands for the paths below it, the longest matching pattern wins, a path that is not clean or
  lacks the slash of the only matching pattern is redirected.  Paths are without escapes.\<close>

fun mux_find :: "(string \<times> 'h) list \<Rightarrow> string \<Rightarrow> (string \<times> 'h) option" where
  "mux_find [] path = None"
| "mux_find ((pat, h) # ps) path =
    (case mux_find ps path of
       None \<Rightarrow> if pat = path \<or> last pat = CHR ''/'' \<and> HasPrefix path pat then Some (pat, h) else None
     | Some (q, g) \<Rightarrow>
        if (pat = path \<or> last pat = CHR ''/'' \<and> HasPrefix path pat) \<and> length q < length pat then Some (pat, h) else Some (q, g))"

definition redirect :: "string \<Rightarrow> response" where
  "redirect path = reply 301 (JStr path)"

definition http_Error :: "nat \<Rightarrow> string \<Rightarrow> response" where
  "http_Error status msg = reply status (JStr msg)"

definition ServeMux :: "(string \<times> 'w handler) list \<Rightarrow> 'w handler" where
  "ServeMux pats r w =
    (let path = cleanPath (rq_Path r); m = mux_find pats path in
     if (case m of None \<Rightarrow> True | Some (q, _) \<Rightarrow> q \<noteq> path) \<and> path @ ''/'' \<in> fst ` set pats
     then (redirect (path @ ''/''), w)
     else if path \<noteq> rq_Path r then (redirect path, w)
     else case m of None \<Rightarrow> (http_Error 404 ''404 page not found'', w) | Some (_, h) \<Rightarrow> h r w)"

lemma mux_find_set: "mux_find pats path = Some (q, h) \<Longrightarrow> (q, h) \<in> set pats \<and> (q = path \<or> last q = CHR ''/'' \<and> HasPrefix path q)"
  by (induction pats arbitrary: q h) (auto split: option.splits if_splits prod.splits)

lemma ServeMux_same:
  assumes "rq_Path r' = rq_Path r" "list_all (\<lambda>(q, h). h r' = h r) pats"
  shows "ServeMux pats r' w = ServeMux pats r w"
  using assms mux_find_set[of pats "cleanPath (rq_Path r)"]
  by (force simp: ServeMux_def Let_def list_all_iff split: option.splits)

end
