(* ===== verification/Auth.thy ===== *)
theory Auth
  imports Http Credentials Float64
begin

text \<open>
  \<open>internal/auth\<close>: API tokens (\<open>jwt.go\<close>), the middleware that admits a request (\<open>middleware.go\<close>) and
  the sliding-window rate limiter (\<open>ratelimit.go\<close>).  The JWT library and the sorted sets of Redis are
  parameters; what the code relies on is stated in the locales \<open>jwt_library\<close> and \<open>sorted_sets\<close>.
\<close>

section \<open>The JWT library\<close>

text \<open>The algorithm named in a token's header; \<open>HMAC\<close> is any of HS256, HS384 and HS512.\<close>

datatype jwt_alg = HMAC string | OtherAlg string

definition ErrTokenExpired :: goerr where
  "ErrTokenExpired = Sentinel ''jwt.ErrTokenExpired'' ''token is expired''"

text \<open>\<open>jwt_sign\<close> signs with HS256.  \<open>jwt_parse\<close> reads a token, asks the given function for the key that
  goes with its algorithm, and checks signature and times at the given instant.\<close>

record jwtlib =
  jwt_sign :: "string \<Rightarrow> Claims \<Rightarrow> string result"
  jwt_parse :: "string \<Rightarrow> (jwt_alg \<Rightarrow> string result) \<Rightarrow> time \<Rightarrow> Claims result"

definition NewNumericDate :: "time \<Rightarrow> time" where
  "NewNumericDate t = t - t mod Second"

section \<open>Token service\<close>

definition ErrInvalidToken :: goerr where
  "ErrInvalidToken = Sentinel ''auth.ErrInvalidToken'' ''invalid token''"
definition ErrExpiredToken :: goerr where
  "ErrExpiredToken = Sentinel ''auth.ErrExpiredToken'' ''expired token''"
definition ErrInvalidClaims :: goerr where
  "ErrInvalidClaims = Sentinel ''auth.ErrInvalidClaims'' ''invalid claims''"

record JWTService =
  js_secret :: string
  js_accessTokenExpiry :: duration
  js_refreshTokenExpiry :: duration

definition NewJWTService :: "string \<Rightarrow> int \<Rightarrow> int \<Rightarrow> JWTService result" where
  "NewJWTService secret accessExpiryMins refreshExpiryDays =
    (if secret = [] then Inl (Errorf ''jwt secret must not be empty'')
     else let a = (if accessExpiryMins \<le> 0 then 15 else accessExpiryMins);
              r = (if refreshExpiryDays \<le> 0 then 7 else refreshExpiryDays)
       in Inr \<lparr>js_secret = secret, js_accessTokenExpiry = wrap64 (a * Minute),
            js_refreshTokenExpiry = wrap64 (wrap64 (r * 24) * Hour)\<rparr>)"

definition issueToken ::
  "('w, 'z) env_scheme \<Rightarrow> jwtlib \<Rightarrow> JWTService \<Rightarrow> string \<Rightarrow> string \<Rightarrow> string list \<Rightarrow> string \<Rightarrow> duration \<Rightarrow> 'w \<Rightarrow>
    string result \<times> 'w" where
  "issueToken E J s userID deviceID permissions tokenType expiry w =
    (let (now, w1) = time_now E w;
         (i, w2) = uuid_new E w1
     in (jwt_sign J (js_secret s) \<lparr>cl_UserID = userID, cl_DeviceID = deviceID, cl_Permissions = permissions,
           cl_TokenType = tokenType, cl_ID = i, cl_ExpiresAt = Some (NewNumericDate (now + expiry)),
           cl_IssuedAt = Some (NewNumericDate now), cl_Issuer = ''lalo''\<rparr>, w2))"

record TokenPair =
  tp_AccessToken :: string
  tp_RefreshToken :: string
  tp_ExpiresIn :: int

definition IssueTokenPair ::
  "('w, 'z) env_scheme \<Rightarrow> jwtlib \<Rightarrow> JWTService \<Rightarrow> string \<Rightarrow> string \<Rightarrow> string list \<Rightarrow> 'w \<Rightarrow> TokenPair result \<times> 'w" where
  "IssueTokenPair E J s userID deviceID permissions w =
    (let (a, w1) = issueToken E J s userID deviceID permissions ''access'' (js_accessTokenExpiry s) w in
     case a of
       Inl e \<Rightarrow> (Inl (Wrap ''issue access token'' e), w1)
     | Inr accessToken \<Rightarrow>
        (let (r, w2) = issueToken E J s userID deviceID [] ''refresh'' (js_refreshTokenExpiry s) w1 in
         case r of
           Inl e \<Rightarrow> (Inl (Wrap ''issue refresh token'' e), w2)
         | Inr refreshToken \<Rightarrow> (Inr \<lparr>tp_AccessToken = accessToken, tp_RefreshToken = refreshToken,
              tp_ExpiresIn = f64_trunc (Duration_Seconds (js_accessTokenExpiry s))\<rparr>, w2)))"

definition IssueAccessToken ::
  "('w, 'z) env_scheme \<Rightarrow> jwtlib \<Rightarrow> JWTService \<Rightarrow> string \<Rightarrow> string \<Rightarrow> string list \<Rightarrow> 'w \<Rightarrow> string result \<times> 'w" where
  "IssueAccessToken E J s userID deviceID permissions w =
     issueToken E J s userID deviceID permissions ''access'' (js_accessTokenExpiry s) w"

fun key_for :: "JWTService \<Rightarrow> jwt_alg \<Rightarrow> string result" where
  "key_for s (HMAC _) = Inr (js_secret s)"
| "key_for s (OtherAlg a) = Inl (Errorf (''unexpected signing method: '' @ a))"

text \<open>The library reads the clock once, and returns claims only of a valid token.\<close>

definition JWTService_Validate ::
  "('w, 'z) env_scheme \<Rightarrow> jwtlib \<Rightarrow> JWTService \<Rightarrow> string \<Rightarrow> 'w \<Rightarrow> Claims result \<times> 'w" where
  "JWTService_Validate E J s tokenString w =
    (let (now, w1) = time_now E w in
     case jwt_parse J tokenString (key_for s) now of
       Inl e \<Rightarrow> (Inl (if errors_Is e ErrTokenExpired then ErrExpiredToken else Noted ErrInvalidToken (Error_text e)), w1)
     | Inr claims \<Rightarrow> (Inr claims, w1))"

definition RefreshTokens ::
  "('w, 'z) env_scheme \<Rightarrow> jwtlib \<Rightarrow> JWTService \<Rightarrow> string \<Rightarrow> 'w \<Rightarrow> TokenPair result \<times> 'w" where
  "RefreshTokens E J s refreshTokenString w =
    (let (r, w1) = JWTService_Validate E J s refreshTokenString w in
     case r of
       Inl e \<Rightarrow> (Inl (Wrap ''validate refresh token'' e), w1)
     | Inr claims \<Rightarrow>
        if cl_TokenType claims \<noteq> ''refresh'' then (Inl (Noted ErrInvalidClaims ''not a refresh token''), w1)
        else IssueTokenPair E J s (cl_UserID claims) (cl_DeviceID claims) [] w1)"

section \<open>Middleware\<close>

definition ClaimsFromContext :: "request \<Rightarrow> Claims option" where
  "ClaimsFromContext r = rq_Claims r"

definition lower :: "char \<Rightarrow> char" where
  "lower c = (if CHR ''A'' \<le> c \<and> c \<le> CHR ''Z'' then char_of (of_char c + (32 :: nat)) else c)"

text \<open>\<open>strings.SplitN(s, sep, 2)\<close> for a separator of one character: the parts before and after the first
  one, if there is one.  No letter of \<open>bearer\<close> has a fold outside ASCII.\<close>

definition split2 :: "char \<Rightarrow> string \<Rightarrow> (string \<times> string) option" where
  "split2 c s = (if c \<in> set s then Some (takeWhile (\<lambda>x. x \<noteq> c) s, tl (dropWhile (\<lambda>x. x \<noteq> c) s)) else None)"

definition extractToken :: "request \<Rightarrow> string" where
  "extractToken r = (case (if rq_Authorization r = [] then None else split2 (CHR '' '') (rq_Authorization r)) of
      Some (scheme, tok) \<Rightarrow> if map lower scheme = ''bearer'' then tok else rq_TokenParam r
    | None \<Rightarrow> rq_TokenParam r)"

definition JWTMiddleware :: "('w, 'z) env_scheme \<Rightarrow> jwtlib \<Rightarrow> JWTService \<Rightarrow> 'w handler \<Rightarrow> 'w handler" where
  "JWTMiddleware E J s next r w =
    (let tokenString = extractToken r in
     if tokenString = [] then (reply_error StatusUnauthorized ''missing authentication token'', w)
     else let (v, w1) = JWTService_Validate E J s tokenString w in
       case v of
         Inl e \<Rightarrow> (reply_error StatusUnauthorized (if e = ErrExpiredToken then ''token expired'' else ''invalid token''), w1)
       | Inr claims \<Rightarrow>
          if cl_TokenType claims \<noteq> ''access'' then (reply_error StatusUnauthorized ''invalid token type'', w1)
          else next (r\<lparr>rq_Claims := Some claims\<rparr>) w1)"

section \<open>Rate limiting\<close>

record RateLimit =
  rl_Key :: string
  rl_Limit :: int
  rl_Window :: duration

text \<open>\<open>strconv.Atoi\<close>: an optional sign and at least one digit, nothing else, within 64 bits.\<close>

definition is_dec :: "char \<Rightarrow> bool" where
  "is_dec c \<longleftrightarrow> CHR ''0'' \<le> c \<and> c \<le> CHR ''9''"

definition Atoi :: "string \<Rightarrow> int option" where
  "Atoi s = (let neg = (s \<noteq> [] \<and> hd s = CHR ''-'');
       ds = (if s \<noteq> [] \<and> (hd s = CHR ''-'' \<or> hd s = CHR ''+'') then tl s else s);
       n = foldl (\<lambda>a c. 10 * a + (of_char c - 48)) 0 ds;
       v = (if neg then - n else n)
     in if ds = [] \<or> \<not> list_all is_dec ds \<or> v < min_int64 \<or> max_int64 < v then None else Some v)"

lemma itoa_dec: "list_all is_dec (itoa n)"
proof (induction n rule: itoa.induct)
  case (1 n)
  have "is_dec (digit_char d)" if "d < 10" for d
  proof -
    have "d \<in> {0, 1, 2, 3, 4, 5, 6, 7, 8, 9}" using that by auto
    moreover have "\<forall>d\<in>{0, 1, 2, 3, 4, 5, 6, 7, 8, 9}. is_dec (digit_char d)" by code_simp
    ultimately show ?thesis by blast
  qed
  then show ?case using 1 by (subst itoa.simps) simp
qed

lemma itoa_value: "foldl (\<lambda>a c. 10 * a + (of_char c - 48)) 0 (itoa n) = int n"
proof (induction n rule: itoa.induct)
  case (1 n)
  have d: "of_char (digit_char d) = 48 + int d" if "d < 10" for d
  proof -
    have "(of_char (digit_char d) :: nat) = 48 + d" using that by (simp add: digit_char_def)
    then have "int (of_char (digit_char d)) = 48 + int d" by linarith
    then show ?thesis by (simp only: of_nat_of_char)
  qed
  have "10 * int (n div 10) + int (n mod 10) = int n" by (simp add: zdiv_int zmod_int)
  then show ?case using 1 d[of n] d[of "n mod 10"] by (subst itoa.simps) auto
qed

lemma show_int_inj: "show_int m = show_int n \<Longrightarrow> m = n"
proof -
  have i: "itoa a = itoa b \<Longrightarrow> a = b" for a b using itoa_value by (metis of_nat_eq_iff)
  have "\<not> is_dec CHR ''-''" by code_simp
  then have h: "CHR ''-'' # s \<noteq> itoa b" for s b using itoa_dec[of b] by (metis list.pred_inject(2))
  assume "show_int m = show_int n"
  then show ?thesis using h h[symmetric] i[of "nat m" "nat n"] i[of "nat (- m)" "nat (- n)"]
    by (auto simp: show_int_def split: if_splits)
qed

definition ParseRateLimit :: "string \<Rightarrow> string \<Rightarrow> RateLimit result" where
  "ParseRateLimit key spec = (case split2 (CHR ''/'') spec of
      None \<Rightarrow> Inl (Errorf (''invalid rate limit format: '' @ spec))
    | Some (n, unit) \<Rightarrow>
       (case Atoi n of
          None \<Rightarrow> Inl (Errorf (''invalid rate limit count: '' @ n))
        | Some limit \<Rightarrow>
           if unit \<in> {''s'', ''sec'', ''second''} then Inr \<lparr>rl_Key = key, rl_Limit = limit, rl_Window = Second\<rparr>
           else if unit \<in> {''m'', ''min'', ''minute''} then Inr \<lparr>rl_Key = key, rl_Limit = limit, rl_Window = Minute\<rparr>
           else if unit \<in> {''h'', ''hr'', ''hour''} then Inr \<lparr>rl_Key = key, rl_Limit = limit, rl_Window = Hour\<rparr>
           else Inl (Errorf (''invalid rate limit window: '' @ unit))))"

text \<open>A parsed rule has a window of at least a second.\<close>

lemma ParseRateLimit_window: "ParseRateLimit key spec = Inr rl \<Longrightarrow> Second \<le> rl_Window rl \<and> rl_Key rl = key"
  unfolding ParseRateLimit_def
  by (clarsimp simp: Minute_def Hour_def Second_def simp del: insert_iff split: option.splits if_splits)

text \<open>A pipeline of commands on sorted sets.  A score is a whole number of microseconds, which \<open>float64\<close>
  represents exactly until the year 2255.\<close>

datatype zcmd = ZRemRangeByScore string int | ZCard string | ZAdd string int string | ZExpire string duration

record 'w zredis =
  z_pipeline :: "zcmd list \<Rightarrow> 'w \<Rightarrow> int list result \<times> 'w"

definition UnixMicro :: "time \<Rightarrow> int" where
  "UnixMicro t = t div 1000 - 62135596800 * 1000000"

definition UnixNano :: "time \<Rightarrow> int" where
  "UnixNano t = t - 62135596800 * Second"

definition rate_key :: "RateLimit \<Rightarrow> string \<Rightarrow> string" where
  "rate_key rl identifier = ''rl:'' @ rl_Key rl @ '':'' @ identifier"

text \<open>\<open>countCmd\<close> is the reply to the second command.\<close>

definition RateLimiter_Allow ::
  "('w, 'z) env_scheme \<Rightarrow> 'w zredis \<Rightarrow> RateLimit \<Rightarrow> string \<Rightarrow> 'w \<Rightarrow> bool result \<times> 'w" where
  "RateLimiter_Allow E Z rl identifier w =
    (let key = rate_key rl identifier;
         (now, w1) = time_now E w;
         (r, w2) = z_pipeline Z [ZRemRangeByScore key (UnixMicro (now - rl_Window rl)), ZCard key,
            ZAdd key (UnixMicro now) (show_int (UnixNano now)), ZExpire key (rl_Window rl + Second)] w1
     in case r of
          Inl e \<Rightarrow> (Inl (Wrap ''rate limit check'' e), w2)
        | Inr rs \<Rightarrow> (Inr (rs ! 1 < rl_Limit rl), w2))"

definition RateLimiter_Remaining ::
  "('w, 'z) env_scheme \<Rightarrow> 'w zredis \<Rightarrow> RateLimit \<Rightarrow> string \<Rightarrow> 'w \<Rightarrow> int result \<times> 'w" where
  "RateLimiter_Remaining E Z rl identifier w =
    (let key = rate_key rl identifier;
         (now, w1) = time_now E w;
         (r, w2) = z_pipeline Z [ZRemRangeByScore key (UnixMicro (now - rl_Window rl)), ZCard key] w1
     in case r of
          Inl e \<Rightarrow> (Inl (Wrap ''rate limit remaining'' e), w2)
        | Inr rs \<Rightarrow> (Inr (max 0 (rl_Limit rl - rs ! 1)), w2))"

end
