(* ===== verification/Push.thy ===== *)
theory Push
  imports Auth
begin

text \<open>
  \<open>internal/push\<close>: device tokens in Postgres (\<open>store.go\<close>), the senders for APNs and FCM
  (\<open>apns.go\<close>, \<open>fcm.go\<close>), the gateway that notifies every device of a callee (\<open>gateway.go\<close>) and the
  handlers that register tokens (\<open>handler.go\<close>).  Parameters are the database, the HTTP client, the
  ES256 signature, the timer of a retry and the order in which the goroutines of one call finish.
\<close>

section \<open>Types\<close>

type_synonym Platform = string

definition PlatformIOS :: Platform where "PlatformIOS = ''ios''"
definition PlatformAndroid :: Platform where "PlatformAndroid = ''android''"

type_synonym DeliveryStatus = string

definition DeliveryStatusSent :: DeliveryStatus where "DeliveryStatusSent = ''sent''"
definition DeliveryStatusDelivered :: DeliveryStatus where "DeliveryStatusDelivered = ''delivered''"
definition DeliveryStatusFailed :: DeliveryStatus where "DeliveryStatusFailed = ''failed''"

record PushToken =
  pt_ID :: string
  pt_UserID :: string
  pt_DeviceID :: string
  pt_Platform :: Platform
  pt_PushToken :: string
  pt_VoIPToken :: string
  pt_AppVersion :: string
  pt_BundleID :: string
  pt_IsActive :: bool
  pt_CreatedAt :: time
  pt_UpdatedAt :: time

record RegisterRequest =
  rr_DeviceID :: string
  rr_Platform :: Platform
  rr_PushToken :: string
  rr_VoIPToken :: string
  rr_AppVersion :: string
  rr_BundleID :: string

record IncomingCallPush =
  ip_CallID :: string
  ip_CallerID :: string
  ip_CallerName :: string
  ip_CallerAvatarURL :: string
  ip_CallType :: string
  ip_Timestamp :: int
  ip_TTL :: int

record DeliveryResult =
  dr_DeviceID :: string
  dr_Platform :: Platform
  dr_Status :: DeliveryStatus
  dr_Error :: string
  dr_SentAt :: time

record PushResult =
  pr_UserID :: string
  pr_CallID :: string
  pr_Devices :: "DeliveryResult list"
  pr_AllFailed :: bool

definition ErrMissingDeviceID :: goerr where
  "ErrMissingDeviceID = Sentinel ''push.ErrMissingDeviceID'' ''device_id is required''"
definition ErrMissingPushToken :: goerr where
  "ErrMissingPushToken = Sentinel ''push.ErrMissingPushToken'' ''push_token is required''"
definition ErrInvalidPlatform :: goerr where
  "ErrInvalidPlatform = Sentinel ''push.ErrInvalidPlatform'' (''platform must be '' @ [CHR 0x27] @ ''ios'' @ [CHR 0x27] @
     '' or '' @ [CHR 0x27] @ ''android'' @ [CHR 0x27])"
definition ErrTokenNotFound :: goerr where
  "ErrTokenNotFound = Sentinel ''push.ErrTokenNotFound'' ''push token not found''"
definition ErrNoActiveTokens :: goerr where
  "ErrNoActiveTokens = Sentinel ''push.ErrNoActiveTokens'' ''no active push tokens for user''"

definition RegisterRequest_Validate :: "RegisterRequest \<Rightarrow> goerr option" where
  "RegisterRequest_Validate r =
    (if rr_DeviceID r = [] then Some ErrMissingDeviceID
     else if rr_PushToken r = [] then Some ErrMissingPushToken
     else if rr_Platform r \<noteq> PlatformIOS \<and> rr_Platform r \<noteq> PlatformAndroid then Some ErrInvalidPlatform
     else None)"

section \<open>The world outside\<close>

text \<open>A response body is its text, with the JSON document it parses to, if it does.\<close>

record HttpRequest =
  hq_URL :: string
  hq_Headers :: "(string \<times> string) list"
  hq_Body :: json

record HttpResponse =
  hr_Status :: nat
  hr_Text :: string
  hr_Json :: "json option"

text \<open>\<open>sql_rows\<close> answers a query with its rows and the error that ended the iteration, if any;
  \<open>ctx_wait\<close> returns after the time, or earlier with the error of a cancelled context; \<open>finish_order\<close>
  is the order in which \<open>n\<close> goroutines deliver their results.\<close>

record 'w pushsvc =
  sql_rows :: "string \<Rightarrow> json list \<Rightarrow> 'w \<Rightarrow> (json list list \<times> goerr option) result \<times> 'w"
  url_error :: "string \<Rightarrow> goerr option"
  http_Do :: "HttpRequest \<Rightarrow> 'w \<Rightarrow> HttpResponse result \<times> 'w"
  es256_sign :: "string \<Rightarrow> string \<Rightarrow> time \<Rightarrow> 'w \<Rightarrow> string result \<times> 'w"
  ctx_wait :: "duration \<Rightarrow> 'w \<Rightarrow> goerr option \<times> 'w"
  finish_order :: "nat \<Rightarrow> 'w \<Rightarrow> nat list \<times> 'w"

section \<open>Token store\<close>

definition register_sql :: string where
  "register_sql = ''INSERT INTO push_tokens (user_id, device_id, platform, push_token, voip_token, app_version, bundle_id, is_active, updated_at) VALUES ($1, $2, $3, $4, $5, $6, $7, true, now()) ON CONFLICT (user_id, device_id) DO UPDATE SET platform = EXCLUDED.platform, push_token = EXCLUDED.push_token, voip_token = EXCLUDED.voip_token, app_version = EXCLUDED.app_version, bundle_id = EXCLUDED.bundle_id, is_active = true, updated_at = now() RETURNING id, user_id, device_id, platform, push_token, voip_token, app_version, bundle_id, is_active, created_at, updated_at''"

definition unregister_sql :: string where
  "unregister_sql = ''UPDATE push_tokens SET is_active = false, updated_at = now() WHERE user_id = $1 AND device_id = $2''"

definition active_sql :: string where
  "active_sql = ''SELECT id, user_id, device_id, platform, push_token, voip_token, app_version, bundle_id, is_active, created_at, updated_at FROM push_tokens WHERE user_id = $1 AND is_active = true ORDER BY updated_at DESC''"

definition invalidate_sql :: string where
  "invalidate_sql = ''UPDATE push_tokens SET is_active = false, updated_at = now() WHERE push_token = $1 OR voip_token = $1''"

definition profile_sql :: string where
  "profile_sql = ''SELECT display_name, avatar_url FROM users WHERE id = $1''"

definition cleanup_sql :: string where
  "cleanup_sql = ''UPDATE push_tokens SET is_active = false, updated_at = now() WHERE is_active = true AND updated_at < $1''"

definition nullString :: "string \<Rightarrow> json" where
  "nullString s = (if s = [] then JNull else JStr s)"

text \<open>\<open>Scan\<close> of the columns: a NULL is accepted only into a \<open>sql.NullString\<close>, where it reads as empty.\<close>

definition scan_err :: goerr where
  "scan_err = Errorf ''sql: Scan error''"

fun scan_str :: "json \<Rightarrow> string result" where
  "scan_str (JStr s) = Inr s"
| "scan_str _ = Inl scan_err"

fun scan_null :: "json \<Rightarrow> string result" where
  "scan_null JNull = Inr []"
| "scan_null j = scan_str j"

fun scan_bool :: "json \<Rightarrow> bool result" where
  "scan_bool (JBool b) = Inr b"
| "scan_bool _ = Inl scan_err"

fun scan_time :: "json \<Rightarrow> time result" where
  "scan_time (JTime t) = Inr t"
| "scan_time _ = Inl scan_err"

fun scan_token :: "json list \<Rightarrow> PushToken result" where
  "scan_token [i, u, d, p, t, v, a, b, act, c, up] =
    rbind (scan_str i) (\<lambda>i. rbind (scan_str u) (\<lambda>u. rbind (scan_str d) (\<lambda>d. rbind (scan_str p) (\<lambda>p.
    rbind (scan_str t) (\<lambda>t. rbind (scan_null v) (\<lambda>v. rbind (scan_null a) (\<lambda>a. rbind (scan_null b) (\<lambda>b.
    rbind (scan_bool act) (\<lambda>act. rbind (scan_time c) (\<lambda>c. rbind (scan_time up) (\<lambda>up.
      Inr \<lparr>pt_ID = i, pt_UserID = u, pt_DeviceID = d, pt_Platform = p, pt_PushToken = t, pt_VoIPToken = v,
        pt_AppVersion = a, pt_BundleID = b, pt_IsActive = act, pt_CreatedAt = c, pt_UpdatedAt = up\<rparr>)))))))))))"
| "scan_token _ = Inl scan_err"

definition ErrNoRows :: goerr where
  "ErrNoRows = Sentinel ''sql.ErrNoRows'' ''sql: no rows in result set''"

definition PushStore_Register :: "('w, 'z) env_scheme \<Rightarrow> string \<Rightarrow> RegisterRequest \<Rightarrow> 'w \<Rightarrow> PushToken result \<times> 'w" where
  "PushStore_Register E userID req w =
    (let (r, w1) = sql_row E register_sql [JStr userID, JStr (rr_DeviceID req), JStr (rr_Platform req), JStr (rr_PushToken req),
            nullString (rr_VoIPToken req), nullString (rr_AppVersion req), nullString (rr_BundleID req)] w
     in (case r of
          Inl e \<Rightarrow> Inl (Wrap ''register push token'' e)
        | Inr None \<Rightarrow> Inl (Wrap ''register push token'' ErrNoRows)
        | Inr (Some row) \<Rightarrow> (case scan_token row of Inl e \<Rightarrow> Inl (Wrap ''register push token'' e) | Inr t \<Rightarrow> Inr t), w1))"

definition PushStore_Unregister :: "('w, 'z) env_scheme \<Rightarrow> string \<Rightarrow> string \<Rightarrow> 'w \<Rightarrow> goerr option \<times> 'w" where
  "PushStore_Unregister E userID deviceID w =
    (let (r, w1) = sql_exec E unregister_sql [JStr userID, JStr deviceID] w
     in (case r of
          Inl e \<Rightarrow> Some (Wrap ''unregister push token'' e)
        | Inr rows \<Rightarrow> if rows = 0 then Some ErrTokenNotFound else None, w1))"

text \<open>The error of the iteration is returned beside the tokens that were read.\<close>

definition GetActiveTokens ::
  "'w pushsvc \<Rightarrow> string \<Rightarrow> 'w \<Rightarrow> (PushToken list \<times> goerr option) \<times> 'w" where
  "GetActiveTokens P userID w =
    (let (r, w1) = sql_rows P active_sql [JStr userID] w
     in (case r of
          Inl e \<Rightarrow> ([], Some (Wrap ''get active tokens'' e))
        | Inr (rows, err) \<Rightarrow>
           (case dec_seq scan_token rows of
              Inl e \<Rightarrow> ([], Some (Wrap ''scan push token'' e))
            | Inr tokens \<Rightarrow> (tokens, err)), w1))"

definition InvalidateToken :: "('w, 'z) env_scheme \<Rightarrow> string \<Rightarrow> 'w \<Rightarrow> goerr option \<times> 'w" where
  "InvalidateToken E pushToken w =
    (let (r, w1) = sql_exec E invalidate_sql [JStr pushToken] w
     in (case r of Inl e \<Rightarrow> Some (Wrap ''invalidate token'' e) | Inr _ \<Rightarrow> None, w1))"

record UserProfile =
  up_DisplayName :: string
  up_AvatarURL :: string

definition GetUserProfile :: "('w, 'z) env_scheme \<Rightarrow> string \<Rightarrow> 'w \<Rightarrow> UserProfile option result \<times> 'w" where
  "GetUserProfile E userID w =
    (let (r, w1) = sql_row E profile_sql [JStr userID] w
     in (case r of
          Inl e \<Rightarrow> Inl (Wrap ''get user profile'' e)
        | Inr None \<Rightarrow> Inr None
        | Inr (Some [n, a]) \<Rightarrow>
           (case rbind (scan_str n) (\<lambda>n. rbind (scan_null a) (\<lambda>a. Inr \<lparr>up_DisplayName = n, up_AvatarURL = a\<rparr>)) of
              Inl e \<Rightarrow> Inl (Wrap ''get user profile'' e)
            | Inr p \<Rightarrow> Inr (Some p))
        | Inr (Some _) \<Rightarrow> Inl (Wrap ''get user profile'' scan_err), w1))"

definition CleanupStaleTokens :: "('w, 'z) env_scheme \<Rightarrow> duration \<Rightarrow> 'w \<Rightarrow> nat result \<times> 'w" where
  "CleanupStaleTokens E staleDuration w =
    (let (now, w1) = time_now E w;
         (r, w2) = sql_exec E cleanup_sql [JTime (now - staleDuration)] w1
     in (case r of Inl e \<Rightarrow> Inl (Wrap ''cleanup stale tokens'' e) | Inr n \<Rightarrow> Inr n, w2))"

section \<open>Errors that condemn a token\<close>

definition searchSubstring :: "string \<Rightarrow> string \<Rightarrow> bool" where
  "searchSubstring s sub \<longleftrightarrow> list_ex (\<lambda>i. take (length sub) (drop i s) = sub) [0..<Suc (length s) - length sub]"

definition contains :: "string \<Rightarrow> string \<Rightarrow> bool" where
  "contains s sub \<longleftrightarrow> length sub \<le> length s \<and> searchSubstring s sub"

definition IsGoneError :: "goerr option \<Rightarrow> bool" where
  "IsGoneError err = (case err of None \<Rightarrow> False | Some e \<Rightarrow> contains (Error_text e) ''410 Gone'')"

definition IsUnregisteredError :: "goerr option \<Rightarrow> bool" where
  "IsUnregisteredError err = (case err of None \<Rightarrow> False
    | Some e \<Rightarrow> contains (Error_text e) ''NotRegistered'' \<or> contains (Error_text e) ''InvalidRegistration'')"

section \<open>Senders\<close>

type_synonym 'w sender = "string \<Rightarrow> IncomingCallPush \<Rightarrow> 'w \<Rightarrow> goerr option \<times> 'w"

subsection \<open>FCM\<close>

definition fcmEndpoint :: string where "fcmEndpoint = ''https://fcm.googleapis.com/fcm/send''"

text \<open>The keys of the data map are written in order.\<close>

definition fcm_body :: "string \<Rightarrow> IncomingCallPush \<Rightarrow> json" where
  "fcm_body fcmToken p = JObj [(''to'', JStr fcmToken), (''priority'', JStr ''high''), (''time_to_live'', JStr (show_int (ip_TTL p))),
     (''data'', JObj ([(''call_id'', JStr (ip_CallID p)), (''call_type'', JStr (ip_CallType p))] @
        omit_str ''caller_avatar_url'' (ip_CallerAvatarURL p) @
        [(''caller_id'', JStr (ip_CallerID p)), (''caller_name'', JStr (ip_CallerName p)),
         (''timestamp'', JStr (show_int (ip_Timestamp p))), (''ttl'', JStr (show_int (ip_TTL p))), (''type'', JStr ''incoming_call'')]))]"

record fcmResponse =
  fr_Failure :: int
  fr_Results :: "string list"

definition dec_fcmResponse :: "json \<Rightarrow> fcmResponse result" where
  "dec_fcmResponse = dec_obj (\<lambda>ob. rbind (dec_int (fld ob ''success'')) (\<lambda>_. rbind (dec_int (fld ob ''failure'')) (\<lambda>f.
     rbind (dec_list (dec_obj (\<lambda>r. rbind (dec_str (fld r ''message_id'')) (\<lambda>_. dec_str (fld r ''error'')))) (fld ob ''results'')) (\<lambda>rs.
     Inr \<lparr>fr_Failure = f, fr_Results = rs\<rparr>))))"

definition FCMSender_Send :: "'w pushsvc \<Rightarrow> string \<Rightarrow> 'w sender" where
  "FCMSender_Send P serverKey fcmToken p w =
    (case url_error P fcmEndpoint of
       Some e \<Rightarrow> (Some (Wrap ''create FCM request'' e), w)
     | None \<Rightarrow>
      (let (r, w1) = http_Do P \<lparr>hq_URL = fcmEndpoint, hq_Headers = [(''Content-Type'', ''application/json''),
              (''Authorization'', ''key='' @ serverKey)], hq_Body = fcm_body fcmToken p\<rparr> w
       in (case r of
            Inl e \<Rightarrow> Some (Wrap ''send FCM request'' e)
          | Inr resp \<Rightarrow>
             if hr_Status resp \<noteq> 200
             then Some (Errorf (''FCM error (status '' @ show_int (int (hr_Status resp)) @ ''): '' @ hr_Text resp))
             else (case (case hr_Json resp of None \<Rightarrow> Inl json_err | Some j \<Rightarrow> dec_fcmResponse j) of
                Inl e \<Rightarrow> Some (Wrap ''parse FCM response'' e)
              | Inr fr \<Rightarrow>
                 (case fr_Results fr of
                    errMsg # _ \<Rightarrow>
                      if 0 < fr_Failure fr
                      then if errMsg = ''NotRegistered'' \<or> errMsg = ''InvalidRegistration''
                        then Some (Errorf (''FCM token invalid ('' @ errMsg @ '')''))
                        else Some (Errorf (''FCM delivery failed: '' @ errMsg))
                      else None
                  | [] \<Rightarrow> None)), w1)))"

subsection \<open>APNs\<close>

record APNsConfig =
  ac_TeamID :: string
  ac_KeyID :: string
  ac_BundleID :: string
  ac_Production :: bool

record APNsSender =
  as_cfg :: APNsConfig
  as_jwtToken :: string
  as_jwtExp :: time

definition endpoint :: "APNsConfig \<Rightarrow> string" where
  "endpoint cfg = (if ac_Production cfg then ''https://api.push.apple.com'' else ''https://api.sandbox.push.apple.com'')"

text \<open>The clock is read to check a cached token and again to issue a new one.\<close>

definition getJWT ::
  "('w, 'z) env_scheme \<Rightarrow> 'w pushsvc \<Rightarrow> APNsSender \<Rightarrow> 'w \<Rightarrow> (string result \<times> APNsSender) \<times> 'w" where
  "getJWT E P s w =
    (let (fresh, w1) = (if as_jwtToken s = [] then (False, w)
            else let (t, w1) = time_now E w in (t < as_jwtExp s, w1))
     in if fresh then ((Inr (as_jwtToken s), s), w1)
        else let (now, w2) = time_now E w1;
                 (r, w3) = es256_sign P (ac_KeyID (as_cfg s)) (ac_TeamID (as_cfg s)) (NewNumericDate now) w2
             in case r of
                  Inl e \<Rightarrow> ((Inl (Wrap ''sign APNs JWT'' e), s), w3)
                | Inr tok \<Rightarrow> ((Inr tok, s\<lparr>as_jwtToken := tok, as_jwtExp := now + 50 * Minute\<rparr>), w3))"

definition push_json :: "IncomingCallPush \<Rightarrow> json" where
  "push_json p = JObj ([(''call_id'', JStr (ip_CallID p)), (''caller_id'', JStr (ip_CallerID p)), (''caller_name'', JStr (ip_CallerName p))] @
     omit_str ''caller_avatar_url'' (ip_CallerAvatarURL p) @
     [(''call_type'', JStr (ip_CallType p)), (''timestamp'', JNum (ip_Timestamp p)), (''ttl'', JNum (ip_TTL p))])"

definition APNsSender_Send ::
  "('w, 'z) env_scheme \<Rightarrow> 'w pushsvc \<Rightarrow> APNsSender \<Rightarrow> string \<Rightarrow> IncomingCallPush \<Rightarrow> 'w \<Rightarrow> (goerr option \<times> APNsSender) \<times> 'w" where
  "APNsSender_Send E P s voipToken p w =
    (let ((t, s1), w1) = getJWT E P s w in
     case t of
       Inl e \<Rightarrow> ((Some (Wrap ''generate APNs JWT'' e), s1), w1)
     | Inr token \<Rightarrow>
        (let url = endpoint (as_cfg s) @ ''/3/device/'' @ voipToken in
         case url_error P url of
           Some e \<Rightarrow> ((Some (Wrap ''create APNs request'' e), s1), w1)
         | None \<Rightarrow>
            (let (r, w2) = http_Do P \<lparr>hq_URL = url, hq_Headers = [(''Authorization'', ''bearer '' @ token),
                   (''apns-topic'', ac_BundleID (as_cfg s) @ ''.voip''), (''apns-push-type'', ''voip''), (''apns-priority'', ''10''),
                   (''apns-expiration'', ''0''), (''apns-collapse-id'', ''call_'' @ ip_CallID p)], hq_Body = push_json p\<rparr> w1
             in ((case r of
                    Inl e \<Rightarrow> Some (Wrap ''send APNs request'' e)
                  | Inr resp \<Rightarrow>
                     if hr_Status resp = 200 then None
                     else if hr_Status resp = 410 then Some (Errorf (''APNs token invalid (410 Gone): '' @ hr_Text resp))
                     else Some (Errorf (''APNs error (status '' @ show_int (int (hr_Status resp)) @ ''): '' @ hr_Text resp)), s1), w2))))"

text \<open>As a \<open>Sender\<close>, the object keeps its cached token in the world, at a place given by \<open>get\<close> and \<open>put\<close>.\<close>

definition apns_sender ::
  "('w, 'z) env_scheme \<Rightarrow> 'w pushsvc \<Rightarrow> ('w \<Rightarrow> APNsSender) \<Rightarrow> (APNsSender \<Rightarrow> 'w \<Rightarrow> 'w) \<Rightarrow> 'w sender" where
  "apns_sender E P get put tok p w = (let ((e, s), w1) = APNsSender_Send E P (get w) tok p w in (e, put s w1))"

section \<open>Gateway\<close>

record 'w Gateway =
  gw_apns :: "'w sender option"
  gw_fcm :: "'w sender option"
  gw_bus :: "string option"
  gw_ringTTL :: int
  gw_onAllFailed :: "(string \<Rightarrow> string \<Rightarrow> 'w \<Rightarrow> 'w) option"

definition NewGateway ::
  "'w sender option \<Rightarrow> 'w sender option \<Rightarrow> string option \<Rightarrow> int \<Rightarrow> (string \<Rightarrow> string \<Rightarrow> 'w \<Rightarrow> 'w) option \<Rightarrow> 'w Gateway" where
  "NewGateway apns fcm bus ringTimeoutSeconds onAllFailed = \<lparr>gw_apns = apns, gw_fcm = fcm, gw_bus = bus,
     gw_ringTTL = (if ringTimeoutSeconds = 0 then 45 else ringTimeoutSeconds), gw_onAllFailed = onAllFailed\<rparr>"

text \<open>The attempts that are left after one has failed: each waits two seconds first.\<close>

fun retry_send :: "'w pushsvc \<Rightarrow> 'w sender \<Rightarrow> string \<Rightarrow> IncomingCallPush \<Rightarrow> nat \<Rightarrow> goerr option \<Rightarrow> 'w \<Rightarrow> goerr option \<times> 'w" where
  "retry_send P send token p 0 lastErr w = (lastErr, w)"
| "retry_send P send token p (Suc n) lastErr w =
    (let (c, w1) = ctx_wait P (2 * Second) w in
     case c of
       Some e \<Rightarrow> (Some e, w1)
     | None \<Rightarrow>
        (let (err, w2) = send token p w1 in
         if err = None then (None, w2)
         else if IsGoneError err \<or> IsUnregisteredError err then (err, w2)
         else retry_send P send token p n err w2))"

definition sendWithRetry :: "'w pushsvc \<Rightarrow> 'w sender \<Rightarrow> string \<Rightarrow> IncomingCallPush \<Rightarrow> nat \<Rightarrow> 'w \<Rightarrow> goerr option \<times> 'w" where
  "sendWithRetry P send token p maxRetries w =
    (let (err, w1) = send token p w in
     if err = None then (None, w1)
     else if IsGoneError err \<or> IsUnregisteredError err then (err, w1)
     else retry_send P send token p maxRetries err w1)"

text \<open>The goroutine of one device.\<close>

definition send_to_device :: "'w pushsvc \<Rightarrow> 'w Gateway \<Rightarrow> IncomingCallPush \<Rightarrow> PushToken \<Rightarrow> 'w \<Rightarrow> goerr option \<times> 'w" where
  "send_to_device P g p tok w =
    (if pt_Platform tok = PlatformIOS then
       (case gw_apns g of
          None \<Rightarrow> (Some (Errorf ''APNs sender not configured''), w)
        | Some send \<Rightarrow> sendWithRetry P send (if pt_VoIPToken tok = [] then pt_PushToken tok else pt_VoIPToken tok) p 0 w)
     else if pt_Platform tok = PlatformAndroid then
       (case gw_fcm g of
          None \<Rightarrow> (Some (Errorf ''FCM sender not configured''), w)
        | Some send \<Rightarrow> sendWithRetry P send (pt_PushToken tok) p 1 w)
     else (Some (Errorf (''unsupported platform: '' @ pt_Platform tok)), w))"

definition deliver ::
  "('w, 'z) env_scheme \<Rightarrow> 'w pushsvc \<Rightarrow> 'w Gateway \<Rightarrow> IncomingCallPush \<Rightarrow> PushToken \<Rightarrow> 'w \<Rightarrow> DeliveryResult \<times> 'w" where
  "deliver E P g p tok w =
    (let (now, w1) = time_now E w;
         (err, w2) = send_to_device P g p tok w1
     in (\<lparr>dr_DeviceID = pt_DeviceID tok, dr_Platform = pt_Platform tok,
          dr_Status = (if err = None then DeliveryStatusSent else DeliveryStatusFailed),
          dr_Error = (case err of None \<Rightarrow> [] | Some e \<Rightarrow> Error_text e), dr_SentAt = now\<rparr>, w2))"

text \<open>The body of the loop that collects the results, in the order in which they arrive.\<close>

definition collect :: "('w, 'z) env_scheme \<Rightarrow> DeliveryResult \<Rightarrow> PushToken \<Rightarrow> 'w \<Rightarrow> 'w" where
  "collect E dr tok w =
    (if dr_Status dr = DeliveryStatusFailed \<and>
        (IsGoneError (Some (Errorf (dr_Error dr))) \<or> IsUnregisteredError (Some (Errorf (dr_Error dr))))
     then snd (InvalidateToken E (pt_PushToken tok) w) else w)"

fun deliver_all ::
  "('w, 'z) env_scheme \<Rightarrow> 'w pushsvc \<Rightarrow> 'w Gateway \<Rightarrow> IncomingCallPush \<Rightarrow> PushToken list \<Rightarrow> 'w \<Rightarrow> DeliveryResult list \<times> 'w" where
  "deliver_all E P g p [] w = ([], w)"
| "deliver_all E P g p (tok # toks) w =
    (let (dr, w1) = deliver E P g p tok w;
         w2 = collect E dr tok w1;
         (drs, w3) = deliver_all E P g p toks w2
     in (dr # drs, w3))"

definition delivery_json :: "DeliveryResult \<Rightarrow> json" where
  "delivery_json d = JObj ([(''device_id'', JStr (dr_DeviceID d)), (''platform'', JStr (dr_Platform d)), (''status'', JStr (dr_Status d))] @
     omit_str ''error'' (dr_Error d) @ [(''sent_at'', JTime (dr_SentAt d))])"

definition result_json :: "PushResult \<Rightarrow> json" where
  "result_json r = JObj [(''user_id'', JStr (pr_UserID r)), (''call_id'', JStr (pr_CallID r)),
     (''devices'', JArr (map delivery_json (pr_Devices r))), (''all_failed'', JBool (pr_AllFailed r))]"

definition publishDeliveryResult :: "('w, 'z) env_scheme \<Rightarrow> 'w Gateway \<Rightarrow> PushResult \<Rightarrow> 'w \<Rightarrow> 'w" where
  "publishDeliveryResult E g r w = (case gw_bus g of
      None \<Rightarrow> w | Some src \<Rightarrow> snd (Bus_PublishJson E src SubjectPushDelivery (result_json r) w))"

text \<open>The lifetime and the time stamp, if they were not given.\<close>

definition fill_defaults :: "('w, 'z) env_scheme \<Rightarrow> 'w Gateway \<Rightarrow> IncomingCallPush \<Rightarrow> 'w \<Rightarrow> IncomingCallPush \<times> 'w" where
  "fill_defaults E g push w =
    (let p1 = (if ip_TTL push = 0 then push\<lparr>ip_TTL := gw_ringTTL g\<rparr> else push)
     in if ip_Timestamp p1 = 0 then let (t, w1) = time_now E w in (p1\<lparr>ip_Timestamp := Unix t\<rparr>, w1) else (p1, w))"

definition SendIncomingCallPush ::
  "('w, 'z) env_scheme \<Rightarrow> 'w pushsvc \<Rightarrow> 'w Gateway \<Rightarrow> IncomingCallPush \<Rightarrow> string \<Rightarrow> 'w \<Rightarrow>
    (PushResult option \<times> goerr option) \<times> 'w" where
  "SendIncomingCallPush E P g push calleeID w =
    (let ((tokens, err), w1) = GetActiveTokens P calleeID w in
     case err of
       Some e \<Rightarrow> ((None, Some (Wrap ''get active tokens'' e)), w1)
     | None \<Rightarrow>
       if tokens = []
       then ((Some \<lparr>pr_UserID = calleeID, pr_CallID = ip_CallID push, pr_Devices = [], pr_AllFailed = True\<rparr>, Some ErrNoActiveTokens), w1)
       else
        (let (p2, w2) = fill_defaults E g push w1;
             (order, w3) = finish_order P (length tokens) w2;
             (drs, w4) = deliver_all E P g p2 (map (\<lambda>i. tokens ! i) order) w3;
             allFailed = (\<forall>d\<in>set drs. dr_Status d \<noteq> DeliveryStatusSent);
             result = \<lparr>pr_UserID = calleeID, pr_CallID = ip_CallID p2, pr_Devices = drs, pr_AllFailed = allFailed\<rparr>;
             w5 = publishDeliveryResult E g result w4;
             w6 = (if allFailed then (case gw_onAllFailed g of None \<Rightarrow> w5 | Some f \<Rightarrow> f (ip_CallID p2) (ip_CallerID p2) w5) else w5)
         in ((Some result, None), w6)))"

text \<open>The handler that \<open>SubscribeToCallEvents\<close> registers; it always acknowledges.\<close>

definition dec_CallInitiated :: "json \<Rightarrow> event result" where
  "dec_CallInitiated = dec_obj (\<lambda>ob. rbind (dec_str (fld ob ''call_id'')) (\<lambda>c. rbind (dec_str (fld ob ''caller_id'')) (\<lambda>u.
     rbind (dec_str (fld ob ''callee_id'')) (\<lambda>v. rbind (dec_str (fld ob ''call_type'')) (\<lambda>t.
     rbind (dec_bool (fld ob ''has_video'')) (\<lambda>b. rbind (dec_str (fld ob ''region'')) (\<lambda>r. Inr (CallInitiated c u v t b r))))))))"

definition push_call_type :: "event \<Rightarrow> string" where
  "push_call_type ev = (if ci_HasVideo ev then ''video'' else ''audio'')"

definition onCallInitiated :: "('w, 'z) env_scheme \<Rightarrow> 'w pushsvc \<Rightarrow> 'w Gateway \<Rightarrow> Envelope \<Rightarrow> 'w \<Rightarrow> 'w" where
  "onCallInitiated E P g env w = (case dec_CallInitiated (env_Payload env) of
      Inl _ \<Rightarrow> w
    | Inr ev \<Rightarrow>
       (let callType = push_call_type ev;
            (t, w1) = time_now E w;
            push = \<lparr>ip_CallID = ci_CallID ev, ip_CallerID = ci_CallerID ev, ip_CallerName = ci_CallerID ev, ip_CallerAvatarURL = [],
              ip_CallType = callType, ip_Timestamp = Unix t, ip_TTL = gw_ringTTL g\<rparr>;
            (r, w2) = GetUserProfile E (ci_CallerID ev) w1;
            push1 = (case r of
               Inr (Some prof) \<Rightarrow> push\<lparr>ip_CallerName := up_DisplayName prof, ip_CallerAvatarURL := up_AvatarURL prof\<rparr>
             | _ \<Rightarrow> push)
        in snd (SendIncomingCallPush E P g push1 (ci_CalleeID ev) w2)))"

section \<open>Handlers\<close>

definition dec_RegisterRequest :: "json \<Rightarrow> RegisterRequest result" where
  "dec_RegisterRequest = dec_obj (\<lambda>ob. rbind (dec_str (fld ob ''device_id'')) (\<lambda>d. rbind (dec_str (fld ob ''platform'')) (\<lambda>p.
     rbind (dec_str (fld ob ''push_token'')) (\<lambda>t. rbind (dec_str (fld ob ''voip_token'')) (\<lambda>v.
     rbind (dec_str (fld ob ''app_version'')) (\<lambda>a. rbind (dec_str (fld ob ''bundle_id'')) (\<lambda>b.
     Inr \<lparr>rr_DeviceID = d, rr_Platform = p, rr_PushToken = t, rr_VoIPToken = v, rr_AppVersion = a, rr_BundleID = b\<rparr>)))))))"

definition token_json :: "PushToken \<Rightarrow> json" where
  "token_json t = JObj ([(''id'', JStr (pt_ID t)), (''user_id'', JStr (pt_UserID t)), (''device_id'', JStr (pt_DeviceID t)),
     (''platform'', JStr (pt_Platform t)), (''push_token'', JStr (pt_PushToken t))] @ omit_str ''voip_token'' (pt_VoIPToken t) @
     omit_str ''app_version'' (pt_AppVersion t) @ omit_str ''bundle_id'' (pt_BundleID t) @
     [(''is_active'', JBool (pt_IsActive t)), (''created_at'', JTime (pt_CreatedAt t)), (''updated_at'', JTime (pt_UpdatedAt t))])"

definition RegisterToken :: "('w, 'z) env_scheme \<Rightarrow> 'w handler" where
  "RegisterToken E r w =
    (if rq_Method r \<noteq> ''POST'' then (reply_error StatusMethodNotAllowed ''method not allowed'', w)
     else case ClaimsFromContext r of
       None \<Rightarrow> (reply_error StatusUnauthorized ''unauthorized'', w)
     | Some claims \<Rightarrow>
       (case decode_body dec_RegisterRequest r of
          Inl _ \<Rightarrow> (reply_error StatusBadRequest ''invalid request body'', w)
        | Inr req \<Rightarrow>
          (case RegisterRequest_Validate req of
             Some e \<Rightarrow> (reply_error StatusBadRequest (Error_text e), w)
           | None \<Rightarrow>
             (let (t, w1) = PushStore_Register E (cl_UserID claims) req w in
              case t of
                Inl _ \<Rightarrow> (reply_error StatusInternalServerError ''failed to register token'', w1)
              | Inr token \<Rightarrow> (reply StatusOK (JObj [(''status'', JStr ''registered''), (''token'', token_json token)]), w1)))))"

definition UnregisterToken :: "('w, 'z) env_scheme \<Rightarrow> 'w handler" where
  "UnregisterToken E r w =
    (if rq_Method r \<noteq> ''DELETE'' then (reply_error StatusMethodNotAllowed ''method not allowed'', w)
     else case ClaimsFromContext r of
       None \<Rightarrow> (reply_error StatusUnauthorized ''unauthorized'', w)
     | Some claims \<Rightarrow>
       (case decode_body (dec_obj (\<lambda>ob. dec_str (fld ob ''device_id''))) r of
          Inl _ \<Rightarrow> (reply_error StatusBadRequest ''invalid request body'', w)
        | Inr deviceID \<Rightarrow>
          if deviceID = [] then (reply_error StatusBadRequest ''device_id is required'', w)
          else let (e, w1) = PushStore_Unregister E (cl_UserID claims) deviceID w in
            case e of
              None \<Rightarrow> (reply StatusOK (JObj [(''status'', JStr ''unregistered'')]), w1)
            | Some e \<Rightarrow> if e = ErrTokenNotFound then (reply_error StatusNotFound ''token not found'', w1)
                else (reply_error StatusInternalServerError ''failed to unregister token'', w1)))"

end
