(* ===== verification/Push_Tokens.thy ===== *)
theory Push_Tokens
  imports Push "HOL-Library.Multiset"
begin

text \<open>
  The table of device tokens and the effect of the store's SQL statements on it, as the contract
  \<open>token_table\<close> of the database, and the directory of devices that the store implements on top.
\<close>

section \<open>The table\<close>

record TokenRow =
  tr_id :: string
  tr_user :: string
  tr_device :: string
  tr_platform :: string
  tr_token :: string
  tr_voip :: "string option"
  tr_app :: "string option"
  tr_bundle :: "string option"
  tr_active :: bool
  tr_created :: time
  tr_updated :: time

definition null :: "string option \<Rightarrow> json" where
  "null s = (case s of None \<Rightarrow> JNull | Some t \<Rightarrow> JStr t)"

definition unnull :: "json \<Rightarrow> string option" where
  "unnull j = (case j of JStr t \<Rightarrow> Some t | _ \<Rightarrow> None)"

definition row_cols :: "TokenRow \<Rightarrow> json list" where
  "row_cols r = [JStr (tr_id r), JStr (tr_user r), JStr (tr_device r), JStr (tr_platform r), JStr (tr_token r), null (tr_voip r),
     null (tr_app r), null (tr_bundle r), JBool (tr_active r), JTime (tr_created r), JTime (tr_updated r)]"

definition row_key :: "TokenRow \<Rightarrow> string \<times> string" where
  "row_key r = (tr_user r, tr_device r)"

text \<open>\<open>UNIQUE(user_id, device_id)\<close> of the migration.\<close>

definition unique_devices :: "TokenRow list \<Rightarrow> bool" where
  "unique_devices rs \<longleftrightarrow> distinct (map row_key rs)"

text \<open>The statements.\<close>

definition upsert_rows :: "string \<Rightarrow> string \<Rightarrow> string \<Rightarrow> string \<Rightarrow> json \<Rightarrow> json \<Rightarrow> json \<Rightarrow> string \<Rightarrow> time \<Rightarrow> TokenRow list \<Rightarrow> TokenRow list" where
  "upsert_rows u d p t v a b i now rs =
    (let f = (\<lambda>r. r\<lparr>tr_platform := p, tr_token := t, tr_voip := unnull v, tr_app := unnull a, tr_bundle := unnull b,
                tr_active := True, tr_updated := now\<rparr>)
     in if \<exists>r\<in>set rs. row_key r = (u, d) then map (\<lambda>r. if row_key r = (u, d) then f r else r) rs
        else rs @ [f \<lparr>tr_id = i, tr_user = u, tr_device = d, tr_platform = p, tr_token = t, tr_voip = None, tr_app = None,
          tr_bundle = None, tr_active = True, tr_created = now, tr_updated = now\<rparr>])"

definition deactivate_rows :: "(TokenRow \<Rightarrow> bool) \<Rightarrow> time \<Rightarrow> TokenRow list \<Rightarrow> TokenRow list" where
  "deactivate_rows Q now rs = map (\<lambda>r. if Q r then r\<lparr>tr_active := False, tr_updated := now\<rparr> else r) rs"

definition uses_token :: "string \<Rightarrow> TokenRow \<Rightarrow> bool" where
  "uses_token t r \<longleftrightarrow> tr_token r = t \<or> tr_voip r = Some t"

definition active_of :: "string \<Rightarrow> TokenRow \<Rightarrow> bool" where
  "active_of u r \<longleftrightarrow> tr_user r = u \<and> tr_active r"

locale token_table = services E view fate published calm
  for E :: "('w, 'z) env_scheme" and view fate published calm +
  fixes P :: "'w pushsvc" and rows :: "'w \<Rightarrow> TokenRow list"
  assumes register: "calm w \<Longrightarrow> \<exists>i now r. rows (snd (sql_row E register_sql [JStr u, JStr d, JStr p, JStr t, v, a, b] w)) =
        upsert_rows u d p t v a b i now (rows w) \<and>
      find (\<lambda>r. row_key r = (u, d)) (upsert_rows u d p t v a b i now (rows w)) = Some r \<and>
      fst (sql_row E register_sql [JStr u, JStr d, JStr p, JStr t, v, a, b] w) = Inr (Some (row_cols r))"
    and unregister: "calm w \<Longrightarrow> \<exists>now. rows (snd (sql_exec E unregister_sql [JStr u, JStr d] w)) =
        deactivate_rows (\<lambda>r. row_key r = (u, d)) now (rows w) \<and>
      fst (sql_exec E unregister_sql [JStr u, JStr d] w) = Inr (length (filter (\<lambda>r. row_key r = (u, d)) (rows w)))"
    and invalidate: "calm w \<Longrightarrow> \<exists>now. rows (snd (sql_exec E invalidate_sql [JStr t] w)) = deactivate_rows (uses_token t) now (rows w)"
    and active: "calm w \<Longrightarrow> \<exists>rs. fst (sql_rows P active_sql [JStr u] w) = Inr (map row_cols rs, None) \<and>
      mset rs = mset (filter (active_of u) (rows w)) \<and> sorted_wrt (\<lambda>r s. tr_updated s \<le> tr_updated r) rs \<and>
      rows (snd (sql_rows P active_sql [JStr u] w)) = rows w"

section \<open>The directory\<close>

text \<open>What a user's device is reached by: platform, push token and VoIP token.\<close>

type_synonym entry = "string \<times> string \<times> string"

definition row_entry :: "TokenRow \<Rightarrow> entry" where
  "row_entry r = (tr_platform r, tr_token r, case tr_voip r of None \<Rightarrow> [] | Some v \<Rightarrow> v)"

definition token_entry :: "PushToken \<Rightarrow> entry" where
  "token_entry t = (pt_Platform t, pt_PushToken t, pt_VoIPToken t)"

definition directory :: "TokenRow list \<Rightarrow> string \<times> string \<Rightarrow> entry option" where
  "directory rs k = map_option row_entry (find (\<lambda>r. row_key r = k \<and> tr_active r) rs)"

lemma find_distinct:
  "distinct (map f xs) \<Longrightarrow> (\<And>x. Q x \<Longrightarrow> f x = k) \<Longrightarrow> find Q xs = Some x \<longleftrightarrow> x \<in> set xs \<and> Q x"
  by (induction xs) (auto simp: image_iff)

lemma directory_Some:
  "unique_devices rs \<Longrightarrow> directory rs k = Some e \<longleftrightarrow> (\<exists>r\<in>set rs. row_key r = k \<and> tr_active r \<and> row_entry r = e)"
  unfolding directory_def unique_devices_def
  by (auto simp: find_distinct[of row_key _ "\<lambda>r. row_key r = k \<and> tr_active r" k])

lemma map_eqI: "(\<And>k e. m k = Some e \<longleftrightarrow> n k = Some e) \<Longrightarrow> m = n"
  by (rule ext) (metis not_Some_eq)

lemma unique_map: "(\<And>r. row_key (f r) = row_key r) \<Longrightarrow> unique_devices (map f rs) = unique_devices rs"
  by (simp add: unique_devices_def comp_def)

lemma unique_deactivate: "unique_devices (deactivate_rows Q now rs) = unique_devices rs"
  unfolding deactivate_rows_def by (rule unique_map) (simp add: row_key_def)

lemma unique_upsert: "unique_devices rs \<Longrightarrow> unique_devices (upsert_rows u d p t v a b i now rs)"
proof (cases "\<exists>r\<in>set rs. row_key r = (u, d)")
  case True
  assume "unique_devices rs"
  then show ?thesis using True by (simp add: upsert_rows_def Let_def unique_map row_key_def)
next
  case False
  assume "unique_devices rs"
  then show ?thesis using False by (auto simp: upsert_rows_def Let_def unique_devices_def row_key_def image_iff)
qed

lemma directory_deactivate:
  "unique_devices rs \<Longrightarrow> directory (deactivate_rows Q now rs) k = Some e \<longleftrightarrow>
    (\<exists>r\<in>set rs. row_key r = k \<and> tr_active r \<and> row_entry r = e \<and> \<not> Q r)"
  by (subst directory_Some) (auto simp: unique_deactivate, auto simp: deactivate_rows_def row_key_def row_entry_def split: if_splits)

lemma upsert_row:
  "\<forall>r\<in>set (upsert_rows u d p t v a b i now rs). row_key r = (u, d) \<longrightarrow>
    tr_active r \<and> row_entry r = (p, t, case unnull v of None \<Rightarrow> [] | Some s \<Rightarrow> s)"
  by (cases "\<exists>r\<in>set rs. row_key r = (u, d)") (auto simp: upsert_rows_def Let_def row_entry_def row_key_def)

lemma upsert_keys:
  "\<exists>r\<in>set (upsert_rows u d p t v a b i now rs). row_key r = (u, d)"
  "k \<noteq> (u, d) \<Longrightarrow> r \<in> set (upsert_rows u d p t v a b i now rs) \<and> row_key r = k \<longleftrightarrow> r \<in> set rs \<and> row_key r = k"
proof -
  have "map row_key (upsert_rows u d p t v a b i now rs) =
      (if \<exists>r\<in>set rs. row_key r = (u, d) then map row_key rs else map row_key rs @ [(u, d)])"
    by (simp add: upsert_rows_def Let_def row_key_def)
  then have "(u, d) \<in> set (map row_key (upsert_rows u d p t v a b i now rs))" by (simp add: image_iff) metis
  then show "\<exists>r\<in>set (upsert_rows u d p t v a b i now rs). row_key r = (u, d)" by fastforce
qed (auto simp: upsert_rows_def Let_def row_key_def)

lemma directory_upsert:
  assumes "unique_devices rs"
  shows "directory (upsert_rows u d p t v a b i now rs) = (directory rs)((u, d) \<mapsto> (p, t, case unnull v of None \<Rightarrow> [] | Some s \<Rightarrow> s))"
proof (rule map_eqI)
  fix k e
  note d = directory_Some[OF unique_upsert[OF assms]] directory_Some[OF assms]
  show "directory (upsert_rows u d p t v a b i now rs) k = Some e \<longleftrightarrow>
      ((directory rs)((u, d) \<mapsto> (p, t, case unnull v of None \<Rightarrow> [] | Some s \<Rightarrow> s))) k = Some e"
  proof (cases "k = (u, d)")
    case True
    then show ?thesis using upsert_keys(1) upsert_row unfolding d(1) by (simp add: True) metis
  next
    case False
    then show ?thesis using upsert_keys(2)[OF False] unfolding d(1) by (simp add: d(2)) blast
  qed
qed

lemma scan_row_cols: "scan_token (row_cols r) = Inr \<lparr>pt_ID = tr_id r, pt_UserID = tr_user r, pt_DeviceID = tr_device r,
    pt_Platform = tr_platform r, pt_PushToken = tr_token r, pt_VoIPToken = (case tr_voip r of None \<Rightarrow> [] | Some v \<Rightarrow> v),
    pt_AppVersion = (case tr_app r of None \<Rightarrow> [] | Some v \<Rightarrow> v), pt_BundleID = (case tr_bundle r of None \<Rightarrow> [] | Some v \<Rightarrow> v),
    pt_IsActive = tr_active r, pt_CreatedAt = tr_created r, pt_UpdatedAt = tr_updated r\<rparr>"
proof -
  have "scan_null (null s) = Inr (case s of None \<Rightarrow> [] | Some v \<Rightarrow> v)" for s
    by (cases s) (simp_all add: null_def)
  then show ?thesis by (simp add: row_cols_def)
qed

definition token_of :: "TokenRow \<Rightarrow> PushToken" where
  "token_of r = (case scan_token (row_cols r) of Inr t \<Rightarrow> t)"

lemma token_of_simps: "scan_token (row_cols r) = Inr (token_of r)" "token_entry (token_of r) = row_entry r"
  "pt_DeviceID (token_of r) = tr_device r" "pt_UserID (token_of r) = tr_user r" "pt_IsActive (token_of r) = tr_active r"
  by (simp_all add: token_of_def scan_row_cols token_entry_def row_entry_def)

lemma scan_rows: "dec_seq scan_token (map row_cols rs) = Inr (map token_of rs)"
  by (induction rs) (simp_all add: token_of_simps)

lemma unnull_nullString: "(case unnull (nullString s) of None \<Rightarrow> [] | Some v \<Rightarrow> v) = s"
  by (simp add: unnull_def nullString_def)

context token_table
begin

lemma Register_directory:
  assumes "calm w" "unique_devices (rows w)"
  shows "\<exists>t. fst (PushStore_Register E u req w) = Inr t \<and> pt_UserID t = u \<and> pt_DeviceID t = rr_DeviceID req \<and> pt_IsActive t \<and>
      token_entry t = (rr_Platform req, rr_PushToken req, rr_VoIPToken req)"
    "directory (rows (snd (PushStore_Register E u req w))) =
      (directory (rows w))((u, rr_DeviceID req) \<mapsto> (rr_Platform req, rr_PushToken req, rr_VoIPToken req))"
    "unique_devices (rows (snd (PushStore_Register E u req w)))"
proof -
  obtain i now r where e: "rows (snd (PushStore_Register E u req w)) = upsert_rows u (rr_DeviceID req) (rr_Platform req)
      (rr_PushToken req) (nullString (rr_VoIPToken req)) (nullString (rr_AppVersion req)) (nullString (rr_BundleID req)) i now (rows w)"
    and f: "find (\<lambda>r. row_key r = (u, rr_DeviceID req)) (upsert_rows u (rr_DeviceID req) (rr_Platform req)
      (rr_PushToken req) (nullString (rr_VoIPToken req)) (nullString (rr_AppVersion req)) (nullString (rr_BundleID req)) i now (rows w)) = Some r"
    and t: "fst (PushStore_Register E u req w) = Inr (token_of r)"
    using register[OF assms(1), of u "rr_DeviceID req" "rr_Platform req" "rr_PushToken req" "nullString (rr_VoIPToken req)"
        "nullString (rr_AppVersion req)" "nullString (rr_BundleID req)"]
    by (auto simp: PushStore_Register_def split_beta Let_def token_of_simps)
  have "row_key r = (u, rr_DeviceID req)" "tr_active r" "row_entry r = (rr_Platform req, rr_PushToken req, rr_VoIPToken req)"
    using find_Some_set[OF f] upsert_row by (fastforce simp: unnull_nullString)+
  then show "\<exists>t. fst (PushStore_Register E u req w) = Inr t \<and> pt_UserID t = u \<and> pt_DeviceID t = rr_DeviceID req \<and> pt_IsActive t \<and>
      token_entry t = (rr_Platform req, rr_PushToken req, rr_VoIPToken req)"
    by (auto simp: t token_of_simps row_key_def)
  show "directory (rows (snd (PushStore_Register E u req w))) =
      (directory (rows w))((u, rr_DeviceID req) \<mapsto> (rr_Platform req, rr_PushToken req, rr_VoIPToken req))"
    by (simp add: e directory_upsert[OF assms(2)] unnull_nullString)
  show "unique_devices (rows (snd (PushStore_Register E u req w)))" by (simp add: e unique_upsert assms(2))
qed

lemma Unregister_directory:
  assumes "calm w" "unique_devices (rows w)"
  shows "fst (PushStore_Unregister E u d w) = (if (u, d) \<in> row_key ` set (rows w) then None else Some ErrTokenNotFound)"
    "directory (rows (snd (PushStore_Unregister E u d w))) = (directory (rows w))((u, d) := None)"
    "unique_devices (rows (snd (PushStore_Unregister E u d w)))"
proof -
  obtain now where e: "rows (snd (PushStore_Unregister E u d w)) = deactivate_rows (\<lambda>r. row_key r = (u, d)) now (rows w)"
    and f: "fst (PushStore_Unregister E u d w) =
      (if length (filter (\<lambda>r. row_key r = (u, d)) (rows w)) = 0 then Some ErrTokenNotFound else None)"
    using unregister[OF assms(1), of u d] by (auto simp: PushStore_Unregister_def split_beta Let_def)
  show "fst (PushStore_Unregister E u d w) = (if (u, d) \<in> row_key ` set (rows w) then None else Some ErrTokenNotFound)"
    unfolding f by (simp add: filter_empty_conv image_iff) metis
  show "directory (rows (snd (PushStore_Unregister E u d w))) = (directory (rows w))((u, d) := None)"
    by (rule map_eqI) (auto simp: e directory_deactivate[OF assms(2)] directory_Some[OF assms(2)])
  show "unique_devices (rows (snd (PushStore_Unregister E u d w)))" by (simp add: e unique_deactivate assms(2))
qed

lemma Invalidate_directory:
  assumes "calm w" "unique_devices (rows w)" "t \<noteq> []"
  shows "directory (rows (snd (InvalidateToken E t w))) = (\<lambda>k. case directory (rows w) k of
      Some (p, tok, voip) \<Rightarrow> if tok = t \<or> voip = t then None else Some (p, tok, voip) | None \<Rightarrow> None)"
    "unique_devices (rows (snd (InvalidateToken E t w)))"
proof -
  obtain now where e: "rows (snd (InvalidateToken E t w)) = deactivate_rows (uses_token t) now (rows w)"
    using invalidate[OF assms(1), of t] by (auto simp: InvalidateToken_def split_beta Let_def)
  have u: "uses_token t r \<longleftrightarrow> (case row_entry r of (p, tok, voip) \<Rightarrow> tok = t \<or> voip = t)" for r
    using assms(3) by (auto simp: uses_token_def row_entry_def split: option.splits)
  show "directory (rows (snd (InvalidateToken E t w))) = (\<lambda>k. case directory (rows w) k of
      Some (p, tok, voip) \<Rightarrow> if tok = t \<or> voip = t then None else Some (p, tok, voip) | None \<Rightarrow> None)"
  proof (rule map_eqI)
    fix k en
    have "directory (rows (snd (InvalidateToken E t w))) k = Some en \<longleftrightarrow>
        directory (rows w) k = Some en \<and> (case en of (p, tok, voip) \<Rightarrow> tok \<noteq> t \<and> voip \<noteq> t)"
      by (auto simp: e directory_deactivate[OF assms(2)] directory_Some[OF assms(2)] u)
    then show "directory (rows (snd (InvalidateToken E t w))) k = Some en \<longleftrightarrow> (case directory (rows w) k of
        Some (p, tok, voip) \<Rightarrow> if tok = t \<or> voip = t then None else Some (p, tok, voip) | None \<Rightarrow> None) = Some en"
      by (auto split: option.splits prod.splits)
  qed
  show "unique_devices (rows (snd (InvalidateToken E t w)))" by (simp add: e unique_deactivate assms(2))
qed

lemma GetActive_directory:
  assumes "calm w" "unique_devices (rows w)"
  shows "\<exists>ts. fst (GetActiveTokens P u w) = (ts, None) \<and> distinct (map pt_DeviceID ts) \<and>
    (\<forall>d e. (\<exists>t\<in>set ts. pt_DeviceID t = d \<and> token_entry t = e) \<longleftrightarrow> directory (rows w) (u, d) = Some e)"
proof -
  obtain rs where r: "fst (sql_rows P active_sql [JStr u] w) = Inr (map row_cols rs, None)"
    "mset rs = mset (filter (active_of u) (rows w))" using active[OF assms(1)] by blast
  have s: "set rs = {r \<in> set (rows w). active_of u r}" using mset_eq_setD[OF r(2)] by auto
  have "distinct (map row_key (filter (active_of u) (rows w)))"
    using assms(2) by (simp add: unique_devices_def distinct_map_filter)
  moreover have "mset (map row_key rs) = mset (map row_key (filter (active_of u) (rows w)))" using r(2) by (metis mset_map)
  ultimately have k: "distinct (map row_key rs)" by (metis mset_eq_imp_distinct_iff)
  have "map row_key rs = map (\<lambda>d. (u, d)) (map tr_device rs)" using s by (auto simp: active_of_def row_key_def)
  then have "distinct (map tr_device rs)" using k by (metis distinct_map)
  moreover have "fst (GetActiveTokens P u w) = (map token_of rs, None)"
    by (simp add: GetActiveTokens_def split_beta Let_def r(1) scan_rows)
  moreover have "(\<exists>t\<in>set (map token_of rs). pt_DeviceID t = d \<and> token_entry t = e) \<longleftrightarrow> directory (rows w) (u, d) = Some e" for d e
    by (auto simp: directory_Some[OF assms(2)] s token_of_simps row_key_def active_of_def)
  ultimately show ?thesis by (auto simp: comp_def token_of_simps)
qed

end

section \<open>An instance\<close>

text \<open>A world with the table, in which the statements run, and the APNs sender; every HTTP request is answered \<open>200\<close>.\<close>

record pgworld = world +
  pw_rows :: "TokenRow list"
  pw_apns :: APNsSender

definition pg_register :: "json list \<Rightarrow> pgworld \<Rightarrow> json list option result \<times> pgworld" where
  "pg_register args w = (case args of
      [JStr u, JStr d, JStr p, JStr t, v, a, b] \<Rightarrow>
        (let rs = upsert_rows u d p t v a b (''t'' @ itoa (length (pw_rows w))) (int (w_clock w)) (pw_rows w)
         in (answer (mem_fate w) (Inr (map_option row_cols (find (\<lambda>r. row_key r = (u, d)) rs))),
             (spend w)\<lparr>pw_rows := (if happens (mem_fate w) then rs else pw_rows w)\<rparr>))
    | _ \<Rightarrow> (Inl (Errorf ''bad arguments''), w))"

definition pg_update :: "(TokenRow \<Rightarrow> bool) \<Rightarrow> pgworld \<Rightarrow> nat result \<times> pgworld" where
  "pg_update Q w = (answer (mem_fate w) (Inr (length (filter Q (pw_rows w)))), (spend w)\<lparr>pw_rows :=
     (if happens (mem_fate w) then deactivate_rows Q (int (w_clock w)) (pw_rows w) else pw_rows w)\<rparr>)"

definition pg_exec :: "string \<Rightarrow> json list \<Rightarrow> pgworld \<Rightarrow> nat result \<times> pgworld" where
  "pg_exec q args w =
    (if q = unregister_sql then (case args of [JStr u, JStr d] \<Rightarrow> pg_update (\<lambda>r. row_key r = (u, d)) w | _ \<Rightarrow> (answer (mem_fate w) (Inr 0), spend w))
     else if q = invalidate_sql then (case args of [JStr t] \<Rightarrow> pg_update (uses_token t) w | _ \<Rightarrow> (answer (mem_fate w) (Inr 0), spend w))
     else if q = cleanup_sql then (case args of [JTime t] \<Rightarrow> pg_update (\<lambda>r. tr_active r \<and> tr_updated r < t) w | _ \<Rightarrow> (answer (mem_fate w) (Inr 0), spend w))
     else (answer (mem_fate w) (Inr 0), spend w))"

definition pg_env :: "pgworld env" where
  "pg_env = mem_env\<lparr>sql_row := (\<lambda>q args w. if q = register_sql then pg_register args w else sql_row mem_env q args w),
     sql_exec := pg_exec\<rparr>"

definition pg_active :: "string \<Rightarrow> pgworld \<Rightarrow> TokenRow list" where
  "pg_active u w = rev (sort_key tr_updated (filter (active_of u) (pw_rows w)))"

definition pg_svc :: "pgworld pushsvc" where
  "pg_svc = \<lparr>sql_rows = (\<lambda>q args w. (case args of [JStr u] \<Rightarrow> Inr (map row_cols (pg_active u w), None) | _ \<Rightarrow> Inl (Errorf ''bad arguments''), w)),
     url_error = (\<lambda>_. None),
     http_Do = (\<lambda>r w. (Inr \<lparr>hr_Status = 200, hr_Text = ''{}'', hr_Json = Some (JObj [])\<rparr>, w)),
     es256_sign = (\<lambda>k t n w. (Inr ''jwt'', w)),
     ctx_wait = (\<lambda>d w. (None, w)),
     finish_order = (\<lambda>n w. (rev [0..<n], w))\<rparr>"

lemmas pg_query_defs = register_sql_def unregister_sql_def invalidate_sql_def cleanup_sql_def profile_sql_def active_sql_def

lemma pg_queries [simp]: "invalidate_sql \<noteq> unregister_sql" "unregister_sql \<noteq> invalidate_sql" "cleanup_sql \<noteq> unregister_sql"
  "cleanup_sql \<noteq> invalidate_sql" "profile_sql \<noteq> register_sql"
  by (simp_all add: pg_query_defs)

lemma pg_exec_keeps: "w_db (snd (pg_exec q args w)) = w_db w" "w_pub (snd (pg_exec q args w)) = w_pub w"
  "mem_calm w \<Longrightarrow> mem_calm (snd (pg_exec q args w)) \<and> is_ok (fst (pg_exec q args w))"
  by (auto simp: pg_exec_def pg_update_def mem_calm_def mem_fate_def split: list.splits json.splits)

lemma pg_register_keeps: "w_db (snd (pg_register args w)) = w_db w" "w_pub (snd (pg_register args w)) = w_pub w"
  "mem_calm w \<Longrightarrow> mem_calm (snd (pg_register args w))"
  by (auto simp: pg_register_def mem_calm_def Let_def split: list.splits json.splits)

interpretation pg: services pg_env w_db mem_fate w_pub mem_calm
  by unfold_locales (auto simp: pg_env_def mem_env_def itoa_no_colon mem_calm_def mem_fate_def
      pg_exec_keeps[unfolded mem_calm_def] pg_register_keeps[unfolded mem_calm_def] split: fate.splits)

lemma find_upsert: "\<exists>r. find (\<lambda>r. row_key r = (u, d)) (upsert_rows u d p t v a b i now rs) = Some r"
  using upsert_keys(1)[of u d p t v a b i now rs]
  by (cases "find (\<lambda>r. row_key r = (u, d)) (upsert_rows u d p t v a b i now rs)") (simp_all add: find_None_set)

interpretation pgt: token_table pg_env w_db mem_fate w_pub mem_calm pg_svc pw_rows
proof unfold_locales
  fix w :: pgworld and u d p t v a b
  assume c: "mem_calm w"
  then have f: "mem_fate w = Fine" by (simp add: mem_calm_def mem_fate_def)
  obtain r where r: "find (\<lambda>r. row_key r = (u, d)) (upsert_rows u d p t v a b (''t'' @ itoa (length (pw_rows w))) (int (w_clock w)) (pw_rows w)) = Some r"
    using find_upsert by blast
  show "\<exists>i now r. pw_rows (snd (sql_row pg_env register_sql [JStr u, JStr d, JStr p, JStr t, v, a, b] w)) =
        upsert_rows u d p t v a b i now (pw_rows w) \<and>
      find (\<lambda>r. row_key r = (u, d)) (upsert_rows u d p t v a b i now (pw_rows w)) = Some r \<and>
      fst (sql_row pg_env register_sql [JStr u, JStr d, JStr p, JStr t, v, a, b] w) = Inr (Some (row_cols r))"
    using r by (intro exI conjI) (auto simp: pg_env_def pg_register_def f Let_def)
  show "\<exists>rs. fst (sql_rows pg_svc active_sql [JStr u] w) = Inr (map row_cols rs, None) \<and>
      mset rs = mset (filter (active_of u) (pw_rows w)) \<and> sorted_wrt (\<lambda>r s. tr_updated s \<le> tr_updated r) rs \<and>
      pw_rows (snd (sql_rows pg_svc active_sql [JStr u] w)) = pw_rows w"
  proof (intro exI conjI)
    show "sorted_wrt (\<lambda>r s. tr_updated s \<le> tr_updated r) (pg_active u w)"
      using sorted_sort_key[of tr_updated "filter (active_of u) (pw_rows w)"]
      by (simp add: pg_active_def sorted_wrt_rev sorted_map)
  qed (auto simp: pg_svc_def pg_active_def)
qed (auto simp: pg_env_def pg_exec_def pg_update_def mem_calm_def mem_fate_def)

section \<open>The store implements the directory\<close>


definition pgworld0 :: pgworld where
  "pgworld0 = world.extend world0 \<lparr>pw_rows = [], pw_apns = \<lparr>as_cfg = \<lparr>ac_TeamID = ''team'', ac_KeyID = ''key'', ac_BundleID = ''app'',
     ac_Production = True\<rparr>, as_jwtToken = [], as_jwtExp = zero_time\<rparr>\<rparr>"

definition sample_register :: RegisterRequest where
  "sample_register = \<lparr>rr_DeviceID = ''phone'', rr_Platform = ''ios'', rr_PushToken = ''tok'', rr_VoIPToken = ''voip'',
     rr_AppVersion = [], rr_BundleID = []\<rparr>"

lemma pgworld0_simps: "pw_rows pgworld0 = []" "mem_calm pgworld0"
  by (simp_all add: pgworld0_def world.defs world0_def mem_calm_def)


end
