(* ===== verification/Push_Gateway.thy ===== *)
theory Push_Gateway
  imports Push_Tokens
begin

text \<open>
  What the push gateway does with a call: how often a device is tried, which errors condemn its token,
  and the result and the event of a whole fan-out.
\<close>

section \<open>Errors that condemn a token\<close>

text \<open>The hand-written search finds exactly the substrings.\<close>

lemma contains_iff: "contains s sub \<longleftrightarrow> Contains s sub"
proof
  assume "contains s sub"
  then obtain i where "take (length sub) (drop i s) = sub"
    by (auto simp: contains_def searchSubstring_def list_ex_iff)
  then have "s = take i s @ sub @ drop (length sub) (drop i s)" by (metis append_take_drop_id)
  then show "Contains s sub" by (metis Contains_append)
next
  assume "Contains s sub"
  then obtain a b where s: "s = a @ sub @ b" by (auto simp: Contains_iff)
  then have "take (length sub) (drop (length a) s) = sub" "length a < Suc (length s) - length sub" by simp_all
  then have "\<exists>i\<in>set [0..<Suc (length s) - length sub]. take (length sub) (drop i s) = sub"
    by (intro bexI[of _ "length a"]) simp_all
  then show "contains s sub" using s by (simp add: contains_def searchSubstring_def list_ex_iff)
qed

definition condemned :: "goerr option \<Rightarrow> bool" where
  "condemned err \<longleftrightarrow> IsGoneError err \<or> IsUnregisteredError err"

lemma condemned_None [simp]: "\<not> condemned None"
  by (simp add: condemned_def IsGoneError_def IsUnregisteredError_def)

lemma condemned_text: "condemned (Some (Errorf (Error_text e))) = condemned (Some e)"
  by (simp add: condemned_def IsGoneError_def IsUnregisteredError_def)

text \<open>The answers of the two services that mean a dead device.\<close>

lemma apns_gone:
  assumes "http_Do P = (\<lambda>_ w. (Inr \<lparr>hr_Status = 410, hr_Text = body, hr_Json = j\<rparr>, w))"
    and "url_error P = (\<lambda>_. None)" "as_jwtToken s \<noteq> []" "fst (time_now E w) < as_jwtExp s"
  shows "condemned (fst (fst (APNsSender_Send E P s tok p w)))"
proof -
  have "Contains (''APNs token invalid (410 Gone): '' @ body) ''410 Gone''"
    using Contains_append[of "''APNs token invalid (''" "''410 Gone''" "''): '' @ body"] by simp
  then show ?thesis
    using assms by (simp add: APNsSender_Send_def getJWT_def split_beta Let_def condemned_def IsGoneError_def contains_iff)
qed

section \<open>Attempts\<close>

lemma sendWithRetry_none: "sendWithRetry P send t p 0 w = send t p w"
  by (auto simp: sendWithRetry_def split: prod.splits)

lemma sendWithRetry_one:
  "sendWithRetry P send t p (Suc 0) w = (let (err, w1) = send t p w; (cancelled, w2) = ctx_wait P (2 * Second) w1 in
     if err = None \<or> condemned err then (err, w1) else if cancelled \<noteq> None then (cancelled, w2) else send t p w2)"
proof -
  obtain e1 v1 where 1: "send t p w = (e1, v1)" by (cases "send t p w") auto
  obtain c v2 where 2: "ctx_wait P (2 * Second) v1 = (c, v2)" by (cases "ctx_wait P (2 * Second) v1") auto
  obtain e2 v3 where 3: "send t p v2 = (e2, v3)" by (cases "send t p v2") auto
  show ?thesis by (cases c) (auto simp: sendWithRetry_def 1 2 3 condemned_def)
qed

text \<open>How often a device is tried.  An iOS device is sent exactly one request, to its VoIP token if
  it has one; an Android device is sent one, and a second one after a wait of two seconds only if the
  first failed with an error that does not condemn the token and the context is still alive; a device
  of another platform, or without a configured sender, is sent nothing.\<close>

theorem device_attempts:
  "send_to_device P g p tok w =
    (if pt_Platform tok = PlatformIOS then
       (case gw_apns g of None \<Rightarrow> (Some (Errorf ''APNs sender not configured''), w)
        | Some send \<Rightarrow> send (if pt_VoIPToken tok = [] then pt_PushToken tok else pt_VoIPToken tok) p w)
     else if pt_Platform tok = PlatformAndroid then
       (case gw_fcm g of None \<Rightarrow> (Some (Errorf ''FCM sender not configured''), w)
        | Some send \<Rightarrow>
          (let (err, w1) = send (pt_PushToken tok) p w; (cancelled, w2) = ctx_wait P (2 * Second) w1 in
           if err = None \<or> condemned err then (err, w1)
           else if cancelled \<noteq> None then (cancelled, w2)
           else send (pt_PushToken tok) p w2))
     else (Some (Errorf (''unsupported platform: '' @ pt_Platform tok)), w))"
  unfolding send_to_device_def One_nat_def sendWithRetry_none sendWithRetry_one ..

section \<open>The fan-out\<close>

text \<open>What the gateway relies on: its helpers and senders publish nothing on the bus, and every
  goroutine delivers one result.\<close>

locale push_env = services E view fate published calm
  for E :: "('w, 'z) env_scheme" and view fate published calm +
  fixes P :: "'w pushsvc" and g :: "'w Gateway"
  assumes rows_quiet: "published (snd (sql_rows P q args w)) = published w" "calm w \<Longrightarrow> calm (snd (sql_rows P q args w))"
    and wait_quiet: "published (snd (ctx_wait P d w)) = published w" "calm w \<Longrightarrow> calm (snd (ctx_wait P d w))"
    and order_quiet: "published (snd (finish_order P n w)) = published w" "calm w \<Longrightarrow> calm (snd (finish_order P n w))"
    and order_perm: "mset (fst (finish_order P n w)) = mset [0..<n]"
    and apns_quiet: "gw_apns g = Some send \<Longrightarrow> published (snd (send t p w)) = published w"
      "gw_apns g = Some send \<Longrightarrow> calm w \<Longrightarrow> calm (snd (send t p w))"
    and fcm_quiet: "gw_fcm g = Some send \<Longrightarrow> published (snd (send t p w)) = published w"
      "gw_fcm g = Some send \<Longrightarrow> calm w \<Longrightarrow> calm (snd (send t p w))"
begin

lemma retry_send_quiet:
  assumes "\<And>w. published (snd (send t p w)) = published w" "\<And>w. calm w \<Longrightarrow> calm (snd (send t p w))"
  shows "published (snd (retry_send P send t p n e w)) = published w \<and>
    (calm w \<longrightarrow> calm (snd (retry_send P send t p n e w)))"
  by (induction n arbitrary: e w) (auto simp: Let_def split_beta wait_quiet assms split: option.splits)

lemma sendWithRetry_quiet:
  assumes "\<And>w. published (snd (send t p w)) = published w" "\<And>w. calm w \<Longrightarrow> calm (snd (send t p w))"
  shows "published (snd (sendWithRetry P send t p n w)) = published w"
    "calm w \<Longrightarrow> calm (snd (sendWithRetry P send t p n w))"
  using retry_send_quiet[of send t p, OF assms] assms by (simp_all add: sendWithRetry_def Let_def split_beta)

lemma send_to_device_quiet:
  "published (snd (send_to_device P g p tok w)) = published w" "calm w \<Longrightarrow> calm (snd (send_to_device P g p tok w))"
  using apns_quiet fcm_quiet
  by (auto simp: send_to_device_def sendWithRetry_quiet split: option.splits)

lemma deliver_quiet:
  "published (snd (deliver E P g p tok w)) = published w" "calm w \<Longrightarrow> calm (snd (deliver E P g p tok w))"
  by (simp_all add: deliver_def Let_def split_beta send_to_device_quiet svc_simps)

lemma collect_quiet:
  "published (collect E d tok w) = published w" "calm w \<Longrightarrow> calm (collect E d tok w)"
  by (simp_all add: collect_def InvalidateToken_def Let_def split_beta svc_simps)

lemma deliver_all_quiet:
  "published (snd (deliver_all E P g p toks w)) = published w \<and> (calm w \<longrightarrow> calm (snd (deliver_all E P g p toks w)))"
  by (induction toks arbitrary: w) (auto simp: Let_def split_beta deliver_quiet collect_quiet)

end

lemma deliver_all_devices:
  "map dr_DeviceID (fst (deliver_all E P g p toks w)) = map pt_DeviceID toks"
  by (induction toks arbitrary: w) (simp_all add: Let_def split_beta deliver_def)

lemma deliver_status: "dr_Status (fst (deliver E P g p tok w)) \<in> {DeliveryStatusSent, DeliveryStatusFailed}"
  by (simp add: deliver_def Let_def split_beta)

lemma deliver_all_status:
  "d \<in> set (fst (deliver_all E P g p toks w)) \<Longrightarrow> dr_Status d \<in> {DeliveryStatusSent, DeliveryStatusFailed}"
  by (induction toks arbitrary: w) (use deliver_status in \<open>fastforce simp: Let_def split_beta\<close>)+

lemma mset_map_nth: "mset order = mset [0..<length xs] \<Longrightarrow> mset (map f (map (\<lambda>i. xs ! i) order)) = mset (map f xs)"
proof -
  assume "mset order = mset [0..<length xs]"
  then have "mset (map (\<lambda>i. f (xs ! i)) order) = mset (map (\<lambda>i. f (xs ! i)) [0..<length xs])" by (metis mset_map)
  also have "map (\<lambda>i. f (xs ! i)) [0..<length xs] = map f xs" by (rule nth_equalityI) simp_all
  finally show ?thesis by (simp add: comp_def)
qed

text \<open>C35: The fan-out of a call.  With at least one active token, every device of the callee gets
  exactly one result, in whatever order the goroutines finish; the call counts as failed exactly when
  no device accepted it; one \<open>push.delivery\<close> event with this result is published, and only then, if
  every device failed, the callback runs, once, with the ids of call and caller.\<close>

theorem push_fan_out:
  assumes env: "push_env E view fate published calm P g" and "calm w" "gw_bus g = Some src"
    and toks: "GetActiveTokens P callee w = ((tokens, None), w1)" "tokens \<noteq> []"
  shows "\<exists>r w5. SendIncomingCallPush E P g push callee w = ((Some r, None),
      if pr_AllFailed r then (case gw_onAllFailed g of None \<Rightarrow> w5 | Some f \<Rightarrow> f (ip_CallID push) (ip_CallerID push) w5) else w5) \<and>
    mset (map dr_DeviceID (pr_Devices r)) = mset (map pt_DeviceID tokens) \<and>
    (pr_AllFailed r \<longleftrightarrow> (\<forall>d\<in>set (pr_Devices r). dr_Status d = DeliveryStatusFailed)) \<and>
    pr_UserID r = callee \<and> pr_CallID r = ip_CallID push \<and>
    seen (published w5) = seen (published w) @ [(SubjectPushDelivery, result_json r)]"
proof -
  note S = push_env.axioms(1)[OF env]
  note q = push_env.rows_quiet[OF env] push_env.order_quiet[OF env] push_env.deliver_all_quiet[OF env]
    services.now_log[OF S] services.now_calm[OF S]
  define x where "x = fill_defaults E g push w1"
  define y where "y = finish_order P (length tokens) (snd x)"
  define z where "z = deliver_all E P g (fst x) (map (\<lambda>i. tokens ! i) (fst y)) (snd y)"
  define r where "r = \<lparr>pr_UserID = callee, pr_CallID = ip_CallID (fst x), pr_Devices = fst z,
    pr_AllFailed = (\<forall>d\<in>set (fst z). dr_Status d \<noteq> DeliveryStatusSent)\<rparr>"
  define w5 where "w5 = publishDeliveryResult E g r (snd z)"
  have ids: "ip_CallID (fst x) = ip_CallID push" "ip_CallerID (fst x) = ip_CallerID push"
    by (simp_all add: x_def fill_defaults_def Let_def split_beta)
  have "w1 = snd (sql_rows P active_sql [JStr callee] w)"
    using toks(1) by (auto simp: GetActiveTokens_def split_beta split: sum.splits)
  then have w1: "calm w1" "published w1 = published w" using assms(2) q by simp_all
  have x: "calm (snd x)" "published (snd x) = published w" using w1 q by (simp_all add: x_def fill_defaults_def Let_def split_beta)
  have z: "calm (snd z)" "published (snd z) = published w" using x q by (simp_all add: z_def y_def)
  have run: "SendIncomingCallPush E P g push callee w = ((Some r, None),
      if pr_AllFailed r then (case gw_onAllFailed g of None \<Rightarrow> w5 | Some f \<Rightarrow> f (ip_CallID push) (ip_CallerID push) w5) else w5)"
    using toks(2) unfolding SendIncomingCallPush_def toks(1) Let_def split_beta fst_conv snd_conv option.case
    by (simp add: x_def[symmetric] y_def[symmetric] z_def[symmetric] w5_def r_def ids cong: option.case_cong)
  have "seen (published w5) = seen (published w) @ [(SubjectPushDelivery, result_json r)]"
    using z assms(3) services.Bus_PublishJson_log[OF S] services.Bus_PublishJson_calm[OF S z(1)]
    by (simp add: w5_def publishDeliveryResult_def)
  moreover have "mset (map dr_DeviceID (pr_Devices r)) = mset (map pt_DeviceID tokens)"
    using mset_map_nth[OF push_env.order_perm[OF env]]
    by (simp add: r_def z_def deliver_all_devices y_def)
  moreover have "pr_AllFailed r \<longleftrightarrow> (\<forall>d\<in>set (pr_Devices r). dr_Status d = DeliveryStatusFailed)"
    using deliver_all_status by (fastforce simp: r_def z_def DeliveryStatusSent_def DeliveryStatusFailed_def)
  ultimately show ?thesis using run ids by (auto simp: r_def)
qed

subsection \<open>An instance\<close>

definition sample_gateway :: "pgworld Gateway" where
  "sample_gateway = NewGateway (Some (apns_sender pg_env pg_svc pw_apns (\<lambda>s w. w\<lparr>pw_apns := s\<rparr>)))
     (Some (FCMSender_Send pg_svc ''key'')) (Some ''push-gateway'') 45 None"

lemma pg_clock: "w_pub (snd (time_now pg_env w)) = w_pub w" "mem_calm w \<Longrightarrow> mem_calm (snd (time_now pg_env w))"
  by (simp_all add: pg.now_log pg.now_calm)

lemma getJWT_quiet: "w_pub (snd (getJWT pg_env pg_svc s w)) = w_pub w" "mem_calm w \<Longrightarrow> mem_calm (snd (getJWT pg_env pg_svc s w))"
  by (simp_all add: getJWT_def Let_def split_beta prod.case_eq_if pg_clock) (simp_all add: pg_svc_def prod.case_eq_if pg_clock)

lemma apns_sender_quiet:
  "w_pub (snd (apns_sender pg_env pg_svc pw_apns (\<lambda>s w. w\<lparr>pw_apns := s\<rparr>) t p w)) = w_pub w"
  "mem_calm w \<Longrightarrow> mem_calm (snd (apns_sender pg_env pg_svc pw_apns (\<lambda>s w. w\<lparr>pw_apns := s\<rparr>) t p w))"
  using getJWT_quiet[where s = "pw_apns w" and w = w]
  by (auto simp: apns_sender_def APNsSender_Send_def Let_def split_beta mem_calm_def split: sum.splits) (auto simp: pg_svc_def)

interpretation pgg: push_env pg_env w_db mem_fate w_pub mem_calm pg_svc sample_gateway
proof unfold_locales
  fix send t p and w :: pgworld
  assume "gw_apns sample_gateway = Some send"
  then have s: "send = apns_sender pg_env pg_svc pw_apns (\<lambda>s w. w\<lparr>pw_apns := s\<rparr>)" by (simp add: sample_gateway_def NewGateway_def)
  show "w_pub (snd (send t p w)) = w_pub w" by (simp add: s apns_sender_quiet)
  show "mem_calm w \<Longrightarrow> mem_calm (snd (send t p w))" by (simp add: s apns_sender_quiet)
qed (auto simp: sample_gateway_def NewGateway_def FCMSender_Send_def pg_svc_def Let_def)

definition sample_push :: IncomingCallPush where
  "sample_push = \<lparr>ip_CallID = ''c1'', ip_CallerID = ''alice'', ip_CallerName = ''Alice'', ip_CallerAvatarURL = [],
     ip_CallType = ''audio'', ip_Timestamp = 0, ip_TTL = 0\<rparr>"

definition sample_phone :: TokenRow where
  "sample_phone = \<lparr>tr_id = ''t0'', tr_user = ''bob'', tr_device = ''phone'', tr_platform = ''android'', tr_token = ''tok'', tr_voip = None,
     tr_app = None, tr_bundle = None, tr_active = True, tr_created = 1, tr_updated = 1\<rparr>"

theorem push_fan_out_witness:
  "\<exists>r w5. SendIncomingCallPush pg_env pg_svc sample_gateway sample_push ''bob'' (pgworld0\<lparr>pw_rows := [sample_phone]\<rparr>) = ((Some r, None), w5) \<and>
     map dr_DeviceID (pr_Devices r) = [''phone''] \<and> seen (w_pub w5) = [(SubjectPushDelivery, result_json r)]"
proof -
  let ?w = "pgworld0\<lparr>pw_rows := [sample_phone]\<rparr>"
  have c: "mem_calm ?w" using pgworld0_simps(2) by (simp add: mem_calm_def)
  have t: "GetActiveTokens pg_svc ''bob'' ?w = (([token_of sample_phone], None), ?w)" "[token_of sample_phone] \<noteq> []"
    by (simp_all add: GetActiveTokens_def pg_svc_def pg_active_def active_of_def token_of_simps) (simp add: sample_phone_def token_of_simps)
  have b: "gw_bus sample_gateway = Some ''push-gateway''" "gw_onAllFailed sample_gateway = None"
    by (simp_all add: sample_gateway_def NewGateway_def)
  have p: "seen (w_pub ?w) = []" "pt_DeviceID (token_of sample_phone) = ''phone''"
    by (simp_all add: pgworld0_def world.defs world0_def token_of_simps) (simp add: sample_phone_def)
  obtain r w5 where r: "SendIncomingCallPush pg_env pg_svc sample_gateway sample_push ''bob'' ?w = ((Some r, None), w5)"
    "mset (map dr_DeviceID (pr_Devices r)) = mset [''phone'']" "seen (w_pub w5) = [(SubjectPushDelivery, result_json r)]"
    using push_fan_out[OF pgg.push_env_axioms c b(1) t, of sample_push] p b(2) by auto
  from r(2) have "map dr_DeviceID (pr_Devices r) = [''phone'']" by (metis mset.simps(2) mset_single_iff_right mset.simps(1))
  with r show ?thesis by (intro exI[of _ r] exI[of _ w5]) simp
qed

end
