(* ===== verification/Call_Push.thy ===== *)
theory Call_Push
  imports Hub_Samples Push_Gateway
begin

text \<open>
  From a call to its notifications: the event that the hub publishes for a new call, as the push
  gateway reads it.
\<close>

lemma dec_CallInitiated_roundtrip: "dec_CallInitiated (event_json (CallInitiated c u v t b r)) = Inr (CallInitiated c u v t b r)"
  by (simp add: dec_CallInitiated_def)

context services
begin

lemma SessionStore_Create_quiet: "published (snd (SessionStore_Create E s w)) = published w"
  by (simp add: SessionStore_Create_def SessionStore_checkFree.simps Let_def split_beta svc_simps split: sum.splits)

lemma initiate_publishes:
  assumes "calm w" "store_inv (view w)" "unmarshal_raw dec_CallInitiateMsg d = Inr m" "valid_offer m"
    and free: "\<not> busy (call_at (view w)) (c_userID c)" "\<not> busy (call_at (view w)) (ini_CalleeID m)"
    and bus: "h_bus h = Some src"
  shows "seen (published (snd (handleCallInitiate E c d h w))) = seen (published w) @ [(SubjectCallInitiated,
     event_json (CallInitiated (fst (uuid_new E w)) (c_userID c) (ini_CalleeID m) (ini_CallType m) False []))]"
proof -
  define w2 where "w2 = snd (time_now E (snd (uuid_new E w)))"
  define s where "s = ringing (fst (uuid_new E w)) (c_userID c) m (fst (time_now E (snd (uuid_new E w))))"
  have w2: "calm w2" "store_inv (view w2)" "view w2 = view w" "published w2 = published w"
    using assms(1,2) by (simp_all add: w2_def svc_simps)
  have parties: "cs_CallerID s = c_userID c" "cs_CalleeID s = ini_CalleeID m" by (simp_all add: s_def ringing_def)
  have "fst (SessionStore_Create E s w2) = Inr ()"
    using Create_calm[OF w2(1,2), of s] free by (simp add: w2(3) parties reg_create_def)
  then show ?thesis
    using assms(3,4) bus Create_keeps_calm[OF w2(1), of s]
    by (auto simp: handleCallInitiate_def valid_offer_def Let_def split_beta w2_def[symmetric] s_def[symmetric]
        seen_hub_publish SessionStore_Create_quiet w2(4))
qed

end

text \<open>From call to notification.  The event that the hub publishes for a new call is read by the
  push gateway as the same call, between the same users, of the same type; since the hub never sets
  \<open>has_video\<close>, the notification announces an audio call even when the call is a video call.\<close>

theorem call_announced_as_audio:
  assumes "services E view fate published calm" "calm w" "store_inv (view w)"
    and "unmarshal_raw dec_CallInitiateMsg d = Inr m" "valid_offer m"
    and "\<not> busy (call_at (view w)) (c_userID c)" "\<not> busy (call_at (view w)) (ini_CalleeID m)" "h_bus h = Some src"
  shows "\<exists>j ev. seen (published (snd (handleCallInitiate E c d h w))) = seen (published w) @ [(SubjectCallInitiated, j)] \<and>
    dec_CallInitiated j = Inr ev \<and> ci_CallID ev = fst (uuid_new E w) \<and> ci_CallerID ev = c_userID c \<and>
    ci_CalleeID ev = ini_CalleeID m \<and> ci_CallType ev = ini_CallType m \<and> push_call_type ev = ''audio''"
proof -
  let ?ev = "CallInitiated (fst (uuid_new E w)) (c_userID c) (ini_CalleeID m) (ini_CallType m) False []"
  show ?thesis
    using services.initiate_publishes[OF assms] dec_CallInitiated_roundtrip
    by (intro exI[of _ "event_json ?ev"] exI[of _ ?ev]) (simp add: push_call_type_def del: event_json.simps)
qed

theorem call_announced_as_audio_witness:
  "\<exists>j ev. seen (w_pub (snd (handleCallInitiate mem_env sample_client (Some sample_data) (sample_hub\<lparr>h_bus := Some ''signaling''\<rparr>) world0))) =
     [(SubjectCallInitiated, j)] \<and> dec_CallInitiated j = Inr ev \<and> ci_CalleeID ev = ''bob'' \<and> push_call_type ev = ''audio''"
proof -
  have a: "mem_calm world0" "store_inv (w_db world0)" by (simp_all add: mem_calm_def world0_def)
  have v: "valid_offer sample_offer" by (simp add: valid_offer_def sample_offer_def isValidSDP_def HasPrefix_def)
  have free: "\<not> busy (call_at (w_db world0)) u" for u by (simp add: busy_def call_at_def world0_def)
  have b: "h_bus (sample_hub\<lparr>h_bus := Some ''signaling''\<rparr>) = Some ''signaling''" by simp
  have p: "seen (w_pub world0) = []" "ini_CalleeID sample_offer = ''bob''" by (simp_all add: world0_def sample_offer_def)
  show ?thesis
    using call_announced_as_audio[OF mem.services_axioms a sample_decodes(2) v free free b, of sample_client] p by auto
qed

end
