(* ===== verification/Connection.thy ===== *)
theory Connection
  imports Lalo_Prelude "HOL-Library.Sublist"
begin

text \<open>
  The two pumps of a WebSocket client (\<open>internal/signaling/client.go\<close>): the read limit, the read deadline that
  pongs renew, the pings.  The WebSocket library is a parameter; what the pumps rely on is the locale
  \<open>ws_connection\<close>.
\<close>

section \<open>The library\<close>

datatype wskind = TextMessage | CloseMessage | PingMessage

text \<open>The pong handler that the program installs sets a new read deadline, so a handler is given as that deadline in
  terms of the time at which the pong is read.\<close>

record 'c wslib =
  ws_Now :: "'c \<Rightarrow> time"
  ws_SetReadLimit :: "nat \<Rightarrow> 'c \<Rightarrow> 'c"
  ws_SetReadDeadline :: "time \<Rightarrow> 'c \<Rightarrow> 'c"
  ws_SetPongHandler :: "(time \<Rightarrow> time) \<Rightarrow> 'c \<Rightarrow> 'c"
  ws_ReadMessage :: "'c \<Rightarrow> string result \<times> 'c"
  ws_SetWriteDeadline :: "time \<Rightarrow> 'c \<Rightarrow> 'c"
  ws_WriteMessage :: "wskind \<Rightarrow> string \<Rightarrow> 'c \<Rightarrow> unit result \<times> 'c"

section \<open>The pumps\<close>

definition writeWait :: duration where "writeWait = 10 * Second"
definition pongWait :: duration where "pongWait = 40 * Second"
definition pingPeriod :: duration where "pingPeriod = 30 * Second"
definition maxMessageSize :: nat where "maxMessageSize = 8192"

text \<open>The messages that are sent on the channel \<open>incoming\<close>, in order; the loop ends with the first error.\<close>

partial_function (option) ReadPump_loop :: "'c wslib \<Rightarrow> string list \<Rightarrow> 'c \<Rightarrow> (string list \<times> 'c) option" where
  "ReadPump_loop L sent c = (case ws_ReadMessage L c of
      (Inl _, c') \<Rightarrow> Some (sent, c')
    | (Inr message, c') \<Rightarrow> ReadPump_loop L (sent @ [message]) c')"

definition ReadPump :: "'c wslib \<Rightarrow> 'c \<Rightarrow> (string list \<times> 'c) option" where
  "ReadPump L c =
    (let c1 = ws_SetReadLimit L maxMessageSize c;
         c2 = ws_SetReadDeadline L (ws_Now L c1 + pongWait) c1;
         c3 = ws_SetPongHandler L (\<lambda>now. now + pongWait) c2
     in ReadPump_loop L [] c3)"

text \<open>What the select of the write pump takes: a message, the end of the channel, or a tick of the ticker.\<close>

datatype wevent = Send string | Closed | Tick

definition WritePump_event :: "'c wslib \<Rightarrow> wevent \<Rightarrow> 'c \<Rightarrow> bool \<times> 'c" where
  "WritePump_event L ev c =
    (let c1 = ws_SetWriteDeadline L (ws_Now L c + writeWait) c in
     case ev of
       Closed \<Rightarrow> (False, snd (ws_WriteMessage L CloseMessage [] c1))
     | Send message \<Rightarrow> (let (r, c2) = ws_WriteMessage L TextMessage message c1 in (is_ok r, c2))
     | Tick \<Rightarrow> (let (r, c2) = ws_WriteMessage L PingMessage [] c1 in (is_ok r, c2)))"

fun WritePump :: "'c wslib \<Rightarrow> wevent list \<Rightarrow> 'c \<Rightarrow> 'c" where
  "WritePump L [] c = c"
| "WritePump L (ev # evs) c = (let (go_on, c1) = WritePump_event L ev c in if go_on then WritePump L evs c1 else c1)"

section \<open>What the pumps rely on\<close>

text \<open>What arrives from the peer: a text, a pong, a ping (answered by the library), the end of the connection.
  \<open>reads\<close> is the documented behaviour of one \<open>ReadMessage\<close>: control frames are handled on the way to the next
  text, a text above the limit is an error, and so is everything after the deadline.\<close>

datatype frame = Text string | Pong | Ping | Gone

type_synonym arrivals = "(time \<times> frame) list"

fun reads :: "nat \<Rightarrow> (time \<Rightarrow> time) \<Rightarrow> time \<Rightarrow> arrivals \<Rightarrow> string option \<times> time \<times> arrivals" where
  "reads lim renew dl [] = (None, dl, [])"
| "reads lim renew dl ((t, f) # fs) =
    (if dl < t then (None, dl, (t, f) # fs)
     else case f of
       Text m \<Rightarrow> (if lim < length m then None else Some m, dl, fs)
     | Pong \<Rightarrow> reads lim renew (renew t) fs
     | Ping \<Rightarrow> reads lim renew dl fs
     | Gone \<Rightarrow> (None, dl, fs))"

text \<open>The texts that a loop of such reads gets, and the texts that the peer sends.\<close>

fun delivered :: "nat \<Rightarrow> (time \<Rightarrow> time) \<Rightarrow> time \<Rightarrow> arrivals \<Rightarrow> string list" where
  "delivered lim renew dl [] = []"
| "delivered lim renew dl ((t, f) # fs) =
    (if dl < t then []
     else case f of
       Text m \<Rightarrow> if lim < length m then [] else m # delivered lim renew dl fs
     | Pong \<Rightarrow> delivered lim renew (renew t) fs
     | Ping \<Rightarrow> delivered lim renew dl fs
     | Gone \<Rightarrow> [])"

fun texts :: "arrivals \<Rightarrow> string list" where
  "texts [] = []"
| "texts ((t, f) # fs) = (case f of Text m \<Rightarrow> m # texts fs | _ \<Rightarrow> texts fs)"

lemma delivered_reads:
  "delivered lim rn dl fs = (case reads lim rn dl fs of (None, _) \<Rightarrow> [] | (Some m, dl', fs') \<Rightarrow> m # delivered lim rn dl' fs')"
  by (induction lim rn dl fs rule: reads.induct) (auto split: frame.splits)

lemma reads_shorter: "reads lim rn dl fs = (Some m, dl', fs') \<Longrightarrow> length fs' < length fs"
  by (induction lim rn dl fs rule: reads.induct) (auto split: if_splits frame.splits)

lemma delivered_bounded: "m \<in> set (delivered lim rn dl fs) \<Longrightarrow> length m \<le> lim"
  by (induction lim rn dl fs rule: delivered.induct) (auto split: if_splits frame.splits)

lemma delivered_prefix: "prefix (delivered lim rn dl fs) (texts fs)"
  by (induction lim rn dl fs rule: delivered.induct) (auto split: frame.splits)

text \<open>Without pongs nothing is read after the deadline.\<close>

lemma delivered_silent:
  "\<forall>(t, f)\<in>set fs. f \<noteq> Pong \<Longrightarrow> prefix (delivered lim rn dl fs) (texts (filter (\<lambda>(t, _). t \<le> dl) fs))"
  by (induction lim rn dl fs rule: delivered.induct) (auto split: frame.splits)

text \<open>Everything is read if nothing arrives later than its last pong allows.\<close>

lemma delivered_all:
  assumes "sorted (map fst fs)" "\<forall>(t, f)\<in>set fs. f \<noteq> Gone \<and> (\<forall>m. f = Text m \<longrightarrow> length m \<le> lim)" "mono rn"
    and "\<forall>(t, f)\<in>set fs. dl \<le> rn t"
    and "\<And>pre t f post. fs = pre @ (t, f) # post \<Longrightarrow> t \<le> dl \<or> (\<exists>t'. (t', Pong) \<in> set pre \<and> t \<le> rn t')"
  shows "delivered lim rn dl fs = texts fs"
  using assms
proof (induction lim rn dl fs rule: delivered.induct)
  case (2 lim rn dl t f fs)
  have t: "t \<le> dl" using "2.prems"(5)[of "[]" t f fs] by simp
  have later: "t \<le> t'" if "(t', g) \<in> set fs" for t' g using "2.prems"(1) that by force
  have rest: "t' \<le> dl \<or> f = Pong \<and> t' \<le> rn t \<or> (\<exists>u. (u, Pong) \<in> set pre \<and> t' \<le> rn u)" if "fs = pre @ (t', g) # post" for pre t' g post
    using "2.prems"(5)[of "(t, f) # pre" t' g post] that by auto
  show ?case
  proof (cases "f = Pong")
    case True
    have "delivered lim rn (rn t) fs = texts fs"
    proof (rule "2.IH"(2)[OF _ True])
      show "\<not> dl < t" using t by simp
      show "\<forall>(t', f)\<in>set fs. rn t \<le> rn t'" using later "2.prems"(3) by (auto dest: monoD)
      show "t' \<le> rn t \<or> (\<exists>u. (u, Pong) \<in> set pre \<and> t' \<le> rn u)" if "fs = pre @ (t', g) # post" for pre t' g post
        using rest[OF that] "2.prems"(4) by auto
    qed (use "2.prems" in auto)
    then show ?thesis using t True by simp
  next
    case False
    have "delivered lim rn dl fs = texts fs" if "\<not> f = Gone"
    proof (cases f)
      case (Text m)
      then show ?thesis using "2.IH"(1)[OF _ Text] "2.prems" t rest by (simp add: linorder_not_less)
    next
      case Ping
      then show ?thesis using "2.IH"(3)[OF _ Ping] "2.prems" t rest by (simp add: linorder_not_less)
    qed (use False that in auto)
    then show ?thesis using False "2.prems"(2) t by (auto split: frame.splits)
  qed
qed simp

locale ws_connection =
  fixes L :: "'c wslib" and limit :: "'c \<Rightarrow> nat" and deadline :: "'c \<Rightarrow> time" and renew :: "'c \<Rightarrow> time \<Rightarrow> time"
    and incoming :: "'c \<Rightarrow> arrivals" and written :: "'c \<Rightarrow> (wskind \<times> string) list"
  assumes set_limit: "limit (ws_SetReadLimit L n c) = n" "deadline (ws_SetReadLimit L n c) = deadline c"
      "renew (ws_SetReadLimit L n c) = renew c" "incoming (ws_SetReadLimit L n c) = incoming c" "ws_Now L (ws_SetReadLimit L n c) = ws_Now L c"
    and set_deadline: "limit (ws_SetReadDeadline L t c) = limit c" "deadline (ws_SetReadDeadline L t c) = t"
      "renew (ws_SetReadDeadline L t c) = renew c" "incoming (ws_SetReadDeadline L t c) = incoming c"
    and set_handler: "limit (ws_SetPongHandler L f c) = limit c" "deadline (ws_SetPongHandler L f c) = deadline c"
      "renew (ws_SetPongHandler L f c) = f" "incoming (ws_SetPongHandler L f c) = incoming c"
    and read_message: "((case fst (ws_ReadMessage L c) of Inl _ \<Rightarrow> None | Inr m \<Rightarrow> Some m),
      deadline (snd (ws_ReadMessage L c)), incoming (snd (ws_ReadMessage L c))) = reads (limit c) (renew c) (deadline c) (incoming c)"
    and read_keeps: "limit (snd (ws_ReadMessage L c)) = limit c" "renew (snd (ws_ReadMessage L c)) = renew c"
    and set_write: "written (ws_SetWriteDeadline L t c) = written c"
    and write_message: "written (snd (ws_WriteMessage L k m c)) =
      (if is_ok (fst (ws_WriteMessage L k m c)) then written c @ [(k, m)] else written c)"
begin

text \<open>The loop returns, whatever arrives, and has sent what the reads give.\<close>

lemma ReadPump_loop_result:
  "\<exists>c'. ReadPump_loop L sent c = Some (sent @ delivered (limit c) (renew c) (deadline c) (incoming c), c')"
proof (induction "length (incoming c)" arbitrary: c sent rule: less_induct)
  case less
  let ?r = "ws_ReadMessage L c"
  show ?case
  proof (cases "fst ?r")
    case (Inl e)
    then have "ReadPump_loop L sent c = Some (sent, snd ?r)" by (subst ReadPump_loop.simps) (simp add: split_beta)
    moreover have "delivered (limit c) (renew c) (deadline c) (incoming c) = []"
      using read_message[of c] Inl by (subst delivered_reads) (simp flip: read_message)
    ultimately show ?thesis by simp
  next
    case (Inr m)
    then have r: "reads (limit c) (renew c) (deadline c) (incoming c) = (Some m, deadline (snd ?r), incoming (snd ?r))"
      using read_message[of c] by simp
    have "ReadPump_loop L sent c = ReadPump_loop L (sent @ [m]) (snd ?r)"
      using Inr by (subst ReadPump_loop.simps) (simp add: split_beta)
    moreover have "delivered (limit c) (renew c) (deadline c) (incoming c) =
        m # delivered (limit c) (renew c) (deadline (snd ?r)) (incoming (snd ?r))"
      by (subst delivered_reads) (simp add: r)
    ultimately show ?thesis using less[OF reads_shorter[OF r], of "sent @ [m]"] by (simp add: read_keeps)
  qed
qed

lemma ReadPump_result:
  "\<exists>c'. ReadPump L c = Some (delivered maxMessageSize (\<lambda>now. now + pongWait) (ws_Now L c + pongWait) (incoming c), c')"
  using ReadPump_loop_result[of "[]" "ws_SetPongHandler L (\<lambda>now. now + pongWait) (ws_SetReadDeadline L (ws_Now L c + pongWait)
    (ws_SetReadLimit L maxMessageSize c))"]
  by (simp add: ReadPump_def Let_def set_limit set_deadline set_handler)

text \<open>What the write pump writes is what it takes, up to the first write that fails.\<close>

lemma WritePump_written:
  "\<exists>n. written (WritePump L evs c) = written c @
     take n (map (\<lambda>ev. case ev of Send m \<Rightarrow> (TextMessage, m) | Closed \<Rightarrow> (CloseMessage, []) | Tick \<Rightarrow> (PingMessage, [])) evs)"
proof (induction evs arbitrary: c)
  case (Cons ev evs)
  let ?x = "case ev of Send m \<Rightarrow> (TextMessage, m) | Closed \<Rightarrow> (CloseMessage, []) | Tick \<Rightarrow> (PingMessage, [])"
  let ?r = "WritePump_event L ev c"
  have w: "written (snd ?r) = written c @ [?x] \<or> \<not> fst ?r \<and> written (snd ?r) = written c"
    by (auto simp: WritePump_event_def Let_def split_beta set_write write_message split: wevent.splits)
  obtain n where n: "written (WritePump L evs (snd ?r)) = written (snd ?r) @ take n (map (\<lambda>ev. case ev of Send m \<Rightarrow> (TextMessage, m)
      | Closed \<Rightarrow> (CloseMessage, []) | Tick \<Rightarrow> (PingMessage, [])) evs)" using Cons by blast
  show ?case
  proof (cases "fst ?r")
    case True
    then show ?thesis using w n by (intro exI[of _ "Suc n"]) (simp add: split_beta)
  next
    case False
    then show ?thesis using w by (elim disjE; intro exI[of _ "if written (snd ?r) = written c then 0 else 1"]) (auto simp: split_beta)
  qed
qed simp

end

section \<open>Properties\<close>

text \<open>Ping \<open>k\<close> is sent \<open>k\<close> periods after the start; a peer that is alive answers it within the grace of the
  comment in the source, 10 seconds.\<close>

definition answers_pings :: "time \<Rightarrow> arrivals \<Rightarrow> bool" where
  "answers_pings t0 fs \<longleftrightarrow> (\<forall>k\<ge>1. \<forall>(t, f)\<in>set fs. t0 + k * pingPeriod + (pongWait - pingPeriod) < t \<longrightarrow>
     (\<exists>t'. (t', Pong) \<in> set fs \<and> t0 + k * pingPeriod \<le> t' \<and> t' \<le> t0 + k * pingPeriod + (pongWait - pingPeriod)))"

definition well_behaved :: "arrivals \<Rightarrow> bool" where
  "well_behaved fs \<longleftrightarrow> (\<forall>(t, f)\<in>set fs. f \<noteq> Gone \<and> (\<forall>m. f = Text m \<longrightarrow> length m \<le> maxMessageSize))"

lemma earlier_in_prefix:
  assumes "sorted (map fst fs)" "fs = pre @ (t, f) # post" "(t', g) \<in> set fs" "t' < t"
  shows "(t', g) \<in> set pre"
  using assms by (auto simp: sorted_append)

lemma answered_deadline:
  assumes sorted: "sorted (map fst fs)" and ans: "answers_pings t0 fs" and fs: "fs = pre @ (t, f) # post"
  shows "t \<le> t0 + pongWait \<or> (\<exists>t'. (t', Pong) \<in> set pre \<and> t \<le> t' + pongWait)"
proof (cases "t \<le> t0 + pongWait")
  case False
  define k where "k = (t - t0 - 10 * Second - 1) div pingPeriod"
  have p: "0 < pingPeriod" by (simp add: pingPeriod_def Second_def)
  have "k * pingPeriod \<le> t - t0 - 10 * Second - 1" "t - t0 - 10 * Second - 1 < k * pingPeriod + pingPeriod"
    using pos_mod_bound[OF p, of "t - t0 - 10 * Second - 1"] pos_mod_sign[OF p, of "t - t0 - 10 * Second - 1"]
      div_mult_mod_eq[of "t - t0 - 10 * Second - 1" pingPeriod] unfolding k_def by linarith+
  moreover have "0 < k" unfolding k_def pos_imp_zdiv_pos_iff[OF p] using False by (simp add: pongWait_def pingPeriod_def)
  ultimately have k: "1 \<le> k" "t0 + k * pingPeriod + (pongWait - pingPeriod) < t" "t \<le> t0 + k * pingPeriod + pongWait"
    by (auto simp: pongWait_def pingPeriod_def)
  have "(t, f) \<in> set fs" using fs by simp
  with ans k(1,2) obtain t' where "(t', Pong) \<in> set fs" "t0 + k * pingPeriod \<le> t'" "t' < t"
    unfolding answers_pings_def by fastforce
  then show ?thesis using earlier_in_prefix[OF sorted fs] k(3) by force
qed simp


subsection \<open>A connection in memory\<close>

record memconn =
  mc_now :: time
  mc_limit :: nat
  mc_deadline :: time
  mc_renew :: "time \<Rightarrow> time"
  mc_in :: arrivals
  mc_out :: "(wskind \<times> string) list"

definition mem_ws :: "memconn wslib" where
  "mem_ws = \<lparr>ws_Now = mc_now, ws_SetReadLimit = (\<lambda>n c. c\<lparr>mc_limit := n\<rparr>), ws_SetReadDeadline = (\<lambda>t c. c\<lparr>mc_deadline := t\<rparr>),
     ws_SetPongHandler = (\<lambda>f c. c\<lparr>mc_renew := f\<rparr>),
     ws_ReadMessage = (\<lambda>c. case reads (mc_limit c) (mc_renew c) (mc_deadline c) (mc_in c) of
        (m, dl, fs) \<Rightarrow> (case m of None \<Rightarrow> Inl (Errorf ''websocket: close'') | Some x \<Rightarrow> Inr x, c\<lparr>mc_deadline := dl, mc_in := fs\<rparr>)),
     ws_SetWriteDeadline = (\<lambda>t c. c), ws_WriteMessage = (\<lambda>k m c. (Inr (), c\<lparr>mc_out := mc_out c @ [(k, m)]\<rparr>))\<rparr>"

interpretation memws: ws_connection mem_ws mc_limit mc_deadline mc_renew mc_in mc_out
  by unfold_locales (auto simp: mem_ws_def is_ok_def split: prod.splits option.splits)

definition sample_conn :: memconn where
  "sample_conn = \<lparr>mc_now = 0, mc_limit = 0, mc_deadline = 0, mc_renew = id,
     mc_in = [(5 * Second, Text ''hi''), (31 * Second, Pong), (65 * Second, Text ''yo'')], mc_out = []\<rparr>"


end
