(* ===== verification/Auth_Properties.thy ===== *)
theory Auth_Properties
  imports Auth
begin

text \<open>
  Which requests the middleware admits, and how many calls the rate limiter admits.  The JWT library
  and the sorted sets of Redis enter through the locales \<open>jwt_library\<close> and \<open>sorted_sets\<close>, each
  interpreted on a concrete instance.
\<close>

section \<open>The contract of the JWT library\<close>

text \<open>\<open>genuine t alg key\<close>: the signature of \<open>t\<close> is that of \<open>alg\<close> under \<open>key\<close>.\<close>

definition unexpired :: "Claims \<Rightarrow> time \<Rightarrow> bool" where
  "unexpired c now \<longleftrightarrow> (case cl_ExpiresAt c of None \<Rightarrow> True | Some x \<Rightarrow> now < x)"

locale jwt_library =
  fixes J :: jwtlib and genuine :: "string \<Rightarrow> jwt_alg \<Rightarrow> string \<Rightarrow> bool"
  assumes sign_nonempty: "jwt_sign J key c = Inr t \<Longrightarrow> t \<noteq> []"
    and parse_signed: "jwt_sign J key c = Inr t \<Longrightarrow> kf (HMAC ''HS256'') = Inr key \<Longrightarrow> unexpired c now \<Longrightarrow>
      jwt_parse J t kf now = Inr c"
    and parse_expired: "jwt_sign J key c = Inr t \<Longrightarrow> kf (HMAC ''HS256'') = Inr key \<Longrightarrow> \<not> unexpired c now \<Longrightarrow>
      \<exists>e. jwt_parse J t kf now = Inl e \<and> errors_Is e ErrTokenExpired"
    and parse_sound: "jwt_parse J t kf now = Inr c \<Longrightarrow>
      unexpired c now \<and> (\<exists>alg key. kf alg = Inr key \<and> genuine t alg key)"
begin

lemma Validate_signed:
  "jwt_sign J (js_secret s) c = Inr t \<Longrightarrow> JWTService_Validate E J s t w =
     (if unexpired c (fst (time_now E w)) then Inr c else Inl ErrExpiredToken, snd (time_now E w))"
  using parse_signed[of "js_secret s" c t "key_for s" "fst (time_now E w)"]
    parse_expired[of "js_secret s" c t "key_for s" "fst (time_now E w)"]
  by (cases "unexpired c (fst (time_now E w))") (auto simp: JWTService_Validate_def split_beta)

lemma Validate_sound:
  assumes "JWTService_Validate E J s t w = (Inr c, w')"
  shows "w' = snd (time_now E w) \<and> unexpired c (fst (time_now E w)) \<and> (\<exists>h. genuine t (HMAC h) (js_secret s))"
proof -
  have p: "jwt_parse J t (key_for s) (fst (time_now E w)) = Inr c" "w' = snd (time_now E w)"
    using assms by (auto simp: JWTService_Validate_def split_beta split: sum.splits)
  from parse_sound[OF p(1)] obtain alg key where a: "unexpired c (fst (time_now E w))"
    "key_for s alg = Inr key" "genuine t alg key" by blast
  then show ?thesis using p(2) by (cases alg) auto
qed

lemma middleware_signed:
  assumes "jwt_sign J (js_secret s) c = Inr (extractToken r)"
  shows "JWTMiddleware E J s h r w =
    (if \<not> unexpired c (fst (time_now E w)) then (reply_error StatusUnauthorized ''token expired'', snd (time_now E w))
     else if cl_TokenType c \<noteq> ''access'' then (reply_error StatusUnauthorized ''invalid token type'', snd (time_now E w))
     else h (r\<lparr>rq_Claims := Some c\<rparr>) (snd (time_now E w)))"
  using sign_nonempty[OF assms] by (simp add: JWTMiddleware_def Validate_signed[OF assms] Let_def)

lemma refresh_signed:
  assumes "jwt_sign J (js_secret s) c = Inr t"
  shows "RefreshTokens E J s t w =
    (if \<not> unexpired c (fst (time_now E w)) then (Inl (Wrap ''validate refresh token'' ErrExpiredToken), snd (time_now E w))
     else if cl_TokenType c \<noteq> ''refresh'' then (Inl (Noted ErrInvalidClaims ''not a refresh token''), snd (time_now E w))
     else IssueTokenPair E J s (cl_UserID c) (cl_DeviceID c) [] (snd (time_now E w)))"
  by (simp add: RefreshTokens_def Validate_signed[OF assms])

lemma middleware_cases:
  "(\<exists>c a. JWTMiddleware E J s h r w = h (r\<lparr>rq_Claims := Some c\<rparr>) (snd (time_now E w)) \<and> cl_TokenType c = ''access'' \<and>
      unexpired c (fst (time_now E w)) \<and> genuine (extractToken r) (HMAC a) (js_secret s)) \<or>
    (\<exists>m w'. JWTMiddleware E J s h r w = (reply_error StatusUnauthorized m, w') \<and> w' \<in> {w, snd (time_now E w)})"
proof (cases "extractToken r = [] \<or> \<not> is_ok (fst (JWTService_Validate E J s (extractToken r) w))")
  case True
  have "snd (JWTService_Validate E J s (extractToken r) w) = snd (time_now E w)"
    by (simp add: JWTService_Validate_def split_beta split: sum.splits)
  then show ?thesis using True
    by (cases "fst (JWTService_Validate E J s (extractToken r) w)") (auto simp: JWTMiddleware_def Let_def split_beta)
next
  case False
  then obtain c where c: "JWTService_Validate E J s (extractToken r) w = (Inr c, snd (JWTService_Validate E J s (extractToken r) w))"
    by (cases "fst (JWTService_Validate E J s (extractToken r) w)") (auto simp: prod_eq_iff)
  note v = Validate_sound[OF c]
  then show ?thesis using False c
    by (cases "cl_TokenType c = ''access''") (auto simp: JWTMiddleware_def Let_def split_beta)
qed

end

subsection \<open>An instance\<close>

text \<open>A token lists its fields, each character quoted, and carries its key as its signature.\<close>

fun put_field :: "string \<Rightarrow> string" where
  "put_field [] = ''|''"
| "put_field (c # cs) = CHR ''.'' # c # put_field cs"

fun get_fields :: "string \<Rightarrow> string \<Rightarrow> string list" where
  "get_fields acc (q # c # rest) =
     (if q = CHR ''.'' then get_fields (acc @ [c]) rest else acc # get_fields [] (c # rest))"
| "get_fields acc [q] = [acc]"
| "get_fields acc [] = []"

definition put_time :: "time option \<Rightarrow> string" where
  "put_time t = (case t of None \<Rightarrow> [] | Some n \<Rightarrow> (if n < 0 then ''-'' else ''+'') @ replicate (nat \<bar>n\<bar>) CHR ''i'')"

definition get_time :: "string \<Rightarrow> time option" where
  "get_time s = (case s of [] \<Rightarrow> None | c # cs \<Rightarrow> Some (if c = CHR ''-'' then - int (length cs) else int (length cs)))"

definition toy_fields :: "string \<Rightarrow> Claims \<Rightarrow> string list" where
  "toy_fields key c = [key, cl_UserID c, cl_DeviceID c, cl_TokenType c, cl_ID c, cl_Issuer c,
     put_time (cl_ExpiresAt c), put_time (cl_IssuedAt c)] @ cl_Permissions c"

fun toy_claims :: "string list \<Rightarrow> (string \<times> Claims) option" where
  "toy_claims (key # u # d # ty # i # iss # x # a # ps) = Some (key, \<lparr>cl_UserID = u, cl_DeviceID = d, cl_Permissions = ps,
     cl_TokenType = ty, cl_ID = i, cl_ExpiresAt = get_time x, cl_IssuedAt = get_time a, cl_Issuer = iss\<rparr>)"
| "toy_claims _ = None"

definition toy_jwt :: jwtlib where
  "toy_jwt = \<lparr>jwt_sign = (\<lambda>key c. Inr (concat (map put_field (toy_fields key c)))),
     jwt_parse = (\<lambda>t kf now. case toy_claims (get_fields [] t) of
        None \<Rightarrow> Inl (Errorf ''token is malformed'')
      | Some (sig, c) \<Rightarrow> rbind (kf (HMAC ''HS256'')) (\<lambda>key.
          if sig \<noteq> key then Inl (Errorf ''signature is invalid'')
          else if unexpired c now then Inr c else Inl ErrTokenExpired))\<rparr>"

definition toy_genuine :: "string \<Rightarrow> jwt_alg \<Rightarrow> string \<Rightarrow> bool" where
  "toy_genuine t alg key \<longleftrightarrow> alg = HMAC ''HS256'' \<and> map_option fst (toy_claims (get_fields [] t)) = Some key"

lemma get_put_field: "get_fields acc (put_field s @ rest) = (acc @ s) # get_fields [] rest"
proof (induction s arbitrary: acc)
  case Nil
  then show ?case by (cases rest) auto
qed simp

lemma get_put_fields: "get_fields [] (concat (map put_field fs)) = fs"
  by (induction fs) (simp_all add: get_put_field)

lemma get_put_time: "get_time (put_time t) = t"
  by (auto simp: get_time_def put_time_def split: option.splits)

lemma toy_claims_fields: "toy_claims (toy_fields key c) = Some (key, c)"
  by (simp add: toy_fields_def get_put_time)

interpretation toy: jwt_library toy_jwt toy_genuine
proof unfold_locales
  fix t kf now c
  assume "jwt_parse toy_jwt t kf now = Inr c"
  then show "unexpired c now \<and> (\<exists>alg key. kf alg = Inr key \<and> toy_genuine t alg key)"
    by (auto simp: toy_jwt_def toy_genuine_def rbind_def split: option.splits sum.splits if_splits)
next
  fix key c t
  assume "jwt_sign toy_jwt key c = Inr t"
  moreover have "put_field f \<noteq> []" for f by (cases f) auto
  ultimately show "t \<noteq> []" by (auto simp: toy_jwt_def toy_fields_def)
qed (auto simp: toy_jwt_def get_put_fields toy_claims_fields)

section \<open>Admission\<close>


definition sample_jwt :: JWTService where
  "sample_jwt = \<lparr>js_secret = ''s'', js_accessTokenExpiry = 15 * Minute, js_refreshTokenExpiry = 7 * 24 * Hour\<rparr>"

definition sample_pair :: TokenPair where
  "sample_pair = (case fst (IssueTokenPair mem_env toy_jwt sample_jwt ''alice'' ''phone'' [''call''] world0) of Inr p \<Rightarrow> p)"

definition bearer_request :: "string \<Rightarrow> request" where
  "bearer_request t = \<lparr>rq_Method = ''GET'', rq_Path = ''/'', rq_Authorization = ''Bearer '' @ t, rq_TokenParam = [],
     rq_Body = None, rq_Claims = None\<rparr>"

lemma bearer_token: "extractToken (bearer_request t) = t"
proof -
  have "map lower ''Bearer'' = ''bearer''" by code_simp
  then show ?thesis by (simp add: extractToken_def bearer_request_def split2_def)
qed

text \<open>A handler that answers with the user it sees.\<close>

definition whoami :: "world handler" where
  "whoami r w = (reply StatusOK (case rq_Claims r of None \<Rightarrow> JNull | Some c \<Rightarrow> JStr (cl_UserID c)), w)"


text \<open>C31: The middleware is sound.  A request reaches the handler only with claims of type \<open>access\<close> that
  have not expired, from a token that is genuine for an HMAC algorithm under the service's own secret;
  every other request is answered 401 and the handler does not run.\<close>

theorem middleware_sound:
  assumes "jwt_library J genuine"
  shows "(\<exists>c a. JWTMiddleware E J s h r w = h (r\<lparr>rq_Claims := Some c\<rparr>) (snd (time_now E w)) \<and> cl_TokenType c = ''access'' \<and>
      unexpired c (fst (time_now E w)) \<and> genuine (extractToken r) (HMAC a) (js_secret s)) \<or>
    (\<exists>m w'. JWTMiddleware E J s h r w = (reply_error StatusUnauthorized m, w') \<and> w' \<in> {w, snd (time_now E w)})"
  by (rule jwt_library.middleware_cases[OF assms])

theorem middleware_sound_witness:
  "\<exists>m. JWTMiddleware mem_env toy_jwt sample_jwt whoami (bearer_request ''x'') world0 =
     (reply_error StatusUnauthorized m, snd (time_now mem_env world0))"
  using middleware_sound[OF toy.jwt_library_axioms, where E = mem_env and s = sample_jwt and h = whoami
      and r = "bearer_request ''x''" and w = world0]
  by (auto simp: bearer_token toy_genuine_def JWTMiddleware_def JWTService_Validate_def toy_jwt_def split_beta Let_def)

section \<open>Rate limiting\<close>

subsection \<open>The contract of the sorted sets\<close>

type_synonym zsets = "string \<Rightarrow> string \<rightharpoonup> int"

fun zexec :: "zcmd \<Rightarrow> zsets \<Rightarrow> int \<times> zsets" where
  "zexec (ZRemRangeByScore k mx) z = (int (card {m. \<exists>v. z k m = Some v \<and> v \<le> mx}),
     z(k := (\<lambda>m. case z k m of Some v \<Rightarrow> if v \<le> mx then None else Some v | None \<Rightarrow> None)))"
| "zexec (ZCard k) z = (int (card (dom (z k))), z)"
| "zexec (ZAdd k v m) z = (if z k m = None then 1 else 0, z(k := (z k)(m \<mapsto> v)))"
| "zexec (ZExpire k d) z = (if z k = Map.empty then 0 else 1, z)"

fun zexecs :: "zcmd list \<Rightarrow> zsets \<Rightarrow> int list \<times> zsets" where
  "zexecs [] z = ([], z)"
| "zexecs (c # cs) z = (fst (zexec c z) # fst (zexecs cs (snd (zexec c z))), snd (zexecs cs (snd (zexec c z))))"

text \<open>A pipeline that succeeds has run its commands in order; reading the clock changes no set.\<close>

locale sorted_sets =
  fixes E :: "('w, 'z) env_scheme" and Z :: "'w zredis" and zv :: "'w \<Rightarrow> zsets"
  assumes pipeline: "z_pipeline Z cs w = (Inr rs, w') \<Longrightarrow> zexecs cs (zv w) = (rs, zv w')"
    and clock: "zv (snd (time_now E w)) = zv w"
begin

lemma Allow_result:
  assumes "RateLimiter_Allow E Z rl u w = (Inr b, w')" "now = fst (time_now E w)" "k = rate_key rl u"
  defines "keep \<equiv> \<lambda>m. case zv w k m of Some v \<Rightarrow> if v \<le> UnixMicro (now - rl_Window rl) then None else Some v | None \<Rightarrow> None"
  shows "b \<longleftrightarrow> int (card (dom keep)) < rl_Limit rl" "zv w' k = keep(show_int (UnixNano now) \<mapsto> UnixMicro now)"
proof -
  obtain rs where "z_pipeline Z [ZRemRangeByScore k (UnixMicro (now - rl_Window rl)), ZCard k,
      ZAdd k (UnixMicro now) (show_int (UnixNano now)), ZExpire k (rl_Window rl + Second)] (snd (time_now E w)) = (Inr rs, w')"
    "b \<longleftrightarrow> rs ! 1 < rl_Limit rl"
    using assms(1-3) by (auto simp: RateLimiter_Allow_def Let_def split_beta prod_eq_iff split: sum.splits)
  then have z: "zexecs [ZRemRangeByScore k (UnixMicro (now - rl_Window rl)), ZCard k,
      ZAdd k (UnixMicro now) (show_int (UnixNano now)), ZExpire k (rl_Window rl + Second)] (zv w) = (rs, zv w')"
    and b: "b \<longleftrightarrow> rs ! 1 < rl_Limit rl"
    using pipeline clock by metis+
  show "b \<longleftrightarrow> int (card (dom keep)) < rl_Limit rl" using z b by (auto simp: keep_def)
  show "zv w' k = keep(show_int (UnixNano now) \<mapsto> UnixMicro now)"
    using arg_cong[OF z, of "\<lambda>x. snd x k"] by (simp add: keep_def)
qed

end

subsection \<open>Runs\<close>

text \<open>The requests of one user under one rule, newest first, each with its time and the answer.  The
  clock is strictly increasing; between two requests the set is left alone.\<close>

inductive rate_run :: "('w, 'z) env_scheme \<Rightarrow> 'w zredis \<Rightarrow> ('w \<Rightarrow> zsets) \<Rightarrow> RateLimit \<Rightarrow> string \<Rightarrow> 'w \<Rightarrow> (time \<times> bool) list \<Rightarrow> bool"
  for E Z zv rl u where
  fresh: "zv w (rate_key rl u) = Map.empty \<Longrightarrow> rate_run E Z zv rl u w []"
| idle: "rate_run E Z zv rl u w h \<Longrightarrow> zv w' (rate_key rl u) = zv w (rate_key rl u) \<Longrightarrow> rate_run E Z zv rl u w' h"
| call: "rate_run E Z zv rl u w h \<Longrightarrow> now = fst (time_now E w) \<Longrightarrow> \<forall>t\<in>fst ` set h. t < now \<Longrightarrow>
    RateLimiter_Allow E Z rl u w = (Inr b, w') \<Longrightarrow> rate_run E Z zv rl u w' ((now, b) # h)"

text \<open>The requests a set still remembers at time \<open>now\<close>.\<close>

definition in_window :: "RateLimit \<Rightarrow> time \<Rightarrow> (time \<times> bool) list \<Rightarrow> time set" where
  "in_window rl now h = {s \<in> fst ` set h. UnixMicro (now - rl_Window rl) < UnixMicro s}"

definition member_of :: "time \<Rightarrow> string" where
  "member_of s = show_int (UnixNano s)"

lemma member_of_inj: "inj member_of"
  by (rule injI) (auto simp: member_of_def UnixNano_def dest: show_int_inj)

lemma UnixMicro_mono: "s \<le> t \<Longrightarrow> UnixMicro s \<le> UnixMicro t"
  by (simp add: UnixMicro_def zdiv_mono1)

context sorted_sets
begin

lemma rate_run_set:
  assumes "rate_run E Z zv rl u w h" "1000 \<le> rl_Window rl"
  shows "\<exists>cut. (\<forall>m v. zv w (rate_key rl u) m = Some v \<longleftrightarrow> (\<exists>s\<in>fst ` set h. m = member_of s \<and> v = UnixMicro s \<and> cut < UnixMicro s)) \<and>
    (\<forall>now. (\<forall>t\<in>fst ` set h. t < now) \<longrightarrow> h \<noteq> [] \<longrightarrow> cut \<le> UnixMicro (now - rl_Window rl))"
  using assms(1)
proof induction
  case (call w h now b w')
  then obtain cut where m: "\<And>m v. zv w (rate_key rl u) m = Some v \<longleftrightarrow>
      (\<exists>s\<in>fst ` set h. m = member_of s \<and> v = UnixMicro s \<and> cut < UnixMicro s)"
    and cut: "h \<noteq> [] \<Longrightarrow> cut \<le> UnixMicro (now - rl_Window rl)" by blast
  let ?c = "UnixMicro (now - rl_Window rl)"
  have "zv w' (rate_key rl u) m = Some v \<longleftrightarrow> (\<exists>s\<in>insert now (fst ` set h). m = member_of s \<and> v = UnixMicro s \<and> ?c < UnixMicro s)" for m v
  proof (cases "m = member_of now")
    case True
    have "?c < UnixMicro now" using assms(2) unfolding UnixMicro_def by linarith
    moreover have "member_of now = member_of s \<Longrightarrow> s = now" for s using injD[OF member_of_inj] by metis
    ultimately show ?thesis using Allow_result(2)[OF call.hyps(4,2) refl] True by (auto simp: member_of_def)
  next
    case False
    then have "zv w' (rate_key rl u) m = Some v \<longleftrightarrow> zv w (rate_key rl u) m = Some v \<and> ?c < v"
      using Allow_result(2)[OF call.hyps(4,2) refl] by (auto simp: member_of_def split: option.splits)
    then show ?thesis using False m cut by fastforce
  qed
  moreover have "?c \<le> UnixMicro (t - rl_Window rl)" if "now < t" for t using that by (intro UnixMicro_mono) simp
  ultimately show ?case by (intro exI[of _ ?c]) simp
qed auto

lemma rate_run_call:
  assumes "rate_run E Z zv rl u w h" "1000 \<le> rl_Window rl" "now = fst (time_now E w)" "\<forall>t\<in>fst ` set h. t < now"
    and "RateLimiter_Allow E Z rl u w = (Inr b, w')"
  shows "b \<longleftrightarrow> int (card (in_window rl now h)) < rl_Limit rl"
proof -
  let ?c = "UnixMicro (now - rl_Window rl)"
  obtain cut where m: "\<And>m v. zv w (rate_key rl u) m = Some v \<longleftrightarrow>
      (\<exists>s\<in>fst ` set h. m = member_of s \<and> v = UnixMicro s \<and> cut < UnixMicro s)" and cut: "h \<noteq> [] \<Longrightarrow> cut \<le> ?c"
    using rate_run_set[OF assms(1,2)] assms(4) by blast
  have "dom (\<lambda>x. case zv w (rate_key rl u) x of Some v \<Rightarrow> if v \<le> ?c then None else Some v | None \<Rightarrow> None) =
      {x. \<exists>v. zv w (rate_key rl u) x = Some v \<and> ?c < v}"
  proof (rule set_eqI)
    fix x
    show "x \<in> dom (\<lambda>x. case zv w (rate_key rl u) x of Some v \<Rightarrow> if v \<le> ?c then None else Some v | None \<Rightarrow> None) \<longleftrightarrow>
      x \<in> {x. \<exists>v. zv w (rate_key rl u) x = Some v \<and> ?c < v}"
      by (cases "zv w (rate_key rl u) x") (auto simp: dom_def)
  qed
  also have "\<dots> = member_of ` in_window rl now h"
    unfolding m in_window_def using cut by (cases "h = []") fastforce+
  finally show ?thesis
    using Allow_result(1)[OF assms(5,3) refl] by (simp add: card_image[OF inj_on_subset[OF member_of_inj]])
qed

end

subsection \<open>An instance\<close>

text \<open>A world that carries its sorted sets and runs every pipeline.\<close>

record zworld = world + w_zsets :: zsets

definition mem_zredis :: "zworld zredis" where
  "mem_zredis = \<lparr>z_pipeline = (\<lambda>cs w. (Inr (fst (zexecs cs (w_zsets w))), w\<lparr>w_zsets := snd (zexecs cs (w_zsets w))\<rparr>))\<rparr>"

interpretation memz: sorted_sets mem_env mem_zredis w_zsets
  by unfold_locales (auto simp: mem_zredis_def mem_env_def)

definition zworld0 :: zworld where
  "zworld0 = world.extend world0 \<lparr>w_zsets = (\<lambda>_. Map.empty)\<rparr>"

definition sample_rule :: RateLimit where
  "sample_rule = \<lparr>rl_Key = ''api'', rl_Limit = 1, rl_Window = Minute\<rparr>"

definition sample_first :: "bool result \<times> zworld" where
  "sample_first = RateLimiter_Allow mem_env mem_zredis sample_rule ''alice'' zworld0"

lemma zworld0_simps: "w_zsets zworld0 = (\<lambda>_. Map.empty)" "w_clock zworld0 = 0"
  by (simp_all add: zworld0_def world.defs world0_def)

lemma sample_times: "fst (time_now mem_env zworld0) = 1" "fst (time_now mem_env (snd sample_first)) = 2"
  by (simp_all add: sample_first_def RateLimiter_Allow_def mem_env_def mem_zredis_def zworld0_simps Let_def)

lemma sample_first_run:
  "sample_first = (Inr True, snd sample_first)"
  "rate_run mem_env mem_zredis w_zsets sample_rule ''alice'' (snd sample_first) [(1, True)]"
proof -
  show f: "sample_first = (Inr True, snd sample_first)"
    by (simp add: sample_first_def RateLimiter_Allow_def mem_env_def mem_zredis_def zworld0_simps Let_def sample_rule_def)
  show "rate_run mem_env mem_zredis w_zsets sample_rule ''alice'' (snd sample_first) [(1, True)]"
  proof (rule rate_run.call)
    show "rate_run mem_env mem_zredis w_zsets sample_rule ''alice'' zworld0 []"
      by (rule rate_run.fresh) (simp add: zworld0_simps)
    show "RateLimiter_Allow mem_env mem_zredis sample_rule ''alice'' zworld0 = (Inr True, snd sample_first)"
      using f by (simp only: sample_first_def)
  qed (simp_all add: sample_times)
qed

text \<open>The rate limiter is a sliding window over all requests.  In every run of one user under one
  rule, a request is allowed exactly when fewer than \<open>Limit\<close> requests were made in the window before
  it, where refused requests count as well.\<close>

theorem rate_limit_exact:
  assumes "sorted_sets E Z zv" "rate_run E Z zv rl u w h" "1000 \<le> rl_Window rl"
    and "now = fst (time_now E w)" "\<forall>t\<in>fst ` set h. t < now"
    and "RateLimiter_Allow E Z rl u w = (Inr b, w')"
  shows "b \<longleftrightarrow> int (card {s \<in> fst ` set h. UnixMicro (now - rl_Window rl) < UnixMicro s}) < rl_Limit rl"
  using sorted_sets.rate_run_call[OF assms] by (simp add: in_window_def)

theorem rate_limit_exact_witness:
  "fst (RateLimiter_Allow mem_env mem_zredis sample_rule ''alice'' (snd sample_first)) = Inr False"
proof -
  obtain b where b: "RateLimiter_Allow mem_env mem_zredis sample_rule ''alice'' (snd sample_first) =
      (Inr b, snd (RateLimiter_Allow mem_env mem_zredis sample_rule ''alice'' (snd sample_first)))"
    by (simp add: RateLimiter_Allow_def mem_zredis_def Let_def split_beta)
  have w: "1000 \<le> rl_Window sample_rule" by (simp add: sample_rule_def Minute_def Second_def)
  have "{s \<in> fst ` set [(1::int, True)]. UnixMicro (2 - rl_Window sample_rule) < UnixMicro s} = {1}"
    by (auto simp: UnixMicro_def sample_rule_def Minute_def Second_def)
  then have "\<not> b"
    using rate_limit_exact[OF memz.sorted_sets_axioms sample_first_run(2) w refl _ b]
    by (simp add: sample_times) (simp add: sample_rule_def)
  then show ?thesis using b by (metis fst_conv)
qed

lemma rate_run_prefix:
  assumes "sorted_sets E Z zv" "rate_run E Z zv rl u w h" "1000 \<le> rl_Window rl"
  shows "(now, True) \<in> set h \<Longrightarrow> \<exists>h' w1 w2. rate_run E Z zv rl u w1 h' \<and> now = fst (time_now E w1) \<and>
    (\<forall>t\<in>fst ` set h'. t < now) \<and> RateLimiter_Allow E Z rl u w1 = (Inr True, w2) \<and> {e \<in> set h. fst e < now} \<subseteq> set h'"
  using assms(2)
proof induction
  case (call w h n b w')
  show ?case
  proof (cases "(now, True) = (n, b)")
    case True
    then have "rate_run E Z zv rl u w h \<and> now = fst (time_now E w) \<and> (\<forall>t\<in>fst ` set h. t < now) \<and>
      RateLimiter_Allow E Z rl u w = (Inr True, w') \<and> {e \<in> set ((n, b) # h). fst e < now} \<subseteq> set h"
      using call by auto
    then show ?thesis by blast
  next
    case False
    then have i: "(now, True) \<in> set h" using call.prems by auto
    then have "now < n" using call.hyps(3) by force
    then have "{e \<in> set ((n, b) # h). fst e < now} = {e \<in> set h. fst e < now}" by auto
    then show ?thesis using call.IH[OF i] by simp
  qed
qed auto



end
