(* ===== verification/Session_Api.thy ===== *)
theory Session_Api
  imports Auth_Properties Orchestration_Rooms
begin

text \<open>
  \<open>internal/session/handler.go\<close>: the REST interface of the orchestrator: routing, the handlers of the
  session and room routes with every error status, and the path helpers.  A path is a string, as are
  the identifiers taken from it.
\<close>

section \<open>Path helpers\<close>

definition matchPath :: "string \<Rightarrow> string \<Rightarrow> string \<Rightarrow> bool" where
  "matchPath path prefix suffix =
    (if length path \<le> length prefix + length suffix then False
     else take (length prefix) path = prefix \<and> drop (length path - length suffix) path = suffix)"

definition matchPrefix :: "string \<Rightarrow> string \<Rightarrow> bool" where
  "matchPrefix path prefix =
    (if length path \<le> length prefix then False
     else if CHR ''/'' \<in> set (drop (length prefix) path) then False
     else take (length prefix) path = prefix)"

definition extractID :: "string \<Rightarrow> string \<Rightarrow> string" where
  "extractID path prefix =
    (if length path \<le> length prefix then []
     else let i = drop (length prefix) path in
       if i \<noteq> [] \<and> last i = CHR ''/'' then butlast i else i)"

definition extractSegment :: "string \<Rightarrow> string \<Rightarrow> string \<Rightarrow> string" where
  "extractSegment path prefix suffix =
    (if length path \<le> length prefix + length suffix then []
     else take (length path - length suffix - length prefix) (drop (length prefix) path))"

definition sessionsPath :: string where "sessionsPath = ''/api/v1/sessions/''"
definition roomsPath :: string where "roomsPath = ''/api/v1/rooms/''"

section \<open>Bodies\<close>

record createBody =
  cb_CalleeID :: string
  cb_CallType :: string
  cb_HasVideo :: bool

definition dec_createBody :: "json \<Rightarrow> createBody result" where
  "dec_createBody = dec_obj (\<lambda>ob. rbind (dec_str (fld ob ''callee_id'')) (\<lambda>c. rbind (dec_str (fld ob ''call_type'')) (\<lambda>t.
     rbind (dec_bool (fld ob ''has_video'')) (\<lambda>v. Inr \<lparr>cb_CalleeID = c, cb_CallType = t, cb_HasVideo = v\<rparr>))))"

definition dec_joinBody :: "json \<Rightarrow> string result" where
  "dec_joinBody = dec_obj (\<lambda>ob. dec_str (fld ob ''role''))"

text \<open>A missing or null pointer field leaves the field of \<open>MediaState\<close> at its zero value.\<close>

definition dec_UpdateMediaRequest :: "json \<Rightarrow> MediaState result" where
  "dec_UpdateMediaRequest = dec_obj (\<lambda>ob. rbind (dec_bool (fld ob ''audio_enabled'')) (\<lambda>a. rbind (dec_bool (fld ob ''video_enabled'')) (\<lambda>v.
     rbind (dec_bool (fld ob ''screen_sharing'')) (\<lambda>s. Inr \<lparr>m_AudioEnabled = a, m_VideoEnabled = v, m_ScreenSharing = s\<rparr>))))"

definition dec_EndSessionBody :: "json \<Rightarrow> string result" where
  "dec_EndSessionBody = dec_obj (\<lambda>ob. dec_str (fld ob ''reason''))"

definition dec_createRoomBody :: "json \<Rightarrow> (string list \<times> string) result" where
  "dec_createRoomBody = dec_obj (\<lambda>ob. rbind (dec_list dec_str (fld ob ''participants'')) (\<lambda>ps.
     rbind (dec_str (fld ob ''call_type'')) (\<lambda>t. Inr (ps, t))))"

definition dec_inviteBody :: "json \<Rightarrow> string list result" where
  "dec_inviteBody = dec_obj (\<lambda>ob. dec_list dec_str (fld ob ''invitees''))"

text \<open>A nil slice is written as \<open>null\<close>; the only empty list of TURN servers a service is built with is nil.\<close>

definition turn_json :: "TurnCredentials \<Rightarrow> json" where
  "turn_json c = JObj [(''username'', JStr (tc_Username c)), (''password'', JStr (tc_Password c)), (''ttl'', JNum (tc_TTL c)),
     (''uris'', if tc_URIs c = [] then JNull else JArr (map JStr (tc_URIs c)))]"

definition omit_turn :: "TurnCredentials option \<Rightarrow> (string \<times> json) list" where
  "omit_turn c = (case c of None \<Rightarrow> [] | Some c \<Rightarrow> [(''turn_credentials'', turn_json c)])"

definition create_json :: "CreateSessionResponse \<Rightarrow> json" where
  "create_json r = JObj ([(''call_id'', JStr (cp_CallID r)), (''topology'', JStr (cp_Topology r))] @ omit_turn (cp_TurnCredentials r) @
     omit_str ''livekit_token'' (cp_LiveKitToken r) @ omit_str ''livekit_url'' (cp_LiveKitURL r))"

definition join_json :: "JoinSessionResponse \<Rightarrow> json" where
  "join_json r = JObj ([(''topology'', JStr (jp_Topology r))] @ omit_turn (jp_TurnCredentials r) @
     omit_str ''livekit_token'' (jp_LiveKitToken r) @ omit_str ''livekit_url'' (jp_LiveKitURL r) @ [(''escalated'', JBool (jp_Escalated r))])"

definition group_json :: "CreateGroupResponse \<Rightarrow> json" where
  "group_json r = JObj ([(''room_id'', JStr (gp_RoomID r)), (''topology'', JStr (gp_Topology r)), (''livekit_token'', JStr (gp_LiveKitToken r)),
     (''livekit_url'', JStr (gp_LiveKitURL r)), (''participants'', JArr (map JStr (gp_Participants r)))] @ omit_turn (gp_TurnCredentials r))"

text \<open>A slice that was never appended to is \<open>nil\<close> and written as \<open>null\<close>.\<close>

definition names_json :: "string list \<Rightarrow> json" where
  "names_json xs = (if xs = [] then JNull else JArr (map JStr xs))"

definition invite_json :: "InviteToRoomResponse \<Rightarrow> json" where
  "invite_json r = JObj [(''invited'', names_json (ir_Invited r)), (''skipped'', names_json (ir_Skipped r))]"

definition status_json :: "string \<Rightarrow> json" where
  "status_json s = JObj [(''status'', JStr s)]"

section \<open>Session routes\<close>

text \<open>Every handler but the list first asks for the claims of the middleware.\<close>

definition with_claims :: "request \<Rightarrow> (Claims \<Rightarrow> 'w \<Rightarrow> response \<times> 'w) \<Rightarrow> 'w \<Rightarrow> response \<times> 'w" where
  "with_claims r f w = (case ClaimsFromContext r of
      None \<Rightarrow> (reply_error StatusUnauthorized ''unauthorized'', w) | Some claims \<Rightarrow> f claims w)"

definition with_id :: "string \<Rightarrow> string \<Rightarrow> (string \<Rightarrow> 'w \<Rightarrow> response \<times> 'w) \<Rightarrow> 'w \<Rightarrow> response \<times> 'w" where
  "with_id i missing f w = (if i = [] then (reply_error StatusBadRequest missing, w) else f i w)"

definition handleCreateSession :: "('w, 'z) env_scheme \<Rightarrow> Orchestrator \<Rightarrow> 'w handler" where
  "handleCreateSession E orc r = with_claims r (\<lambda>claims w.
    case decode_body dec_createBody r of
      Inl _ \<Rightarrow> (reply_error StatusBadRequest ''invalid_body'', w)
    | Inr body \<Rightarrow>
       if cb_CalleeID body = [] \<or> cb_CallType body = []
       then (reply_error StatusBadRequest ''callee_id and call_type required'', w)
       else
        (let (res, w1) = Orchestrator_CreateSession E orc \<lparr>cq_CallerID = cl_UserID claims, cq_CalleeID = cb_CalleeID body,
               cq_CallType = cb_CallType body, cq_HasVideo = cb_HasVideo body, cq_Region = ''default''\<rparr> w
         in case res of
              Inl e \<Rightarrow> (reply_error (if e = Session_Store.ErrUserBusy \<or> e = ErrAlreadyInCall then StatusConflict
                          else StatusInternalServerError) (Error_text e), w1)
            | Inr resp \<Rightarrow> (reply StatusCreated (create_json resp), w1)))"

definition handleGetSession :: "('w, 'z) env_scheme \<Rightarrow> 'w handler" where
  "handleGetSession E r = with_claims r (\<lambda>_. with_id (extractID (rq_Path r) sessionsPath) ''missing call_id'' (\<lambda>callID w.
    (let (res, w1) = Orchestrator_GetSession E callID w in
     case res of
       Inl e \<Rightarrow> (if e = Session_Store.ErrSessionNotFound then reply_error StatusNotFound ''session_not_found''
                else reply_error StatusInternalServerError ''internal_error'', w1)
     | Inr sess \<Rightarrow> (reply StatusOK (marshal_Session sess), w1))))"

definition handleListSessions :: "'w handler" where
  "handleListSessions r w = (reply StatusOK (JArr []), w)"

text \<open>A body that does not decode, and an empty role, stand for a plain participant.\<close>

definition join_role :: "request \<Rightarrow> Role" where
  "join_role r = (case decode_body dec_joinBody r of Inl _ \<Rightarrow> RoleParticipant | Inr role \<Rightarrow> if role = [] then RoleParticipant else role)"

definition join_status :: "goerr \<Rightarrow> nat" where
  "join_status e = (if e = Session_Store.ErrSessionNotFound then StatusNotFound
     else if e = Session_Store.ErrUserBusy \<or> e = ErrAlreadyInCall then StatusConflict
     else if e = ErrMaxParticipants then StatusForbidden
     else StatusInternalServerError)"

definition handleJoinSession :: "('w, 'z) env_scheme \<Rightarrow> Orchestrator \<Rightarrow> 'w handler" where
  "handleJoinSession E orc r = with_claims r (\<lambda>claims.
    with_id (extractSegment (rq_Path r) sessionsPath ''/join'') ''missing call_id'' (\<lambda>callID w.
    (let (res, w1) = Orchestrator_JoinSession E orc \<lparr>jq_CallID = callID, jq_UserID = cl_UserID claims, jq_Role = join_role r,
           jq_HasVideo = False\<rparr> w
     in case res of
          Inl e \<Rightarrow> (reply_error (join_status e) (Error_text e), w1)
        | Inr resp \<Rightarrow> (reply StatusOK (join_json resp), w1))))"

text \<open>The answer of an operation that returns only an error.\<close>

definition done_or_500 :: "string \<Rightarrow> unit result \<times> 'w \<Rightarrow> response \<times> 'w" where
  "done_or_500 s x = (case fst x of
      Inl e \<Rightarrow> (reply_error StatusInternalServerError (Error_text e), snd x) | Inr _ \<Rightarrow> (reply StatusOK (status_json s), snd x))"

definition handleLeaveSession :: "('w, 'z) env_scheme \<Rightarrow> Orchestrator \<Rightarrow> 'w handler" where
  "handleLeaveSession E orc r = with_claims r (\<lambda>claims.
    with_id (extractSegment (rq_Path r) sessionsPath ''/leave'') ''missing call_id'' (\<lambda>callID w.
      done_or_500 ''left'' (Orchestrator_LeaveSession E orc callID (cl_UserID claims) w)))"

definition end_reason :: "request \<Rightarrow> string" where
  "end_reason r = (case decode_body dec_EndSessionBody r of Inl _ \<Rightarrow> ''user_ended'' | Inr reason \<Rightarrow> if reason = [] then ''user_ended'' else reason)"

definition handleEndSession :: "('w, 'z) env_scheme \<Rightarrow> Orchestrator \<Rightarrow> 'w handler" where
  "handleEndSession E orc r = with_claims r (\<lambda>_.
    with_id (extractSegment (rq_Path r) sessionsPath ''/end'') ''missing call_id'' (\<lambda>callID w.
      done_or_500 ''ended'' (Orchestrator_EndSession E orc callID (end_reason r) w)))"

definition handleUpdateMedia :: "('w, 'z) env_scheme \<Rightarrow> 'w handler" where
  "handleUpdateMedia E r = with_claims r (\<lambda>claims.
    with_id (extractSegment (rq_Path r) sessionsPath ''/media'') ''missing call_id'' (\<lambda>callID w.
      case decode_body dec_UpdateMediaRequest r of
        Inl _ \<Rightarrow> (reply_error StatusBadRequest ''invalid_body'', w)
      | Inr media \<Rightarrow> done_or_500 ''updated'' (Orchestrator_UpdateMediaState E callID (cl_UserID claims) media w)))"

definition handleGetTurnCredentials :: "('w, 'z) env_scheme \<Rightarrow> Orchestrator \<Rightarrow> 'w handler" where
  "handleGetTurnCredentials E orc r = with_claims r (\<lambda>claims w.
    (let (creds, w1) = Orchestrator_GetTurnCredentials E orc (cl_UserID claims) w in (reply StatusOK (turn_json creds), w1)))"

section \<open>Room routes\<close>

definition handleCreateRoom :: "('w, 'z) env_scheme \<Rightarrow> Orchestrator \<Rightarrow> 'w handler" where
  "handleCreateRoom E orc r = with_claims r (\<lambda>claims w.
    case decode_body dec_createRoomBody r of
      Inl _ \<Rightarrow> (reply_error StatusBadRequest ''invalid_body'', w)
    | Inr (participants, callType) \<Rightarrow>
       if participants = [] \<or> callType = []
       then (reply_error StatusBadRequest ''participants and call_type required'', w)
       else
        (let (res, w1) = Orchestrator_CreateGroupSession E orc \<lparr>gq_InitiatorID = cl_UserID claims, gq_Participants = participants,
               gq_CallType = callType, gq_Region = []\<rparr> w
         in case res of
              Inl e \<Rightarrow> (reply_error (if e = Session_Store.ErrUserBusy \<or> e = ErrAlreadyInCall then StatusConflict
                          else StatusInternalServerError) (Error_text e), w1)
            | Inr resp \<Rightarrow> (reply StatusCreated (group_json resp), w1)))"

definition handleInviteToRoom :: "('w, 'z) env_scheme \<Rightarrow> Orchestrator \<Rightarrow> 'w handler" where
  "handleInviteToRoom E orc r = with_claims r (\<lambda>claims.
    with_id (extractSegment (rq_Path r) roomsPath ''/invite'') ''missing room_id'' (\<lambda>roomID w.
      case decode_body dec_inviteBody r of
        Inl _ \<Rightarrow> (reply_error StatusBadRequest ''invalid_body'', w)
      | Inr invitees \<Rightarrow>
         if invitees = [] then (reply_error StatusBadRequest ''invitees required'', w)
         else
          (let (res, w1) = Orchestrator_InviteToRoom E orc roomID (cl_UserID claims) invitees w in
           case res of
             Inl e \<Rightarrow> (reply_error StatusInternalServerError (Error_text e), w1)
           | Inr resp \<Rightarrow> (reply StatusOK (invite_json resp), w1))))"

definition handleJoinRoom :: "('w, 'z) env_scheme \<Rightarrow> Orchestrator \<Rightarrow> 'w handler" where
  "handleJoinRoom E orc r = with_claims r (\<lambda>claims.
    with_id (extractSegment (rq_Path r) roomsPath ''/join'') ''missing room_id'' (\<lambda>roomID w.
    (let (res, w1) = Orchestrator_JoinGroupSession E orc roomID (cl_UserID claims) w in
     case res of
       Inl e \<Rightarrow> (reply_error (if e = ErrMaxParticipants then StatusForbidden else StatusInternalServerError) (Error_text e), w1)
     | Inr resp \<Rightarrow> (reply StatusOK (join_json resp), w1))))"

definition handleLeaveRoom :: "('w, 'z) env_scheme \<Rightarrow> Orchestrator \<Rightarrow> 'w handler" where
  "handleLeaveRoom E orc r = with_claims r (\<lambda>claims.
    with_id (extractSegment (rq_Path r) roomsPath ''/leave'') ''missing room_id'' (\<lambda>roomID w.
      done_or_500 ''left'' (Orchestrator_LeaveGroupSession E orc roomID (cl_UserID claims) w)))"

definition handleEndRoom :: "('w, 'z) env_scheme \<Rightarrow> Orchestrator \<Rightarrow> 'w handler" where
  "handleEndRoom E orc r = with_claims r (\<lambda>claims.
    with_id (extractSegment (rq_Path r) roomsPath ''/end'') ''missing room_id'' (\<lambda>roomID w.
    (let (res, w1) = Orchestrator_EndRoomForAll E orc roomID (cl_UserID claims) w in
     case res of
       Inl e \<Rightarrow> (reply_error (if Error_text e = ''only the host can end the room for all'' then StatusForbidden
                  else StatusInternalServerError) (Error_text e), w1)
     | Inr _ \<Rightarrow> (reply StatusOK (status_json ''closed''), w1))))"

definition handleGetRoomParticipants :: "('w, 'z) env_scheme \<Rightarrow> 'w handler" where
  "handleGetRoomParticipants E r = with_claims r (\<lambda>_.
    with_id (extractSegment (rq_Path r) roomsPath ''/participants'') ''missing room_id'' (\<lambda>roomID w.
    (let (res, w1) = Orchestrator_GetRoomParticipants E roomID w in
     case res of
       Inl e \<Rightarrow> (if e = Session_Store.ErrSessionNotFound then reply_error StatusNotFound ''room_not_found''
                else reply_error StatusInternalServerError ''internal_error'', w1)
     | Inr ps \<Rightarrow> (reply StatusOK (JArr (map marshal_Participant ps)), w1))))"

section \<open>Routing\<close>

definition Handler_ServeHTTP :: "('w, 'z) env_scheme \<Rightarrow> Orchestrator \<Rightarrow> 'w handler" where
  "Handler_ServeHTTP E orc r =
    (let path = rq_Path r; m = rq_Method r in
     if path = ''/api/v1/sessions'' \<and> m = ''POST'' then handleCreateSession E orc r
     else if path = ''/api/v1/sessions'' \<and> m = ''GET'' then handleListSessions r
     else if matchPath path sessionsPath ''/join'' \<and> m = ''POST'' then handleJoinSession E orc r
     else if matchPath path sessionsPath ''/leave'' \<and> m = ''POST'' then handleLeaveSession E orc r
     else if matchPath path sessionsPath ''/end'' \<and> m = ''POST'' then handleEndSession E orc r
     else if matchPath path sessionsPath ''/media'' \<and> m = ''PATCH'' then handleUpdateMedia E r
     else if matchPath path sessionsPath ''/turn-credentials'' \<and> m = ''GET'' then handleGetTurnCredentials E orc r
     else if matchPrefix path sessionsPath \<and> m = ''GET'' then handleGetSession E r
     else if path = ''/api/v1/rooms'' \<and> m = ''POST'' then handleCreateRoom E orc r
     else if matchPath path roomsPath ''/invite'' \<and> m = ''POST'' then handleInviteToRoom E orc r
     else if matchPath path roomsPath ''/join'' \<and> m = ''POST'' then handleJoinRoom E orc r
     else if matchPath path roomsPath ''/leave'' \<and> m = ''POST'' then handleLeaveRoom E orc r
     else if matchPath path roomsPath ''/end'' \<and> m = ''POST'' then handleEndRoom E orc r
     else if matchPath path roomsPath ''/participants'' \<and> m = ''GET'' then handleGetRoomParticipants E r
     else if matchPrefix path roomsPath \<and> m = ''GET'' then handleGetSession E r
     else (\<lambda>w. (reply_error StatusNotFound ''not_found'', w)))"

section \<open>Properties\<close>

lemma with_claims_None: "rq_Claims r = None \<Longrightarrow> with_claims r f w = (reply_error StatusUnauthorized ''unauthorized'', w)"
  by (simp add: with_claims_def ClaimsFromContext_def)

lemma with_claims_Some: "rq_Claims r = Some c \<Longrightarrow> with_claims r f w = f c w"
  by (simp add: with_claims_def ClaimsFromContext_def)

lemmas api_handlers = handleCreateSession_def handleGetSession_def handleJoinSession_def handleLeaveSession_def
  handleEndSession_def handleUpdateMedia_def handleGetTurnCredentials_def handleCreateRoom_def handleInviteToRoom_def
  handleJoinRoom_def handleLeaveRoom_def handleEndRoom_def handleGetRoomParticipants_def

text \<open>The interface without claims.  A request that carries no claims changes nothing and is
  answered 401, or 404 if no route matches; the only exception is the list of sessions, which is
  answered to everyone and is always empty.\<close>

theorem api_without_claims:
  assumes "rq_Claims r = None"
  shows "\<exists>resp. Handler_ServeHTTP E orc r w = (resp, w) \<and>
    (if rq_Path r = ''/api/v1/sessions'' \<and> rq_Method r = ''GET'' then resp = reply StatusOK (JArr [])
     else rs_Status resp \<in> {StatusUnauthorized, StatusNotFound})"
proof (cases "rq_Path r = ''/api/v1/sessions'' \<and> rq_Method r = ''GET''")
  case True
  then show ?thesis by (simp add: Handler_ServeHTTP_def handleListSessions_def)
next
  case False
  define Q where "Q = (\<lambda>f. \<exists>resp :: response. f w = (resp, w) \<and> rs_Status resp \<in> {StatusUnauthorized, StatusNotFound})"
  have c: "Q a \<Longrightarrow> Q b \<Longrightarrow> Q (if P then a else b)" for a b P by simp
  have "Q (with_claims r f)" for f by (simp add: Q_def with_claims_None[OF assms])
  note h = this
  have "Q (Handler_ServeHTTP E orc r)"
    unfolding Handler_ServeHTTP_def Let_def api_handlers
    by (simp only: False if_False) (intro c h, simp add: Q_def)
  then show ?thesis by (simp only: Q_def False if_False)
qed

theorem api_without_claims_witness:
  "rs_Status (fst (Handler_ServeHTTP mem_env sample_orc (bearer_request ''x'') world0)) = 401 \<or>
   rs_Status (fst (Handler_ServeHTTP mem_env sample_orc (bearer_request ''x'') world0)) = 404"
  using api_without_claims[of "bearer_request ''x''" mem_env sample_orc world0] by (auto simp: bearer_request_def status_defs)

subsection \<open>Identifiers in paths\<close>

lemma matchPath_build: "i \<noteq> [] \<Longrightarrow> matchPath (p @ i @ s) p s"
  by (cases i) (simp_all add: matchPath_def)

lemma extractSegment_build: "i \<noteq> [] \<Longrightarrow> extractSegment (p @ i @ s) p s = i"
  by (cases i) (simp_all add: extractSegment_def)

lemma matchPath_inv: "matchPath path p s \<Longrightarrow> \<exists>i. i \<noteq> [] \<and> path = p @ i @ s \<and> extractSegment path p s = i"
proof -
  assume m: "matchPath path p s"
  then have l: "length p + length s < length path" "take (length p) path = p" "drop (length path - length s) path = s"
    by (auto simp: matchPath_def split: if_splits)
  define i where "i = extractSegment path p s"
  have i: "i = take (length path - length s - length p) (drop (length p) path)" using l by (simp add: i_def extractSegment_def)
  define k where "k = length path - length s - length p"
  have d: "drop k (drop (length p) path) = s" using l by (simp add: k_def)
  have a: "take k (drop (length p) path) @ s = drop (length p) path"
    using append_take_drop_id[of k "drop (length p) path"] unfolding d .
  have b: "p @ drop (length p) path = path" using append_take_drop_id[of "length p" path] unfolding l(2) .
  have e: "path = p @ i @ s" unfolding i k_def[symmetric] a b ..
  have "length i = k" unfolding i k_def by simp
  then have n: "i \<noteq> []" using l(1) by (auto simp: k_def)
  show ?thesis by (rule exI[of _ i], intro conjI, rule n, rule e, rule i_def[symmetric])
qed

text \<open>A room is looked up under its identifier without the first three characters: the route for
  rooms reuses the handler for sessions, whose prefix is three characters longer.\<close>

theorem room_lookup_shifted:
  assumes "rq_Path r = roomsPath @ i" "rq_Method r = ''GET''" "rq_Claims r = Some c"
    and "CHR ''/'' \<notin> set i" "3 < length i"
  shows "Handler_ServeHTTP E orc r w =
    (let (res, w1) = Orchestrator_GetSession E (drop 3 i) w in
     case res of
       Inl e \<Rightarrow> (if e = Session_Store.ErrSessionNotFound then reply_error StatusNotFound ''session_not_found''
                else reply_error StatusInternalServerError ''internal_error'', w1)
     | Inr sess \<Rightarrow> (reply StatusOK (marshal_Session sess), w1))"
proof -
  have n: "\<not> matchPath (roomsPath @ i) p (CHR ''/'' # s)" if "p = sessionsPath \<or> p = roomsPath" for p s
  proof
    assume "matchPath (roomsPath @ i) p (CHR ''/'' # s)"
    then obtain j where j: "roomsPath @ i = p @ j @ CHR ''/'' # s" using matchPath_inv by metis
    show False
    proof (cases "p = roomsPath")
      case True
      then show False using j assms(4) by (metis append.assoc in_set_conv_decomp same_append_eq)
    next
      case False
      then show False using j that by (simp add: roomsPath_def sessionsPath_def)
    qed
  qed
  have s: "\<not> matchPrefix (roomsPath @ i) sessionsPath" by (simp add: matchPrefix_def roomsPath_def sessionsPath_def)
  have m: "matchPrefix (roomsPath @ i) roomsPath" using assms(4,5) by (cases i) (simp_all add: matchPrefix_def)
  have p: "roomsPath @ i \<noteq> ''/api/v1/sessions''" "roomsPath @ i \<noteq> ''/api/v1/rooms''" by (simp_all add: roomsPath_def)
  have d: "drop (length sessionsPath) (roomsPath @ i) = drop 3 i"
    by (simp add: roomsPath_def sessionsPath_def numeral_3_eq_3)
  have "last (drop 3 i) \<noteq> CHR ''/''" using assms(4,5) by (metis drop_eq_Nil in_set_dropD last_in_set not_le)
  then have x: "extractID (roomsPath @ i) sessionsPath = drop 3 i"
    using assms(5) unfolding extractID_def d Let_def by (simp add: roomsPath_def sessionsPath_def)
  have "Handler_ServeHTTP E orc r w = handleGetSession E r w"
    by (simp add: Handler_ServeHTTP_def assms(1,2) n s m p Let_def)
  then show ?thesis
    using assms(3,5) by (simp add: handleGetSession_def with_claims_Some with_id_def assms(1) x)
qed

subsection \<open>Who may end a session\<close>

lemma route_end:
  assumes "rq_Path r = sessionsPath @ i @ ''/end''" "rq_Method r = ''POST''" "i \<noteq> []"
  shows "Handler_ServeHTTP E orc r w = handleEndSession E orc r w"
proof -
  have e: "matchPath (sessionsPath @ i @ ''/end'') sessionsPath ''/end''" by (rule matchPath_build[OF assms(3)])
  have l: "length i \<noteq> 0" using assms(3) by simp
  have n: "\<not> matchPath (sessionsPath @ i @ ''/end'') sessionsPath (s @ [c])" if "c \<noteq> CHR ''d''" for s c
  proof
    assume "matchPath (sessionsPath @ i @ ''/end'') sessionsPath (s @ [c])"
    then obtain j where "sessionsPath @ i @ ''/end'' = sessionsPath @ j @ s @ [c]" using matchPath_inv by blast
    then have "last (sessionsPath @ i @ ''/end'') = last (sessionsPath @ j @ s @ [c])" by (rule arg_cong)
    then show False using that by simp
  qed
  have "sessionsPath @ i @ ''/end'' \<noteq> ''/api/v1/sessions''" by (simp add: sessionsPath_def)
  then show ?thesis
    using e n[of "CHR ''n''" "''/joi''"] n[of "CHR ''e''" "''/leav''"] by (simp add: Handler_ServeHTTP_def assms(1,2) Let_def)
qed

text \<open>Any user that is logged in can end any session, whether or not he takes part in it.\<close>

theorem anyone_ends_session:
  assumes svc: "services E view fate published calm" and w: "calm w" "sessions (view w) i = Some s" "s_CallID s = i"
    and r: "rq_Path r = sessionsPath @ i @ ''/end''" "rq_Method r = ''POST''" "i \<noteq> []" "rq_Claims r = Some c"
  shows "\<exists>t w'. Handler_ServeHTTP E orc r w = (reply StatusOK (status_json ''ended''), w') \<and>
    sessions (view w') = (sessions (view w))(i \<mapsto> Session_Contract.ended t (end_reason r) s)"
proof -
  have "Handler_ServeHTTP E orc r w = done_or_500 ''ended'' (Orchestrator_EndSession E orc i (end_reason r) w)"
    using r by (simp add: route_end handleEndSession_def with_claims_Some with_id_def extractSegment_build)
  then show ?thesis
    using services.EndSession_result[OF svc w, of orc "end_reason r"]
    by (auto simp: split_beta Let_def done_or_500_def)
qed

text \<open>Joining a session that does not exist is answered 500: the store's error reaches the handler
  wrapped, and is compared with the bare one.\<close>

theorem join_unknown_session:
  assumes svc: "services E view fate published calm" and w: "calm w" "view w (SessionKey i) = None"
    and r: "rq_Path r = sessionsPath @ i @ ''/join''" "i \<noteq> []" "rq_Claims r = Some c" "join_role r = RoleParticipant"
  shows "rs_Status (fst (handleJoinSession E orc r w)) = StatusInternalServerError"
proof -
  let ?p = "joining (cl_UserID c) RoleParticipant False (fst (time_now E w))"
  have c: "calm (snd (time_now E w))" "view (snd (time_now E w)) (SessionKey i) = None"
    using w by (simp_all add: services.now_calm[OF svc] services.now_view[OF svc])
  then have "fst (r_get E (SessionKey i) (snd (time_now E w))) = Inl redis_Nil"
    by (simp add: services.get_result[OF svc] services.calm_fine[OF svc])
  then have "fst (Store_AddParticipant E i ?p (maxP orc) (snd (time_now E w))) = Inl Session_Store.ErrSessionNotFound"
    by (simp add: Store_AddParticipant_def Store_Get_def split_beta Let_def)
  moreover have "CheckPermission RoleParticipant PermAcceptCall = Inr ()" by code_simp
  ultimately have "fst (Orchestrator_JoinSession E orc \<lparr>jq_CallID = i, jq_UserID = cl_UserID c, jq_Role = RoleParticipant, jq_HasVideo = False\<rparr> w) =
      Inl (Wrap ''join session'' Session_Store.ErrSessionNotFound)"
    by (simp add: Orchestrator_JoinSession_def split_beta Let_def)
  then show ?thesis
    using r by (simp add: handleJoinSession_def with_claims_Some with_id_def extractSegment_build split_beta Let_def join_status_def
        Session_Store.ErrSessionNotFound_def Session_Store.ErrUserBusy_def ErrAlreadyInCall_def ErrMaxParticipants_def)
qed

end
