(* ===== verification/Servers.thy ===== *)
theory Servers
  imports Session_Api Push Hub_Samples
begin

text \<open>
  The HTTP entry points: the routes of the orchestrator (\<open>internal/session/server.go\<close>) and of the push
  gateway (\<open>internal/push/server.go\<close>), and the WebSocket endpoint of the signaling server
  (\<open>internal/signaling/server.go\<close>, \<open>internal/signaling/handler.go\<close>).  Listening on a port, deadlines and
  shutdown belong to \<open>net/http\<close>; the upgrade of a connection belongs to the WebSocket library.
\<close>

section \<open>The orchestrator and the push gateway\<close>

definition orch_health :: "'w handler" where
  "orch_health r w = (reply StatusOK (JObj [(''service'', JStr ''orchestrator''), (''status'', JStr ''ok'')]), w)"

definition livekit_placeholder :: "'w handler" where
  "livekit_placeholder r w = (reply StatusOK JNull, w)"

text \<open>The type \<open>auth.HTTPHandler\<close> is used by the server and declared nowhere in the repository; it is
  the parameter \<open>auth\<close>.\<close>

definition Server_routes ::
  "('w, 'z) env_scheme \<Rightarrow> jwtlib \<Rightarrow> JWTService \<Rightarrow> Orchestrator \<Rightarrow> 'w handler \<Rightarrow> (string \<times> 'w handler) list" where
  "Server_routes E J s orc auth = [
     (''/health'', orch_health),
     (''/webhook/livekit'', livekit_placeholder),
     (''/api/v1/sessions'', JWTMiddleware E J s (Handler_ServeHTTP E orc)),
     (''/api/v1/sessions/'', JWTMiddleware E J s (Handler_ServeHTTP E orc)),
     (''/api/v1/rooms'', JWTMiddleware E J s (Handler_ServeHTTP E orc)),
     (''/api/v1/rooms/'', JWTMiddleware E J s (Handler_ServeHTTP E orc)),
     (''/api/v1/auth/login'', auth),
     (''/api/v1/auth/refresh'', auth),
     (''/api/v1/auth/me'', JWTMiddleware E J s auth),
     (''/v1/auth/login'', auth),
     (''/v1/auth/refresh'', auth),
     (''/v1/auth/me'', JWTMiddleware E J s auth)]"

definition orchestrator_server ::
  "('w, 'z) env_scheme \<Rightarrow> jwtlib \<Rightarrow> JWTService \<Rightarrow> Orchestrator \<Rightarrow> 'w handler \<Rightarrow> 'w handler" where
  "orchestrator_server E J s orc auth = ServeMux (Server_routes E J s orc auth)"

definition push_healthHandler :: "'w handler" where
  "push_healthHandler r w = (reply StatusOK (JObj [(''status'', JStr ''ok''), (''service'', JStr ''push-gateway'')]), w)"

definition push_routes :: "('w, 'z) env_scheme \<Rightarrow> jwtlib \<Rightarrow> JWTService \<Rightarrow> (string \<times> 'w handler) list" where
  "push_routes E J s = [
     (''/health'', push_healthHandler),
     (''/v1/push/register'', JWTMiddleware E J s (RegisterToken E)),
     (''/v1/push/unregister'', JWTMiddleware E J s (UnregisterToken E))]"

definition push_server :: "('w, 'z) env_scheme \<Rightarrow> jwtlib \<Rightarrow> JWTService \<Rightarrow> 'w handler" where
  "push_server E J s = ServeMux (push_routes E J s)"

section \<open>The WebSocket endpoint\<close>

text \<open>A request with its \<open>Origin\<close> header.  \<open>upgrade\<close> is the library's \<open>Upgrader.Upgrade\<close>, which is given the
  verdict of \<open>CheckOrigin\<close>; it answers the request itself when it fails.\<close>

record ws_request = request +
  ws_Origin :: string

record SigHandler =
  sh_jwtService :: JWTService
  sh_allowed :: "string list option"

definition NewHandler :: "JWTService \<Rightarrow> string list \<Rightarrow> SigHandler" where
  "NewHandler jwt allowedOrigins = \<lparr>sh_jwtService = jwt,
     sh_allowed = (if 0 < length allowedOrigins then Some allowedOrigins else None)\<rparr>"

definition CheckOrigin :: "SigHandler \<Rightarrow> ws_request \<Rightarrow> bool" where
  "CheckOrigin sh r = (case sh_allowed sh of None \<Rightarrow> True | Some allowed \<Rightarrow> ws_Origin r \<in> set allowed)"

definition ws_token :: "('b) request_scheme \<Rightarrow> string" where
  "ws_token r = (if rq_TokenParam r \<noteq> [] then rq_TokenParam r
     else if 7 < length (rq_Authorization r) \<and> take 7 (rq_Authorization r) = ''Bearer '' then drop 7 (rq_Authorization r)
     else [])"

datatype ws_answer = Answered response | UpgradeFailed goerr | Upgraded Client

text \<open>The client is sent on the \<open>register\<close> channel, from which the hub's loop takes it; \<open>i\<close> is the identity of
  the new connection.\<close>

definition ServeWS ::
  "('w, 'z) env_scheme \<Rightarrow> jwtlib \<Rightarrow> (ws_request \<Rightarrow> bool \<Rightarrow> 'w \<Rightarrow> unit result \<times> 'w) \<Rightarrow> SigHandler \<Rightarrow> nat \<Rightarrow> ws_request \<Rightarrow>
     Hub \<times> 'w \<Rightarrow> ws_answer \<times> Hub \<times> 'w" where
  "ServeWS E J upgrade sh i r = (\<lambda>(h, w).
    (let token = ws_token r in
     if token = [] then (Answered (http_Error StatusUnauthorized ''missing authentication token''), h, w)
     else let (v, w1) = JWTService_Validate E J (sh_jwtService sh) token w in
       case v of
         Inl _ \<Rightarrow> (Answered (http_Error StatusUnauthorized ''invalid token''), h, w1)
       | Inr claims \<Rightarrow>
          if cl_TokenType claims \<noteq> ''access'' then (Answered (http_Error StatusUnauthorized ''access token required''), h, w1)
          else let (u, w2) = upgrade r (CheckOrigin sh r) w1 in
            case u of
              Inl e \<Rightarrow> (UpgradeFailed e, h, w2)
            | Inr _ \<Rightarrow> (let (client, h1) = NewClient i (cl_UserID claims) (cl_DeviceID claims) h
                       in (Upgraded client, Run_register E client h1 w2))))"

text \<open>What the endpoint relies on: the library refuses a connection whose origin is refused.\<close>

locale ws_upgrader =
  fixes upgrade :: "ws_request \<Rightarrow> bool \<Rightarrow> 'w \<Rightarrow> unit result \<times> 'w"
  assumes refuses_origin: "\<not> is_ok (fst (upgrade r False w))"
begin

lemma upgraded_origin: "upgrade r ok w = (Inr x, w') \<Longrightarrow> ok"
  using refuses_origin[of r w] by (cases ok) auto

end

section \<open>Properties\<close>

text \<open>The request reached the handler \<open>g\<close> with claims that may be trusted.\<close>

definition trusted :: "(string \<Rightarrow> jwt_alg \<Rightarrow> string \<Rightarrow> bool) \<Rightarrow> JWTService \<Rightarrow> string \<Rightarrow> time \<Rightarrow> Claims \<Rightarrow> bool" where
  "trusted genuine s token now c = (cl_TokenType c = ''access'' \<and> unexpired c now \<and> (\<exists>a. genuine token (HMAC a) (js_secret s)))"

definition turned_away :: "('w, 'z) env_scheme \<Rightarrow> string set \<Rightarrow> request \<Rightarrow> 'w \<Rightarrow> response \<times> 'w \<Rightarrow> bool" where
  "turned_away E public r w = (\<lambda>(resp, w'). w' \<in> {w, snd (time_now E w)} \<and>
     (rs_Status resp \<in> {301, StatusUnauthorized, StatusNotFound} \<or> rs_Status resp = StatusOK \<and> w' = w \<and> rq_Path r \<in> public))"

text \<open>A route is behind the middleware, or answers without touching anything, or is left open.\<close>

definition route_ok ::
  "('w, 'z) env_scheme \<Rightarrow> jwtlib \<Rightarrow> JWTService \<Rightarrow> 'w handler set \<Rightarrow> string set \<Rightarrow> string set \<Rightarrow> string \<times> 'w handler \<Rightarrow> bool" where
  "route_ok E J s G public unguarded = (\<lambda>(pat, h).
     (\<exists>g\<in>G. h = JWTMiddleware E J s g) \<or> pat \<in> public \<and> last pat \<noteq> CHR ''/'' \<and> (\<forall>r w. \<exists>b. h r w = (reply StatusOK b, w)) \<or>
     pat \<in> unguarded \<and> last pat \<noteq> CHR ''/'')"

lemma route_ok_guarded: "g \<in> G \<Longrightarrow> route_ok E J s G public unguarded (pat, JWTMiddleware E J s g)"
  by (auto simp: route_ok_def)

lemma route_ok_static: "pat \<in> public \<Longrightarrow> last pat \<noteq> CHR ''/'' \<Longrightarrow> route_ok E J s G public unguarded (pat, orch_health)"
  "pat \<in> public \<Longrightarrow> last pat \<noteq> CHR ''/'' \<Longrightarrow> route_ok E J s G public unguarded (pat, livekit_placeholder)"
  "pat \<in> public \<Longrightarrow> last pat \<noteq> CHR ''/'' \<Longrightarrow> route_ok E J s G public unguarded (pat, push_healthHandler)"
  by (auto simp: route_ok_def orch_health_def livekit_placeholder_def push_healthHandler_def)

lemma route_ok_open: "pat \<in> unguarded \<Longrightarrow> last pat \<noteq> CHR ''/'' \<Longrightarrow> route_ok E J s G public unguarded (pat, h)"
  by (simp add: route_ok_def)

lemmas route_oks = route_ok_guarded route_ok_static route_ok_open

lemma mux_guarded:
  assumes J: "jwt_library J genuine" and routes: "list_all (route_ok E J s G public unguarded) pats"
    and path: "rq_Path r \<notin> unguarded"
  shows "(\<exists>g\<in>G. \<exists>c. ServeMux pats r w = g (r\<lparr>rq_Claims := Some c\<rparr>) (snd (time_now E w)) \<and>
      trusted genuine s (extractToken r) (fst (time_now E w)) c) \<or> turned_away E public r w (ServeMux pats r w)"
proof (cases "cleanPath (rq_Path r) = rq_Path r \<and> mux_find pats (rq_Path r) \<noteq> None \<and>
    ServeMux pats r w \<noteq> (redirect (rq_Path r @ ''/''), w)")
  case False
  then show ?thesis
    by (auto simp: ServeMux_def Let_def turned_away_def redirect_def http_Error_def status_defs split: if_splits option.splits)
next
  case True
  then obtain q h where f: "mux_find pats (rq_Path r) = Some (q, h)" and e: "ServeMux pats r w = h r w"
    by (auto simp: ServeMux_def Let_def split: if_splits)
  from mux_find_set[OF f] have q: "(q, h) \<in> set pats" "last q \<noteq> CHR ''/'' \<Longrightarrow> q = rq_Path r" by auto
  from routes q(1) have "route_ok E J s G public unguarded (q, h)" by (auto simp: list_all_iff)
  then consider (guarded) g where "g \<in> G" "h = JWTMiddleware E J s g"
    | (static) b where "rq_Path r \<in> public" "h r w = (reply StatusOK b, w)"
    using q(2) path unfolding route_ok_def by fastforce
  then show ?thesis
  proof cases
    case guarded
    then show ?thesis
      using jwt_library.middleware_cases[OF J, of E s g r w] unfolding e
      by (auto simp: trusted_def turned_away_def)
  next
    case static
    then show ?thesis by (simp add: e turned_away_def)
  qed
qed

text \<open>C36: The protected interfaces stay behind the token check.  On the orchestrator, whatever the path is
  (clean or not, with or without a trailing slash) and apart from the log-in and refresh routes, a request
  reaches the session handler or the account handler only with unexpired access claims of a token genuine
  under the service's secret; the same holds for the token registration of the push gateway.  Every other
  request is redirected or answered 401 or 404, or is one of the health and webhook routes, which touch
  nothing; in all these cases nothing but the clock is read.\<close>

theorem servers_guarded:
  assumes "jwt_library J genuine"
  shows "(rq_Path r \<notin> {''/api/v1/auth/login'', ''/api/v1/auth/refresh'', ''/v1/auth/login'', ''/v1/auth/refresh''} \<longrightarrow>
      (\<exists>g\<in>{Handler_ServeHTTP E orc, auth}. \<exists>c. orchestrator_server E J s orc auth r w = g (r\<lparr>rq_Claims := Some c\<rparr>) (snd (time_now E w)) \<and>
        trusted genuine s (extractToken r) (fst (time_now E w)) c) \<or>
      turned_away E {''/health'', ''/webhook/livekit''} r w (orchestrator_server E J s orc auth r w)) \<and>
    ((\<exists>g\<in>{RegisterToken E, UnregisterToken E}. \<exists>c. push_server E J s r w = g (r\<lparr>rq_Claims := Some c\<rparr>) (snd (time_now E w)) \<and>
        trusted genuine s (extractToken r) (fst (time_now E w)) c) \<or>
      turned_away E {''/health''} r w (push_server E J s r w))"
proof (intro conjI impI)
  let ?G = "{Handler_ServeHTTP E orc, auth}" and ?open = "{''/api/v1/auth/login'', ''/api/v1/auth/refresh'', ''/v1/auth/login'', ''/v1/auth/refresh''}"
  assume "rq_Path r \<notin> ?open"
  moreover have "list_all (route_ok E J s ?G {''/health'', ''/webhook/livekit''} ?open) (Server_routes E J s orc auth)"
    unfolding Server_routes_def list.pred_inject(2) by (intro conjI; (rule route_oks list.pred_inject(1); simp))
  ultimately show "(\<exists>g\<in>?G. \<exists>c. orchestrator_server E J s orc auth r w = g (r\<lparr>rq_Claims := Some c\<rparr>) (snd (time_now E w)) \<and>
      trusted genuine s (extractToken r) (fst (time_now E w)) c) \<or> turned_away E {''/health'', ''/webhook/livekit''} r w (orchestrator_server E J s orc auth r w)"
    unfolding orchestrator_server_def by (intro mux_guarded[OF assms])
next
  let ?G = "{RegisterToken E, UnregisterToken E}"
  have "list_all (route_ok E J s ?G {''/health''} {}) (push_routes E J s)"
    unfolding push_routes_def list.pred_inject(2) by (intro conjI; (rule route_oks list.pred_inject(1); simp))
  then show "(\<exists>g\<in>?G. \<exists>c. push_server E J s r w = g (r\<lparr>rq_Claims := Some c\<rparr>) (snd (time_now E w)) \<and>
      trusted genuine s (extractToken r) (fst (time_now E w)) c) \<or> turned_away E {''/health''} r w (push_server E J s r w)"
    unfolding push_server_def by (rule mux_guarded[OF assms, where unguarded = "{}"]) simp
qed

theorem servers_guarded_witness:
  "turned_away mem_env {''/health''} (bearer_request ''x'') world0 (push_server mem_env toy_jwt sample_jwt (bearer_request ''x'') world0)"
  using servers_guarded[OF toy.jwt_library_axioms, where E = mem_env and s = sample_jwt and orc = sample_orc and auth = whoami
      and r = "bearer_request ''x''" and w = world0]
  by (auto simp: trusted_def bearer_token toy_genuine_def)

text \<open>A signaling connection is what its token says.  The WebSocket endpoint leaves the hub as it is, or
  takes exactly the step of the hub in which a client connects; the client is the user and device named in
  unexpired access claims of a token genuine under the service's secret, and its origin is one of the allowed
  ones unless none were configured.\<close>

theorem ws_admission:
  assumes jwt: "jwt_library J genuine" and up: "ws_upgrader upgrade" and sh: "sh = NewHandler s allowed"
    and serve: "ServeWS E J upgrade sh i r (h, w) = (ans, h', w')" and fresh: "h_conns h i = None" "\<not> h_done h"
  shows "case ans of
      Answered resp \<Rightarrow> rs_Status resp = StatusUnauthorized \<and> h' = h \<and> w' \<in> {w, snd (time_now E w)}
    | UpgradeFailed e \<Rightarrow> h' = h
    | Upgraded client \<Rightarrow> (\<exists>c v. trusted genuine s (ws_token r) (fst (time_now E w)) c \<and>
        c_userID client = cl_UserID c \<and> c_deviceID client = cl_DeviceID c \<and> hub_step E (h, v) (h', w') \<and>
        (allowed = [] \<or> ws_Origin r \<in> set allowed))"
proof -
  let ?t = "ws_token r" and ?v = "JWTService_Validate E J s (ws_token r) w"
  have s: "sh_jwtService sh = s" by (simp add: sh NewHandler_def)
  have v2: "snd ?v = snd (time_now E w)"
    by (simp add: JWTService_Validate_def split_beta split: sum.splits)
  show ?thesis
  proof (cases "?t = [] \<or> (\<exists>e. fst ?v = Inl e) \<or> (\<exists>c. fst ?v = Inr c \<and> cl_TokenType c \<noteq> ''access'')")
    case True
    then show ?thesis using serve v2
      by (auto simp: ServeWS_def Let_def split_beta s http_Error_def split: if_splits)
  next
    case False
    then obtain c w1 where c: "?v = (Inr c, w1)" "cl_TokenType c = ''access''" "?t \<noteq> []"
      by (cases ?v; cases "fst ?v") auto
    from jwt_library.Validate_sound[OF jwt c(1)] c(2) have t: "trusted genuine s ?t (fst (time_now E w)) c"
      by (auto simp: trusted_def)
    obtain u w2 where u: "upgrade r (CheckOrigin sh r) w1 = (u, w2)" by fastforce
    show ?thesis
    proof (cases u)
      case (Inl e)
      then show ?thesis using serve by (auto simp: ServeWS_def s c u)
    next
      case (Inr x)
      obtain client h1 where n: "NewClient i (cl_UserID c) (cl_DeviceID c) h = (client, h1)" by fastforce
      have a: "ans = Upgraded client" "(h', w') = Run_register E client h1 w2"
        using serve Inr by (auto simp: ServeWS_def s c u n)
      have "allowed = [] \<or> ws_Origin r \<in> set allowed"
        using ws_upgrader.upgraded_origin[OF up u[unfolded Inr]] by (auto simp: CheckOrigin_def sh NewHandler_def split: if_splits)
      moreover have "c_userID client = cl_UserID c" "c_deviceID client = cl_DeviceID c"
        using n by (auto simp: NewClient_def)
      moreover have "hub_step E (h, w2) (h', w')"
        unfolding a(2) using fresh n by (intro hub_step.connect)
      ultimately show ?thesis using a(1) t by auto
    qed
  qed
qed

text \<open>An upgrader that looks at nothing but the origin.\<close>

definition origin_upgrade :: "ws_request \<Rightarrow> bool \<Rightarrow> 'w \<Rightarrow> unit result \<times> 'w" where
  "origin_upgrade r ok w = (if ok then Inr () else Inl (Errorf ''websocket: request origin not allowed by Upgrader.CheckOrigin''), w)"

interpretation wsu: ws_upgrader origin_upgrade
  by unfold_locales (simp add: origin_upgrade_def)

definition ws_sample :: ws_request where
  "ws_sample = request.extend (bearer_request (tp_AccessToken Auth_Properties.sample_pair)) \<lparr>ws_Origin = ''https://app''\<rparr>"

definition ws_sample_handler :: SigHandler where
  "ws_sample_handler = NewHandler sample_jwt [''https://app'']"

definition sample_claims :: Claims where
  "sample_claims = \<lparr>cl_UserID = ''alice'', cl_DeviceID = ''phone'', cl_Permissions = [''call''], cl_TokenType = ''access'',
     cl_ID = fst (uuid_new mem_env (snd (time_now mem_env world0))),
     cl_ExpiresAt = Some (NewNumericDate (fst (time_now mem_env world0) + js_accessTokenExpiry sample_jwt)),
     cl_IssuedAt = Some (NewNumericDate (fst (time_now mem_env world0))), cl_Issuer = ''lalo''\<rparr>"

lemma sample_claims_token: "jwt_sign toy_jwt (js_secret sample_jwt) sample_claims = Inr (tp_AccessToken Auth_Properties.sample_pair)"
  by (simp add: Auth_Properties.sample_pair_def IssueTokenPair_def issueToken_def Let_def split_beta toy_jwt_def sample_claims_def)

lemma ws_sample_upgraded:
  "fst (ServeWS mem_env toy_jwt origin_upgrade ws_sample_handler 0 ws_sample (h, world0)) =
     Upgraded \<lparr>c_id = 0, c_userID = ''alice'', c_deviceID = ''phone''\<rparr>"
proof -
  have t: "tp_AccessToken Auth_Properties.sample_pair \<noteq> []"
    using toy.sign_nonempty[OF sample_claims_token] .
  have w: "ws_token ws_sample = tp_AccessToken Auth_Properties.sample_pair" "CheckOrigin ws_sample_handler ws_sample"
    "sh_jwtService ws_sample_handler = sample_jwt"
    using t by (auto simp: ws_token_def ws_sample_def bearer_request_def request.defs CheckOrigin_def ws_sample_handler_def NewHandler_def)
  have "unexpired sample_claims (fst (time_now mem_env world0))"
    by (simp add: unexpired_def sample_claims_def mem_env_def world0_def NewNumericDate_def sample_jwt_def Minute_def Second_def)
  then have v: "JWTService_Validate mem_env toy_jwt sample_jwt (tp_AccessToken Auth_Properties.sample_pair) world0 =
      (Inr sample_claims, snd (time_now mem_env world0))"
    by (subst toy.Validate_signed[OF sample_claims_token]) simp
  show ?thesis
    using t by (simp add: ServeWS_def w v origin_upgrade_def NewClient_def Let_def) (simp add: sample_claims_def)
qed

theorem ws_admission_witness:
  "\<exists>c. trusted toy_genuine sample_jwt (ws_token ws_sample) (fst (time_now mem_env world0)) c \<and> cl_UserID c = ''alice'' \<and>
     cl_DeviceID c = ''phone'' \<and> ws_Origin ws_sample = ''https://app''"
proof -
  obtain h' w' where "ServeWS mem_env toy_jwt origin_upgrade ws_sample_handler 0 ws_sample (sample_hub, world0) =
      (Upgraded \<lparr>c_id = 0, c_userID = ''alice'', c_deviceID = ''phone''\<rparr>, h', w')"
    using ws_sample_upgraded[of sample_hub] by (metis prod.collapse)
  from ws_admission[OF toy.jwt_library_axioms wsu.ws_upgrader_axioms ws_sample_handler_def this]
  show ?thesis by (auto simp: sample_hub_def NewHub_def)
qed

end
