(* ===== verification/Config.thy ===== *)
theory Config
  imports Identity Auth
begin

text \<open>
  \<open>internal/config/config.go\<close>: the configuration of all services, with its defaults and the overrides from
  the environment.  Reading the file and the YAML library are parameters, as is the environment.
\<close>

section \<open>The settings\<close>

record ServerConfig =
  srv_Port :: int
  srv_Host :: string
  srv_AllowedOrigins :: "string list"

record AuthConfig =
  auc_JWTSecret :: string
  auc_AccessTokenExpiryMins :: int
  auc_RefreshTokenExpiryDays :: int
  auc_TurnSecret :: string

record CallConfig =
  clc_RingTimeoutSeconds :: int
  clc_ICETimeoutSeconds :: int
  clc_CleanupTimeoutSeconds :: int
  clc_MaxReconnectAttempts :: int
  clc_ReconnectBackoff :: "int list"

record TierThresholds =
  ttc_RTTMaxMs :: int
  ttc_RTTAboveMs :: int
  ttc_LossMaxPct :: float64
  ttc_LossAbovePct :: float64
  ttc_JitterMaxMs :: int
  ttc_JitterAboveMs :: int

record QualityTiers =
  qtc_Good :: TierThresholds
  qtc_Fair :: TierThresholds
  qtc_Poor :: TierThresholds

record HysteresisConfig =
  hyc_UpgradeStableSeconds :: int
  hyc_DowngradeFairSeconds :: int
  hyc_DowngradePoorSeconds :: int
  hyc_MaxCodecChangeIntervalSeconds :: int

record AudioConfig =
  aud_Codec :: string
  aud_DTX :: bool
  aud_FECThresholdLossPct :: int
  aud_BitrateRangeKbps :: "int list"

record VideoConfig =
  vid_Codecs :: "string list"
  vid_SimulcastLayers :: int
  vid_MaxResolution :: string
  vid_MaxFramerate :: int
  vid_KeyframeIntervalSeconds :: int

record BandwidthConfig =
  bwc_AudioOnlyThresholdKbps :: int
  bwc_VideoResumeThresholdKbps :: int
  bwc_VideoResumeStableSeconds :: int

record QualityConfig =
  qc_Tiers :: QualityTiers
  qc_Hysteresis :: HysteresisConfig
  qc_Audio :: AudioConfig
  qc_Video :: VideoConfig
  qc_Bandwidth :: BandwidthConfig

record GroupConfig =
  grc_MaxParticipants :: int
  grc_ActiveVideoSlots :: int
  grc_HQSlots :: int
  grc_MQSlots :: int
  grc_SpeakerDetectionThresholdDB :: int
  grc_SpeakerHoldSeconds :: int

record TurnConfig =
  tuc_AllocationTTLSeconds :: int
  tuc_MaxAllocationsPerUser :: int
  tuc_CredentialTTLSeconds :: int
  tuc_Servers :: "string list"
  tuc_HealthCheckIntervalS :: int
  tuc_HealthCheckTimeoutS :: int

record RateLimitConfig =
  rlc_CallInitiatePerUser :: string
  rlc_CallInitiateGlobalCPS :: int
  rlc_SignalingMessagesPerConnection :: string
  rlc_TurnAllocationsPerUser :: string
  rlc_APIRequestsPerUser :: string

record LiveKitConfig =
  lkc_Host :: string
  lkc_APIKey :: string
  lkc_APISecret :: string

record APNsCfg =
  apc_TeamID :: string
  apc_KeyID :: string
  apc_KeyPath :: string
  apc_BundleID :: string
  apc_Production :: bool

record FCMCfg =
  fc_ServerKey :: string
  fc_ProjectID :: string

record PushCfg =
  puc_Port :: int
  puc_APNs :: APNsCfg
  puc_FCM :: FCMCfg

record OrchestratorCfg =
  och_Port :: int

record PostgresConfig =
  pgc_Host :: string
  pgc_Port :: int
  pgc_User :: string
  pgc_Password :: string
  pgc_DBName :: string
  pgc_SSLMode :: string

record RedisConfig =
  rdc_Addr :: string
  rdc_Password :: string
  rdc_DB :: int

record NATSConfig =
  ntc_URL :: string

record ClickHouseConfig =
  ckc_Addr :: string
  ckc_Database :: string
  ckc_User :: string
  ckc_Password :: string

record PolicyRuleConfig =
  prc_Name :: string
  prc_Condition :: string
  prc_Threshold :: float64
  prc_Action :: string
  prc_ActionValue :: string

record PolicyEngineConfig =
  polc_Enabled :: bool
  polc_EvalIntervalSeconds :: int
  polc_MetricWindowSeconds :: int
  polc_Rules :: "PolicyRuleConfig list"

record Config =
  cfg_Server :: ServerConfig
  cfg_Auth :: AuthConfig
  cfg_Call :: CallConfig
  cfg_Quality :: QualityConfig
  cfg_Group :: GroupConfig
  cfg_Turn :: TurnConfig
  cfg_RateLimits :: RateLimitConfig
  cfg_LiveKit :: LiveKitConfig
  cfg_Push :: PushCfg
  cfg_Orchestrator :: OrchestratorCfg
  cfg_Postgres :: PostgresConfig
  cfg_Redis :: RedisConfig
  cfg_NATS :: NATSConfig
  cfg_ClickHouse :: ClickHouseConfig
  cfg_PolicyEngine :: PolicyEngineConfig


section \<open>Loading\<close>

text \<open>The connection string of PostgreSQL.\<close>

definition DSN :: "PostgresConfig \<Rightarrow> string" where
  "DSN c = ''host='' @ pgc_Host c @ '' port='' @ show_int (pgc_Port c) @ '' user='' @ pgc_User c @ '' password='' @ pgc_Password c @
     '' dbname='' @ pgc_DBName c @ '' sslmode='' @ pgc_SSLMode c"

definition or_str :: "string \<Rightarrow> string \<Rightarrow> string" where
  "or_str v d = (if v = [] then d else v)"

definition or_int :: "int \<Rightarrow> int \<Rightarrow> int" where
  "or_int v d = (if v = 0 then d else v)"

definition applyDefaults :: "Config \<Rightarrow> Config" where
  "applyDefaults c = c\<lparr>
     cfg_Server := (cfg_Server c)\<lparr>srv_Port := or_int (srv_Port (cfg_Server c)) 8080, srv_Host := or_str (srv_Host (cfg_Server c)) ''0.0.0.0''\<rparr>,
     cfg_Postgres := (cfg_Postgres c)\<lparr>pgc_Host := or_str (pgc_Host (cfg_Postgres c)) ''localhost'', pgc_Port := or_int (pgc_Port (cfg_Postgres c)) 5432,
       pgc_User := or_str (pgc_User (cfg_Postgres c)) ''lalo'', pgc_Password := or_str (pgc_Password (cfg_Postgres c)) ''lalo_dev'',
       pgc_DBName := or_str (pgc_DBName (cfg_Postgres c)) ''lalo'', pgc_SSLMode := or_str (pgc_SSLMode (cfg_Postgres c)) ''disable''\<rparr>,
     cfg_Redis := (cfg_Redis c)\<lparr>rdc_Addr := or_str (rdc_Addr (cfg_Redis c)) ''localhost:6379''\<rparr>,
     cfg_NATS := (cfg_NATS c)\<lparr>ntc_URL := or_str (ntc_URL (cfg_NATS c)) ''nats://localhost:4222''\<rparr>,
     cfg_ClickHouse := (cfg_ClickHouse c)\<lparr>ckc_Addr := or_str (ckc_Addr (cfg_ClickHouse c)) ''localhost:9000'',
       ckc_Database := or_str (ckc_Database (cfg_ClickHouse c)) ''lalo'', ckc_User := or_str (ckc_User (cfg_ClickHouse c)) ''default''\<rparr>,
     cfg_Auth := (cfg_Auth c)\<lparr>auc_AccessTokenExpiryMins := or_int (auc_AccessTokenExpiryMins (cfg_Auth c)) 15,
       auc_RefreshTokenExpiryDays := or_int (auc_RefreshTokenExpiryDays (cfg_Auth c)) 7\<rparr>,
     cfg_LiveKit := (cfg_LiveKit c)\<lparr>lkc_Host := or_str (lkc_Host (cfg_LiveKit c)) ''http://localhost:7880''\<rparr>,
     cfg_Turn := (cfg_Turn c)\<lparr>tuc_Servers := (if length (tuc_Servers (cfg_Turn c)) = 0 then [''turn:localhost:3478''] else tuc_Servers (cfg_Turn c)),
       tuc_HealthCheckIntervalS := or_int (tuc_HealthCheckIntervalS (cfg_Turn c)) 10,
       tuc_HealthCheckTimeoutS := or_int (tuc_HealthCheckTimeoutS (cfg_Turn c)) 5\<rparr>,
     cfg_Push := (cfg_Push c)\<lparr>puc_Port := or_int (puc_Port (cfg_Push c)) 8082,
       puc_APNs := (puc_APNs (cfg_Push c))\<lparr>apc_BundleID := or_str (apc_BundleID (puc_APNs (cfg_Push c))) ''com.lalo.app''\<rparr>\<rparr>,
     cfg_Orchestrator := (cfg_Orchestrator c)\<lparr>och_Port := or_int (och_Port (cfg_Orchestrator c)) 8081\<rparr>\<rparr>"

definition splitCSV :: "string \<Rightarrow> string list" where
  "splitCSV s = filter (\<lambda>v. v \<noteq> []) (map TrimSpace (split_on (CHR '','') s))"

text \<open>The environment answers the empty string for a variable that is not set.\<close>

type_synonym environ = "string \<Rightarrow> string"

definition env_str :: "environ \<Rightarrow> string \<Rightarrow> string \<Rightarrow> string" where
  "env_str env name old = (if env name \<noteq> [] then env name else old)"

definition env_int :: "environ \<Rightarrow> string \<Rightarrow> int \<Rightarrow> int" where
  "env_int env name old = (if env name \<noteq> [] then (case Sscanf_int (env name) of None \<Rightarrow> old | Some n \<Rightarrow> n) else old)"

definition env_origins :: "environ \<Rightarrow> string list \<Rightarrow> string list" where
  "env_origins env old = (if env ''ALLOWED_ORIGINS'' \<noteq> []
     then (let origins = splitCSV (env ''ALLOWED_ORIGINS'') in if 0 < length origins then origins else old) else old)"

definition applyEnvOverrides :: "environ \<Rightarrow> Config \<Rightarrow> Config" where
  "applyEnvOverrides env c = c\<lparr>
     cfg_Server := (cfg_Server c)\<lparr>srv_Port := env_int env ''SERVER_PORT'' (srv_Port (cfg_Server c)),
       srv_AllowedOrigins := env_origins env (srv_AllowedOrigins (cfg_Server c))\<rparr>,
     cfg_Postgres := (cfg_Postgres c)\<lparr>pgc_Host := env_str env ''POSTGRES_HOST'' (pgc_Host (cfg_Postgres c)),
       pgc_Port := env_int env ''POSTGRES_PORT'' (pgc_Port (cfg_Postgres c)), pgc_User := env_str env ''POSTGRES_USER'' (pgc_User (cfg_Postgres c)),
       pgc_Password := env_str env ''POSTGRES_PASSWORD'' (pgc_Password (cfg_Postgres c)), pgc_DBName := env_str env ''POSTGRES_DB'' (pgc_DBName (cfg_Postgres c))\<rparr>,
     cfg_Redis := (cfg_Redis c)\<lparr>rdc_Addr := env_str env ''REDIS_ADDR'' (rdc_Addr (cfg_Redis c)),
       rdc_Password := env_str env ''REDIS_PASSWORD'' (rdc_Password (cfg_Redis c))\<rparr>,
     cfg_NATS := (cfg_NATS c)\<lparr>ntc_URL := env_str env ''NATS_URL'' (ntc_URL (cfg_NATS c))\<rparr>,
     cfg_ClickHouse := (cfg_ClickHouse c)\<lparr>ckc_Addr := env_str env ''CLICKHOUSE_ADDR'' (ckc_Addr (cfg_ClickHouse c))\<rparr>,
     cfg_Auth := (cfg_Auth c)\<lparr>auc_JWTSecret := env_str env ''JWT_SECRET'' (auc_JWTSecret (cfg_Auth c)),
       auc_TurnSecret := env_str env ''TURN_SECRET'' (auc_TurnSecret (cfg_Auth c))\<rparr>,
     cfg_LiveKit := (cfg_LiveKit c)\<lparr>lkc_Host := env_str env ''LIVEKIT_HOST'' (lkc_Host (cfg_LiveKit c)),
       lkc_APIKey := env_str env ''LIVEKIT_API_KEY'' (lkc_APIKey (cfg_LiveKit c)),
       lkc_APISecret := env_str env ''LIVEKIT_API_SECRET'' (lkc_APISecret (cfg_LiveKit c))\<rparr>,
     cfg_Push := (cfg_Push c)\<lparr>puc_Port := env_int env ''PUSH_PORT'' (puc_Port (cfg_Push c)),
       puc_APNs := (puc_APNs (cfg_Push c))\<lparr>apc_TeamID := env_str env ''APNS_TEAM_ID'' (apc_TeamID (puc_APNs (cfg_Push c))),
         apc_KeyID := env_str env ''APNS_KEY_ID'' (apc_KeyID (puc_APNs (cfg_Push c))),
         apc_KeyPath := env_str env ''APNS_KEY_PATH'' (apc_KeyPath (puc_APNs (cfg_Push c))),
         apc_BundleID := env_str env ''APNS_BUNDLE_ID'' (apc_BundleID (puc_APNs (cfg_Push c)))\<rparr>,
       puc_FCM := (puc_FCM (cfg_Push c))\<lparr>fc_ServerKey := env_str env ''FCM_SERVER_KEY'' (fc_ServerKey (puc_FCM (cfg_Push c))),
         fc_ProjectID := env_str env ''FCM_PROJECT_ID'' (fc_ProjectID (puc_FCM (cfg_Push c)))\<rparr>\<rparr>,
     cfg_Orchestrator := (cfg_Orchestrator c)\<lparr>och_Port := env_int env ''ORCHESTRATOR_PORT'' (och_Port (cfg_Orchestrator c))\<rparr>\<rparr>"

definition LoadFromFile ::
  "(string \<Rightarrow> string result) \<Rightarrow> (string \<Rightarrow> Config result) \<Rightarrow> environ \<Rightarrow> string \<Rightarrow> Config result" where
  "LoadFromFile readFile unmarshal env path = (case readFile path of
      Inl e \<Rightarrow> Inl (Wrap ''read config file'' e)
    | Inr data \<Rightarrow> (case unmarshal data of
        Inl e \<Rightarrow> Inl (Wrap ''parse config file'' e)
      | Inr c \<Rightarrow> Inr (applyEnvOverrides env (applyDefaults c))))"

definition Load :: "(string \<Rightarrow> string result) \<Rightarrow> (string \<Rightarrow> Config result) \<Rightarrow> environ \<Rightarrow> Config result" where
  "Load readFile unmarshal env = LoadFromFile readFile unmarshal env ''configs/call-config.yaml''"

section \<open>Numbers and lists from the environment\<close>

lemma digit_char_code: "d < 10 \<Longrightarrow> (of_char (digit_char d) :: nat) = 48 + d"
  by (simp add: digit_char_def)

lemma digit_char_value: "d < 10 \<Longrightarrow> (of_char (digit_char d) :: int) = 48 + int d"
  using digit_char_code[of d] by (metis of_nat_add of_nat_numeral of_nat_of_char)

lemma digit_char_digit: "d < 10 \<Longrightarrow> is_digit (digit_char d)"
  by (simp add: is_digit_def digit_char_code)

lemma itoa_digits: "\<forall>c\<in>set (itoa n). is_digit c"
proof (induction n rule: itoa.induct)
  case (1 n)
  then show ?case by (subst itoa.simps) (auto simp: digit_char_digit)
qed

lemma digits_value_itoa: "digits_value (itoa n) = int n"
proof (induction n rule: itoa.induct)
  case (1 n)
  show ?case
  proof (cases "n < 10")
    case True
    then show ?thesis by (subst itoa.simps) (simp add: digits_value_def digit_char_value)
  next
    case False
    then have "digits_value (itoa n) = 10 * digits_value (itoa (n div 10)) + int (n mod 10)"
      by (subst itoa.simps) (simp add: digits_value_def digit_char_value)
    then show ?thesis using 1 False by presburger
  qed
qed

lemma digit_not_blank: "is_digit c \<Longrightarrow> \<not> is_blank c \<and> c \<noteq> CHR ''-'' \<and> c \<noteq> CHR ''+''"
  by (auto simp: is_digit_def is_blank_def)

text \<open>A number printed in decimal is read back.\<close>

lemma Sscanf_show_int: "min_int64 \<le> n \<Longrightarrow> n \<le> max_int64 \<Longrightarrow> Sscanf_int (show_int n) = Some n"
proof -
  assume r: "min_int64 \<le> n" "n \<le> max_int64"
  define m where "m = nat \<bar>n\<bar>"
  have h: "is_digit (hd (itoa m))" using itoa_digits[of m] by simp
  have t: "takeWhile is_digit (itoa m) = itoa m" using itoa_digits[of m] by (simp add: takeWhile_eq_all_conv)
  have d: "dropWhile is_blank (itoa m) = itoa m"
    using digit_not_blank[OF h] by (cases "itoa m") simp_all
  show ?thesis
  proof (cases "n < 0")
    case True
    then have "show_int n = CHR ''-'' # itoa m" by (simp add: show_int_def m_def)
    then show ?thesis using r True
      by (simp add: Sscanf_int_def is_blank_def t digits_value_itoa Let_def) (simp add: m_def)
  next
    case False
    then have "show_int n = itoa m" by (simp add: show_int_def m_def)
    then show ?thesis using r False digit_not_blank[OF h]
      by (simp add: Sscanf_int_def d t digits_value_itoa Let_def) (simp add: m_def)
  qed
qed

lemma env_int_decimal:
  "env name = show_int n \<Longrightarrow> min_int64 \<le> n \<Longrightarrow> n \<le> max_int64 \<Longrightarrow> env_int env name old = n"
  using Sscanf_show_int[of n] by (cases "show_int n = []") (simp_all add: env_int_def, simp add: show_int_def split: if_splits)

lemma splitCSV_parts: "v \<in> set (splitCSV s) \<longleftrightarrow> v \<noteq> [] \<and> (\<exists>p\<in>set (split_on (CHR '','') s). v = TrimSpace p)"
  by (auto simp: splitCSV_def)

section \<open>What a loaded configuration is\<close>

text \<open>The settings without which a service cannot be reached are there: addresses, database names, TURN
  servers and the periods of the health check.\<close>

definition complete :: "Config \<Rightarrow> bool" where
  "complete c \<longleftrightarrow> srv_Host (cfg_Server c) \<noteq> [] \<and>
     pgc_Host (cfg_Postgres c) \<noteq> [] \<and> pgc_User (cfg_Postgres c) \<noteq> [] \<and> pgc_Password (cfg_Postgres c) \<noteq> [] \<and>
     pgc_DBName (cfg_Postgres c) \<noteq> [] \<and> pgc_SSLMode (cfg_Postgres c) \<noteq> [] \<and>
     rdc_Addr (cfg_Redis c) \<noteq> [] \<and> ntc_URL (cfg_NATS c) \<noteq> [] \<and>
     ckc_Addr (cfg_ClickHouse c) \<noteq> [] \<and> ckc_Database (cfg_ClickHouse c) \<noteq> [] \<and> ckc_User (cfg_ClickHouse c) \<noteq> [] \<and>
     lkc_Host (cfg_LiveKit c) \<noteq> [] \<and> apc_BundleID (puc_APNs (cfg_Push c)) \<noteq> [] \<and>
     auc_AccessTokenExpiryMins (cfg_Auth c) \<noteq> 0 \<and> auc_RefreshTokenExpiryDays (cfg_Auth c) \<noteq> 0 \<and>
     tuc_Servers (cfg_Turn c) \<noteq> [] \<and> tuc_HealthCheckIntervalS (cfg_Turn c) \<noteq> 0 \<and> tuc_HealthCheckTimeoutS (cfg_Turn c) \<noteq> 0"

text \<open>The ports, each with the variable that overrides it.\<close>

definition ports :: "Config \<Rightarrow> (string \<times> int) list" where
  "ports c = [(''SERVER_PORT'', srv_Port (cfg_Server c)), (''POSTGRES_PORT'', pgc_Port (cfg_Postgres c)),
     (''PUSH_PORT'', puc_Port (cfg_Push c)), (''ORCHESTRATOR_PORT'', och_Port (cfg_Orchestrator c))]"

lemma or_str_nonempty [simp]: "d \<noteq> [] \<Longrightarrow> or_str v d \<noteq> []"
  by (simp add: or_str_def)

lemma or_int_nonzero [simp]: "d \<noteq> 0 \<Longrightarrow> or_int v d \<noteq> 0"
  by (simp add: or_int_def)

lemma env_str_nonempty [simp]: "old \<noteq> [] \<Longrightarrow> env_str env name old \<noteq> []"
  by (simp add: env_str_def)

lemma env_int_zero: "env_int env name (or_int v d) = 0 \<Longrightarrow> d \<noteq> 0 \<Longrightarrow> Sscanf_int (env name) = Some 0"
  by (auto simp: env_int_def or_int_def split: if_splits option.splits)

lemma LoadFromFile_ok:
  "LoadFromFile readFile unmarshal env path = Inr c \<Longrightarrow>
   \<exists>content file. readFile path = Inr content \<and> unmarshal content = Inr file \<and> c = applyEnvOverrides env (applyDefaults file)"
  by (auto simp: LoadFromFile_def split: sum.splits)

lemma loaded_complete: "complete (applyEnvOverrides env (applyDefaults file))"
  by (simp add: complete_def applyEnvOverrides_def applyDefaults_def)

lemma loaded_ports:
  "(v, 0) \<in> set (ports (applyEnvOverrides env (applyDefaults file))) \<Longrightarrow> Sscanf_int (env v) = Some 0"
  by (auto simp: ports_def applyEnvOverrides_def applyDefaults_def dest!: env_int_zero)

lemma loaded_frame:
  "c = applyEnvOverrides env (applyDefaults file) \<Longrightarrow> cfg_Call c = cfg_Call file \<and> cfg_Quality c = cfg_Quality file \<and>
     cfg_Group c = cfg_Group file \<and> cfg_RateLimits c = cfg_RateLimits file \<and> cfg_PolicyEngine c = cfg_PolicyEngine file"
  by (simp add: applyEnvOverrides_def applyDefaults_def)


definition zero_config :: Config where
  "zero_config = \<lparr>cfg_Server = \<lparr>srv_Port = 0, srv_Host = [], srv_AllowedOrigins = []\<rparr>,
     cfg_Auth = \<lparr>auc_JWTSecret = [], auc_AccessTokenExpiryMins = 0, auc_RefreshTokenExpiryDays = 0, auc_TurnSecret = []\<rparr>,
     cfg_Call = \<lparr>clc_RingTimeoutSeconds = 0, clc_ICETimeoutSeconds = 0, clc_CleanupTimeoutSeconds = 0, clc_MaxReconnectAttempts = 0, clc_ReconnectBackoff = []\<rparr>,
     cfg_Quality = \<lparr>qc_Tiers = \<lparr>qtc_Good = \<lparr>ttc_RTTMaxMs = 0, ttc_RTTAboveMs = 0, ttc_LossMaxPct = 0, ttc_LossAbovePct = 0, ttc_JitterMaxMs = 0, ttc_JitterAboveMs = 0\<rparr>, qtc_Fair = \<lparr>ttc_RTTMaxMs = 0, ttc_RTTAboveMs = 0, ttc_LossMaxPct = 0, ttc_LossAbovePct = 0, ttc_JitterMaxMs = 0, ttc_JitterAboveMs = 0\<rparr>, qtc_Poor = \<lparr>ttc_RTTMaxMs = 0, ttc_RTTAboveMs = 0, ttc_LossMaxPct = 0, ttc_LossAbovePct = 0, ttc_JitterMaxMs = 0, ttc_JitterAboveMs = 0\<rparr>\<rparr>, qc_Hysteresis = \<lparr>hyc_UpgradeStableSeconds = 0, hyc_DowngradeFairSeconds = 0, hyc_DowngradePoorSeconds = 0, hyc_MaxCodecChangeIntervalSeconds = 0\<rparr>, qc_Audio = \<lparr>aud_Codec = [], aud_DTX = False, aud_FECThresholdLossPct = 0, aud_BitrateRangeKbps = []\<rparr>, qc_Video = \<lparr>vid_Codecs = [], vid_SimulcastLayers = 0, vid_MaxResolution = [], vid_MaxFramerate = 0, vid_KeyframeIntervalSeconds = 0\<rparr>, qc_Bandwidth = \<lparr>bwc_AudioOnlyThresholdKbps = 0, bwc_VideoResumeThresholdKbps = 0, bwc_VideoResumeStableSeconds = 0\<rparr>\<rparr>,
     cfg_Group = \<lparr>grc_MaxParticipants = 0, grc_ActiveVideoSlots = 0, grc_HQSlots = 0, grc_MQSlots = 0, grc_SpeakerDetectionThresholdDB = 0, grc_SpeakerHoldSeconds = 0\<rparr>,
     cfg_Turn = \<lparr>tuc_AllocationTTLSeconds = 0, tuc_MaxAllocationsPerUser = 0, tuc_CredentialTTLSeconds = 0, tuc_Servers = [], tuc_HealthCheckIntervalS = 0, tuc_HealthCheckTimeoutS = 0\<rparr>,
     cfg_RateLimits = \<lparr>rlc_CallInitiatePerUser = [], rlc_CallInitiateGlobalCPS = 0, rlc_SignalingMessagesPerConnection = [], rlc_TurnAllocationsPerUser = [], rlc_APIRequestsPerUser = []\<rparr>,
     cfg_LiveKit = \<lparr>lkc_Host = [], lkc_APIKey = [], lkc_APISecret = []\<rparr>,
     cfg_Push = \<lparr>puc_Port = 0, puc_APNs = \<lparr>apc_TeamID = [], apc_KeyID = [], apc_KeyPath = [], apc_BundleID = [], apc_Production = False\<rparr>, puc_FCM = \<lparr>fc_ServerKey = [], fc_ProjectID = []\<rparr>\<rparr>,
     cfg_Orchestrator = \<lparr>och_Port = 0\<rparr>,
     cfg_Postgres = \<lparr>pgc_Host = [], pgc_Port = 0, pgc_User = [], pgc_Password = [], pgc_DBName = [], pgc_SSLMode = []\<rparr>,
     cfg_Redis = \<lparr>rdc_Addr = [], rdc_Password = [], rdc_DB = 0\<rparr>,
     cfg_NATS = \<lparr>ntc_URL = []\<rparr>,
     cfg_ClickHouse = \<lparr>ckc_Addr = [], ckc_Database = [], ckc_User = [], ckc_Password = []\<rparr>,
     cfg_PolicyEngine = \<lparr>polc_Enabled = False, polc_EvalIntervalSeconds = 0, polc_MetricWindowSeconds = 0, polc_Rules = []\<rparr>\<rparr>"


end
