(* ===== verification/Policy_Api.thy ===== *)
theory Policy_Api
  imports Abr_Properties Config
begin

text \<open>
  \<open>cmd/policy/main.go\<close>: the policy service.  Its configuration is laid over the default policy, and its
  HTTP routes feed samples to the engine and answer with its decisions.  A handler works on the engine
  and the outside world together.  The probes of Redis and NATS are parameters.
\<close>

section \<open>Configuration\<close>

definition policy_rule :: "PolicyRuleConfig \<Rightarrow> PolicyRule" where
  "policy_rule r = \<lparr>ru_Name = prc_Name r, ru_Condition = prc_Condition r, ru_Threshold = prc_Threshold r,
     ru_Action = prc_Action r, ru_ActionValue = prc_ActionValue r\<rparr>"

definition policy_config :: "PolicyEngineConfig \<Rightarrow> PolicyConfig" where
  "policy_config cfg =
    (let p = DefaultPolicyConfig;
         p = (if 0 < polc_EvalIntervalSeconds cfg then p\<lparr>pc_EvalIntervalSeconds := polc_EvalIntervalSeconds cfg\<rparr> else p);
         p = (if 0 < polc_MetricWindowSeconds cfg then p\<lparr>pc_MetricWindowSeconds := polc_MetricWindowSeconds cfg\<rparr> else p);
         p = (if 0 < length (polc_Rules cfg) then p\<lparr>pc_Rules := map policy_rule (polc_Rules cfg)\<rparr> else p)
     in p)"

definition policy_engine :: "Config \<Rightarrow> PolicyEngine" where
  "policy_engine cfg = PolicyEngine_Start (NewPolicyEngine (policy_config (cfg_PolicyEngine cfg)))"

section \<open>Routes\<close>

definition StatusAccepted :: nat where "StatusAccepted = 202"
definition StatusServiceUnavailable :: nat where "StatusServiceUnavailable = 503"

record metricsRequest =
  mq_SessionID :: string
  mq_UserID :: string
  mq_Samples :: "MetricSample list"

definition dec_MetricSample :: "json \<Rightarrow> MetricSample result" where
  "dec_MetricSample = dec_obj (\<lambda>ob. rbind (dec_time (fld ob ''timestamp'')) (\<lambda>t. rbind (dec_float (fld ob ''rtt_ms'')) (\<lambda>r.
     rbind (dec_float (fld ob ''loss_percent'')) (\<lambda>l. rbind (dec_float (fld ob ''jitter_ms'')) (\<lambda>j. rbind (dec_float (fld ob ''bandwidth_kbps'')) (\<lambda>b.
     rbind (dec_str (fld ob ''tier'')) (\<lambda>q. rbind (dec_float (fld ob ''audio_level'')) (\<lambda>a. rbind (dec_int (fld ob ''frame_width'')) (\<lambda>x.
     rbind (dec_int (fld ob ''frame_height'')) (\<lambda>y. rbind (dec_float (fld ob ''fps'')) (\<lambda>f.
     Inr \<lparr>ms_Timestamp = t, ms_RTTMs = r, ms_LossPercent = l, ms_JitterMs = j, ms_BandwidthKbps = b, ms_Tier = q,
       ms_AudioLevel = a, ms_FrameWidth = x, ms_FrameHeight = y, ms_FPS = f\<rparr>)))))))))))"

definition dec_metricsRequest :: "json \<Rightarrow> metricsRequest result" where
  "dec_metricsRequest = dec_obj (\<lambda>ob. rbind (dec_str (fld ob ''session_id'')) (\<lambda>s. rbind (dec_str (fld ob ''user_id'')) (\<lambda>u.
     rbind (dec_list dec_MetricSample (fld ob ''samples'')) (\<lambda>ss. Inr \<lparr>mq_SessionID = s, mq_UserID = u, mq_Samples = ss\<rparr>))))"

definition stamp :: "time \<Rightarrow> MetricSample \<Rightarrow> MetricSample" where
  "stamp now s = (if IsZero (ms_Timestamp s) then s\<lparr>ms_Timestamp := now\<rparr> else s)"

definition policy_metrics :: "('w, 'z) env_scheme \<Rightarrow> (PolicyEngine \<times> 'w) handler" where
  "policy_metrics E r = (\<lambda>(e, w).
    (if rq_Method r \<noteq> ''POST'' then (reply_error StatusMethodNotAllowed ''method_not_allowed'', e, w)
     else case decode_body dec_metricsRequest r of
       Inl _ \<Rightarrow> (reply_error StatusBadRequest ''invalid_body'', e, w)
     | Inr req \<Rightarrow>
        if mq_SessionID req = [] \<or> mq_UserID req = [] \<or> length (mq_Samples req) = 0
        then (reply_error StatusBadRequest ''session_id, user_id and samples are required'', e, w)
        else (let (now, w1) = time_now E w
              in (reply StatusAccepted (JObj [(''status'', JStr ''ingested'')]),
                  IngestMetrics E (mq_SessionID req) (mq_UserID req) (map (stamp now) (mq_Samples req)) e w1))))"

definition policy_health :: "('w \<Rightarrow> bool \<times> 'w) \<Rightarrow> ('w \<Rightarrow> bool \<times> 'w) \<Rightarrow> (PolicyEngine \<times> 'w) handler" where
  "policy_health ping connected r = (\<lambda>(e, w).
    (let (redisConnected, w1) = ping w;
         (up, w2) = (if redisConnected then connected w1 else (False, w1));
         status = (if up then StatusOK else StatusServiceUnavailable);
         (nats, w3) = connected w2
     in (reply status (JObj [(''nats_connected'', JBool nats), (''redis_connected'', JBool redisConnected),
           (''service'', JStr ''policy-engine''), (''status'', JStr (if status = StatusOK then ''ok'' else ''degraded''))]), e, w3)))"

definition decision_json :: "PolicyDecision \<Rightarrow> json" where
  "decision_json d = JObj (opt_fld ''max_tier'' JStr (pd_MaxTier d) @ opt_fld ''force_audio_only'' JBool (pd_ForceAudioOnly d) @
     opt_fld ''max_bitrate_kbps'' JNum (pd_MaxBitrateKbps d) @ opt_fld ''force_codec'' JStr (pd_ForceCodec d) @ omit_str ''reason'' (pd_Reason d))"

definition participantPath :: string where "participantPath = ''/v1/policy/participant/''"

definition policy_participant :: "(PolicyEngine \<times> 'w) handler" where
  "policy_participant r = (\<lambda>(e, w).
    (if rq_Method r \<noteq> ''GET'' then (reply_error StatusMethodNotAllowed ''method_not_allowed'', e, w)
     else case split_on (CHR ''/'') (TrimPrefix (rq_Path r) participantPath) of
       [sessionID, userID] \<Rightarrow>
         if sessionID = [] \<or> userID = [] then (reply_error StatusBadRequest ''invalid participant path'', e, w)
         else (case GetParticipantPolicy sessionID userID e of
            None \<Rightarrow> (reply_error StatusNotFound ''policy_not_found'', e, w)
          | Some d \<Rightarrow> (reply StatusOK (decision_json d), e, w))
     | _ \<Rightarrow> (reply_error StatusBadRequest ''invalid participant path'', e, w)))"

definition policy_server :: "('w, 'z) env_scheme \<Rightarrow> ('w \<Rightarrow> bool \<times> 'w) \<Rightarrow> ('w \<Rightarrow> bool \<times> 'w) \<Rightarrow> (PolicyEngine \<times> 'w) handler" where
  "policy_server E ping connected = ServeMux [
     (''/v1/policy/metrics'', policy_metrics E),
     (''/v1/policy/health'', policy_health ping connected),
     (participantPath, policy_participant)]"

section \<open>Properties\<close>

text \<open>Nobody is asked who he is: the answer and the effect do not depend on the token of the request.\<close>

lemma policy_ignores_token:
  "policy_metrics E (r\<lparr>rq_Authorization := a, rq_TokenParam := t, rq_Claims := c\<rparr>) s = policy_metrics E r s"
  "policy_health ping connected (r\<lparr>rq_Authorization := a, rq_TokenParam := t, rq_Claims := c\<rparr>) s = policy_health ping connected r s"
  "policy_participant (r\<lparr>rq_Authorization := a, rq_TokenParam := t, rq_Claims := c\<rparr>) s = policy_participant r s"
  by (simp_all add: policy_metrics_def policy_health_def policy_participant_def decode_body_def split_beta)

theorem policy_unauthenticated:
  "policy_server E ping connected (r\<lparr>rq_Authorization := a, rq_TokenParam := t, rq_Claims := c\<rparr>) s = policy_server E ping connected r s"
  unfolding policy_server_def by (rule ServeMux_same) (simp_all add: fun_eq_iff policy_ignores_token)

text \<open>The rules of the configuration replace the default ones as a whole; without rules, and for periods
  that are not positive, the defaults stay.\<close>

lemma policy_config_default: "policy_config \<lparr>polc_Enabled = b, polc_EvalIntervalSeconds = 0, polc_MetricWindowSeconds = 0, polc_Rules = []\<rparr> = DefaultPolicyConfig"
  by (simp add: policy_config_def)

lemma policy_config_periods: "0 < pc_EvalIntervalSeconds (policy_config cfg) \<and> 0 < pc_MetricWindowSeconds (policy_config cfg)"
  by (simp add: policy_config_def Let_def DefaultPolicyConfig_def)

text \<open>What is asked after samples have been posted for a participant is the decision on the samples of the
  window, and for everybody else what it was.\<close>

lemma participant_query:
  assumes "sess \<noteq> []" "user \<noteq> []" "CHR ''/'' \<notin> set sess" "CHR ''/'' \<notin> set user"
    and "rq_Method r = ''GET''" "rq_Path r = participantPath @ sess @ ''/'' @ user"
  shows "policy_participant r (e, w) = (case GetParticipantPolicy sess user e of
      None \<Rightarrow> (reply_error StatusNotFound ''policy_not_found'', e, w) | Some d \<Rightarrow> (reply StatusOK (decision_json d), e, w))"
proof -
  have "split_on (CHR ''/'') (TrimPrefix (rq_Path r) participantPath) = [sess, user]"
    using assms by (simp add: TrimPrefix_def split_on_append split_on_plain)
  with assms show ?thesis by (simp add: policy_participant_def)
qed

theorem posted_then_queried:
  assumes body: "decode_body dec_metricsRequest post = Inr \<lparr>mq_SessionID = sess, mq_UserID = user, mq_Samples = ss\<rparr>"
    and post: "rq_Method post = ''POST''" "sess \<noteq> []" "user \<noteq> []" "ss \<noteq> []"
    and ans: "policy_metrics E post (e, w) = (resp, e', w')"
    and now: "time_now E w = (t0, w0)" "time_now E w0 = (t1, w1)"
  shows "rs_Status resp = StatusAccepted \<and> w' = w1 \<and>
    GetParticipantPolicy sess user e' = EvaluateParticipant (pe_cfg e)
      \<lparr>pm_Identity = (case map_of (pe_metrics e) (metrics_key sess user) of None \<Rightarrow> user | Some pm \<Rightarrow> pm_Identity pm),
       pm_RoomName = (case map_of (pe_metrics e) (metrics_key sess user) of None \<Rightarrow> sess | Some pm \<Rightarrow> pm_RoomName pm),
       pm_Samples = filter (\<lambda>s. metrics_cutoff (pe_cfg e) t1 < ms_Timestamp s)
         ((case map_of (pe_metrics e) (metrics_key sess user) of None \<Rightarrow> [] | Some pm \<Rightarrow> pm_Samples pm) @ map (stamp t0) ss),
       pm_UpdatedAt = t1\<rparr> \<and>
    (\<forall>s u. metrics_key s u \<noteq> metrics_key sess user \<longrightarrow> GetParticipantPolicy s u e' = GetParticipantPolicy s u e)"
proof -
  have r: "resp = reply StatusAccepted (JObj [(''status'', JStr ''ingested'')])"
    "(e', w') = IngestMetrics E sess user (map (stamp t0) ss) e w0"
    using ans post body now by (auto simp: policy_metrics_def)
  show ?thesis
    using r by (auto simp: IngestMetrics_def Let_def now(2) GetParticipantPolicy_def map_of_mput EvaluateParticipant_def split: option.splits)
qed

end
