(* ===== verification/Bus_Setup.thy ===== *)
theory Bus_Setup
  imports Events
begin

text \<open>
  The life of the event bus (\<open>internal/events/bus.go\<close>): connecting, declaring the stream, subscribing and
  closing.  The NATS client is a parameter: every call of it may fail.
\<close>

section \<open>The NATS client\<close>

record BusConfig =
  bc_URL :: string
  bc_Source :: string
  bc_MaxReconnects :: int
  bc_ReconnectWait :: duration
  bc_ConnectTimeout :: duration

record StreamConfig =
  st_Name :: string
  st_Subjects :: "string list"
  st_Retention :: string
  st_MaxAge :: duration
  st_Replicas :: int
  st_Storage :: string

record ConsumerConfig =
  co_Durable :: string
  co_FilterSubject :: string
  co_AckPolicy :: string
  co_DeliverPolicy :: string
  co_AckWait :: duration
  co_MaxDeliver :: int

record 'w natslib =
  nats_DefaultURL :: string
  nats_Connect :: "BusConfig \<Rightarrow> 'w \<Rightarrow> unit result \<times> 'w"
  nats_Close :: "'w \<Rightarrow> 'w"
  nats_Drain :: "'w \<Rightarrow> 'w"
  nats_IsConnected :: "'w \<Rightarrow> bool \<times> 'w"
  js_New :: "'w \<Rightarrow> unit result \<times> 'w"
  js_CreateOrUpdateStream :: "StreamConfig \<Rightarrow> 'w \<Rightarrow> unit result \<times> 'w"
  js_CreateOrUpdateConsumer :: "string \<Rightarrow> ConsumerConfig \<Rightarrow> 'w \<Rightarrow> unit result \<times> 'w"
  js_Consume :: "string \<Rightarrow> 'w \<Rightarrow> nat result \<times> 'w"
  js_Stop :: "nat \<Rightarrow> 'w \<Rightarrow> 'w"

section \<open>The bus\<close>

definition DefaultBusConfig :: "'w natslib \<Rightarrow> string \<Rightarrow> BusConfig" where
  "DefaultBusConfig N source = \<lparr>bc_URL = nats_DefaultURL N, bc_Source = source, bc_MaxReconnects = -1,
     bc_ReconnectWait = 2 * Second, bc_ConnectTimeout = 10 * Second\<rparr>"

definition StreamName :: string where "StreamName = ''CALLS''"
definition StreamMaxAge :: int where "StreamMaxAge = 7 * 24 * 60 * 60"
definition StreamReplicas :: int where "StreamReplicas = 1"

record Bus =
  bus_source :: string
  bus_subs :: "nat list"

definition calls_stream :: StreamConfig where
  "calls_stream = \<lparr>st_Name = StreamName, st_Subjects = AllSubjects, st_Retention = ''interest'',
     st_MaxAge = StreamMaxAge * Second, st_Replicas = StreamReplicas, st_Storage = ''file''\<rparr>"

definition ensureStream :: "'w natslib \<Rightarrow> 'w \<Rightarrow> unit result \<times> 'w" where
  "ensureStream N w = js_CreateOrUpdateStream N calls_stream w"

definition NewBus :: "'w natslib \<Rightarrow> BusConfig \<Rightarrow> 'w \<Rightarrow> Bus result \<times> 'w" where
  "NewBus N cfg w =
    (let (c, w1) = nats_Connect N cfg w in
     case c of
       Inl e \<Rightarrow> (Inl (Wrap ''nats connect'' e), w1)
     | Inr _ \<Rightarrow>
        (let (j, w2) = js_New N w1 in
         case j of
           Inl e \<Rightarrow> (Inl (Wrap ''jetstream init'' e), nats_Close N w2)
         | Inr _ \<Rightarrow>
            (let (s, w3) = ensureStream N w2 in
             case s of
               Inl e \<Rightarrow> (Inl (Wrap ''ensure stream'' e), nats_Close N w3)
             | Inr _ \<Rightarrow> (Inr \<lparr>bus_source = bc_Source cfg, bus_subs = []\<rparr>, w3))))"

definition consumer_config :: "string \<Rightarrow> string \<Rightarrow> ConsumerConfig" where
  "consumer_config subject consumerName = \<lparr>co_Durable = consumerName, co_FilterSubject = subject, co_AckPolicy = ''explicit'',
     co_DeliverPolicy = ''new'', co_AckWait = 30 * Second, co_MaxDeliver = 5\<rparr>"

text \<open>The callback that is registered is \<open>Subscribe_callback\<close>.\<close>

definition Bus_Subscribe :: "'w natslib \<Rightarrow> string \<Rightarrow> string \<Rightarrow> Bus \<Rightarrow> 'w \<Rightarrow> (unit result \<times> Bus) \<times> 'w" where
  "Bus_Subscribe N subject consumerName b w =
    (let (c, w1) = js_CreateOrUpdateConsumer N StreamName (consumer_config subject consumerName) w in
     case c of
       Inl e \<Rightarrow> ((Inl (Wrap (''create consumer '' @ consumerName) e), b), w1)
     | Inr _ \<Rightarrow>
        (let (s, w2) = js_Consume N consumerName w1 in
         case s of
           Inl e \<Rightarrow> ((Inl (Wrap (''consume '' @ subject) e), b), w2)
         | Inr cc \<Rightarrow> ((Inr (), b\<lparr>bus_subs := bus_subs b @ [cc]\<rparr>), w2)))"

definition Bus_Close :: "'w natslib \<Rightarrow> Bus \<Rightarrow> 'w \<Rightarrow> Bus \<times> 'w" where
  "Bus_Close N b w = (b\<lparr>bus_subs := []\<rparr>, nats_Drain N (foldl (\<lambda>w cc. js_Stop N cc w) w (bus_subs b)))"

definition Bus_IsConnected :: "'w natslib \<Rightarrow> 'w \<Rightarrow> bool \<times> 'w" where
  "Bus_IsConnected N w = nats_IsConnected N w"

section \<open>What the client does\<close>

text \<open>\<open>conns\<close> counts the open connections and \<open>live\<close> lists the running subscriptions.\<close>

locale nats_client =
  fixes N :: "'w natslib" and conns :: "'w \<Rightarrow> nat" and live :: "'w \<Rightarrow> nat list"
  assumes connect_conns: "conns (snd (nats_Connect N cfg w)) = (if is_ok (fst (nats_Connect N cfg w)) then Suc (conns w) else conns w)"
    and js_conns: "conns (snd (js_New N w)) = conns w"
    and stream_conns: "conns (snd (js_CreateOrUpdateStream N st w)) = conns w"
    and close_conns: "conns (nats_Close N w) = conns w - 1"
    and consumer_live: "live (snd (js_CreateOrUpdateConsumer N s co w)) = live w"
    and consume_ok: "fst (js_Consume N c w) = Inr i \<Longrightarrow> i \<notin> set (live w) \<and> live (snd (js_Consume N c w)) = live w @ [i]"
    and consume_err: "\<not> is_ok (fst (js_Consume N c w)) \<Longrightarrow> live (snd (js_Consume N c w)) = live w"
    and stop_live: "live (js_Stop N i w) = removeAll i (live w)"
    and drain_live: "live (nats_Drain N w) = live w"
begin

text \<open>A bus that could not be set up leaves no connection behind.\<close>

lemma NewBus_conns: "conns (snd (NewBus N cfg w)) = (if is_ok (fst (NewBus N cfg w)) then Suc (conns w) else conns w)"
  by (auto simp: NewBus_def ensureStream_def Let_def split_beta connect_conns js_conns stream_conns close_conns is_ok_def split: sum.splits)

text \<open>The bus lists exactly its running subscriptions, and closing stops them all and no others.\<close>

lemma Subscribe_tracks:
  assumes "distinct (bus_subs b)" "set (bus_subs b) \<subseteq> set (live w)"
    and r_def: "r = Bus_Subscribe N subject name b w"
  shows "distinct (bus_subs (snd (fst r))) \<and> set (bus_subs (snd (fst r))) \<subseteq> set (live (snd r)) \<and>
    set (live (snd r)) - set (bus_subs (snd (fst r))) = set (live w) - set (bus_subs b) \<and>
    (is_ok (fst (fst r)) \<longleftrightarrow> bus_subs (snd (fst r)) \<noteq> bus_subs b)"
proof -
  define w1 where "w1 = snd (js_CreateOrUpdateConsumer N StreamName (consumer_config subject name) w)"
  have l: "live w1 = live w" by (simp add: w1_def consumer_live)
  show ?thesis
  proof (cases "fst (js_Consume N name w1)")
    case (Inl e)
    then have "live (snd (js_Consume N name w1)) = live w" using consume_err[of name w1] l by (simp add: is_ok_def)
    then show ?thesis using assms(1,2) Inl
      by (auto simp: r_def Bus_Subscribe_def Let_def split_beta w1_def[symmetric] l is_ok_def split: sum.splits)
  next
    case (Inr i)
    with consume_ok[of name w1 i] l have "i \<notin> set (live w)" "live (snd (js_Consume N name w1)) = live w @ [i]" by auto
    then show ?thesis using assms(1,2) Inr
      by (auto simp: r_def Bus_Subscribe_def Let_def split_beta w1_def[symmetric] l is_ok_def split: sum.splits)
  qed
qed

lemma stop_all: "set (live (foldl (\<lambda>w cc. js_Stop N cc w) w cs)) = set (live w) - set cs"
  by (induction cs arbitrary: w) (auto simp: stop_live)

lemma Close_stops: "set (live (snd (Bus_Close N b w))) = set (live w) - set (bus_subs b)"
  by (simp add: Bus_Close_def drain_live stop_all)

end

section \<open>A client in memory\<close>

record natsworld = nw_conns :: nat  nw_live :: "nat list"  nw_next :: nat  nw_up :: bool

definition mem_nats :: "natsworld natslib" where
  "mem_nats = \<lparr>nats_DefaultURL = ''nats://127.0.0.1:4222'',
     nats_Connect = (\<lambda>cfg w. if nw_up w then (Inr (), w\<lparr>nw_conns := Suc (nw_conns w)\<rparr>) else (Inl (Errorf ''no servers available''), w)),
     nats_Close = (\<lambda>w. w\<lparr>nw_conns := nw_conns w - 1\<rparr>), nats_Drain = (\<lambda>w. w), nats_IsConnected = (\<lambda>w. (nw_up w, w)),
     js_New = (\<lambda>w. (Inr (), w)), js_CreateOrUpdateStream = (\<lambda>_ w. (Inr (), w)), js_CreateOrUpdateConsumer = (\<lambda>_ _ w. (Inr (), w)),
     js_Consume = (\<lambda>_ w. let i = Suc (Max (set (nw_next w # nw_live w))) in (Inr i, w\<lparr>nw_live := nw_live w @ [i], nw_next := i\<rparr>)),
     js_Stop = (\<lambda>i w. w\<lparr>nw_live := removeAll i (nw_live w)\<rparr>)\<rparr>"

lemma fresh_id: "Suc (Max (set (n # l))) \<notin> set (l :: nat list)"
  by (metis List.finite_set Max_ge Suc_n_not_le_n insert_iff list.set(2))

interpretation memn: nats_client mem_nats nw_conns nw_live
proof unfold_locales
  fix c w i
  assume "fst (js_Consume mem_nats c w) = Inr i"
  then show "i \<notin> set (nw_live w) \<and> nw_live (snd (js_Consume mem_nats c w)) = nw_live w @ [i]"
    using fresh_id[of "nw_next w" "nw_live w"] by (auto simp: mem_nats_def Let_def)
qed (auto simp: mem_nats_def Let_def is_ok_def)

text \<open>Every subscription of a closed bus has ended, whatever else runs over the same connection.\<close>

theorem closed_bus_is_silent:
  "set (nw_live (snd (Bus_Close mem_nats b w))) \<inter> set (bus_subs b) = {}"
  by (auto simp: memn.Close_stops)

end
