(* ===== verification/Boot.thy ===== *)
theory Boot
  imports Servers Policy_Api Bus_Setup
begin

text \<open>
  The start of the four services (\<open>cmd/signaling\<close>, \<open>cmd/orchestrator\<close>, \<open>cmd/push\<close>, \<open>cmd/policy\<close>): from a loaded
  configuration to the objects the service works with, or the message with which it exits.  Connecting to
  Redis, PostgreSQL and NATS and reading the APNs key are parameters; serving and the wait for a signal
  are left out.
\<close>

section \<open>Building blocks\<close>

record 'w outside =
  out_nats :: "'w natslib"
  redis_Ping :: "'w \<Rightarrow> unit result \<times> 'w"
  sql_Open :: "string \<Rightarrow> 'w \<Rightarrow> unit result \<times> 'w"
  sql_Ping :: "'w \<Rightarrow> unit result \<times> 'w"
  os_ReadFile :: "string \<Rightarrow> string result"
  pem_Decode :: "string \<Rightarrow> string option"
  ParsePKCS8 :: "string \<Rightarrow> bool result"

type_synonym 'a boot = "string + 'a"

text \<open>\<open>log.Fatalf\<close> ends the process.\<close>

definition orFatal :: "string \<Rightarrow> 'a result \<times> 'w \<Rightarrow> ('a \<Rightarrow> 'w \<Rightarrow> 'b boot \<times> 'w) \<Rightarrow> 'b boot \<times> 'w" where
  "orFatal msg r k = (case r of (Inl e, w) \<Rightarrow> (Inl (msg @ '': '' @ Error_text e), w) | (Inr x, w) \<Rightarrow> k x w)"

definition bus_config :: "Config \<Rightarrow> string \<Rightarrow> BusConfig" where
  "bus_config cfg source = \<lparr>bc_URL = ntc_URL (cfg_NATS cfg), bc_Source = source, bc_MaxReconnects = -1,
     bc_ReconnectWait = 2 * Second, bc_ConnectTimeout = 10 * Second\<rparr>"

definition jwt_service :: "Config \<Rightarrow> JWTService result" where
  "jwt_service cfg = NewJWTService (auc_JWTSecret (cfg_Auth cfg)) (auc_AccessTokenExpiryMins (cfg_Auth cfg))
     (auc_RefreshTokenExpiryDays (cfg_Auth cfg))"

definition NewLiveKitTokenService :: "string \<Rightarrow> string \<Rightarrow> LiveKitTokenService" where
  "NewLiveKitTokenService key secret = \<lparr>lk_apiKey = key, lk_apiSecret = secret\<rparr>"

text \<open>What the orchestrator keeps of its arguments: the source name of its bus, the token services and the
  settings it reads; it always has an identity resolver.\<close>

definition NewOrchestrator :: "Bus \<Rightarrow> TurnService \<Rightarrow> LiveKitTokenService \<Rightarrow> Config \<Rightarrow> Orchestrator" where
  "NewOrchestrator bus turnSvc lkSvc cfg = \<lparr>o_source = bus_source bus, o_turnSvc = turnSvc, o_lkSvc = lkSvc,
     o_MaxParticipants = grc_MaxParticipants (cfg_Group cfg), o_LiveKitHost = lkc_Host (cfg_LiveKit cfg), o_resolver = True\<rparr>"

section \<open>Signaling\<close>

record signaling_service =
  sg_hub :: Hub
  sg_handler :: SigHandler
  sg_port :: int

definition signaling_orchestrator :: "'w outside \<Rightarrow> Config \<Rightarrow> Bus \<Rightarrow> 'w \<Rightarrow> Orchestrator option \<times> 'w" where
  "signaling_orchestrator X cfg bus w =
    (if pgc_Host (cfg_Postgres cfg) \<noteq> [] then
       (let (db, w1) = sql_Open X (DSN (cfg_Postgres cfg)) w in
        case db of
          Inl _ \<Rightarrow> (None, w1)
        | Inr _ \<Rightarrow> (Some (NewOrchestrator bus
             (NewTurnService (auc_TurnSecret (cfg_Auth cfg)) (tuc_AllocationTTLSeconds (cfg_Turn cfg)) (tuc_Servers (cfg_Turn cfg)))
             (NewLiveKitTokenService (lkc_APIKey (cfg_LiveKit cfg)) (lkc_APISecret (cfg_LiveKit cfg))) cfg), w1))
     else (None, w))"

definition signaling_NewServer :: "Config \<Rightarrow> Bus \<Rightarrow> JWTService \<Rightarrow> Orchestrator option \<Rightarrow> signaling_service" where
  "signaling_NewServer cfg bus jwt orc = \<lparr>
     sg_hub = NewHub (Some (bus_source bus)) (clc_RingTimeoutSeconds (cfg_Call cfg)) (clc_ICETimeoutSeconds (cfg_Call cfg)) orc,
     sg_handler = NewHandler jwt (srv_AllowedOrigins (cfg_Server cfg)),
     sg_port = srv_Port (cfg_Server cfg)\<rparr>"

definition signaling_main :: "'w outside \<Rightarrow> Config result \<Rightarrow> 'w \<Rightarrow> signaling_service boot \<times> 'w" where
  "signaling_main X loaded w =
    orFatal ''failed to load config'' (loaded, w) (\<lambda>cfg w.
    orFatal ''redis connect failed'' (redis_Ping X w) (\<lambda>_ w.
    orFatal ''nats connect failed'' (NewBus (out_nats X) (bus_config cfg ''signaling'') w) (\<lambda>bus w.
    orFatal ''jwt service init failed'' (jwt_service cfg, w) (\<lambda>jwt w.
      (let (orc, w1) = signaling_orchestrator X cfg bus w in (Inr (signaling_NewServer cfg bus jwt orc), w1))))))"

section \<open>Orchestrator\<close>

record orchestrator_service =
  og_orchestrator :: Orchestrator
  og_jwtService :: JWTService
  og_port :: int

text \<open>The bus of this service is configured with an address and a name only.\<close>

definition orchestrator_bus_config :: "Config \<Rightarrow> BusConfig" where
  "orchestrator_bus_config cfg = \<lparr>bc_URL = ntc_URL (cfg_NATS cfg), bc_Source = ''orchestrator'', bc_MaxReconnects = 0,
     bc_ReconnectWait = 0, bc_ConnectTimeout = 0\<rparr>"

definition orchestrator_main :: "'w outside \<Rightarrow> Config result \<Rightarrow> 'w \<Rightarrow> orchestrator_service boot \<times> 'w" where
  "orchestrator_main X loaded w =
    orFatal ''failed to load config'' (loaded, w) (\<lambda>cfg w.
    orFatal ''failed to connect to NATS'' (NewBus (out_nats X) (orchestrator_bus_config cfg) w) (\<lambda>bus w.
    orFatal ''failed to connect to postgres'' (sql_Open X (DSN (cfg_Postgres cfg)) w) (\<lambda>_ w.
      (let turnSvc = NewTurnService (auc_TurnSecret (cfg_Auth cfg)) (tuc_CredentialTTLSeconds (cfg_Turn cfg)) [];
           lkSvc = NewLiveKitTokenService (lkc_APIKey (cfg_LiveKit cfg)) (lkc_APISecret (cfg_LiveKit cfg))
       in orFatal ''failed to create JWT service'' (jwt_service cfg, w) (\<lambda>jwt w.
         (Inr \<lparr>og_orchestrator = NewOrchestrator bus turnSvc lkSvc cfg, og_jwtService = jwt,
            og_port = och_Port (cfg_Orchestrator cfg)\<rparr>, w))))))"

section \<open>Push gateway\<close>

definition NewAPNsSender :: "'w outside \<Rightarrow> string \<Rightarrow> APNsConfig \<Rightarrow> APNsSender result" where
  "NewAPNsSender X keyPath cfg = (case os_ReadFile X keyPath of
      Inl e \<Rightarrow> Inl (Wrap ''read APNs key file'' e)
    | Inr keyData \<Rightarrow> (case pem_Decode X keyData of
        None \<Rightarrow> Inl (Errorf ''failed to decode PEM block from APNs key'')
      | Some block \<Rightarrow> (case ParsePKCS8 X block of
          Inl e \<Rightarrow> Inl (Wrap ''parse APNs private key'' e)
        | Inr ecdsa \<Rightarrow> if \<not> ecdsa then Inl (Errorf ''APNs key is not an ECDSA private key'')
            else Inr \<lparr>as_cfg = cfg, as_jwtToken = [], as_jwtExp = zero_time\<rparr>)))"

definition apns_config :: "Config \<Rightarrow> APNsConfig" where
  "apns_config cfg = (let a = puc_APNs (cfg_Push cfg) in
     \<lparr>ac_TeamID = apc_TeamID a, ac_KeyID = apc_KeyID a, ac_BundleID = apc_BundleID a, ac_Production = apc_Production a\<rparr>)"

text \<open>The callback for a call that no device could be told of.\<close>

definition callee_unreachable :: "('w, 'z) env_scheme \<Rightarrow> string \<Rightarrow> string \<Rightarrow> string \<Rightarrow> 'w \<Rightarrow> 'w" where
  "callee_unreachable E source callID callerID w = snd (Bus_PublishJson E source SubjectPushDelivery
     (JObj [(''call_id'', JStr callID), (''caller_id'', JStr callerID), (''status'', JStr ''callee_unreachable'')]) w)"

record 'w push_service =
  ps_gateway :: "'w Gateway"
  ps_apns :: "APNsSender option"
  ps_jwtService :: JWTService
  ps_port :: int

text \<open>\<open>get_apns\<close> and \<open>put_apns\<close> reach the state of the APNs sender, which caches its token.\<close>

definition push_main ::
  "('w, 'z) env_scheme \<Rightarrow> 'w outside \<Rightarrow> 'w pushsvc \<Rightarrow> ('w \<Rightarrow> APNsSender) \<Rightarrow> (APNsSender \<Rightarrow> 'w \<Rightarrow> 'w) \<Rightarrow> Config result \<Rightarrow> 'w \<Rightarrow>
     'w push_service boot \<times> 'w" where
  "push_main E X P get_apns put_apns loaded w =
    orFatal ''failed to load config'' (loaded, w) (\<lambda>cfg w.
    orFatal ''postgres connect failed'' (sql_Open X (DSN (cfg_Postgres cfg)) w) (\<lambda>_ w.
    orFatal ''postgres ping failed'' (sql_Ping X w) (\<lambda>_ w.
    orFatal ''nats connect failed'' (NewBus (out_nats X) (bus_config cfg ''push-gateway'') w) (\<lambda>bus w.
    orFatal ''jwt service init failed'' (jwt_service cfg, w) (\<lambda>jwt w.
    orFatal ''apns sender init failed''
      (if apc_KeyPath (puc_APNs (cfg_Push cfg)) \<noteq> []
       then map_sum id Some (NewAPNsSender X (apc_KeyPath (puc_APNs (cfg_Push cfg))) (apns_config cfg)) else Inr None, w) (\<lambda>apns w.
      (let fcm = (if fc_ServerKey (puc_FCM (cfg_Push cfg)) \<noteq> [] then Some (FCMSender_Send P (fc_ServerKey (puc_FCM (cfg_Push cfg)))) else None);
           gateway = NewGateway (case apns of None \<Rightarrow> None | Some _ \<Rightarrow> Some (apns_sender E P get_apns put_apns)) fcm (Some (bus_source bus))
             (clc_RingTimeoutSeconds (cfg_Call cfg)) (Some (callee_unreachable E (bus_source bus)));
           port = (if puc_Port (cfg_Push cfg) = 0 then 8082 else puc_Port (cfg_Push cfg))
       in (Inr \<lparr>ps_gateway = gateway, ps_apns = apns, ps_jwtService = jwt, ps_port = port\<rparr>,
           (case apns of None \<Rightarrow> w | Some a \<Rightarrow> put_apns a w)))))))))"

section \<open>Policy engine\<close>

definition policy_main :: "'w outside \<Rightarrow> Config result \<Rightarrow> 'w \<Rightarrow> (PolicyEngine \<times> int) boot \<times> 'w" where
  "policy_main X loaded w =
    orFatal ''failed to load config'' (loaded, w) (\<lambda>cfg w.
    orFatal ''failed to connect to redis'' (redis_Ping X w) (\<lambda>_ w.
    orFatal ''failed to connect to NATS'' (NewBus (out_nats X) (bus_config cfg ''policy-engine'') w) (\<lambda>bus w.
      (Inr (policy_engine cfg, srv_Port (cfg_Server cfg)), w))))"

section \<open>Properties\<close>

lemma orFatal_ok: "orFatal msg r k = (Inr y, w') \<Longrightarrow> \<exists>x w. r = (Inr x, w) \<and> k x w = (Inr y, w')"
  by (auto simp: orFatal_def split: sum.splits prod.splits)

lemma jwt_service_secret: "jwt_service cfg = Inr s \<Longrightarrow> js_secret s = auc_JWTSecret (cfg_Auth cfg) \<and> js_secret s \<noteq> []"
  by (auto simp: jwt_service_def NewJWTService_def Let_def split: if_splits)

lemma NewBus_source: "NewBus N cfg w = (Inr b, w') \<Longrightarrow> bus_source b = bc_Source cfg"
  by (auto simp: NewBus_def split_beta Let_def split: sum.splits)

text \<open>No service that checks tokens starts without a secret.\<close>

theorem no_service_without_secret:
  assumes "auc_JWTSecret (cfg_Auth cfg) = []"
  shows "\<exists>m. fst (signaling_main X (Inr cfg) w) = Inl m" "\<exists>m. fst (orchestrator_main X (Inr cfg) w) = Inl m"
    "\<exists>m. fst (push_main E X P get_apns put_apns (Inr cfg) w) = Inl m"
  using assms
  by (simp_all add: signaling_main_def orchestrator_main_def push_main_def orFatal_def jwt_service_def NewJWTService_def
      split: prod.splits sum.splits)

text \<open>The orchestrator is built without TURN servers: the credentials it hands out name none, whatever the
  configuration says.\<close>

theorem orchestrator_names_no_turn_server:
  assumes "orchestrator_main X loaded w0 = (Inr svc, w1)" "rq_Claims r = Some c"
  shows "\<exists>t. tc_URIs t = [] \<and> handleGetTurnCredentials E (og_orchestrator svc) r w =
    (reply StatusOK (turn_json t), snd (time_now E w))"
proof -
  have "ts_uris (o_turnSvc (og_orchestrator svc)) = []"
    using assms(1) unfolding orchestrator_main_def
    by (auto simp: Let_def NewOrchestrator_def NewTurnService_def dest!: orFatal_ok)
  then show ?thesis using assms(2)
    by (intro exI[of _ "fst (Orchestrator_GetTurnCredentials E (og_orchestrator svc) (cl_UserID c) w)"])
      (simp add: handleGetTurnCredentials_def with_claims_Some Orchestrator_GetTurnCredentials_def
        TurnService_GenerateCredentials_def split_beta Let_def)
qed

text \<open>The hub of a started service is a new one, with the timeouts of the configuration and, if the
  database could be opened, an orchestrator.\<close>

lemma signaling_main_hub:
  assumes "signaling_main X (Inr cfg) w = (Inr svc, w1)"
  shows "\<exists>orc. sg_hub svc = NewHub (Some ''signaling'') (clc_RingTimeoutSeconds (cfg_Call cfg)) (clc_ICETimeoutSeconds (cfg_Call cfg)) orc"
  using assms unfolding signaling_main_def
  by (auto simp: signaling_NewServer_def bus_config_def split_beta Let_def dest!: orFatal_ok NewBus_source)

text \<open>So the invariant of the hub holds in every state the running service reaches.\<close>

theorem booted_hub_ok:
  assumes "signaling_main X (Inr cfg) w0 = (Inr svc, w1)" "hub_run E (sg_hub svc, w1) (h, w)"
  shows "hub_ok h"
  using signaling_main_hub[OF assms(1)] ok_run[OF assms(2)] ok_NewHub by auto

end
