(* ===== verification/Hub_Identity.thy ===== *)
theory Hub_Identity
  imports Hub_Invariant
begin

text \<open>
  Who is connected.  No handler and no timer of the hub touches the table of clients; a client enters it
  only by registering and leaves it by its disconnection or at the end of the hub.
\<close>

named_theorems table_simps

lemma table_delivery [table_simps]:
  "h_clients (SendJSONWithSeq c t d n h) = h_clients h" "h_clients (SendError c e m i h) = h_clients h"
  "h_clients (send_all cs t d n h) = h_clients h" "h_clients (sendToUserExcept u x t d h) = h_clients h"
  "h_clients (send_users us t d h) = h_clients h" "h_clients (send_candidates c ms h) = h_clients h"
  using frames by (auto simp: same_frame_def)

lemma table_state [table_simps]:
  "h_clients (go tm h) = h_clients h" "h_clients (bufferICECandidate i m h) = h_clients h"
  "h_clients (clearICEBuffer i h) = h_clients h" "h_clients (flushICEBuffer i c h) = h_clients h"
  "h_clients (addToRoom r u h) = h_clients h" "h_clients (setRoomHost r u h) = h_clients h"
  "h_clients (clearRoomHost r h) = h_clients h" "h_clients (removeFromRoom r u h) = h_clients h"
  "h_clients (deleteRoom r h) = h_clients h" "h_clients (snd (cancelGracePeriod u h)) = h_clients h"
  "h_clients (snd (cancelRoomGracePeriod u h)) = h_clients h" "h_clients (Client_Close c h) = h_clients h"
  "h_clients (snd (WritePump_take c h)) = h_clients h" "h_clients (no_groups c h) = h_clients h"
  by (simp_all add: go_def bufferICECandidate_def clearICEBuffer_def flushICEBuffer_def addToRoom_def setRoomHost_def
      clearRoomHost_def removeFromRoom_def deleteRoom_def cancelGracePeriod_def cancelRoomGracePeriod_def Client_Close_def
      WritePump_take_def no_groups_def Let_def table_simps split: option.splits list.splits)

lemma table_drop_user [table_simps]: "h_clients (snd (drop_user rs u h)) = h_clients h"
  by (induction rs u h rule: drop_user.induct) (auto simp: Let_def split_beta table_simps split: option.splits)

lemma table_broadcast [table_simps]: "h_clients (fst (broadcastToRoom E r x t d h w)) = h_clients h"
  by (simp add: broadcastToRoom_def split_beta Let_def table_simps)

lemma table_leave_rooms [table_simps]: "h_clients (fst (leave_rooms E rs u h w)) = h_clients h"
  by (induction rs arbitrary: h w) (simp_all add: Let_def split_beta table_simps split: option.splits)

lemma table_rooms [table_simps]:
  "h_clients (fst (removeFromAllRooms E u h w)) = h_clients h" "h_clients (fst (snd (startRoomGracePeriod E u h w))) = h_clients h"
  "h_clients (fst (sendStateSync E c h w)) = h_clients h" "h_clients (fst (snd (startGracePeriod E u h w))) = h_clients h"
  "h_clients (fst (resolveGlare E c g m h w)) = h_clients h"
  by (simp_all add: removeFromAllRooms_def startRoomGracePeriod_def sendStateSync_def startGracePeriod_def resolveGlare_def
      Let_def split_beta table_simps split: sum.splits option.splits)

lemma table_call_handlers [table_simps]:
  "h_clients (fst (handleCallInitiate E c d h w)) = h_clients h" "h_clients (fst (handleCallAccept E c d h w)) = h_clients h"
  "h_clients (fst (handleCallReject E c d h w)) = h_clients h" "h_clients (fst (handleCallEnd E c d h w)) = h_clients h"
  "h_clients (fst (handleCallCancel E c d h w)) = h_clients h" "h_clients (fst (handleICECandidate E c d h w)) = h_clients h"
  "h_clients (fst (handleQualityMetrics E c d h w)) = h_clients h" "h_clients (fst (handleReconnect E c d h w)) = h_clients h"
  by (simp_all add: handleCallInitiate_def handleCallAccept_def handleCallReject_def handleCallEnd_def handleCallCancel_def
      handleICECandidate_def handleQualityMetrics_def handleReconnect_def Let_def split_beta table_simps split: sum.splits option.splits)

lemma table_room_handlers [table_simps]:
  "h_clients (fst (handleRoomCreate E c d h w)) = h_clients h" "h_clients (fst (handleRoomInvite E c d h w)) = h_clients h"
  "h_clients (fst (handleRoomJoin E c d h w)) = h_clients h" "h_clients (fst (handleRoomEndAll E c d h w)) = h_clients h"
  "h_clients (fst (handleMediaChange E c d h w)) = h_clients h" "h_clients (fst (handleRoomLeave E c d h w)) = h_clients h"
  by (simp_all add: handleRoomCreate_def handleRoomInvite_def handleRoomJoin_def handleRoomEndAll_def handleMediaChange_def
      handleRoomLeave_def Let_def split_beta table_simps split: sum.splits option.splits)

lemma table_message: "h_clients (fst (handleMessage E c p h w)) = h_clients h"
  unfolding handleMessage_def by (simp add: Let_def split_beta table_simps split: sum.splits)

lemma table_fire: "h_clients (fst (fire E t h w)) = h_clients h"
  by (simp add: fire_def ringTimeout_def iceTimeout_def endBoth_def reconnectGraceTimeout_def roomGraceTimeout_def Let_def
      split_beta table_simps split: timer.splits sum.splits)

lemma table_recover_members [table_simps]: "h_clients (recover_members r ps h) = h_clients h"
  by (induction ps arbitrary: h) (auto simp: table_simps)

lemma table_recover_rooms [table_simps]: "h_clients (fst (recover_rooms E orc ss h w)) = h_clients h"
  by (induction E orc ss h w rule: recover_rooms.induct) (auto simp: Let_def table_simps)

lemma table_recover: "RecoverSessions E h w = Some s \<Longrightarrow> h_clients (fst s) = h_clients h"
  by (auto simp: RecoverSessions_def Let_def table_simps split: option.splits prod.splits sum.splits)

section \<open>The clients in the table\<close>

definition connected :: "Hub \<Rightarrow> Client set" where
  "connected h = {c. \<exists>u ds d. (u, ds) \<in> set (h_clients h) \<and> (d, c) \<in> set ds}"

lemma connected_same: "h_clients h' = h_clients h \<Longrightarrow> connected h' = connected h"
  by (simp add: connected_def)

lemma aput_subset: "set (aput k v xs) \<subseteq> insert (k, v) (set xs)"
  by (induction k v xs rule: aput.induct) auto

lemma adel_subset: "set (adel k xs) \<subseteq> set xs"
  by (auto simp: adel_def)

lemma devices_connected: "(d, c) \<in> set (devices h u) \<Longrightarrow> c \<in> connected h"
  by (cases "map_of (h_clients h) u") (auto simp: devices_def connected_def dest!: map_of_SomeD)

lemma connected_register: "connected (fst (Run_register E c h w)) \<subseteq> insert c (connected h)"
proof -
  define ds where "ds = devices h (c_userID c)"
  have eq: "h_clients (fst (Run_register E c h w)) = aput (c_userID c) (aput (c_deviceID c) c ds) (h_clients h)"
    by (simp add: Run_register_def Let_def table_simps ds_def split: option.splits)
  have new: "x \<in> insert c (connected h)" if "(u, es) \<in> set (aput (c_userID c) (aput (c_deviceID c) c ds) (h_clients h))" "(d, x) \<in> set es" for u es d x
  proof -
    from that(1) have "(u, es) = (c_userID c, aput (c_deviceID c) c ds) \<or> (u, es) \<in> set (h_clients h)"
      using aput_subset by fastforce
    then show ?thesis
      using that(2) aput_subset[of "c_deviceID c" c ds] devices_connected[of d x h "c_userID c"] by (auto simp: ds_def connected_def)
  qed
  show ?thesis unfolding connected_def[of "fst (Run_register E c h w)"] eq using new by blast
qed

lemma connected_drop_device: "connected (drop_device c h) \<subseteq> connected h"
proof (cases "map_of (h_clients h) (c_userID c)")
  case (Some ds)
  then have ds: "(c_userID c, ds) \<in> set (h_clients h)" by (rule map_of_SomeD)
  show ?thesis
    using ds aput_subset[of "c_userID c" "adel (c_deviceID c) ds" "h_clients h"] adel_subset[of "c_userID c" "h_clients h"]
      adel_subset[of "c_deviceID c" ds]
    by (fastforce simp: drop_device_def Some connected_def Let_def split: if_splits)
qed (simp add: drop_device_def)

lemma connected_exit: "connected (fst (ReadPump_exit E c h w)) \<subseteq> connected h"
proof -
  have "h_clients (fst (ReadPump_exit E c h w)) = h_clients (drop_device c h)"
    by (simp add: ReadPump_exit_def Run_unregister_def Let_def split_beta table_simps)
  then show ?thesis using connected_drop_device[of c h] by (simp add: connected_def)
qed

lemma connected_stop: "connected (Hub_Stop h) = {}"
  by (simp add: Hub_Stop_def connected_def Let_def)

end
