(* ===== verification/Signaling_Service.thy ===== *)
theory Signaling_Service
  imports Boot Hub_Identity
begin

text \<open>
  The signaling service as a whole: started by \<open>cmd/signaling\<close>, it lets clients in at the WebSocket endpoint
  only, and from then on the hub handles the messages of the clients that got in, their disconnections
  and its timers.  The clients that ever got in are kept beside the state.
\<close>

section \<open>Runs of the service\<close>

definition opened_by :: "ws_answer \<Rightarrow> Client set" where
  "opened_by ans = (case ans of Upgraded c \<Rightarrow> {c} | _ \<Rightarrow> {})"

inductive service_step ::
  "('w, 'z) env_scheme \<Rightarrow> jwtlib \<Rightarrow> (ws_request \<Rightarrow> bool \<Rightarrow> 'w \<Rightarrow> unit result \<times> 'w) \<Rightarrow> SigHandler \<Rightarrow>
     Client set \<times> Hub \<times> 'w \<Rightarrow> Client set \<times> Hub \<times> 'w \<Rightarrow> bool" for E J upgrade sh where
  request: "\<not> h_done h \<Longrightarrow> h_conns h i = None \<Longrightarrow> ServeWS E J upgrade sh i r (h, w) = (ans, s) \<Longrightarrow>
     service_step E J upgrade sh (cs, h, w) (cs \<union> opened_by ans, s)"
| message: "\<not> h_done h \<Longrightarrow> c \<in> cs \<Longrightarrow> service_step E J upgrade sh (cs, h, w) (cs, handleMessage E c p h w)"
| disconnect: "\<not> h_done h \<Longrightarrow> c \<in> cs \<Longrightarrow> service_step E J upgrade sh (cs, h, w) (cs, ReadPump_exit E c h w)"
| deliver: "service_step E J upgrade sh (cs, h, w) (cs, snd (WritePump_take c h), w)"
| timeout: "t \<in> set (h_timers h) \<Longrightarrow> service_step E J upgrade sh (cs, h, w) (cs, fire E t h w)"
| promote: "service_step E J upgrade sh (cs, h, w) (cs, h, snd (PromoteToActive E callID w))"
| recover: "RecoverSessions E h w = Some s \<Longrightarrow> service_step E J upgrade sh (cs, h, w) (cs, s)"
| shutdown: "service_step E J upgrade sh (cs, h, w) (cs, Hub_Stop h, w)"

inductive service_run ::
  "('w, 'z) env_scheme \<Rightarrow> jwtlib \<Rightarrow> (ws_request \<Rightarrow> bool \<Rightarrow> 'w \<Rightarrow> unit result \<times> 'w) \<Rightarrow> SigHandler \<Rightarrow>
     Client set \<times> Hub \<times> 'w \<Rightarrow> Client set \<times> Hub \<times> 'w \<Rightarrow> bool" for E J upgrade sh where
  start: "service_run E J upgrade sh s s"
| more: "service_run E J upgrade sh s t \<Longrightarrow> service_step E J upgrade sh t u \<Longrightarrow> service_run E J upgrade sh s u"

section \<open>Everyone has shown a token\<close>

text \<open>The client came with a trusted token that names its user and its device, from an allowed origin.\<close>

definition authenticated ::
  "(string \<Rightarrow> jwt_alg \<Rightarrow> string \<Rightarrow> bool) \<Rightarrow> JWTService \<Rightarrow> string list \<Rightarrow> Client \<Rightarrow> bool" where
  "authenticated genuine s allowed c \<longleftrightarrow> (\<exists>r :: ws_request. \<exists>now claims. trusted genuine s (ws_token r) now claims \<and>
     c_userID c = cl_UserID claims \<and> c_deviceID c = cl_DeviceID claims \<and> (allowed = [] \<or> ws_Origin r \<in> set allowed))"

definition service_ok ::
  "(string \<Rightarrow> jwt_alg \<Rightarrow> string \<Rightarrow> bool) \<Rightarrow> JWTService \<Rightarrow> string list \<Rightarrow> Client set \<times> Hub \<times> 'w \<Rightarrow> bool" where
  "service_ok genuine s allowed = (\<lambda>(cs, h, w). hub_ok h \<and> connected h \<subseteq> cs \<and> (\<forall>c\<in>cs. authenticated genuine s allowed c))"

lemma request_ok:
  assumes jwt: "jwt_library J genuine" and up: "ws_upgrader upgrade" and ok: "service_ok genuine s allowed (cs, h, w)"
    and h: "\<not> h_done h" "h_conns h i = None" and serve: "ServeWS E J upgrade (NewHandler s allowed) i r (h, w) = (ans, h', w')"
  shows "service_ok genuine s allowed (cs \<union> opened_by ans, h', w')"
proof (cases ans)
  case (Upgraded c)
  from ws_admission[OF jwt up refl serve h(2,1)] Upgraded
  obtain claims v where t: "trusted genuine s (ws_token r) (fst (time_now E w)) claims" "c_userID c = cl_UserID claims"
    "c_deviceID c = cl_DeviceID claims" "hub_step E (h, v) (h', w')" "allowed = [] \<or> ws_Origin r \<in> set allowed" by auto
  obtain v2 h1 u d where n: "NewClient i u d h = (c, h1)" "(h', w') = Run_register E c h1 v2"
    using serve Upgraded by (auto simp: ServeWS_def Let_def split_beta prod_eq_iff split: if_splits sum.splits)
  have "connected h1 = connected h" using n(1) by (intro connected_same) (auto simp: NewClient_def)
  then have "connected h' \<subseteq> insert c (connected h)"
    using connected_register[of E c h1 v2] n(2) by (metis fst_conv)
  moreover have "hub_ok h'" using ok_step[OF t(4)] ok by (simp add: service_ok_def)
  moreover have "authenticated genuine s allowed c" using t unfolding authenticated_def by blast
  ultimately show ?thesis using ok Upgraded by (auto simp: service_ok_def opened_by_def)
next
  case (Answered resp)
  then show ?thesis using ws_admission[OF jwt up refl serve h(2,1)] ok by (simp add: opened_by_def service_ok_def)
next
  case (UpgradeFailed e)
  then show ?thesis using ws_admission[OF jwt up refl serve h(2,1)] ok by (simp add: opened_by_def service_ok_def)
qed

lemma service_step_ok:
  assumes "jwt_library J genuine" "ws_upgrader upgrade"
    and "service_step E J upgrade (NewHandler s allowed) x y" "service_ok genuine s allowed x"
  shows "service_ok genuine s allowed y"
  using assms(3)
proof cases
  case (request h i r w ans t cs)
  then show ?thesis using request_ok[OF assms(1,2), of s allowed cs h w i E r ans "fst t" "snd t"] assms(4) by simp
next
  case (message h c cs w p)
  then show ?thesis using assms(4) ok_handleMessage[of h E c p w] connected_same[OF table_message[of E c p h w]]
    by (cases "handleMessage E c p h w") (auto simp: service_ok_def)
next
  case (disconnect h c cs w)
  then show ?thesis using assms(4) ok_unregister[of h E c w] connected_exit[of E c h w]
    by (cases "ReadPump_exit E c h w") (auto simp: service_ok_def)
next
  case (deliver cs h w c)
  then show ?thesis using assms(4) connected_same[OF table_state(13)[of c h]] by (auto simp: service_ok_def)
next
  case (timeout t h cs w)
  then show ?thesis using assms(4) ok_fire[of h E t w] connected_same[OF table_fire[of E t h w]]
    by (cases "fire E t h w") (auto simp: service_ok_def)
next
  case (promote cs h w callID)
  then show ?thesis using assms(4) by (auto simp: service_ok_def)
next
  case (recover h w s' cs)
  then show ?thesis using assms(4) ok_RecoverSessions[of E h w s'] connected_same[OF table_recover[of E h w s']]
    by (cases s') (auto simp: service_ok_def)
next
  case (shutdown cs h w)
  then show ?thesis using assms(4) ok_Stop[of h] by (auto simp: service_ok_def connected_stop)
qed

lemma service_run_ok:
  "service_run E J upgrade sh x y \<Longrightarrow> jwt_library J genuine \<Longrightarrow> ws_upgrader upgrade \<Longrightarrow> sh = NewHandler s allowed \<Longrightarrow>
   service_ok genuine s allowed x \<Longrightarrow> service_ok genuine s allowed y"
  by (induction rule: service_run.induct) (auto intro: service_step_ok)

lemma NewHub_connected: "connected (NewHub bus ring ice orc) = {}"
  by (simp add: connected_def NewHub_def)

lemma signaling_main_handler:
  assumes "signaling_main X (Inr cfg) w = (Inr svc, w1)"
  shows "\<exists>s. jwt_service cfg = Inr s \<and> sg_handler svc = NewHandler s (srv_AllowedOrigins (cfg_Server cfg))"
  using assms unfolding signaling_main_def
  by (auto simp: signaling_NewServer_def split_beta Let_def dest!: orFatal_ok)


section \<open>A started service\<close>

text \<open>Everything outside answers, and Alice connects.\<close>

definition fine_nats :: "'w natslib" where
  "fine_nats = \<lparr>nats_DefaultURL = ''nats://127.0.0.1:4222'', nats_Connect = (\<lambda>_ w. (Inr (), w)), nats_Close = (\<lambda>w. w),
     nats_Drain = (\<lambda>w. w), nats_IsConnected = (\<lambda>w. (True, w)), js_New = (\<lambda>w. (Inr (), w)),
     js_CreateOrUpdateStream = (\<lambda>_ w. (Inr (), w)), js_CreateOrUpdateConsumer = (\<lambda>_ _ w. (Inr (), w)),
     js_Consume = (\<lambda>_ w. (Inr 0, w)), js_Stop = (\<lambda>_ w. w)\<rparr>"

definition fine_outside :: "'w outside" where
  "fine_outside = \<lparr>out_nats = fine_nats, redis_Ping = (\<lambda>w. (Inr (), w)), sql_Open = (\<lambda>_ w. (Inr (), w)),
     sql_Ping = (\<lambda>w. (Inr (), w)), os_ReadFile = (\<lambda>_. Inr []), pem_Decode = Some, ParsePKCS8 = (\<lambda>_. Inr True)\<rparr>"

definition app_config :: Config where
  "app_config = zero_config\<lparr>cfg_Auth := (cfg_Auth zero_config)\<lparr>auc_JWTSecret := js_secret sample_jwt\<rparr>,
     cfg_Server := (cfg_Server zero_config)\<lparr>srv_AllowedOrigins := [''https://app'']\<rparr>\<rparr>"

definition app_service :: signaling_service where
  "app_service = signaling_NewServer app_config \<lparr>bus_source = ''signaling'', bus_subs = []\<rparr> sample_jwt None"

lemma app_jwt: "jwt_service app_config = Inr sample_jwt"
  by (simp add: jwt_service_def app_config_def zero_config_def NewJWTService_def sample_jwt_def Minute_def Hour_def Second_def wrap64_def)

lemma app_started: "signaling_main fine_outside (Inr app_config) world0 = (Inr app_service, world0)"
  by (simp add: signaling_main_def orFatal_def app_jwt fine_outside_def fine_nats_def NewBus_def ensureStream_def Let_def
      signaling_orchestrator_def app_service_def bus_config_def) (simp add: app_config_def zero_config_def)

lemma app_handler: "sg_handler app_service = ws_sample_handler"
  by (simp add: app_service_def signaling_NewServer_def ws_sample_handler_def app_config_def)


end
