(* ===== verification/Metrics.thy ===== *)
theory Metrics
  imports Events "HOL-Library.Multiset" "HOL-Library.Sublist"
begin

text \<open>
  \<open>internal/metrics\<close>: the writer that collects quality samples from the bus and stores them in
  ClickHouse in batches.  A full buffer is handed to a goroutine; the batches that wait for theirs to
  run are a field of the state, and running one is a step of its own.  The database is a parameter.
\<close>

section \<open>State\<close>

record metricsRow =
  mr_CallID :: string
  mr_ParticipantID :: string
  mr_Timestamp :: time
  mr_Direction :: string
  mr_RTTMs :: int
  mr_LossPct :: float64
  mr_JitterMs :: float64
  mr_BitrateKbps :: int
  mr_Framerate :: int
  mr_Resolution :: string
  mr_NetworkTier :: string

record WriterConfig =
  wc_BatchSize :: int
  wc_FlushInterval :: duration

definition DefaultWriterConfig :: WriterConfig where
  "DefaultWriterConfig = \<lparr>wc_BatchSize = 100, wc_FlushInterval = 5 * Second\<rparr>"

record Writer =
  wr_db :: bool
  wr_buffer :: "metricsRow list"
  wr_batchSize :: int
  wr_flushInterval :: duration
  wr_cancelled :: bool
  wr_pending :: "metricsRow list list"

definition NewWriter :: "bool \<Rightarrow> WriterConfig \<Rightarrow> Writer" where
  "NewWriter db cfg = \<lparr>wr_db = db, wr_buffer = [],
     wr_batchSize = (if wc_BatchSize cfg \<le> 0 then 100 else wc_BatchSize cfg),
     wr_flushInterval = (if wc_FlushInterval cfg \<le> 0 then 5 * Second else wc_FlushInterval cfg),
     wr_cancelled = False, wr_pending = []\<rparr>"

section \<open>Batching\<close>

definition flushLocked :: "Writer \<Rightarrow> Writer" where
  "flushLocked s = (if wr_buffer s = [] then s
     else s\<lparr>wr_buffer := [], wr_pending := wr_pending s @ [wr_buffer s]\<rparr>)"

definition flush :: "Writer \<Rightarrow> Writer" where
  "flush s = flushLocked s"

text \<open>\<open>time.UnixMilli\<close>.\<close>

definition UnixMilli :: "int \<Rightarrow> time" where
  "UnixMilli ms = ms * 1000000 + 62135596800 * Second"

fun sample_rows :: "('w, 'z) env_scheme \<Rightarrow> string \<Rightarrow> QualityMetricsSample list \<Rightarrow> 'w \<Rightarrow> metricsRow list \<times> 'w" where
  "sample_rows E callID [] w = ([], w)"
| "sample_rows E callID (s # ss) w =
    (let (ts, w1) = (if qs_Timestamp s = 0 then time_now E w else (UnixMilli (qs_Timestamp s), w));
         row = \<lparr>mr_CallID = callID, mr_ParticipantID = qs_ParticipantID s, mr_Timestamp = ts, mr_Direction = qs_Direction s,
           mr_RTTMs = qs_RTTMs s, mr_LossPct = qs_LossPct s, mr_JitterMs = qs_JitterMs s, mr_BitrateKbps = qs_BitrateKbps s,
           mr_Framerate = qs_Framerate s, mr_Resolution = qs_Resolution s, mr_NetworkTier = qs_NetworkTier s\<rparr>;
         (rows, w2) = sample_rows E callID ss w1
     in (row # rows, w2))"

definition ingest :: "('w, 'z) env_scheme \<Rightarrow> string \<Rightarrow> QualityMetricsSample list \<Rightarrow> Writer \<Rightarrow> 'w \<Rightarrow> Writer \<times> 'w" where
  "ingest E callID samples s w =
    (let (rows, w1) = sample_rows E callID samples w;
         s1 = s\<lparr>wr_buffer := wr_buffer s @ rows\<rparr>
     in (if wr_batchSize s1 \<le> int (length (wr_buffer s1)) then flushLocked s1 else s1, w1))"

definition Writer_Stop :: "Writer \<Rightarrow> Writer" where
  "Writer_Stop s = flush (s\<lparr>wr_cancelled := True\<rparr>)"

text \<open>A tick of the flush loop, which ends when the writer is cancelled.\<close>

definition flushLoop_tick :: "Writer \<Rightarrow> Writer" where
  "flushLoop_tick s = (if wr_cancelled s then s else flush s)"

definition BufferLen :: "Writer \<Rightarrow> nat" where
  "BufferLen s = length (wr_buffer s)"

text \<open>The handler of the subscription: the payload of an envelope is never a Go struct, so it is
  always decoded again.\<close>

definition dec_sample :: "json \<Rightarrow> QualityMetricsSample result" where
  "dec_sample = dec_obj (\<lambda>ob. rbind (dec_str (fld ob ''participant_id'')) (\<lambda>p. rbind (dec_int (fld ob ''ts'')) (\<lambda>t.
     rbind (dec_str (fld ob ''direction'')) (\<lambda>d. rbind (dec_int (fld ob ''rtt_ms'')) (\<lambda>r. rbind (dec_float (fld ob ''loss_pct'')) (\<lambda>l.
     rbind (dec_float (fld ob ''jitter_ms'')) (\<lambda>j. rbind (dec_int (fld ob ''bitrate_kbps'')) (\<lambda>b. rbind (dec_int (fld ob ''framerate'')) (\<lambda>f.
     rbind (dec_str (fld ob ''resolution'')) (\<lambda>x. rbind (dec_str (fld ob ''network_tier'')) (\<lambda>n.
     Inr \<lparr>qs_ParticipantID = p, qs_Timestamp = t, qs_Direction = d, qs_RTTMs = r, qs_LossPct = l, qs_JitterMs = j,
       qs_BitrateKbps = b, qs_Framerate = f, qs_Resolution = x, qs_NetworkTier = n\<rparr>)))))))))))"

definition dec_metrics :: "json \<Rightarrow> (string \<times> QualityMetricsSample list) result" where
  "dec_metrics = dec_obj (\<lambda>ob. rbind (dec_str (fld ob ''call_id'')) (\<lambda>c. rbind (dec_str (fld ob ''region'')) (\<lambda>_.
     rbind (dec_list dec_sample (fld ob ''samples'')) (\<lambda>ss. Inr (c, ss)))))"

definition decodePayload :: "json \<Rightarrow> (string \<times> QualityMetricsSample list) result" where
  "decodePayload raw = (case dec_obj (\<lambda>ob. Inr (map_of ob ''payload'')) raw of
      Inl e \<Rightarrow> Inl (Wrap ''unmarshal envelope'' e)
    | Inr None \<Rightarrow> Inl (Wrap ''unmarshal payload'' json_err)
    | Inr (Some p) \<Rightarrow> (case dec_metrics p of Inl e \<Rightarrow> Inl (Wrap ''unmarshal payload'' e) | Inr m \<Rightarrow> Inr m))"

definition onQualityMetrics ::
  "('w, 'z) env_scheme \<Rightarrow> Envelope \<Rightarrow> json \<Rightarrow> Writer \<times> 'w \<Rightarrow> unit result \<times> Writer \<times> 'w" where
  "onQualityMetrics E env raw = (\<lambda>(s, w). (Inr (), case decodePayload raw of Inl _ \<Rightarrow> (s, w) | Inr (c, ss) \<Rightarrow> ingest E c ss s w))"

section \<open>Writing a batch\<close>

record 'w clickhouse =
  ch_BeginTx :: "'w \<Rightarrow> unit result \<times> 'w"
  ch_Prepare :: "string \<Rightarrow> 'w \<Rightarrow> unit result \<times> 'w"
  ch_Exec :: "json list \<Rightarrow> 'w \<Rightarrow> unit result \<times> 'w"
  ch_Commit :: "'w \<Rightarrow> unit result \<times> 'w"
  ch_Rollback :: "'w \<Rightarrow> 'w"

definition insert_sql :: string where
  "insert_sql = ''INSERT INTO qos_metrics (call_id, participant_id, ts, direction, rtt_ms, packet_loss_pct, jitter_ms, bitrate_kbps, framerate, resolution, network_tier) VALUES (?, ?, ?, ?, ?, ?, ?, ?, ?, ?, ?)''"

definition row_args :: "metricsRow \<Rightarrow> json list" where
  "row_args r = [JStr (mr_CallID r), JStr (mr_ParticipantID r), JTime (mr_Timestamp r), JStr (mr_Direction r), JNum (mr_RTTMs r),
     JFloat (mr_LossPct r), JFloat (mr_JitterMs r), JNum (mr_BitrateKbps r), JNum (mr_Framerate r), JStr (mr_Resolution r),
     JStr (mr_NetworkTier r)]"

fun exec_rows :: "'w clickhouse \<Rightarrow> metricsRow list \<Rightarrow> 'w \<Rightarrow> unit result \<times> 'w" where
  "exec_rows C [] w = (Inr (), w)"
| "exec_rows C (r # rs) w =
    (let (x, w1) = ch_Exec C (row_args r) w in case x of Inl e \<Rightarrow> (Inl e, w1) | Inr _ \<Rightarrow> exec_rows C rs w1)"

definition writeBatch :: "'w clickhouse \<Rightarrow> bool \<Rightarrow> metricsRow list \<Rightarrow> 'w \<Rightarrow> unit result \<times> 'w" where
  "writeBatch C db rows w =
    (if \<not> db then (Inr (), w)
     else let (b, w1) = ch_BeginTx C w in
       case b of
         Inl e \<Rightarrow> (Inl (Wrap ''begin tx'' e), w1)
       | Inr _ \<Rightarrow>
         (let (p, w2) = ch_Prepare C insert_sql w1 in
          case p of
            Inl e \<Rightarrow> (Inl (Wrap ''prepare stmt'' e), ch_Rollback C w2)
          | Inr _ \<Rightarrow>
            (let (x, w3) = exec_rows C rows w2 in
             case x of
               Inl e \<Rightarrow> (Inl (Wrap ''exec insert'' e), ch_Rollback C w3)
             | Inr _ \<Rightarrow>
               (let (c, w4) = ch_Commit C w3 in
                case c of Inl e \<Rightarrow> (Inl (Wrap ''commit'' e), w4) | Inr _ \<Rightarrow> (Inr (), w4)))))"

text \<open>The goroutine of the \<open>i\<close>-th waiting batch.\<close>

definition run_batch :: "'w clickhouse \<Rightarrow> nat \<Rightarrow> Writer \<Rightarrow> 'w \<Rightarrow> Writer \<times> 'w" where
  "run_batch C i s w = (s\<lparr>wr_pending := take i (wr_pending s) @ drop (Suc i) (wr_pending s)\<rparr>,
     snd (writeBatch C (wr_db s) (wr_pending s ! i) w))"

section \<open>The database\<close>

text \<open>\<open>table\<close> is what is committed, \<open>tx\<close> the rows of the open transaction.  A commit that reports an
  error may have happened.\<close>

locale clickhouse_db =
  fixes E :: "('w, 'z) env_scheme" and C :: "'w clickhouse" and table tx :: "'w \<Rightarrow> json list list"
  assumes begin_table: "table (snd (ch_BeginTx C w)) = table w"
    and begin_tx: "fst (ch_BeginTx C w) = Inr () \<Longrightarrow> tx (snd (ch_BeginTx C w)) = []"
    and prepare: "table (snd (ch_Prepare C q w)) = table w" "tx (snd (ch_Prepare C q w)) = tx w"
    and exec_table: "table (snd (ch_Exec C a w)) = table w"
    and exec_tx: "fst (ch_Exec C a w) = Inr () \<Longrightarrow> tx (snd (ch_Exec C a w)) = tx w @ [a]"
    and commit_ok: "fst (ch_Commit C w) = Inr () \<Longrightarrow> table (snd (ch_Commit C w)) = table w @ tx w"
    and commit_err: "table (snd (ch_Commit C w)) \<in> {table w, table w @ tx w}"
    and rollback: "table (ch_Rollback C w) = table w"
    and clock_table: "table (snd (time_now E w)) = table w"
begin

lemma exec_rows_table: "table (snd (exec_rows C rs w)) = table w"
  by (induction rs arbitrary: w) (simp_all add: split_beta exec_table split: sum.splits)

lemma exec_rows_tx: "fst (exec_rows C rs w) = Inr () \<Longrightarrow> tx (snd (exec_rows C rs w)) = tx w @ map row_args rs"
  by (induction rs arbitrary: w) (auto simp: split_beta exec_tx split: sum.splits)

lemma writeBatch_all_or_nothing:
  "table (snd (writeBatch C True rs w)) \<in> {table w, table w @ map row_args rs}"
  "fst (writeBatch C True rs w) = Inr () \<Longrightarrow> table (snd (writeBatch C True rs w)) = table w @ map row_args rs"
proof -
  define w1 where "w1 = snd (ch_BeginTx C w)"
  define w2 where "w2 = snd (ch_Prepare C insert_sql w1)"
  define w3 where "w3 = snd (exec_rows C rs w2)"
  have t: "table w1 = table w" "table w2 = table w" "table w3 = table w"
    by (simp_all add: w1_def w2_def w3_def begin_table prepare exec_rows_table)
  have x: "tx w3 = map row_args rs" if "fst (ch_BeginTx C w) = Inr ()" "fst (exec_rows C rs w2) = Inr ()"
    using that by (simp add: w3_def exec_rows_tx w2_def prepare w1_def begin_tx)
  show "table (snd (writeBatch C True rs w)) \<in> {table w, table w @ map row_args rs}"
    using commit_err[of w3] x
    by (auto simp: writeBatch_def split_beta Let_def w1_def[symmetric] w2_def[symmetric] w3_def[symmetric] t rollback split: sum.split)
  show "fst (writeBatch C True rs w) = Inr () \<Longrightarrow> table (snd (writeBatch C True rs w)) = table w @ map row_args rs"
    using commit_ok[of w3] x
    by (auto simp: writeBatch_def split_beta Let_def w1_def[symmetric] w2_def[symmetric] w3_def[symmetric] t split: sum.splits)
qed

end

section \<open>Runs of the writer\<close>

text \<open>What happens to the writer: a message of the bus, a tick of the flush loop, a stop, or the
  goroutine of a waiting batch runs.  A label records the rows of the message, or the batch and whether
  its write reported success.\<close>

datatype wlabel = Received "metricsRow list" | Ticked | Stopped | Wrote "metricsRow list" bool

inductive wstep :: "('w, 'z) env_scheme \<Rightarrow> 'w clickhouse \<Rightarrow> Writer \<times> 'w \<Rightarrow> wlabel \<Rightarrow> Writer \<times> 'w \<Rightarrow> bool" for E C where
  message: "decodePayload raw = Inr (c, ss) \<Longrightarrow> Subscribe_callback (onQualityMetrics E) (Some raw) (s, w) = (Ack, s', w') \<Longrightarrow>
    wstep E C (s, w) (Received (fst (sample_rows E c ss w))) (s', w')"
| refused: "data = None \<or> (\<exists>raw e. data = Some raw \<and> decodePayload raw = Inl e) \<Longrightarrow>
    Subscribe_callback (onQualityMetrics E) data (s, w) = (a, s', w') \<Longrightarrow> wstep E C (s, w) (Received []) (s', w')"
| tick: "wstep E C (s, w) Ticked (flushLoop_tick s, w)"
| stop: "wstep E C (s, w) Stopped (Writer_Stop s, w)"
| batch: "i < length (wr_pending s) \<Longrightarrow>
    wstep E C (s, w) (Wrote (wr_pending s ! i) (is_ok (fst (writeBatch C (wr_db s) (wr_pending s ! i) w)))) (run_batch C i s w)"

inductive wrun :: "('w, 'z) env_scheme \<Rightarrow> 'w clickhouse \<Rightarrow> Writer \<times> 'w \<Rightarrow> wlabel list \<Rightarrow> Writer \<times> 'w \<Rightarrow> bool" for E C where
  none: "wrun E C x [] x"
| more: "wrun E C x ls y \<Longrightarrow> wstep E C y l z \<Longrightarrow> wrun E C x (ls @ [l]) z"

fun received :: "wlabel \<Rightarrow> metricsRow list" where
  "received (Received rs) = rs"
| "received _ = []"

fun wrote :: "wlabel \<Rightarrow> metricsRow list list" where
  "wrote (Wrote b _) = [b]"
| "wrote _ = []"

fun wrote_ok :: "wlabel \<Rightarrow> metricsRow list list" where
  "wrote_ok (Wrote b ok) = (if ok then [b] else [])"
| "wrote_ok _ = []"

definition held :: "Writer \<Rightarrow> metricsRow multiset" where
  "held s = mset (wr_buffer s) + mset (concat (wr_pending s))"

text \<open>The invariant of the writer: the buffer is below its limit, and no empty batch waits.\<close>

definition writer_ok :: "Writer \<Rightarrow> bool" where
  "writer_ok s = (0 < wr_batchSize s \<and> int (length (wr_buffer s)) < wr_batchSize s \<and> [] \<notin> set (wr_pending s))"

lemma NewWriter_ok: "writer_ok (NewWriter db cfg)" "held (NewWriter db cfg) = {#}"
  by (simp_all add: writer_ok_def NewWriter_def held_def)

lemma flushLocked_facts [simp]: "held (flushLocked s) = held s" "wr_db (flushLocked s) = wr_db s"
  "wr_batchSize (flushLocked s) = wr_batchSize s" "wr_buffer (flushLocked s) = []"
  "set (wr_pending (flushLocked s)) = set (wr_pending s) \<union> (if wr_buffer s = [] then {} else {wr_buffer s})"
  by (auto simp: flushLocked_def held_def)

lemma flush_ok: "0 < wr_batchSize s \<Longrightarrow> [] \<notin> set (wr_pending s) \<Longrightarrow> writer_ok (flushLocked s)"
  by (auto simp: writer_ok_def)

lemma ingest_facts: "writer_ok s \<Longrightarrow> writer_ok (fst (ingest E c ss s w))"
  "held (fst (ingest E c ss s w)) = held s + mset (fst (sample_rows E c ss w))"
  "wr_db (fst (ingest E c ss s w)) = wr_db s" "snd (ingest E c ss s w) = snd (sample_rows E c ss w)"
  by (auto simp: ingest_def Let_def split_beta writer_ok_def)
    (auto simp: held_def)

lemma tick_facts: "writer_ok s \<Longrightarrow> writer_ok (flushLoop_tick s)" "held (flushLoop_tick s) = held s" "wr_db (flushLoop_tick s) = wr_db s"
  by (auto simp: flushLoop_tick_def flush_def writer_ok_def)

lemma Stop_facts: "writer_ok s \<Longrightarrow> writer_ok (Writer_Stop s)" "held (Writer_Stop s) = held s" "wr_db (Writer_Stop s) = wr_db s"
  "wr_buffer (Writer_Stop s) = []"
  by (auto simp: Writer_Stop_def flush_def writer_ok_def) (simp add: held_def)

lemma run_batch_facts:
  assumes "i < length (wr_pending s)"
  shows "writer_ok s \<Longrightarrow> writer_ok (fst (run_batch C i s w))"
    "held s = held (fst (run_batch C i s w)) + mset (wr_pending s ! i)"
    "wr_db (fst (run_batch C i s w)) = wr_db s"
proof -
  have p: "wr_pending s = take i (wr_pending s) @ wr_pending s ! i # drop (Suc i) (wr_pending s)"
    using assms by (rule id_take_nth_drop)
  have "set (take i (wr_pending s) @ drop (Suc i) (wr_pending s)) \<subseteq> set (wr_pending s)"
    using set_take_subset set_drop_subset by fastforce
  then show "writer_ok s \<Longrightarrow> writer_ok (fst (run_batch C i s w))"
    by (auto simp: run_batch_def writer_ok_def)
  show "held s = held (fst (run_batch C i s w)) + mset (wr_pending s ! i)"
    by (subst held_def, subst p) (simp add: run_batch_def held_def)
  show "wr_db (fst (run_batch C i s w)) = wr_db s"
    by (simp add: run_batch_def)
qed

lemma callback_message:
  "decodePayload raw = Inr (c, ss) \<Longrightarrow> Subscribe_callback (onQualityMetrics E) (Some raw) (s, w) = (Ack, y) \<Longrightarrow> y = ingest E c ss s w"
  by (auto simp: Subscribe_callback_def onQualityMetrics_def split: sum.splits)

lemma callback_refused:
  "data = None \<or> (\<exists>raw e. data = Some raw \<and> decodePayload raw = Inl e) \<Longrightarrow>
   Subscribe_callback (onQualityMetrics E) data (s, w) = (a, y) \<Longrightarrow> y = (s, w)"
  by (auto simp: Subscribe_callback_def onQualityMetrics_def split: sum.splits)

lemma wstep_conserves:
  assumes "wstep E C (s, w) l (s', w')"
  shows "held s + mset (received l) = held s' + mset (concat (wrote l)) \<and> (writer_ok s \<longrightarrow> writer_ok s') \<and> wr_db s' = wr_db s \<and>
    set (wrote l) \<subseteq> set (wr_pending s)"
  using assms
proof (cases rule: wstep.cases)
  case (message raw c ss)
  then have "(s', w') = ingest E c ss s w" by (blast dest: callback_message)
  then have "s' = fst (ingest E c ss s w)" by (metis fst_conv)
  with message show ?thesis by (simp add: ingest_facts)
next
  case (refused data a)
  from callback_refused[OF refused(2,3)] refused(1) show ?thesis by simp
next
  case (batch i)
  then have s': "s' = fst (run_batch C i s w)" by (metis fst_conv)
  show ?thesis
    unfolding s' batch(1) using batch(3) run_batch_facts[OF batch(3), of C w] by simp
qed (simp_all add: tick_facts Stop_facts)

lemma wstep_batchSize:
  assumes "wstep E C (s, w) l (s', w')"
  shows "wr_batchSize s' = wr_batchSize s"
  using assms
proof (cases rule: wstep.cases)
  case (message raw c ss)
  then have "(s', w') = ingest E c ss s w" by (blast dest: callback_message)
  then have "s' = fst (ingest E c ss s w)" by (metis fst_conv)
  then show ?thesis by (simp add: ingest_def Let_def split_beta)
next
  case (refused data a)
  from callback_refused[OF refused(2,3)] show ?thesis by simp
qed (auto simp: flushLoop_tick_def flush_def Writer_Stop_def run_batch_def)

lemma wrun_conserves:
  "wrun E C x ls y \<Longrightarrow> x = (s, w) \<Longrightarrow> y = (s', w') \<Longrightarrow> writer_ok s \<Longrightarrow>
   held s + mset (concat (map received ls)) = held s' + mset (concat (concat (map wrote ls))) \<and> writer_ok s' \<and> wr_db s' = wr_db s \<and>
   [] \<notin> set (concat (map wrote ls))"
proof (induction arbitrary: s' w' rule: wrun.induct)
  case (more x ls y l z)
  obtain s1 w1 where y: "y = (s1, w1)" by fastforce
  from more.IH[OF more.prems(1) y more.prems(3)]
  have IH: "held s + mset (concat (map received ls)) = held s1 + mset (concat (concat (map wrote ls)))" "writer_ok s1"
    "wr_db s1 = wr_db s" "[] \<notin> set (concat (map wrote ls))" by simp_all
  have st: "held s1 + mset (received l) = held s' + mset (concat (wrote l))" "writer_ok s'" "wr_db s' = wr_db s1"
    "set (wrote l) \<subseteq> set (wr_pending s1)"
    using wstep_conserves[of E C s1 w1 l s' w'] more.hyps(2) more.prems(2) y IH(2) by simp_all
  have "held s + mset (concat (map received (ls @ [l]))) = held s1 + mset (received l) + mset (concat (concat (map wrote ls)))"
    using arg_cong[OF IH(1), of "\<lambda>m. m + mset (received l)"] by (simp add: ac_simps)
  also have "\<dots> = held s' + mset (concat (concat (map wrote (ls @ [l]))))"
    by (simp add: st(1) ac_simps)
  finally show ?case using st(2,3,4) IH(2,3,4) by (auto simp: writer_ok_def)
qed auto

lemma wrun_batchSize: "wrun E C x ls y \<Longrightarrow> x = (s, w) \<Longrightarrow> y = (s', w') \<Longrightarrow> wr_batchSize s' = wr_batchSize s"
proof (induction arbitrary: s' w' rule: wrun.induct)
  case (more x ls y l z)
  obtain s1 w1 where "y = (s1, w1)" by fastforce
  with more wstep_batchSize[of E C s1 w1 l s' w'] show ?case by simp
qed simp

context clickhouse_db
begin

lemma sample_rows_table: "table (snd (sample_rows E c ss w)) = table w"
  by (induction ss arbitrary: w) (simp_all add: split_beta Let_def clock_table)

lemma wstep_table:
  assumes "wstep E C (s, w) l (s', w')" "wr_db s"
  obtains d where "table w' = table w @ map row_args (concat d)" "subseq (wrote_ok l) d" "subseq d (wrote l)"
  using assms(1)
proof (cases rule: wstep.cases)
  case (message raw c ss)
  then have "(s', w') = ingest E c ss s w" by (blast dest: callback_message)
  then have "w' = snd (ingest E c ss s w)" by (metis snd_conv)
  with message that[of "[]"] show ?thesis by (simp add: ingest_facts sample_rows_table)
next
  case (refused data a)
  from callback_refused[OF refused(2,3)] refused(1) that[of "[]"] show ?thesis by simp
next
  case (batch i)
  let ?b = "wr_pending s ! i"
  have w': "w' = snd (writeBatch C True ?b w)" using batch(2) assms(2) by (simp add: run_batch_def)
  show ?thesis
  proof (cases "table w' = table w @ map row_args ?b")
    case True
    then show ?thesis using that[of "[?b]"] batch(1) by simp
  next
    case False
    then have "table w' = table w" "\<not> is_ok (fst (writeBatch C True ?b w))"
      using writeBatch_all_or_nothing[where rs = ?b and w = w] w' by (auto simp: is_ok_def split: sum.splits)
    then show ?thesis using that[of "[]"] batch(1) assms(2) by simp
  qed
qed (use that[of "[]"] in simp_all)

lemma wrun_table:
  "wrun E C x ls y \<Longrightarrow> x = (s, w) \<Longrightarrow> y = (s', w') \<Longrightarrow> writer_ok s \<Longrightarrow> wr_db s \<Longrightarrow>
   \<exists>d. table w' = table w @ map row_args (concat d) \<and> subseq (concat (map wrote_ok ls)) d \<and> subseq d (concat (map wrote ls))"
proof (induction arbitrary: s' w' rule: wrun.induct)
  case (none x)
  then show ?case by (intro exI[of _ "[]"]) simp
next
  case (more x ls y l z)
  obtain s1 w1 where y: "y = (s1, w1)" by fastforce
  from more.IH[OF more.prems(1) y more.prems(3,4)] obtain d where d: "table w1 = table w @ map row_args (concat d)"
    "subseq (concat (map wrote_ok ls)) d" "subseq d (concat (map wrote ls))" by blast
  have "wr_db s1" using wrun_conserves[OF more.hyps(1) more.prems(1) y more.prems(3)] more.prems(4) by simp
  then obtain d' where d': "table w' = table w1 @ map row_args (concat d')" "subseq (wrote_ok l) d'" "subseq d' (wrote l)"
    using wstep_table more.hyps(2) more.prems(2) y by metis
  show ?case
    by (intro exI[of _ "d @ d'"]) (simp add: d d' list_emb_append_mono)
qed

end


section \<open>An in-memory database\<close>

text \<open>The rows of an open transaction are kept beside the table; the faults of the services apply to
  every statement.\<close>

record chworld = world +
  cw_table :: "json list list"
  cw_tx :: "json list list"

definition ch_mem :: "chworld clickhouse" where
  "ch_mem = \<lparr>ch_BeginTx = (\<lambda>w. (answer (mem_fate w) (Inr ()), (spend w)\<lparr>cw_tx := []\<rparr>)),
     ch_Prepare = (\<lambda>q w. (answer (mem_fate w) (Inr ()), spend w)),
     ch_Exec = (\<lambda>a w. (answer (mem_fate w) (Inr ()), (spend w)\<lparr>cw_tx := cw_tx w @ [a]\<rparr>)),
     ch_Commit = (\<lambda>w. (answer (mem_fate w) (Inr ()),
        (spend w)\<lparr>cw_table := (if happens (mem_fate w) then cw_table w @ cw_tx w else cw_table w)\<rparr>)),
     ch_Rollback = (\<lambda>w. w\<lparr>cw_tx := []\<rparr>)\<rparr>"

lemma spend_ch [simp]: "cw_table (spend w) = cw_table w" "cw_tx (spend w) = cw_tx w"
  by (simp_all add: spend_def)

interpretation chm: clickhouse_db mem_env ch_mem cw_table cw_tx
proof unfold_locales
  fix w :: chworld and a
  show "fst (ch_Exec ch_mem a w) = Inr () \<Longrightarrow> cw_tx (snd (ch_Exec ch_mem a w)) = cw_tx w @ [a]"
    by (simp add: ch_mem_def)
  show "fst (ch_Commit ch_mem w) = Inr () \<Longrightarrow> cw_table (snd (ch_Commit ch_mem w)) = cw_table w @ cw_tx w"
    by (cases "mem_fate w") (simp_all add: ch_mem_def)
qed (auto simp: ch_mem_def mem_env_def)

definition chworld0 :: "fate list \<Rightarrow> chworld" where
  "chworld0 fs = world.extend (world0\<lparr>w_fates := fs\<rparr>) \<lparr>cw_table = [], cw_tx = []\<rparr>"

definition sample_quality :: QualityMetricsSample where
  "sample_quality = \<lparr>qs_ParticipantID = ''p1'', qs_Timestamp = 7, qs_Direction = ''send'', qs_RTTMs = 50, qs_LossPct = 0,
     qs_JitterMs = 0, qs_BitrateKbps = 800, qs_Framerate = 30, qs_Resolution = [], qs_NetworkTier = ''good''\<rparr>"

definition sample_metrics :: "string \<Rightarrow> json" where
  "sample_metrics c = envelope_json \<lparr>env_ID = ''id1'', env_Type = SubjectQualityMetrics, env_Timestamp = 1, env_Source = ''signaling'',
     env_Payload = event_json (QualityMetrics c [] [sample_quality])\<rparr>"

definition sample_row :: "string \<Rightarrow> metricsRow" where
  "sample_row c = \<lparr>mr_CallID = c, mr_ParticipantID = ''p1'', mr_Timestamp = UnixMilli 7, mr_Direction = ''send'', mr_RTTMs = 50,
     mr_LossPct = 0, mr_JitterMs = 0, mr_BitrateKbps = 800, mr_Framerate = 30, mr_Resolution = [], mr_NetworkTier = ''good''\<rparr>"

lemma sample_metrics_decodes: "decodePayload (sample_metrics c) = Inr (c, [sample_quality])"
  by (simp add: sample_metrics_def decodePayload_def envelope_json_def dec_metrics_def dec_sample_def sample_json_def
      sample_quality_def omit_str_def min_int64_def max_int64_def)

lemma sample_metrics_rows: "sample_rows E c [sample_quality] w = ([sample_row c], w)"
  by (simp add: sample_quality_def sample_row_def)

lemma sample_metrics_step:
  "wstep E C (s, w) (Received [sample_row c]) (ingest E c [sample_quality] s w)"
proof -
  have d: "\<exists>env. dec_Envelope (sample_metrics c) = Inr env"
    by (simp add: sample_metrics_def del: event_json.simps)
  have "Subscribe_callback (onQualityMetrics E) (Some (sample_metrics c)) (s, w) = (Ack, ingest E c [sample_quality] s w)"
    using d by (auto simp: Subscribe_callback_def onQualityMetrics_def sample_metrics_decodes)
  then have "wstep E C (s, w) (Received (fst (sample_rows E c [sample_quality] w))) (fst (ingest E c [sample_quality] s w), snd (ingest E c [sample_quality] s w))"
    by (intro wstep.message[OF sample_metrics_decodes]) simp
  then show ?thesis unfolding sample_metrics_rows by simp
qed

definition small_batches :: WriterConfig where
  "small_batches = \<lparr>wc_BatchSize = 2, wc_FlushInterval = 0\<rparr>"

text \<open>Two messages fill a batch, which is then written.\<close>

definition full_batch :: Writer where
  "full_batch = fst (ingest mem_env ''c2'' [sample_quality] (fst (ingest mem_env ''c1'' [sample_quality] (NewWriter True small_batches) (chworld0 []))) (chworld0 []))"

lemma full_batch_facts: "wr_buffer full_batch = []" "wr_db full_batch" "wr_pending full_batch = [[sample_row ''c1'', sample_row ''c2'']]"
  by (simp_all add: full_batch_def ingest_def sample_metrics_rows NewWriter_def small_batches_def flushLocked_def del: sample_rows.simps)

lemma sample_wrun:
  "wrun mem_env ch_mem (NewWriter True small_batches, chworld0 [])
     [Received [sample_row ''c1''], Received [sample_row ''c2''], Wrote [sample_row ''c1'', sample_row ''c2''] True]
     (run_batch ch_mem 0 full_batch (chworld0 []))"
proof -
  let ?s1 = "fst (ingest mem_env ''c1'' [sample_quality] (NewWriter True small_batches) (chworld0 []))"
  have i: "ingest mem_env c [sample_quality] s w = (fst (ingest mem_env c [sample_quality] s w), w)" for c s and w :: chworld
    by (simp add: ingest_def Let_def sample_metrics_rows del: sample_rows.simps)
  have "wrun mem_env ch_mem (NewWriter True small_batches, chworld0 []) ([] @ [Received [sample_row ''c1'']]) (?s1, chworld0 [])"
    by (rule wrun.more[OF wrun.none]) (metis i sample_metrics_step)
  then have "wrun mem_env ch_mem (NewWriter True small_batches, chworld0 []) (([] @ [Received [sample_row ''c1'']]) @ [Received [sample_row ''c2'']]) (full_batch, chworld0 [])"
    by (rule wrun.more) (metis i sample_metrics_step full_batch_def)
  then have "wrun mem_env ch_mem (NewWriter True small_batches, chworld0 [])
     ((([] @ [Received [sample_row ''c1'']]) @ [Received [sample_row ''c2'']]) @
      [Wrote (wr_pending full_batch ! 0) (is_ok (fst (writeBatch ch_mem (wr_db full_batch) (wr_pending full_batch ! 0) (chworld0 []))))])
     (run_batch ch_mem 0 full_batch (chworld0 []))"
    by (rule wrun.more) (rule wstep.batch, simp add: full_batch_facts)
  moreover have "is_ok (fst (writeBatch ch_mem True [sample_row ''c1'', sample_row ''c2''] (chworld0 [])))"
    by (simp add: writeBatch_def ch_mem_def chworld0_def mem_fate_def spend_def world.defs world0_def)
  ultimately show ?thesis by (simp add: full_batch_facts)
qed


end
