(* ===== verification/Lifecycle.thy ===== *)
theory Lifecycle
  imports Signaling_Service Metrics
begin

text \<open>
  Starting to serve and shutting down: the servers of \<open>session/server.go\<close>, \<open>push/server.go\<close> and \<open>signaling/server.go\<close>,
  the ends of the four \<open>main\<close> functions after a signal, and the database helper \<open>internal/db\<close>.  Sockets and
  \<open>http.Server\<close> are parameters.  The ten seconds a shutdown may take are the library's: a shutdown that is not
  done by then returns an error.
\<close>

section \<open>Servers\<close>

record 'w httplib =
  net_Listen :: "string \<Rightarrow> 'w \<Rightarrow> unit result \<times> 'w"
  http_ListenAndServe :: "string \<Rightarrow> 'w \<Rightarrow> goerr \<times> 'w"
  http_Shutdown :: "'w \<Rightarrow> unit result \<times> 'w"

definition ErrServerClosed :: goerr where
  "ErrServerClosed = Sentinel ''http.ErrServerClosed'' ''http: Server closed''"

definition Addr :: "int \<Rightarrow> string" where
  "Addr port = '':'' @ show_int port"

text \<open>The orchestrator listens before it returns and serves in the background; \<open>httpServer\<close> is set in both cases.\<close>

definition Server_Start :: "'w httplib \<Rightarrow> int \<Rightarrow> 'w \<Rightarrow> unit result \<times> 'w" where
  "Server_Start H port w =
    (let (ln, w1) = net_Listen H (Addr port) w in
     case ln of Inl e \<Rightarrow> (Inl (Wrap (''listen on '' @ Addr port) e), w1) | Inr _ \<Rightarrow> (Inr (), w1))"

definition Server_Shutdown :: "'w httplib \<Rightarrow> bool \<Rightarrow> 'w \<Rightarrow> unit result \<times> 'w" where
  "Server_Shutdown H started w = (if started then http_Shutdown H w else (Inr (), w))"

definition SubscribeToCallEvents :: "'w natslib \<Rightarrow> Bus \<Rightarrow> 'w \<Rightarrow> (unit result \<times> Bus) \<times> 'w" where
  "SubscribeToCallEvents N bus w = Bus_Subscribe N SubjectCallInitiated ''push-gateway'' bus w"

definition push_Start :: "'w natslib \<Rightarrow> 'w httplib \<Rightarrow> int \<Rightarrow> Bus \<Rightarrow> 'w \<Rightarrow> (unit result \<times> Bus) \<times> 'w" where
  "push_Start N H port bus w =
    (let ((s, bus1), w1) = SubscribeToCallEvents N bus w in
     case s of
       Inl e \<Rightarrow> ((Inl (Wrap ''subscribe to call events'' e), bus1), w1)
     | Inr _ \<Rightarrow> (let (err, w2) = http_ListenAndServe H (Addr port) w1
                in ((if err = ErrServerClosed then Inr () else Inl err, bus1), w2)))"

text \<open>The metrics writer subscribes and then starts its flush loop.\<close>

definition Writer_Start :: "'w natslib \<Rightarrow> Bus \<Rightarrow> 'w \<Rightarrow> (unit result \<times> Bus) \<times> 'w" where
  "Writer_Start N bus w =
    (let ((s, bus1), w1) = Bus_Subscribe N SubjectQualityMetrics ''metrics-writer'' bus w in
     case s of Inl e \<Rightarrow> ((Inl (Wrap ''subscribe to quality metrics'' e), bus1), w1) | Inr _ \<Rightarrow> ((Inr (), bus1), w1))"

definition signaling_Shutdown :: "'w httplib \<Rightarrow> Hub \<Rightarrow> 'w \<Rightarrow> unit result \<times> Hub \<times> 'w" where
  "signaling_Shutdown H h w = (let (r, w1) = http_Shutdown H w in (r, Hub_Stop h, w1))"

section \<open>The ends of the services\<close>

text \<open>After the signal.  \<open>log.Fatalf\<close> leaves without the deferred calls, a panic and a return run them.\<close>

definition signaling_end :: "'w httplib \<Rightarrow> 'w natslib \<Rightarrow> Bus \<Rightarrow> Hub \<Rightarrow> 'w \<Rightarrow> unit boot \<times> Hub \<times> 'w" where
  "signaling_end H N bus h w =
    (let (r, h1, w1) = signaling_Shutdown H h w in
     case r of
       Inl e \<Rightarrow> (Inl (''server forced shutdown: '' @ Error_text e), h1, w1)
     | Inr _ \<Rightarrow> (Inr (), h1, snd (Bus_Close N bus w1)))"

definition orchestrator_end :: "'w httplib \<Rightarrow> 'w natslib \<Rightarrow> Bus \<Rightarrow> 'w \<Rightarrow> 'w" where
  "orchestrator_end H N bus w = snd (Bus_Close N bus (snd (Server_Shutdown H True w)))"

definition push_end :: "'w httplib \<Rightarrow> 'w natslib \<Rightarrow> Bus \<Rightarrow> 'w \<Rightarrow> unit boot \<times> 'w" where
  "push_end H N bus w =
    (let (r, w1) = http_Shutdown H w in
     case r of
       Inl e \<Rightarrow> (Inl (''push server forced shutdown: '' @ Error_text e), w1)
     | Inr _ \<Rightarrow> (Inr (), snd (Bus_Close N bus w1)))"

definition policy_end :: "'w httplib \<Rightarrow> 'w natslib \<Rightarrow> Bus \<Rightarrow> PolicyEngine \<Rightarrow> 'w \<Rightarrow> PolicyEngine result \<times> 'w" where
  "policy_end H N bus e w = (case PolicyEngine_Stop e of
      Inl p \<Rightarrow> (Inl p, snd (Bus_Close N bus w))
    | Inr e1 \<Rightarrow> (Inr e1, snd (Bus_Close N bus (snd (http_Shutdown H w)))))"

section \<open>The database helper\<close>

record 'w sqllib =
  db_Open :: "string \<Rightarrow> 'w \<Rightarrow> unit result \<times> 'w"
  db_Ping :: "'w \<Rightarrow> unit result \<times> 'w"
  db_Close :: "'w \<Rightarrow> 'w"
  db_SetMaxOpenConns :: "nat \<Rightarrow> 'w \<Rightarrow> 'w"
  db_SetMaxIdleConns :: "nat \<Rightarrow> 'w \<Rightarrow> 'w"

definition NewPostgresConn :: "'w sqllib \<Rightarrow> PostgresConfig \<Rightarrow> 'w \<Rightarrow> unit result \<times> 'w" where
  "NewPostgresConn D cfg w =
    (let (r, w1) = db_Open D (DSN cfg) w in
     case r of
       Inl e \<Rightarrow> (Inl (Wrap ''open postgres'' e), w1)
     | Inr _ \<Rightarrow>
        (let (p, w2) = db_Ping D w1 in
         case p of
           Inl e \<Rightarrow> (Inl (Wrap ''ping postgres'' e), db_Close D w2)
         | Inr _ \<Rightarrow> (Inr (), db_SetMaxIdleConns D 5 (db_SetMaxOpenConns D 25 w2))))"

section \<open>What a shutdown leaves\<close>

lemma Client_Close_conns: "h_conns (Client_Close c h) = (h_conns h)(c_id c := map_option (\<lambda>cn. cn\<lparr>cn_closed := True\<rparr>) (h_conns h (c_id c)))"
  by (rule ext) (auto simp: Client_Close_def split: option.splits)

definition shut :: "Hub \<Rightarrow> Client \<Rightarrow> bool" where
  "shut h c = (case h_conns h (c_id c) of None \<Rightarrow> True | Some cn \<Rightarrow> cn_closed cn)"

lemma shut_close: "shut h c \<Longrightarrow> shut (Client_Close d h) c" "shut (Client_Close c h) c"
  by (auto simp: shut_def Client_Close_conns split: option.splits)

lemma shut_close_all: "shut h c \<or> c \<in> set cs \<Longrightarrow> shut (close_all cs h) c"
  by (induction cs arbitrary: h) (auto intro: shut_close)

lemma close_all_fields [simp]: "h_done (close_all cs h) = h_done h" "h_timers (close_all cs h) = h_timers h"
  by (induction cs arbitrary: h) (simp_all add: Client_Close_def split: option.splits)

lemma Stop_shut: "c \<in> connected h \<Longrightarrow> shut (Hub_Stop h) c"
proof -
  assume "c \<in> connected h"
  then have "c \<in> set (concat (map (\<lambda>(_, ds). map snd ds) (h_clients h)))" by (force simp: connected_def)
  then show ?thesis using shut_close_all by (auto simp: Hub_Stop_def Let_def shut_def)
qed

definition quiet :: "Hub \<Rightarrow> bool" where
  "quiet h \<longleftrightarrow> h_done h \<and> h_clients h = [] \<and> h_timers h = []"

lemma quiet_Stop [simp]: "quiet (Hub_Stop h)"
  by (simp add: quiet_def Hub_Stop_def Let_def)

lemma recover_members_fields [simp]: "h_done (recover_members r ps h) = h_done h" "h_timers (recover_members r ps h) = h_timers h"
  by (induction ps arbitrary: h) (auto simp: addToRoom_def)

lemma recover_rooms_fields: "h_done (fst (recover_rooms E orc ss h w)) = h_done h \<and> h_timers (fst (recover_rooms E orc ss h w)) = h_timers h"
  by (induction E orc ss h w rule: recover_rooms.induct) (auto simp: Let_def setRoomHost_def)

lemma quiet_recover: "RecoverSessions E h w = Some s \<Longrightarrow> quiet h \<Longrightarrow> quiet (fst s)"
  using table_recover[of E h w s]
  by (auto simp: recover_rooms_fields RecoverSessions_def Let_def quiet_def split: option.splits prod.splits sum.splits)

lemma quiet_take: "quiet h \<Longrightarrow> quiet (snd (WritePump_take c h))"
  by (auto simp: quiet_def WritePump_take_def split: option.splits list.splits)

lemma quiet_step: "service_step E J upgrade sh (cs, h, w) (cs', h', w') \<Longrightarrow> quiet h \<Longrightarrow> quiet h' \<and> cs' = cs"
  by (erule service_step.cases) (auto simp: quiet_def[of h] quiet_take dest: quiet_recover)

lemma quiet_run: "service_run E J upgrade sh x y \<Longrightarrow> quiet (fst (snd x)) \<Longrightarrow> quiet (fst (snd y)) \<and> fst y = fst x"
proof (induction rule: service_run.induct)
  case (more s t u)
  obtain cs h w cs' h' w' where tu: "t = (cs, h, w)" "u = (cs', h', w')" by (metis prod.exhaust)
  with more show ?case using quiet_step[of E J upgrade sh cs h w cs' h' w'] by simp
qed simp

text \<open>After a shutdown the hub is at rest for good: every client that was connected is closed, nobody can connect,
  no timer is left, whatever the remaining goroutines still do.\<close>

theorem shutdown_at_rest:
  assumes "signaling_end H N bus h w = (r, h1, w1)" "service_run E J upgrade sh (cs, h1, w1) (cs', h', w')"
  shows "(\<forall>c\<in>connected h. shut h1 c) \<and> cs' = cs \<and> connected h' = {} \<and> h_timers h' = [] \<and> h_done h'"
proof -
  have h1: "h1 = Hub_Stop h"
    using assms(1) by (auto simp: signaling_end_def signaling_Shutdown_def Let_def split_beta split: sum.splits)
  then have "quiet h' \<and> cs' = cs" using quiet_run[OF assms(2)] by simp
  then show ?thesis using h1 Stop_shut by (auto simp: quiet_def connected_def)
qed

text \<open>A graceful end stops the subscriptions of the bus and no others.\<close>

lemma push_end_subscriptions:
  assumes "nats_client N conns subs" "push_end H N bus w = (Inr (), w')"
  shows "set (subs w') = set (subs (snd (http_Shutdown H w))) - set (bus_subs bus)"
proof -
  have "w' = snd (Bus_Close N bus (snd (http_Shutdown H w)))"
    using assms(2) by (auto simp: push_end_def Let_def split_beta split: sum.splits)
  then show ?thesis using nats_client.Close_stops[OF assms(1)] by simp
qed

text \<open>The engine of a started policy service can be stopped once without a panic.\<close>

lemma policy_end_ok: "fst (policy_end H N bus (policy_engine cfg) w) \<noteq> Inl p"
  by (simp add: policy_end_def policy_engine_def PolicyEngine_Stop_def PolicyEngine_Start_def NewPolicyEngine_def)

end
