(* ===== verification/Turn_Health.thy ===== *)
theory Turn_Health
  imports Services "HOL-Library.Multiset"
begin

text \<open>
  \<open>internal/turn/health.go\<close>: the health checker of the TURN servers.  Dialling is a parameter.  The
  checks of one round run in goroutines of their own that update the table under a lock; a round is
  given the order in which they run.
\<close>

section \<open>Addresses\<close>

text \<open>\<open>net.SplitHostPort\<close>.\<close>

fun last_index :: "char \<Rightarrow> string \<Rightarrow> nat option" where
  "last_index c [] = None"
| "last_index c (x # xs) = (case last_index c xs of Some i \<Rightarrow> Some (Suc i) | None \<Rightarrow> if x = c then Some 0 else None)"

fun first_index :: "char \<Rightarrow> string \<Rightarrow> nat option" where
  "first_index c [] = None"
| "first_index c (x # xs) = (if x = c then Some 0 else map_option Suc (first_index c xs))"

definition addrErr :: "string \<Rightarrow> string \<Rightarrow> goerr" where
  "addrErr addr why = Errorf (''address '' @ addr @ '': '' @ why)"

definition SplitHostPort :: "string \<Rightarrow> (string \<times> string) result" where
  "SplitHostPort hp = (case last_index (CHR '':'') hp of
      None \<Rightarrow> Inl (addrErr hp ''missing port in address'')
    | Some i \<Rightarrow>
       (case (if hd hp = CHR ''['' then
                (case first_index (CHR '']'') hp of
                   None \<Rightarrow> Inl (addrErr hp ''missing ']' in address'')
                 | Some e \<Rightarrow>
                    if e + 1 = length hp then Inl (addrErr hp ''missing port in address'')
                    else if e + 1 = i then Inr (take (e - 1) (drop 1 hp), 1, e + 1)
                    else if hp ! (e + 1) = CHR '':'' then Inl (addrErr hp ''too many colons in address'')
                    else Inl (addrErr hp ''missing port in address''))
              else if CHR '':'' \<in> set (take i hp) then Inl (addrErr hp ''too many colons in address'')
              else Inr (take i hp, 0, 0)) of
          Inl e \<Rightarrow> Inl e
        | Inr (host, j, k) \<Rightarrow>
           if CHR ''['' \<in> set (drop j hp) then Inl (addrErr hp ''unexpected '[' in address'')
           else if CHR '']'' \<in> set (drop k hp) then Inl (addrErr hp ''unexpected ']' in address'')
           else Inr (host, drop (i + 1) hp)))"

definition strip_scheme :: "string \<Rightarrow> string" where
  "strip_scheme uri = (if length ''turns:'' < length uri \<and> take (length ''turns:'') uri = ''turns:'' then drop (length ''turns:'') uri
     else if length ''turn:'' < length uri \<and> take (length ''turn:'') uri = ''turn:'' then drop (length ''turn:'') uri
     else uri)"

definition parseAddr :: "string \<Rightarrow> string" where
  "parseAddr uri = (let u = strip_scheme uri in case SplitHostPort u of Inl _ \<Rightarrow> u @ '':3478'' | Inr _ \<Rightarrow> u)"

section \<open>The checker\<close>

record ServerStatus =
  ss_URI :: string
  ss_Healthy :: bool
  ss_Latency :: int
  ss_LastCheck :: time
  ss_Error :: string

record HealthChecker =
  hc_servers :: "string list"
  hc_interval :: duration
  hc_timeout :: duration
  hc_statuses :: "string \<rightharpoonup> ServerStatus"
  hc_running :: bool

definition NewHealthChecker :: "string list \<Rightarrow> duration \<Rightarrow> duration \<Rightarrow> HealthChecker" where
  "NewHealthChecker uris interval timeout = \<lparr>hc_servers = uris,
     hc_interval = (if interval \<le> 0 then 10 * Second else interval),
     hc_timeout = (if timeout \<le> 0 then 5 * Second else timeout),
     hc_statuses = (\<lambda>u. if u \<in> set uris then Some \<lparr>ss_URI = u, ss_Healthy = False, ss_Latency = 0, ss_LastCheck = zero_time, ss_Error = []\<rparr> else None),
     hc_running = False\<rparr>"

text \<open>A check of an address that has no entry would dereference a nil pointer.\<close>

definition nil_deref :: goerr where
  "nil_deref = Errorf ''runtime error: invalid memory address or nil pointer dereference''"

type_synonym 'w dialer = "string \<Rightarrow> duration \<Rightarrow> 'w \<Rightarrow> unit result \<times> 'w"

definition hc_check :: "('w, 'z) env_scheme \<Rightarrow> 'w dialer \<Rightarrow> string \<Rightarrow> HealthChecker \<Rightarrow> 'w \<Rightarrow> HealthChecker result \<times> 'w" where
  "hc_check E dial uri h w =
    (let addr = parseAddr uri;
         (start, w1) = time_now E w;
         (conn, w2) = dial addr (hc_timeout h) w1;
         (stop, w3) = time_now E w2;
         latency = go_quot (time_Sub stop start) 1000000;
         (t, w4) = time_now E w3
     in case hc_statuses h uri of
          None \<Rightarrow> (Inl nil_deref, w4)
        | Some st \<Rightarrow>
           (let st1 = st\<lparr>ss_LastCheck := t, ss_Latency := latency\<rparr>;
                st2 = (case conn of Inl e \<Rightarrow> st1\<lparr>ss_Healthy := False, ss_Error := Error_text e\<rparr>
                       | Inr _ \<Rightarrow> st1\<lparr>ss_Healthy := True, ss_Error := []\<rparr>)
            in (Inr (h\<lparr>hc_statuses := (hc_statuses h)(uri \<mapsto> st2)\<rparr>), w4)))"

fun checkAll :: "('w, 'z) env_scheme \<Rightarrow> 'w dialer \<Rightarrow> string list \<Rightarrow> HealthChecker \<Rightarrow> 'w \<Rightarrow> HealthChecker result \<times> 'w" where
  "checkAll E dial [] h w = (Inr h, w)"
| "checkAll E dial (u # us) h w =
    (let (r, w1) = hc_check E dial u h w in case r of Inl e \<Rightarrow> (Inl e, w1) | Inr h1 \<Rightarrow> checkAll E dial us h1 w1)"

definition HealthChecker_Start ::
  "('w, 'z) env_scheme \<Rightarrow> 'w dialer \<Rightarrow> string list \<Rightarrow> HealthChecker \<Rightarrow> 'w \<Rightarrow> HealthChecker result \<times> 'w" where
  "HealthChecker_Start E dial order h w = checkAll E dial order (h\<lparr>hc_running := True\<rparr>) w"

definition HealthChecker_Stop :: "HealthChecker \<Rightarrow> HealthChecker" where
  "HealthChecker_Stop h = h\<lparr>hc_running := False\<rparr>"

text \<open>A tick of the loop that \<open>Start\<close> leaves running.\<close>

definition hc_tick ::
  "('w, 'z) env_scheme \<Rightarrow> 'w dialer \<Rightarrow> string list \<Rightarrow> HealthChecker \<Rightarrow> 'w \<Rightarrow> HealthChecker result \<times> 'w" where
  "hc_tick E dial order h w = (if hc_running h then checkAll E dial order h w else (Inr h, w))"

text \<open>The reports list the table in the order in which the map is ranged over.\<close>

definition AllStatuses :: "('w, 'z) env_scheme \<Rightarrow> HealthChecker \<Rightarrow> 'w \<Rightarrow> ServerStatus list \<times> 'w" where
  "AllStatuses E h w = (let (us, w1) = map_order E (remdups (hc_servers h)) w
     in (List.map_filter (hc_statuses h) us, w1))"

definition HealthyServers :: "('w, 'z) env_scheme \<Rightarrow> HealthChecker \<Rightarrow> 'w \<Rightarrow> string list \<times> 'w" where
  "HealthyServers E h w = (let (ss, w1) = AllStatuses E h w in (map ss_URI (filter ss_Healthy ss), w1))"

definition IsHealthy :: "HealthChecker \<Rightarrow> string \<Rightarrow> bool" where
  "IsHealthy h uri = (case hc_statuses h uri of None \<Rightarrow> False | Some s \<Rightarrow> ss_Healthy s)"

section \<open>Properties\<close>

definition health_ok :: "HealthChecker \<Rightarrow> bool" where
  "health_ok h \<longleftrightarrow> dom (hc_statuses h) = set (hc_servers h) \<and> (\<forall>u s. hc_statuses h u = Some s \<longrightarrow> ss_URI s = u)"

lemma NewHealthChecker_ok: "health_ok (NewHealthChecker uris interval timeout)"
  by (auto simp: health_ok_def NewHealthChecker_def split: if_splits)

lemma hc_check_ok:
  assumes "health_ok h" "uri \<in> set (hc_servers h)"
  obtains h1 w1 where "hc_check E dial uri h w = (Inr h1, w1)" "health_ok h1" "hc_servers h1 = hc_servers h" "hc_timeout h1 = hc_timeout h"
    "IsHealthy h1 uri = is_ok (fst (dial (parseAddr uri) (hc_timeout h) (snd (time_now E w))))"
    "\<And>u. u \<noteq> uri \<Longrightarrow> hc_statuses h1 u = hc_statuses h u"
proof -
  obtain st where st: "hc_statuses h uri = Some st" using assms unfolding health_ok_def by blast
  show ?thesis
    using assms st
    by (intro that[of "case fst (hc_check E dial uri h w) of Inr h1 \<Rightarrow> h1" "snd (hc_check E dial uri h w)"])
      (auto simp: hc_check_def Let_def split_beta health_ok_def IsHealthy_def is_ok_def split: sum.splits)
qed

text \<open>One round: with servers that answer or not for its whole length, whatever the order of the
  checks, nothing panics and every configured server is healthy exactly if it was reached.\<close>

lemma checkAll_round:
  assumes "\<And>a t v. is_ok (fst (dial a t v)) = reach a"
  shows "health_ok h \<Longrightarrow> set us \<subseteq> set (hc_servers h) \<Longrightarrow>
    \<exists>h1 w1. checkAll E dial us h w = (Inr h1, w1) \<and> health_ok h1 \<and> hc_servers h1 = hc_servers h \<and>
      (\<forall>u. IsHealthy h1 u = (if u \<in> set us then reach (parseAddr u) else IsHealthy h u))"
proof (induction us arbitrary: h w)
  case (Cons u us)
  obtain h1 w1 where 1: "hc_check E dial u h w = (Inr h1, w1)" "health_ok h1" "hc_servers h1 = hc_servers h"
    "IsHealthy h1 u = reach (parseAddr u)" "\<And>v. v \<noteq> u \<Longrightarrow> hc_statuses h1 v = hc_statuses h v"
    using hc_check_ok[OF Cons.prems(1), of u E dial w] Cons.prems(2) assms by (metis list.set_intros(1) subset_iff)
  obtain h2 w2 where 2: "checkAll E dial us h1 w1 = (Inr h2, w2)" "health_ok h2" "hc_servers h2 = hc_servers h1"
    "\<forall>v. IsHealthy h2 v = (if v \<in> set us then reach (parseAddr v) else IsHealthy h1 v)"
    using Cons.IH[OF 1(2), of w1] Cons.prems(2) 1(3) by (metis set_subset_Cons subset_trans)
  have "IsHealthy h1 v = IsHealthy h v" if "v \<noteq> u" for v
    using 1(5)[OF that] by (simp add: IsHealthy_def)
  with 1 2 show ?case by auto
qed simp

lemma HealthyServers_set:
  assumes "health_ok h" "\<And>xs v. set (fst (map_order E xs v)) = set xs"
  shows "set (fst (HealthyServers E h w)) = {u. IsHealthy h u \<and> u \<in> set (hc_servers h)}"
proof -
  have u: "ss_URI s = v" if "hc_statuses h v = Some s" for v s
    using assms(1) that by (simp add: health_ok_def)
  have s: "s \<in> set (List.map_filter (hc_statuses h) us) \<longleftrightarrow> (\<exists>v\<in>set us. hc_statuses h v = Some s)" for s us
    by (induction us) (auto simp: map_filter_simps split: option.splits)
  have "set (fst (HealthyServers E h w)) = ss_URI ` {s. (\<exists>v\<in>set (hc_servers h). hc_statuses h v = Some s) \<and> ss_Healthy s}"
    by (auto simp: HealthyServers_def AllStatuses_def split_beta s assms(2))
  also have "\<dots> = {u. IsHealthy h u \<and> u \<in> set (hc_servers h)}"
    using u by (force simp: IsHealthy_def split: option.splits)
  finally show ?thesis .
qed

theorem health_round:
  assumes dial: "\<And>a t v. is_ok (fst (dial a t v)) = reach a"
    and order: "mset order = mset uris" and maps: "\<And>xs v. set (fst (map_order E xs v)) = set xs"
  shows "\<exists>h w'. HealthChecker_Start E dial order (NewHealthChecker uris interval timeout) w = (Inr h, w') \<and>
    (\<forall>u. IsHealthy h u \<longleftrightarrow> u \<in> set uris \<and> reach (parseAddr u)) \<and>
    set (fst (HealthyServers E h w')) = {u \<in> set uris. reach (parseAddr u)}"
proof -
  let ?h = "(NewHealthChecker uris interval timeout)\<lparr>hc_running := True\<rparr>"
  have o: "set order = set uris" using order by (rule mset_eq_setD)
  have "health_ok ?h" "hc_servers ?h = uris" "\<And>u. \<not> IsHealthy ?h u"
    using NewHealthChecker_ok[of uris interval timeout] by (auto simp: health_ok_def NewHealthChecker_def IsHealthy_def)
  then obtain h w' where r: "checkAll E dial order ?h w = (Inr h, w')" "health_ok h" "hc_servers h = uris"
    "\<forall>u. IsHealthy h u = (u \<in> set uris \<and> reach (parseAddr u))"
    using checkAll_round[of dial reach ?h order E w] dial o by auto
  have "set (fst (HealthyServers E h w')) = {u. IsHealthy h u \<and> u \<in> set uris}"
    using HealthyServers_set[OF r(2) maps] r(3) by simp
  with r show ?thesis by (auto simp: HealthChecker_Start_def)
qed

text \<open>A server without a port is asked on 3478; one with a port on that.\<close>

lemma last_index_plain: "c \<notin> set xs \<Longrightarrow> last_index c xs = None"
  by (induction xs) auto

lemma last_index_append: "c \<notin> set b \<Longrightarrow> last_index c (a @ c # b) = Some (length a)"
  by (induction a) (simp_all add: last_index_plain)

definition host_name :: "string \<Rightarrow> bool" where
  "host_name s \<longleftrightarrow> s \<noteq> [] \<and> CHR '':'' \<notin> set s \<and> CHR ''['' \<notin> set s \<and> CHR '']'' \<notin> set s"

lemma SplitHostPort_plain: "host_name host \<Longrightarrow> host_name port \<Longrightarrow> SplitHostPort (host @ '':'' @ port) = Inr (host, port)"
  by (cases host) (auto simp: SplitHostPort_def host_name_def last_index_append[of _ _ "_ # _", simplified] last_index_append)

lemma parseAddr_port: "host_name host \<Longrightarrow> host_name port \<Longrightarrow> parseAddr (''turn:'' @ host @ '':'' @ port) = host @ '':'' @ port"
  using SplitHostPort_plain[of host port] by (simp add: parseAddr_def strip_scheme_def)

lemma parseAddr_default: "host_name host \<Longrightarrow> parseAddr (''turn:'' @ host) = host @ '':3478''"
  by (cases host) (auto simp: parseAddr_def strip_scheme_def SplitHostPort_def host_name_def last_index_plain)

text \<open>The parameter of a TURN URI is taken for a part of the port.\<close>

theorem transport_in_port: "parseAddr ''turn:turn.example.org:3478?transport=tcp'' = ''turn.example.org:3478?transport=tcp'' \<and>
   SplitHostPort ''turn.example.org:3478?transport=tcp'' = Inr (''turn.example.org'', ''3478?transport=tcp'')"
  using parseAddr_port[of "''turn.example.org''" "''3478?transport=tcp''"] SplitHostPort_plain[of "''turn.example.org''" "''3478?transport=tcp''"]
  by (simp add: host_name_def)

end
