(* ===== verification/Spec2Isabelle.thy ===== *)
theory Spec2Isabelle
  imports Store_Interleaving Shared_Redis Orchestration_Rooms Cdr Identity Credentials Hub_Properties Hub_Liveness Abr_Properties Call_Push Connection Lifecycle Turn_Health
begin

text \<open>
  A verification library for Lalo, the backend of an audio and video calling service.

  \<^bold>\<open>The program.\<close>  Four services share Redis, PostgreSQL, a NATS stream and a LiveKit SFU.  The
  signaling service (\<open>cmd/signaling\<close>, \<open>internal/signaling\<close>) keeps the WebSocket connections of the clients
  and drives one-to-one calls through their life cycle; group rooms it passes on to the session
  orchestrator (\<open>cmd/orchestrator\<close>, \<open>internal/session\<close>), which also has a REST interface, keeps the sessions
  in Redis, hands out TURN and LiveKit credentials and writes call detail records.  The push gateway
  (\<open>cmd/push\<close>, \<open>internal/push\<close>) hears of new calls on the stream and wakes the devices of the callee.  The
  policy engine (\<open>cmd/policy\<close>, \<open>internal/abr\<close>) turns quality samples into bitrate caps.  \<open>internal/auth\<close>
  guards all of them, \<open>internal/metrics\<close> stores quality samples, \<open>internal/turn\<close> watches the TURN servers.

  \<^bold>\<open>How it is modelled.\<close>  Structs are records, enums and unions datatypes, an operation is one definition
  that returns its result (\<open>Inl\<close> for a Go error) and the next state.  Everything outside the sources is a
  parameter: the record \<open>env\<close> of \<open>Services\<close> (Redis commands, SQL, the stream, the clock, random
  identifiers, map iteration order, LiveKit tokens, HMAC), and further records beside the component that
  calls them (\<open>jwtlib\<close>, \<open>zredis\<close>, \<open>pushsvc\<close>, \<open>lksdk\<close>, \<open>clickhouse\<close>, \<open>natslib\<close>, \<open>outside\<close>).  A call takes the state
  of the world and returns the next one, so that any order of answers and faults is covered.  What the
  code relies on is the \<open>assumes\<close> of a locale (\<open>services\<close>, \<open>jwt_library\<close>, \<open>sorted_sets\<close>, \<open>token_table\<close>,
  \<open>push_env\<close>, \<open>clickhouse_db\<close>, \<open>nats_client\<close>, \<open>ws_upgrader\<close>, \<open>ws_connection\<close>); every one is interpreted on an in-memory instance,
  and the properties name the locale as a hypothesis.  \<open>fate\<close> says what becomes of a Redis call: it may be
  refused, its answer may be lost after it took effect, or a watched key may have changed.

  \<^bold>\<open>Theories and sources.\<close>
  \<^item> \<open>Lalo_Prelude\<close>, \<open>Json\<close>, \<open>Services\<close>, \<open>Http\<close>, \<open>Float64\<close>: errors, times, strings; JSON documents and decoders; the
    outside world; requests, responses, paths and \<open>http.ServeMux\<close>; binary64 on 64-bit words.
  \<^item> \<open>Call_State\<close> (\<open>signaling/state.go\<close>), \<open>Call_Store\<close> and \<open>Call_Registry\<close> (\<open>signaling/session.go\<close>): the state machine of a
    call, the Redis store of calls, and the abstract registry it refines (one live call per user);
    \<open>Store_Interleaving\<close>: the same operations as sequences of Redis commands, interleaved.  \<open>Shared_Redis\<close>: this store and
    that of the orchestrator in one Redis.
  \<^item> \<open>Events\<close>, \<open>Bus_Setup\<close> (\<open>internal/events\<close>): subjects, payloads, publishing, the callback of a subscription;
    connecting, declaring the stream, subscribing and closing.
  \<^item> \<open>Session_Types\<close>, \<open>Session_Store\<close>, \<open>Orchestrator\<close>, \<open>Cdr\<close>, \<open>Identity\<close> (\<open>internal/session\<close>, \<open>models/redis_keys.go\<close>): the
    data, the store, every orchestrator method, call records, the identity resolver.  \<open>Session_Contract\<close>
    states the contract of the store as a locale, \<open>Orchestration\<close> and \<open>Orchestration_Rooms\<close> prove the
    orchestrator over it.
  \<^item> \<open>Messages\<close>, \<open>Hub\<close>, \<open>Hub_Calls\<close>, \<open>Hub_Rooms\<close>, \<open>Hub_Loop\<close> (\<open>signaling/message.go\<close>, \<open>client.go\<close>, \<open>hub.go\<close>): wire format, state and
    delivery, the handlers of calls and rooms, the event loop as the step relation \<open>hub_step\<close>.
    \<open>Hub_Invariant\<close> (structure, bounds, sequence numbers), \<open>Hub_Identity\<close> (who is connected), \<open>Hub_Registry\<close> (calls in Redis), \<open>Hub_Outcomes\<close>,
    \<open>Hub_Properties\<close>, \<open>Hub_Liveness\<close> hold its theorems; \<open>Hub_Samples\<close> the concrete runs of the witnesses.
    \<open>Connection\<close> (\<open>client.go\<close>): the two pumps of a connection.
  \<^item> \<open>Credentials\<close>, \<open>Auth\<close>, \<open>Auth_Properties\<close> (\<open>internal/auth\<close>): TURN and LiveKit credentials, tokens, middleware, rate
    limiter.
  \<^item> \<open>Session_Api\<close> (\<open>session/handler.go\<close>), \<open>Servers\<close> (\<open>session/server.go\<close>, \<open>push/server.go\<close>, \<open>signaling/handler.go\<close>),
    \<open>Policy_Api\<close> (the routes of \<open>cmd/policy\<close>): the REST interfaces, their routes and guards, the WebSocket
    endpoint.
  \<^item> \<open>Push\<close>, \<open>Push_Tokens\<close>, \<open>Push_Gateway\<close>, \<open>Call_Push\<close> (\<open>internal/push\<close>): token store, senders, gateway, and the way from
    a call of the hub to the push.
  \<^item> \<open>Livekit\<close>, \<open>Abr\<close>, \<open>Abr_Properties\<close> (\<open>internal/livekit\<close>, \<open>internal/abr\<close>), \<open>Metrics\<close> (\<open>internal/metrics\<close>), \<open>Turn_Health\<close>
    (\<open>internal/turn\<close>): SFU rooms and webhooks, the policy engine, the metrics writer, the health checker.
  \<^item> \<open>Config\<close> (\<open>internal/config\<close>), \<open>Boot\<close> (the four \<open>main\<close> functions up to serving): from a configuration to the
    objects a service works with; \<open>Signaling_Service\<close>: the started signaling service from its first request on;
    \<open>Lifecycle\<close>: starting to serve, the shutdown of the servers and the ends of the \<open>main\<close> functions, \<open>internal/db\<close>.

  \<^bold>\<open>What is shown.\<close>  C1 to C6: the store of calls keeps at most one live call per user under every fault, also
  when the commands of concurrent operations interleave, refines an abstract registry and leaves the sessions
  of the orchestrator alone; the life cycle of a call is the documented one.  C7 to C16: sessions only evolve, capacity is kept, the exact effect of
  joining, inviting, transferring and ending, retries, credentials.  C17 to C29: the same for the hub under every interleaving of connections, messages and
  timers, its bounds and sequence numbers, the outcome of every call message, glare, reconnection, and that
  a waiting call always has a timer that ends it.  C30 to C35: the policy engine computes the declarative
  reading of its rules in \<open>float64\<close>; tokens, middleware and rate limits; the token directory and the fan-out
  of a push.  C36 to C40: no route around the token check, every connection of the
  running service authenticated, the bounds of a connection, nothing lost in the metrics writer, a complete
  configuration.

  \<^bold>\<open>Granularity, bounds and fuel.\<close>  A handler, a timer body and a store operation run as one step; the mutexes
  of the sources make the state changes of one handler atomic, but a handler and a timer that both talk to
  Redis may interleave in the program.  Their store operations are split into single commands in
  \<open>Store_Interleaving\<close>, with the loop of the hub as the one process that creates calls (two such processes
  do break the property, \<open>two_hubs_race\<close>); elsewhere other writers appear as the fates of the calls
  (conflicts and lost answers).  The deliveries of one push and the checks of one health round
  are run in the order in which they finish, which is arbitrary.  The SCAN loops of Redis are
  \<open>partial_function (option)\<close>: a server that never returns cursor 0 keeps them running, and \<open>None\<close> says so.
  Trimming of white space runs on as much fuel as the text is long, the optimistic retries on the three
  attempts of the code.  Integers are \<open>int\<close> with \<open>wrap64\<close> where Go arithmetic may overflow; durations that are
  turned into \<open>float64\<close> seconds are exact below \<open>2 ^ 23\<close> seconds.

  \<^bold>\<open>Not modelled.\<close>  Log lines and the wait for a signal; what is inside \<open>net/http\<close> and the WebSocket library (they are
  parameters); the expiry of Redis keys; JSON texts with duplicate keys or keys that differ in case only; the
  payload of a NaN; percent escapes in request paths.  \<open>auth.HTTPHandler\<close> is used by \<open>session/server.go\<close> and
  declared nowhere in the repository: it is a parameter of the routes.  Constructors that only store their
  arguments, \<open>MediaConfig.String\<close> and a few unused constants have no definition of their own.  Migrations,
  deployment files, documentation and the mobile and web clients are not Go code of the backend.
\<close>

end
